(* ===== verification/Prelude.thy ===== *)
theory Prelude
  imports
    Main
    "HOL-Library.Word"
    "HOL-Library.Char_ord"
    "HOL-Library.List_Lexorder"
    "HOL-Library.Product_Lexorder"
    "HOL-Library.Code_Target_Numeral"
begin

text \<open>
  The shared vocabulary of the development. Go strings and byte slices are both HOL strings
  (lists of 8-bit characters); Go errors are values of one datatype and a fallible function
  returns a sum; a PostgreSQL table is the list of its rows in insertion order; an instant is
  an integer number of nanoseconds since the Unix epoch. The theory collects the sequencing
  combinators of fallible code, the row operations of the SQL statements and the lemmas on
  them, grouped in the named collections \<open>res_simps\<close> (sequencing of fallible code) and
  \<open>row_simps\<close> (row updates).
\<close>

named_theorems res_simps "rewriting of sequenced fallible computations"
named_theorems row_simps "rewriting of row operations"

unbundle bit_operations_syntax

section \<open>Base types\<close>

type_synonym bytes = string
type_synonym instant = int

datatype go_error =
    ProtocolError (pe_status: nat) (pe_code: string) (pe_message: string) (pe_reason: string)
  | ErrNoRows
  | ErrNew string
  | ErrConstraint string
  | ErrDatabase

type_synonym 'a result = "go_error + 'a"

definition nanosecond :: int where "nanosecond = 1"
definition second :: int where "second = 1000000000"
definition minute :: int where "minute = 60 * second"

text \<open>The zero value of \<open>time.Time\<close>: 1 January of year 1, UTC.\<close>

definition zero_time :: instant where "zero_time = - 62135596800 * second"

text \<open>PostgreSQL keeps timestamps in microseconds; the driver drops the rest.\<close>

definition pg_timestamp :: "instant \<Rightarrow> instant" where
  "pg_timestamp t = 1000 * (t div 1000)"

lemma pg_timestamp_idem [simp]: "pg_timestamp (pg_timestamp t) = pg_timestamp t"
  by (simp add: pg_timestamp_def)

lemma pg_timestamp_le: "pg_timestamp t \<le> t"
  unfolding pg_timestamp_def by presburger

lemma pg_timestamp_gt: "t - 1000 < pg_timestamp t"
  unfolding pg_timestamp_def by presburger

lemma pg_timestamp_mono: "s \<le> t \<Longrightarrow> pg_timestamp s \<le> pg_timestamp t"
  by (simp add: pg_timestamp_def zdiv_mono1)

section \<open>Sequencing fallible code\<close>

definition bindE :: "'e + 'a \<Rightarrow> ('a \<Rightarrow> 'e + 'b) \<Rightarrow> 'e + 'b" where
  "bindE m f = (case m of Inl e \<Rightarrow> Inl e | Inr a \<Rightarrow> f a)"

definition guardE :: "bool \<Rightarrow> 'e \<Rightarrow> 'e + unit" where
  "guardE b e = (if b then Inr () else Inl e)"

definition someE :: "'e \<Rightarrow> 'a option \<Rightarrow> 'e + 'a" where
  "someE e m = (case m of None \<Rightarrow> Inl e | Some a \<Rightarrow> Inr a)"

fun foldE :: "('a \<Rightarrow> 's \<Rightarrow> 'e + 's) \<Rightarrow> 'a list \<Rightarrow> 's \<Rightarrow> 'e + 's" where
  "foldE f [] s = Inr s"
| "foldE f (x # xs) s = bindE (f x s) (foldE f xs)"

lemma bindE_simps [simp, code]: "bindE (Inl e) f = Inl e" "bindE (Inr a) f = f a"
  by (simp_all add: bindE_def)

lemma guardE_simps [simp]: "guardE True e = Inr ()" "guardE False e = Inl e"
  by (simp_all add: guardE_def)

lemma someE_simps [simp]: "someE e None = Inl e" "someE e (Some a) = Inr a"
  by (simp_all add: someE_def)

lemma bindE_eq_Inr [res_simps]: "bindE m f = Inr b \<longleftrightarrow> (\<exists>a. m = Inr a \<and> f a = Inr b)"
  by (cases m) auto

lemma guardE_eq_Inr [res_simps]: "guardE b e = Inr u \<longleftrightarrow> b"
  by (simp add: guardE_def)

lemma guardE_eq_Inl [res_simps]: "guardE b e = Inl e' \<longleftrightarrow> \<not> b \<and> e' = e"
  by (auto simp: guardE_def)

lemma someE_eq_Inr [res_simps]: "someE e m = Inr a \<longleftrightarrow> m = Some a"
  by (cases m) auto

lemma someE_eq_Inl [res_simps]: "someE e m = Inl e' \<longleftrightarrow> m = None \<and> e' = e"
  by (cases m) auto

lemma bindE_cong [fundef_cong]:
  "m = m' \<Longrightarrow> (\<And>a. m' = Inr a \<Longrightarrow> f a = f' a) \<Longrightarrow> bindE m f = bindE m' f'"
  by (cases m') auto

lemma foldE_append: "foldE f (xs @ ys) s = bindE (foldE f xs s) (foldE f ys)"
proof (induction xs arbitrary: s)
  case Nil
  show ?case by simp
next
  case (Cons x xs)
  show ?case by (cases "f x s") (simp_all add: Cons.IH)
qed

text \<open>An invariant of every step is an invariant of the whole loop.\<close>

lemma foldE_invariant:
  assumes "foldE f xs s = Inr s'" and "I s"
    and "\<And>x s t. x \<in> set xs \<Longrightarrow> I s \<Longrightarrow> f x s = Inr t \<Longrightarrow> I t"
  shows "I s'"
  using assms
proof (induction xs arbitrary: s)
  case Nil
  then show ?case by simp
next
  case (Cons x xs)
  from Cons.prems(1) obtain t where t: "f x s = Inr t" and rest: "foldE f xs t = Inr s'"
    by (auto simp: bindE_eq_Inr)
  from Cons.prems(2) t have "I t" by (auto intro: Cons.prems(3))
  with rest show ?case by (rule Cons.IH) (auto intro: Cons.prems(3))
qed

section \<open>Codecs\<close>

text \<open>
  The contract of an encoding with a partial decoder: what was encoded is decoded. It makes the
  encoding injective and the decoder complete on its image.
\<close>

locale codec =
  fixes encode :: "'a \<Rightarrow> 'b" and decode :: "'b \<Rightarrow> 'a option"
  assumes decode_encode: "decode (encode x) = Some x"
begin

lemma encode_inj: "encode x = encode y \<longleftrightarrow> x = y"
  by (metis decode_encode option.inject)

lemma decode_image: "decode b = Some x \<Longrightarrow> b \<in> range encode \<Longrightarrow> b = encode x"
  by (auto simp: decode_encode)

end

section \<open>Rows\<close>

text \<open>
  \<open>UPDATE t SET .. WHERE p\<close>, \<open>DELETE FROM t WHERE p\<close>, \<open>EXISTS (SELECT 1 FROM t WHERE p)\<close>
  and the single-row \<open>SELECT\<close> of a unique key.
\<close>

definition update_where :: "('r \<Rightarrow> bool) \<Rightarrow> ('r \<Rightarrow> 'r) \<Rightarrow> 'r list \<Rightarrow> 'r list" where
  "update_where p f rows = map (\<lambda>r. if p r then f r else r) rows"

definition delete_where :: "('r \<Rightarrow> bool) \<Rightarrow> 'r list \<Rightarrow> 'r list" where
  "delete_where p rows = filter (\<lambda>r. \<not> p r) rows"

definition exists_row :: "('r \<Rightarrow> bool) \<Rightarrow> 'r list \<Rightarrow> bool" where
  "exists_row p rows = list_ex p rows"

definition select_row :: "('r \<Rightarrow> bool) \<Rightarrow> 'r list \<Rightarrow> 'r option" where
  "select_row p rows = find p rows"

definition rows_affected :: "('r \<Rightarrow> bool) \<Rightarrow> 'r list \<Rightarrow> nat" where
  "rows_affected p rows = length (filter p rows)"

text \<open>A table has a unique key when no two of its rows share it.\<close>

definition unique_key :: "('r \<Rightarrow> 'k) \<Rightarrow> 'r list \<Rightarrow> bool" where
  "unique_key k rows = distinct (map k rows)"

lemma exists_row_iff [row_simps]: "exists_row p rows \<longleftrightarrow> (\<exists>r \<in> set rows. p r)"
  by (simp add: exists_row_def list_ex_iff)

lemma set_update_where [row_simps]:
  "set (update_where p f rows) = (\<lambda>r. if p r then f r else r) ` set rows"
  by (simp add: update_where_def)

lemma length_update_where [simp]: "length (update_where p f rows) = length rows"
  by (simp add: update_where_def)

lemma set_delete_where [row_simps]: "set (delete_where p rows) = {r \<in> set rows. \<not> p r}"
  by (auto simp: delete_where_def)

lemma select_row_Some: "select_row p rows = Some r \<Longrightarrow> r \<in> set rows \<and> p r"
  by (auto simp: select_row_def find_Some_iff)

lemma select_row_None: "select_row p rows = None \<longleftrightarrow> (\<forall>r \<in> set rows. \<not> p r)"
  by (auto simp: select_row_def find_None_iff)

lemma map_update_where [row_simps]:
  "(\<And>r. p r \<Longrightarrow> k (f r) = k r) \<Longrightarrow> map k (update_where p f rows) = map k rows"
  by (simp add: update_where_def)

lemma update_where_none: "(\<And>r. r \<in> set rows \<Longrightarrow> \<not> p r) \<Longrightarrow> update_where p f rows = rows"
  by (simp add: update_where_def map_idI)

lemma unique_key_update_where:
  "unique_key k rows \<Longrightarrow> (\<And>r. p r \<Longrightarrow> k (f r) = k r) \<Longrightarrow> unique_key k (update_where p f rows)"
  by (simp add: unique_key_def map_update_where)

lemma unique_key_delete_where: "unique_key k rows \<Longrightarrow> unique_key k (delete_where p rows)"
  by (simp add: unique_key_def delete_where_def distinct_map_filter)

lemma unique_key_snoc:
  "unique_key k (rows @ [r]) \<longleftrightarrow> unique_key k rows \<and> (\<forall>x \<in> set rows. k x \<noteq> k r)"
  unfolding unique_key_def by (simp add: image_iff) (metis (no_types))

lemma unique_key_sort: "unique_key k (sort_key f rows) \<longleftrightarrow> unique_key k rows"
  by (auto simp: unique_key_def distinct_map)

lemma unique_keyD:
  "unique_key k rows \<Longrightarrow> x \<in> set rows \<Longrightarrow> y \<in> set rows \<Longrightarrow> k x = k y \<Longrightarrow> x = y"
  by (auto simp: unique_key_def distinct_map inj_on_def)

lemma select_row_unique:
  assumes "unique_key k rows" and "r \<in> set rows"
  shows "select_row (\<lambda>x. k x = k r) rows = Some r"
proof (cases "select_row (\<lambda>x. k x = k r) rows")
  case None
  with assms(2) show ?thesis by (auto simp: select_row_None)
next
  case (Some x)
  then have "x \<in> set rows" "k x = k r" by (auto dest: select_row_Some)
  with assms Some show ?thesis by (auto dest: unique_keyD)
qed

lemma select_row_append:
  "select_row p (xs @ ys) = (case select_row p xs of None \<Rightarrow> select_row p ys | Some x \<Rightarrow> Some x)"
  by (induction xs) (auto simp: select_row_def)

text \<open>
  Reading by key after the row operations: \<open>INSERT .. ON CONFLICT (key) DO UPDATE\<close>, an update
  that keeps the key, and a deletion by key.
\<close>

lemma select_update_key:
  "(\<And>r. k (f r) = k r) \<Longrightarrow>
     select_row (\<lambda>r. k r = x) (update_where (\<lambda>r. k r = y) f rows) =
     (if x = y then map_option f (select_row (\<lambda>r. k r = x) rows) else select_row (\<lambda>r. k r = x) rows)"
  by (induction rows) (auto simp: select_row_def update_where_def)

lemma select_overwrite_key:
  "select_row (\<lambda>r. k r = x) (update_where (\<lambda>r. k r = k s) (\<lambda>_. s) rows) =
     (if x = k s then map_option (\<lambda>_. s) (select_row (\<lambda>r. k r = x) rows) else select_row (\<lambda>r. k r = x) rows)"
  by (induction rows) (auto simp: select_row_def update_where_def)

lemma select_upsert_key:
  "select_row (\<lambda>r. k r = x)
     (if exists_row (\<lambda>r. k r = k s) rows then update_where (\<lambda>r. k r = k s) (\<lambda>_. s) rows else rows @ [s]) =
     (if x = k s then Some s else select_row (\<lambda>r. k r = x) rows)"
proof (cases "select_row (\<lambda>r. k r = k s) rows")
  case None
  then have "\<not> exists_row (\<lambda>r. k r = k s) rows" by (auto simp: select_row_None exists_row_iff)
  moreover have "select_row (\<lambda>r. k r = x) [s] = (if x = k s then Some s else None)" for x
    by (auto simp: select_row_def)
  ultimately show ?thesis using None by (auto simp: select_row_append split: option.split)
next
  case (Some r)
  then have "exists_row (\<lambda>r. k r = k s) rows" by (auto simp: exists_row_iff dest: select_row_Some)
  with Some show ?thesis by (simp add: select_overwrite_key)
qed

lemma select_delete_key:
  "select_row (\<lambda>r. k r = x) (delete_where (\<lambda>r. k r = y) rows) =
     (if x = y then None else select_row (\<lambda>r. k r = x) rows)"
  by (induction rows) (auto simp: select_row_def delete_where_def)

lemma rows_affected_unique:
  assumes "unique_key k rows"
  shows "rows_affected (\<lambda>r. k r = x) rows = (if exists_row (\<lambda>r. k r = x) rows then 1 else 0)"
  using assms
proof (induction rows)
  case (Cons r rows)
  have "k r \<notin> k ` set rows" using Cons.prems by (simp add: unique_key_def)
  then have "filter (\<lambda>y. k y = k r) rows = []" by (metis (mono_tags, lifting) filter_False imageI)
  with Cons show ?case by (auto simp: rows_affected_def exists_row_def unique_key_def)
qed (simp add: rows_affected_def exists_row_def)

end
