(* ===== verification/GoStd.thy ===== *)
theory GoStd
  imports Prelude
begin

text \<open>
  The parts of Go's standard library the gateway uses on text: hexadecimal and base64 codecs
  (\<open>encoding/hex\<close>, \<open>base64.StdEncoding\<close>), \<open>strings.Split\<close> and \<open>strings.TrimSpace\<close>, decimal
  integers (\<open>strconv\<close>), character-class regular expressions, \<open>mime.ParseMediaType\<close> and
  \<open>url.ParseQuery\<close>. Every codec comes with its round-trip lemma.
\<close>

section \<open>Bytes and character classes\<close>

abbreviation byte_val :: "char \<Rightarrow> nat" where "byte_val c \<equiv> of_char c"

lemma byte_val_less [simp]: "byte_val c < 256"
  using of_char_mod_256 [where 'a = nat, of c] by (metis mod_less_divisor zero_less_numeral)

lemma byte_val_char_of [simp]: "byte_val (char_of n) = n mod 256"
  by simp

lemma char_of_eqI: "n = byte_val c \<Longrightarrow> char_of n = c"
  by simp

definition is_digit :: "char \<Rightarrow> bool" where
  "is_digit c \<longleftrightarrow> 48 \<le> byte_val c \<and> byte_val c \<le> 57"

definition is_upper :: "char \<Rightarrow> bool" where
  "is_upper c \<longleftrightarrow> 65 \<le> byte_val c \<and> byte_val c \<le> 90"

definition is_lower :: "char \<Rightarrow> bool" where
  "is_lower c \<longleftrightarrow> 97 \<le> byte_val c \<and> byte_val c \<le> 122"

definition is_alnum :: "char \<Rightarrow> bool" where
  "is_alnum c \<longleftrightarrow> is_digit c \<or> is_upper c \<or> is_lower c"

definition is_lower_hex :: "char \<Rightarrow> bool" where
  "is_lower_hex c \<longleftrightarrow> is_digit c \<or> (97 \<le> byte_val c \<and> byte_val c \<le> 102)"

definition is_hex :: "char \<Rightarrow> bool" where
  "is_hex c \<longleftrightarrow> is_lower_hex c \<or> (65 \<le> byte_val c \<and> byte_val c \<le> 70)"

lemmas char_class_defs = is_digit_def is_upper_def is_lower_def is_alnum_def is_lower_hex_def is_hex_def

text \<open>The regular expression \<open>^[class]{lo,hi}$\<close>.\<close>

definition matches_class :: "(char \<Rightarrow> bool) \<Rightarrow> nat \<Rightarrow> nat \<Rightarrow> string \<Rightarrow> bool" where
  "matches_class P lo hi s \<longleftrightarrow> lo \<le> length s \<and> length s \<le> hi \<and> list_all P s"

section \<open>Hexadecimal\<close>

definition hex_digit :: "nat \<Rightarrow> char" where
  "hex_digit n = (if n < 10 then char_of (48 + n) else char_of (87 + n))"

definition hex_val :: "char \<Rightarrow> nat option" where
  "hex_val c =
     (if is_digit c then Some (byte_val c - 48)
      else if 97 \<le> byte_val c \<and> byte_val c \<le> 102 then Some (byte_val c - 87)
      else if 65 \<le> byte_val c \<and> byte_val c \<le> 70 then Some (byte_val c - 55)
      else None)"

fun hex_encode :: "bytes \<Rightarrow> string" where
  "hex_encode [] = []"
| "hex_encode (b # bs) = hex_digit (byte_val b div 16) # hex_digit (byte_val b mod 16) # hex_encode bs"

fun hex_decode :: "string \<Rightarrow> bytes option" where
  "hex_decode [] = Some []"
| "hex_decode [c] = None"
| "hex_decode (c # d # s) =
     (case (hex_val c, hex_val d, hex_decode s) of
        (Some h, Some l, Some bs) \<Rightarrow> Some (char_of (16 * h + l) # bs)
      | _ \<Rightarrow> None)"

lemma hex_val_digit [simp]: "n < 16 \<Longrightarrow> hex_val (hex_digit n) = Some n"
  by (auto simp: hex_val_def hex_digit_def is_digit_def)

lemma is_lower_hex_digit [simp]: "n < 16 \<Longrightarrow> is_lower_hex (hex_digit n)"
  by (auto simp: hex_digit_def is_lower_hex_def is_digit_def)

lemma byte_val_div_16 [simp]: "byte_val a div 16 < 16"
  by (simp add: less_mult_imp_div_less)

lemma hex_decode_encode [simp]: "hex_decode (hex_encode bs) = Some bs"
  by (induction bs) simp_all

lemma length_hex_encode [simp]: "length (hex_encode bs) = 2 * length bs"
  by (induction bs) simp_all

lemma list_all_hex_encode [simp]: "list_all is_lower_hex (hex_encode bs)"
  by (induction bs) simp_all

interpretation hex: codec hex_encode hex_decode
  by unfold_locales simp

declare hex.encode_inj [simp]

lemma hex_decode_length: "hex_decode s = Some bs \<Longrightarrow> length s = 2 * length bs"
  by (induction s arbitrary: bs rule: hex_decode.induct) (auto split: option.splits)

lemma hex_val_total: "is_hex c \<Longrightarrow> \<exists>n. hex_val c = Some n"
  by (auto simp: is_hex_def is_lower_hex_def hex_val_def)

lemma hex_decode_total:
  "list_all is_hex s \<Longrightarrow> even (length s) \<Longrightarrow> \<exists>bs. hex_decode s = Some bs"
proof (induction s rule: hex_decode.induct)
  case (3 c d s)
  then obtain bs where "hex_decode s = Some bs" by auto
  moreover from "3.prems" obtain h where "hex_val c = Some h"
    using hex_val_total [of c] by auto
  moreover from "3.prems" obtain l where "hex_val d = Some l"
    using hex_val_total [of d] by auto
  ultimately show ?case by simp
qed auto

section \<open>Base64 (standard alphabet, padded)\<close>

definition b64_char :: "nat \<Rightarrow> char" where
  "b64_char n =
     (if n < 26 then char_of (65 + n)
      else if n < 52 then char_of (71 + n)
      else if n < 62 then char_of (n - 4)
      else if n = 62 then CHR ''+'' else CHR ''/'')"

definition b64_val :: "char \<Rightarrow> nat option" where
  "b64_val c =
     (if is_upper c then Some (byte_val c - 65)
      else if is_lower c then Some (byte_val c - 71)
      else if is_digit c then Some (byte_val c + 4)
      else if c = CHR ''+'' then Some 62
      else if c = CHR ''/'' then Some 63
      else None)"

abbreviation (input) b64_pad :: char where "b64_pad \<equiv> CHR ''=''"

fun b64_encode :: "bytes \<Rightarrow> string" where
  "b64_encode [] = []"
| "b64_encode [a] =
     [b64_char (byte_val a div 4), b64_char (16 * (byte_val a mod 4)), b64_pad, b64_pad]"
| "b64_encode [a, b] =
     [b64_char (byte_val a div 4), b64_char (16 * (byte_val a mod 4) + byte_val b div 16),
      b64_char (4 * (byte_val b mod 16)), b64_pad]"
| "b64_encode (a # b # c # s) =
     b64_char (byte_val a div 4) # b64_char (16 * (byte_val a mod 4) + byte_val b div 16) #
     b64_char (4 * (byte_val b mod 16) + byte_val c div 64) # b64_char (byte_val c mod 64) #
     b64_encode s"

definition b64_byte1 :: "nat \<Rightarrow> nat \<Rightarrow> char" where "b64_byte1 p q = char_of (4 * p + q div 16)"
definition b64_byte2 :: "nat \<Rightarrow> nat \<Rightarrow> char" where "b64_byte2 q r = char_of (16 * (q mod 16) + r div 4)"
definition b64_byte3 :: "nat \<Rightarrow> nat \<Rightarrow> char" where "b64_byte3 r t = char_of (64 * (r mod 4) + t)"

text \<open>
  One quantum of four characters at a time; padding is accepted in the last quantum only. The
  bits a padded quantum leaves over are ignored, as the non-strict decoder does.
\<close>

fun b64_quanta :: "string \<Rightarrow> bytes option" where
  "b64_quanta [] = Some []"
| "b64_quanta (a # b # c # d # s) =
     (case (b64_val a, b64_val b) of
        (Some p, Some q) \<Rightarrow>
          if s = [] \<and> c = b64_pad \<and> d = b64_pad then Some [b64_byte1 p q]
          else (case b64_val c of
                  None \<Rightarrow> None
                | Some r \<Rightarrow>
                    if s = [] \<and> d = b64_pad then Some [b64_byte1 p q, b64_byte2 q r]
                    else (case (b64_val d, b64_quanta s) of
                            (Some t, Some bs) \<Rightarrow>
                              Some (b64_byte1 p q # b64_byte2 q r # b64_byte3 r t # bs)
                          | _ \<Rightarrow> None))
      | _ \<Rightarrow> None)"
| "b64_quanta _ = None"

text \<open>The decoder skips carriage returns and line feeds wherever they stand.\<close>

definition b64_decode :: "string \<Rightarrow> bytes option" where
  "b64_decode s = b64_quanta (filter (\<lambda>c. c \<noteq> CHR 0x0A \<and> c \<noteq> CHR 0x0D) s)"

lemma b64_val_char [simp]: "n < 64 \<Longrightarrow> b64_val (b64_char n) = Some n"
  by (auto simp: b64_val_def b64_char_def is_upper_def is_lower_def is_digit_def)

lemma b64_val_pad [simp]: "b64_val b64_pad = None"
  by (simp add: b64_val_def is_upper_def is_lower_def is_digit_def)

lemma b64_char_not_pad [simp]: "n < 64 \<Longrightarrow> b64_char n \<noteq> b64_pad"
  by (metis b64_val_char b64_val_pad option.distinct(1))

lemma b64_char_not_newline [simp]:
  "n < 64 \<Longrightarrow> b64_char n \<noteq> CHR 0x0A" "n < 64 \<Longrightarrow> b64_char n \<noteq> CHR 0x0D"
proof -
  have v: "b64_val (CHR 0x0A) = None" "b64_val (CHR 0x0D) = None"
    by (simp_all add: b64_val_def is_upper_def is_lower_def is_digit_def)
  show "n < 64 \<Longrightarrow> b64_char n \<noteq> CHR 0x0A" "n < 64 \<Longrightarrow> b64_char n \<noteq> CHR 0x0D"
    using v by (metis b64_val_char option.distinct(1))+
qed

lemma b64_index_bounds [simp]:
  "byte_val a div 4 < 64"
  "16 * (byte_val a mod 4) < 64"
  "16 * (byte_val a mod 4) + byte_val b div 16 < 64"
  "4 * (byte_val b mod 16) < 64"
  "4 * (byte_val b mod 16) + byte_val c div 64 < 64"
  "byte_val c mod 64 < 64"
  using byte_val_less [of a] byte_val_less [of b] byte_val_less [of c] by linarith+

lemma byte_val_div_64 [simp]: "byte_val c div 64 < 4"
  by (simp add: less_mult_imp_div_less)

lemma byte_val_div_simps:
  "byte_val b div 16 div 16 = 0" "byte_val c div 64 div 4 = 0"
  "byte_val b div 16 mod 16 = byte_val b div 16" "byte_val c div 64 mod 4 = byte_val c div 64"
  using byte_val_less [of b] byte_val_less [of c] by auto

lemma b64_bytes [simp]:
  "b64_byte1 (byte_val a div 4) (16 * (byte_val a mod 4)) = a"
  "b64_byte1 (byte_val a div 4) (16 * (byte_val a mod 4) + byte_val b div 16) = a"
  "b64_byte2 (16 * (byte_val a mod 4) + byte_val b div 16) (4 * (byte_val b mod 16)) = b"
  "b64_byte2 (16 * (byte_val a mod 4) + byte_val b div 16) (4 * (byte_val b mod 16) + byte_val c div 64) = b"
  "b64_byte3 (4 * (byte_val b mod 16) + byte_val c div 64) (byte_val c mod 64) = c"
  unfolding b64_byte1_def b64_byte2_def b64_byte3_def
  by (auto intro!: char_of_eqI simp: byte_val_div_simps)

lemma b64_quanta_encode: "b64_quanta (b64_encode bs) = Some bs"
  by (induction bs rule: b64_encode.induct) simp_all

lemma b64_encode_no_newline:
  "filter (\<lambda>c. c \<noteq> CHR 0x0A \<and> c \<noteq> CHR 0x0D) (b64_encode bs) = b64_encode bs"
  by (induction bs rule: b64_encode.induct) simp_all

lemma b64_decode_encode [simp]: "b64_decode (b64_encode bs) = Some bs"
  by (simp add: b64_decode_def b64_encode_no_newline b64_quanta_encode)

interpretation b64: codec b64_encode b64_decode
  by unfold_locales simp

declare b64.encode_inj [simp]

lemma b64_decode_Nil [simp]: "b64_decode [] = Some []"
  by (simp add: b64_decode_def)

section \<open>Splitting, joining, trimming\<close>

fun split_on :: "char \<Rightarrow> string \<Rightarrow> string list" where
  "split_on c [] = [[]]"
| "split_on c (x # s) =
     (if x = c then [] # split_on c s
      else (case split_on c s of [] \<Rightarrow> [[x]] | p # ps \<Rightarrow> (x # p) # ps))"

fun join_with :: "char \<Rightarrow> string list \<Rightarrow> string" where
  "join_with c [] = []"
| "join_with c [p] = p"
| "join_with c (p # q # ps) = p @ c # join_with c (q # ps)"

lemma split_on_not_Nil [simp]: "split_on c s \<noteq> []"
  by (induction s) (auto split: list.splits)

lemma split_on_no_sep: "c \<notin> set s \<Longrightarrow> split_on c s = [s]"
  by (induction s) auto

lemma split_on_append: "c \<notin> set p \<Longrightarrow> split_on c (p @ c # s) = p # split_on c s"
  by (induction p) auto

lemma join_split: "join_with c (split_on c s) = s"
proof (induction s)
  case Nil
  show ?case by simp
next
  case (Cons x s)
  show ?case
  proof (cases "split_on c s")
    case Nil
    then show ?thesis by simp
  next
    case (Cons p ps)
    with Cons.IH show ?thesis by (cases ps) auto
  qed
qed

lemma split_join: "ps \<noteq> [] \<Longrightarrow> \<forall>p \<in> set ps. c \<notin> set p \<Longrightarrow> split_on c (join_with c ps) = ps"
  by (induction c ps rule: join_with.induct) (auto simp: split_on_no_sep split_on_append)

definition has_prefix :: "string \<Rightarrow> string \<Rightarrow> bool" where
  "has_prefix p s \<longleftrightarrow> take (length p) s = p"

definition has_suffix :: "string \<Rightarrow> string \<Rightarrow> bool" where
  "has_suffix p s \<longleftrightarrow> has_prefix (rev p) (rev s)"

text \<open>
  The white space of \<open>unicode.IsSpace\<close> in UTF-8: the bytes of the leading white-space
  character, 0 when there is none.
\<close>

definition space_width :: "string \<Rightarrow> nat" where
  "space_width s =
     (case map byte_val (take 3 s) of
        (a # r) \<Rightarrow>
          if (9 \<le> a \<and> a \<le> 13) \<or> a = 32 then 1
          else (case r of
                  (b # r') \<Rightarrow>
                    if a = 0xC2 \<and> (b = 0x85 \<or> b = 0xA0) then 2
                    else (case r' of
                            (c # _) \<Rightarrow>
                              if (a = 0xE1 \<and> b = 0x9A \<and> c = 0x80)
                                 \<or> (a = 0xE2 \<and> b = 0x80 \<and>
                                     ((0x80 \<le> c \<and> c \<le> 0x8A) \<or> c = 0xA8 \<or> c = 0xA9 \<or> c = 0xAF))
                                 \<or> (a = 0xE2 \<and> b = 0x81 \<and> c = 0x9F)
                                 \<or> (a = 0xE3 \<and> b = 0x80 \<and> c = 0x80)
                              then 3 else 0
                          | [] \<Rightarrow> 0)
                | [] \<Rightarrow> 0)
      | [] \<Rightarrow> 0)"

lemma space_width_le: "space_width s \<le> length s"
proof -
  consider "s = []" | a where "s = [a]" | a b where "s = [a, b]" | a b c t where "s = a # b # c # t"
    by (metis neq_Nil_conv)
  then show ?thesis by cases (auto simp: space_width_def)
qed

function trim_left :: "string \<Rightarrow> string" where
  "trim_left s = (if space_width s = 0 then s else trim_left (drop (space_width s) s))"
  by pat_completeness auto
termination
proof (relation "measure length")
  fix s :: string
  assume "space_width s \<noteq> 0"
  then show "(drop (space_width s) s, s) \<in> measure length"
    using space_width_le [of s] by simp
qed simp

declare trim_left.simps [simp del]

text \<open>\<open>strings.TrimSpace(s) == ""\<close>\<close>

definition is_blank :: "string \<Rightarrow> bool" where
  "is_blank s \<longleftrightarrow> trim_left s = []"

fun trim_right :: "string \<Rightarrow> string" where
  "trim_right [] = []"
| "trim_right (c # s) = (if is_blank (c # s) then [] else c # trim_right s)"

definition trim_space :: "string \<Rightarrow> string" where
  "trim_space s = trim_right (trim_left s)"

section \<open>Decimal integers\<close>

function nat_dec :: "nat \<Rightarrow> string" where
  "nat_dec n = (if n < 10 then [char_of (48 + n)] else nat_dec (n div 10) @ [char_of (48 + n mod 10)])"
  by pat_completeness auto
termination by (relation "measure id") auto

declare nat_dec.simps [simp del]

definition itoa :: "int \<Rightarrow> string" where
  "itoa i = (if i < 0 then CHR ''-'' # nat_dec (nat (- i)) else nat_dec (nat i))"

fun dec_val :: "nat \<Rightarrow> string \<Rightarrow> nat option" where
  "dec_val acc [] = Some acc"
| "dec_val acc (c # s) = (if is_digit c then dec_val (10 * acc + (byte_val c - 48)) s else None)"

text \<open>\<open>strconv.ParseInt(s, 10, 64)\<close>, which \<open>strconv.Atoi\<close> agrees with on 64-bit systems.\<close>

definition in_int64 :: "int \<Rightarrow> bool" where
  "in_int64 i \<longleftrightarrow> - (2 ^ 63) \<le> i \<and> i < 2 ^ 63"

definition parse_int :: "string \<Rightarrow> int option" where
  "parse_int s =
     (let (neg, ds) = (case s of
                         c # r \<Rightarrow> if c = CHR ''-'' then (True, r)
                                  else if c = CHR ''+'' then (False, r) else (False, s)
                       | [] \<Rightarrow> (False, s))
      in if ds = [] then None
         else (case dec_val 0 ds of
                 None \<Rightarrow> None
               | Some n \<Rightarrow> (let i = (if neg then - int n else int n)
                           in if in_int64 i then Some i else None)))"

lemma dec_val_append:
  "dec_val acc (s @ t) = (case dec_val acc s of None \<Rightarrow> None | Some n \<Rightarrow> dec_val n t)"
  by (induction s arbitrary: acc) auto

lemma is_digit_char [simp]: "n < 10 \<Longrightarrow> is_digit (char_of (48 + n :: nat))"
  by (simp add: is_digit_def)

lemma dec_val_nat_dec: "dec_val 0 (nat_dec n) = Some n"
proof (induction n rule: nat_dec.induct)
  case (1 n)
  show ?case
  proof (cases "n < 10")
    case True
    then show ?thesis by (subst nat_dec.simps) simp
  next
    case False
    with 1 have "dec_val 0 (nat_dec (n div 10)) = Some (n div 10)" by simp
    with False show ?thesis by (subst nat_dec.simps) (simp add: dec_val_append)
  qed
qed

lemma nat_dec_not_Nil [simp]: "nat_dec n \<noteq> []"
  by (subst nat_dec.simps) simp

lemma set_nat_dec: "c \<in> set (nat_dec n) \<Longrightarrow> is_digit c"
proof (induction n arbitrary: c rule: nat_dec.induct)
  case (1 n)
  show ?case
  proof (cases "n < 10")
    case True
    with "1.prems" show ?thesis by (simp add: nat_dec.simps [of n])
  next
    case False
    with "1.prems" have "c \<in> set (nat_dec (n div 10)) \<or> c = char_of (48 + n mod 10)"
      by (auto simp: nat_dec.simps [of n])
    with False "1.IH" show ?thesis by auto
  qed
qed

lemma nat_dec_sign:
  assumes "nat_dec n = c # r"
  shows "c \<noteq> CHR ''-''" "c \<noteq> CHR ''+''"
proof -
  from assms have "is_digit c" by (intro set_nat_dec [of c n]) simp
  then show "c \<noteq> CHR ''-''" "c \<noteq> CHR ''+''" by (auto simp: is_digit_def)
qed

lemma parse_int_itoa [simp]:
  assumes "in_int64 i"
  shows "parse_int (itoa i) = Some i"
proof (cases "i < 0")
  case True
  then have "itoa i = CHR ''-'' # nat_dec (nat (- i))" by (simp add: itoa_def)
  with True assms show ?thesis by (simp add: parse_int_def dec_val_nat_dec)
next
  case False
  then have eq: "itoa i = nat_dec (nat i)" by (simp add: itoa_def)
  obtain c r where cr: "nat_dec (nat i) = c # r" by (cases "nat_dec (nat i)") auto
  have "dec_val 0 (c # r) = Some (nat i)" using dec_val_nat_dec [of "nat i"] cr by simp
  with False assms show ?thesis
    unfolding eq cr using nat_dec_sign [OF cr] by (simp add: parse_int_def del: dec_val.simps)
qed

section \<open>Media types\<close>

definition to_lower_char :: "char \<Rightarrow> char" where
  "to_lower_char c = (if is_upper c then char_of (byte_val c + 32) else c)"

text \<open>
  \<open>strings.ToLower\<close> as far as ASCII results go: besides the ASCII capitals, the Kelvin sign and
  the dotted capital I have ASCII lower-case letters.
\<close>

fun to_lower :: "string \<Rightarrow> string" where
  "to_lower [] = []"
| "to_lower (c # s) =
     (if take 3 (c # s) = [CHR 0xE2, CHR 0x84, CHR 0xAA] then CHR ''k'' # to_lower (drop 2 s)
      else if take 2 (c # s) = [CHR 0xC4, CHR 0xB0] then CHR ''i'' # to_lower (drop 1 s)
      else to_lower_char c # to_lower s)"

definition is_tspecial :: "char \<Rightarrow> bool" where
  "is_tspecial c \<longleftrightarrow> c \<in> set ''()<>@,;:/[]?='' \<or> c = CHR 0x22 \<or> c = CHR 0x5C"

definition is_token_char :: "char \<Rightarrow> bool" where
  "is_token_char c \<longleftrightarrow> 0x20 < byte_val c \<and> byte_val c < 0x7F \<and> \<not> is_tspecial c"

definition consume_token :: "string \<Rightarrow> string \<times> string" where
  "consume_token s = (takeWhile is_token_char s, dropWhile is_token_char s)"

definition media_type_ok :: "string \<Rightarrow> bool" where
  "media_type_ok s =
     (let (typ, rest) = consume_token s
      in typ \<noteq> [] \<and>
         (case rest of
            [] \<Rightarrow> True
          | c # r \<Rightarrow> c = CHR ''/'' \<and> (let (sub, rest') = consume_token r in sub \<noteq> [] \<and> rest' = [])))"

fun quoted_value :: "string \<Rightarrow> string \<Rightarrow> (string \<times> string) option" where
  "quoted_value acc [] = None"
| "quoted_value acc (c # s) =
     (if c = CHR 0x22 then Some (rev acc, s)
      else if c = CHR 0x5C \<and> s \<noteq> [] \<and> is_tspecial (hd s) then quoted_value (hd s # acc) (tl s)
      else if c = CHR 0x0D \<or> c = CHR 0x0A then None
      else quoted_value (c # acc) s)"

text \<open>\<open>consumeMediaParam\<close>: \<open>None\<close> stands for the empty key it returns when nothing parses.\<close>

definition consume_media_param :: "string \<Rightarrow> (string \<times> string \<times> string) option" where
  "consume_media_param v =
     (case trim_left v of
        [] \<Rightarrow> None
      | c # r \<Rightarrow>
          if c \<noteq> CHR '';'' then None
          else let (param, rest) = consume_token (trim_left r)
               in if param = [] then None
                  else (case trim_left rest of
                          [] \<Rightarrow> None
                        | e # r' \<Rightarrow>
                            if e \<noteq> b64_pad then None
                            else (case trim_left r' of
                                    [] \<Rightarrow> None
                                  | q # r'' \<Rightarrow>
                                      if q = CHR 0x22
                                      then map_option (\<lambda>(val, more). (to_lower param, val, more)) (quoted_value [] r'')
                                      else let (val, more) = consume_token (q # r'')
                                           in if val = [] then None else Some (to_lower param, val, more))))"

function media_params :: "(string \<times> string) list \<Rightarrow> string \<Rightarrow> (string \<times> string) list option" where
  "media_params ps v =
     (if is_blank v then Some ps
      else case consume_media_param (trim_left v) of
             None \<Rightarrow> (case trim_left v of
                       c # r \<Rightarrow> if c = CHR '';'' \<and> is_blank r then Some ps else None
                     | [] \<Rightarrow> None)
           | Some (key, val, rest) \<Rightarrow>
               if length v \<le> length rest then None
               else (case map_of ps key of
                       Some val' \<Rightarrow> if val' = val then media_params ps rest else None
                     | None \<Rightarrow> media_params ((key, val) # ps) rest))"
  by pat_completeness auto
termination by (relation "measure (length \<circ> snd)") auto

declare media_params.simps [simp del]

text \<open>
  \<open>mime.ParseMediaType\<close>: the lower-cased media type and the parameters as written; the RFC 2231
  continuations (keys with an asterisk) are kept under their own keys.
\<close>

definition parse_media_type :: "string \<Rightarrow> (string \<times> (string \<times> string) list) option" where
  "parse_media_type v =
     (let base = takeWhile (\<lambda>c. c \<noteq> CHR '';'') v;
          mediatype = trim_space (to_lower base)
      in if \<not> media_type_ok mediatype then None
         else map_option (\<lambda>ps. (mediatype, ps)) (media_params [] (drop (length base) v)))"

section \<open>Query strings\<close>

fun query_unescape :: "string \<Rightarrow> string option" where
  "query_unescape [] = Some []"
| "query_unescape (c # s) =
     (if c = CHR ''%''
      then (case s of
              a # b # r \<Rightarrow>
                (case (hex_val a, hex_val b) of
                   (Some h, Some l) \<Rightarrow> map_option ((#) (char_of (16 * h + l))) (query_unescape r)
                 | _ \<Rightarrow> None)
            | _ \<Rightarrow> None)
      else map_option ((#) (if c = CHR ''+'' then CHR '' '' else c)) (query_unescape s))"

definition query_pair :: "string \<Rightarrow> (string \<times> string) option" where
  "query_pair p =
     (if p = [] \<or> CHR '';'' \<in> set p then None
      else let key = takeWhile (\<lambda>c. c \<noteq> b64_pad) p
           in case (query_unescape key,
                    query_unescape (if b64_pad \<in> set p then drop (Suc (length key)) p else [])) of
                (Some k, Some v) \<Rightarrow> Some (k, v)
              | _ \<Rightarrow> None)"

text \<open>\<open>URL.Query()\<close>: the pairs in order; pieces that do not parse are dropped.\<close>

definition parse_query :: "string \<Rightarrow> (string \<times> string) list" where
  "parse_query q = List.map_filter query_pair (split_on (CHR ''&'') q)"

definition query_values :: "(string \<times> string) list \<Rightarrow> string \<Rightarrow> string list" where
  "query_values q k = map snd (filter (\<lambda>(k', v). k' = k) q)"

definition query_keys :: "(string \<times> string) list \<Rightarrow> string list" where
  "query_keys q = remdups (map fst q)"

definition query_get :: "(string \<times> string) list \<Rightarrow> string \<Rightarrow> string" where
  "query_get q k = (case query_values q k of [] \<Rightarrow> [] | v # _ \<Rightarrow> v)"

end
