(* ===== verification/GoTime.thy ===== *)
theory GoTime
  imports GoStd
begin

text \<open>
  Go's \<open>time\<close> package on RFC 3339 text: \<open>time.Parse(time.RFC3339, s)\<close> with the tolerance of the
  general layout parser (one-digit hours, a comma or period before the fraction, zone offsets up
  to 24:60), and \<open>Time.Format(time.RFC3339)\<close>. A \<open>time.Time\<close> is its instant and the offset of its
  location in seconds; the process runs in UTC.
\<close>

record go_time =
  gt_instant :: instant
  gt_offset :: int

section \<open>The calendar\<close>

definition is_leap :: "int \<Rightarrow> bool" where
  "is_leap y \<longleftrightarrow> y mod 4 = 0 \<and> (y mod 100 \<noteq> 0 \<or> y mod 400 = 0)"

definition days_in :: "int \<Rightarrow> int \<Rightarrow> int" where
  "days_in m y =
     (if m = 2 then (if is_leap y then 29 else 28)
      else if m \<in> {4, 6, 9, 11} then 30 else 31)"

text \<open>Days since the epoch of a civil date, with years counted from March.\<close>

definition days_civil :: "int \<Rightarrow> int \<Rightarrow> int \<Rightarrow> int" where
  "days_civil y m d =
     (let y' = (if m \<le> 2 then y - 1 else y);
          yoe = y' mod 400;
          mp = (if m > 2 then m - 3 else m + 9);
          doe = 365 * yoe + yoe div 4 - yoe div 100 + ((153 * mp + 2) div 5 + d - 1)
      in 146097 * (y' div 400) + doe - 719468)"

definition civil_of_days :: "int \<Rightarrow> int \<times> int \<times> int" where
  "civil_of_days n =
     (let z = n + 719468;
          doe = z mod 146097;
          yoe = (doe - doe div 1460 + doe div 36524 - doe div 146096) div 365;
          doy = doe - (365 * yoe + yoe div 4 - yoe div 100);
          mp = (5 * doy + 2) div 153;
          d = doy - (153 * mp + 2) div 5 + 1;
          m = (if mp < 10 then mp + 3 else mp - 9);
          y = yoe + 400 * (z div 146097)
      in (if m \<le> 2 then y + 1 else y, m, d))"

text \<open>\<open>time.Date\<close> in a fixed zone, for fields in range.\<close>

definition go_date :: "int \<Rightarrow> int \<Rightarrow> int \<Rightarrow> int \<Rightarrow> int \<Rightarrow> int \<Rightarrow> int \<Rightarrow> int \<Rightarrow> go_time" where
  "go_date y mo d h mi s ns off =
     \<lparr> gt_instant = (86400 * days_civil y mo d + 3600 * h + 60 * mi + s - off) * second + ns,
       gt_offset = off \<rparr>"

definition go_is_zero :: "go_time \<Rightarrow> bool" where
  "go_is_zero t \<longleftrightarrow> gt_instant t = zero_time"

section \<open>Parsing\<close>

text \<open>\<open>getnum\<close>: two digits, or one when the field is not fixed-width.\<close>

definition getnum :: "bool \<Rightarrow> string \<Rightarrow> (int \<times> string) option" where
  "getnum fixed s =
     (case s of
        [] \<Rightarrow> None
      | a # r \<Rightarrow>
          if \<not> is_digit a then None
          else (case r of
                  b # r' \<Rightarrow>
                    if is_digit b then Some (int (byte_val a - 48) * 10 + int (byte_val b - 48), r')
                    else if fixed then None else Some (int (byte_val a - 48), r)
                | [] \<Rightarrow> if fixed then None else Some (int (byte_val a - 48), r)))"

definition expect :: "char \<Rightarrow> string \<Rightarrow> string option" where
  "expect c s = (case s of x # r \<Rightarrow> if x = c then Some r else None | [] \<Rightarrow> None)"

definition obind :: "'a option \<Rightarrow> ('a \<Rightarrow> 'b option) \<Rightarrow> 'b option" where
  "obind m f = (case m of None \<Rightarrow> None | Some a \<Rightarrow> f a)"

lemma obind_simps [simp]: "obind None f = None" "obind (Some a) f = f a"
  by (simp_all add: obind_def)

lemma obind_eq_Some [res_simps]: "obind m f = Some b \<longleftrightarrow> (\<exists>a. m = Some a \<and> f a = Some b)"
  by (cases m) auto

definition parse_year :: "string \<Rightarrow> (int \<times> string) option" where
  "parse_year s =
     (if length s < 4 then None
      else map_option (\<lambda>n. (int n, drop 4 s)) (dec_val 0 (take 4 s)))"

definition ranged :: "int \<Rightarrow> int \<Rightarrow> (int \<times> string) option \<Rightarrow> (int \<times> string) option" where
  "ranged lo hi m = obind m (\<lambda>(n, r). if lo \<le> n \<and> n \<le> hi then Some (n, r) else None)"

text \<open>The first nine digits of the fraction are the nanoseconds.\<close>

definition parse_fraction :: "string \<Rightarrow> int \<times> string" where
  "parse_fraction s =
     (case s of
        p # r \<Rightarrow>
          if (p = CHR ''.'' \<or> p = CHR '','') \<and> takeWhile is_digit r \<noteq> [] then
            let ds = take 9 (takeWhile is_digit r)
            in (case dec_val 0 ds of Some n \<Rightarrow> int n * 10 ^ (9 - length ds) | None \<Rightarrow> 0,
                dropWhile is_digit r)
          else (0, s)
      | [] \<Rightarrow> (0, s))"

definition parse_zone :: "string \<Rightarrow> int option" where
  "parse_zone s =
     (if s = ''Z'' then Some 0
      else (case s of
              g # r \<Rightarrow>
                obind (ranged 0 24 (getnum True r)) (\<lambda>(hr, r1).
                obind (expect (CHR '':'') r1) (\<lambda>r2.
                obind (ranged 0 60 (getnum True r2)) (\<lambda>(mm, r3).
                  if r3 \<noteq> [] then None
                  else if g = CHR ''+'' then Some (60 * (60 * hr + mm))
                  else if g = CHR ''-'' then Some (- (60 * (60 * hr + mm)))
                  else None)))
            | [] \<Rightarrow> None))"

definition parse_rfc3339 :: "string \<Rightarrow> go_time option" where
  "parse_rfc3339 s =
     obind (parse_year s) (\<lambda>(y, s).
     obind (expect (CHR ''-'') s) (\<lambda>s.
     obind (ranged 1 12 (getnum True s)) (\<lambda>(mo, s).
     obind (expect (CHR ''-'') s) (\<lambda>s.
     obind (getnum True s) (\<lambda>(d, s).
     obind (expect (CHR ''T'') s) (\<lambda>s.
     obind (ranged 0 23 (getnum False s)) (\<lambda>(h, s).
     obind (expect (CHR '':'') s) (\<lambda>s.
     obind (ranged 0 59 (getnum True s)) (\<lambda>(mi, s).
     obind (expect (CHR '':'') s) (\<lambda>s.
     obind (ranged 0 59 (getnum True s)) (\<lambda>(sec, s).
       let (ns, s) = parse_fraction s
       in obind (parse_zone s) (\<lambda>off.
            if 1 \<le> d \<and> d \<le> days_in mo y then Some (go_date y mo d h mi sec ns off) else None))))))))))))"

section \<open>Formatting\<close>

definition pad2 :: "int \<Rightarrow> string" where
  "pad2 n = (if n < 10 then ''0'' @ itoa n else itoa n)"

definition pad4 :: "int \<Rightarrow> string" where
  "pad4 n = replicate (4 - length (itoa n)) (CHR ''0'') @ itoa n"

definition format_zone :: "int \<Rightarrow> string" where
  "format_zone off =
     (if off = 0 then ''Z''
      else let z = abs off div 60
           in (if off < 0 then ''-'' else ''+'') @ pad2 (z div 60) @ '':'' @ pad2 (z mod 60))"

definition format_rfc3339 :: "go_time \<Rightarrow> string" where
  "format_rfc3339 t =
     (let secs = gt_instant t div second + gt_offset t;
          (y, mo, d) = civil_of_days (secs div 86400);
          r = secs mod 86400
      in pad4 y @ ''-'' @ pad2 mo @ ''-'' @ pad2 d @ ''T'' @ pad2 (r div 3600) @ '':'' @
         pad2 (r div 60 mod 60) @ '':'' @ pad2 (r mod 60) @ format_zone (gt_offset t))"

text \<open>
  \<open>Time.MarshalJSON\<close>: RFC 3339 with the fraction's trailing zeros removed; a year outside
  0..9999 is an error.
\<close>

definition fraction_text :: "int \<Rightarrow> string" where
  "fraction_text ns =
     (if ns = 0 then []
      else let ds = itoa ns; padded = replicate (9 - length ds) (CHR ''0'') @ ds
           in CHR ''.'' # rev (dropWhile (\<lambda>c. c = CHR ''0'') (rev padded)))"

definition json_time :: "go_time \<Rightarrow> string option" where
  "json_time t =
     (let secs = gt_instant t div second + gt_offset t;
          (y, mo, d) = civil_of_days (secs div 86400);
          r = secs mod 86400
      in if y < 0 \<or> y > 9999 then None
         else Some (CHR 0x22 # pad4 y @ ''-'' @ pad2 mo @ ''-'' @ pad2 d @ ''T'' @ pad2 (r div 3600) @ '':'' @
           pad2 (r div 60 mod 60) @ '':'' @ pad2 (r mod 60) @ fraction_text (gt_instant t mod second) @
           format_zone (gt_offset t) @ [CHR 0x22]))"

end
