(* ===== verification/GoJson.thy ===== *)
theory GoJson
  imports GoStd
begin

text \<open>
  Go's \<open>encoding/json\<close> as the gateway uses it: the text-level parser (white space, literals,
  numbers, strings with escapes, surrogate pairs and the replacement of invalid UTF-8, the
  nesting limit), the decoding of objects into struct fields (case-insensitive names, last
  occurrence wins, \<open>null\<close> leaves non-pointers alone, unknown fields refused where the decoder
  says so) and the encoder of strings and integers. A value keeps the exact source text of its
  array elements and object members, which is what \<open>json.RawMessage\<close> receives.
\<close>

section \<open>UTF-8\<close>

text \<open>The width of the valid UTF-8 sequence at the head of a string, 0 when it is not valid.\<close>

definition cont_byte :: "nat \<Rightarrow> nat \<Rightarrow> nat \<Rightarrow> bool" where
  "cont_byte lo hi b \<longleftrightarrow> lo \<le> b \<and> b \<le> hi"

fun utf8_width :: "string \<Rightarrow> nat" where
  "utf8_width [] = 0"
| "utf8_width (c # s) =
     (let a = byte_val c; r = map byte_val (take 3 s)
      in if a < 0x80 then 1
         else if 0xC2 \<le> a \<and> a \<le> 0xDF then
           (case r of b # _ \<Rightarrow> if cont_byte 0x80 0xBF b then 2 else 0 | [] \<Rightarrow> 0)
         else if 0xE0 \<le> a \<and> a \<le> 0xEF then
           (case r of
              b # b' # _ \<Rightarrow>
                if cont_byte (if a = 0xE0 then 0xA0 else 0x80) (if a = 0xED then 0x9F else 0xBF) b
                   \<and> cont_byte 0x80 0xBF b' then 3 else 0
            | _ \<Rightarrow> 0)
         else if 0xF0 \<le> a \<and> a \<le> 0xF4 then
           (case r of
              b # b' # b'' # _ \<Rightarrow>
                if cont_byte (if a = 0xF0 then 0x90 else 0x80) (if a = 0xF4 then 0x8F else 0xBF) b
                   \<and> cont_byte 0x80 0xBF b' \<and> cont_byte 0x80 0xBF b'' then 4 else 0
            | _ \<Rightarrow> 0)
         else 0)"

definition replacement_char :: string where
  "replacement_char = [CHR 0xEF, CHR 0xBF, CHR 0xBD]"

text \<open>\<open>utf8.EncodeRune\<close>\<close>

definition encode_rune :: "nat \<Rightarrow> string" where
  "encode_rune r =
     (if r < 0x80 then [char_of r]
      else if r < 0x800 then [char_of (0xC0 + r div 64), char_of (0x80 + r mod 64)]
      else if r > 0x10FFFF \<or> (0xD800 \<le> r \<and> r \<le> 0xDFFF) then replacement_char
      else if r < 0x10000 then
        [char_of (0xE0 + r div 4096), char_of (0x80 + r div 64 mod 64), char_of (0x80 + r mod 64)]
      else
        [char_of (0xF0 + r div 262144), char_of (0x80 + r div 4096 mod 64),
         char_of (0x80 + r div 64 mod 64), char_of (0x80 + r mod 64)])"

declare utf8_width.simps(2) [simp del]

lemma utf8_width_ascii [simp]: "byte_val c < 0x80 \<Longrightarrow> utf8_width (c # s) = 1"
  by (simp add: utf8_width.simps(2) Let_def)

function utf8_valid :: "string \<Rightarrow> bool" where
  "utf8_valid s =
     (if s = [] then True
      else if utf8_width s = 0 then False
      else utf8_valid (drop (utf8_width s) s))"
  by pat_completeness auto
termination by (relation "measure length") (auto simp: neq_Nil_conv)

declare utf8_valid.simps [simp del]

section \<open>Values\<close>

datatype json =
    JNull
  | JBool bool
  | JNum string
  | JStr string
  | JArr "(string \<times> json) list"
  | JObj "(string \<times> string \<times> json) list"

definition is_json_space :: "char \<Rightarrow> bool" where
  "is_json_space c \<longleftrightarrow> c = CHR 0x20 \<or> c = CHR 0x09 \<or> c = CHR 0x0D \<or> c = CHR 0x0A"

definition skip_ws :: "string \<Rightarrow> string" where
  "skip_ws s = dropWhile is_json_space s"

lemma length_skip_ws: "length (skip_ws s) \<le> length s"
  by (simp add: skip_ws_def length_dropWhile_le)

section \<open>Strings\<close>

definition getu4 :: "string \<Rightarrow> nat option" where
  "getu4 s =
     (case s of
        a # b # c # d # _ \<Rightarrow>
          (case (hex_val a, hex_val b, hex_val c, hex_val d) of
             (Some w, Some x, Some y, Some z) \<Rightarrow> Some (4096 * w + 256 * x + 16 * y + z)
           | _ \<Rightarrow> None)
      | _ \<Rightarrow> None)"

text \<open>
  The bytes an escape stands for and the number of characters it takes after the backslash. A
  high surrogate followed by an escaped low one is one character; any other surrogate is
  replaced.
\<close>

definition junicode :: "string \<Rightarrow> (string \<times> nat) option" where
  "junicode t =
     (case getu4 t of
        None \<Rightarrow> None
      | Some r \<Rightarrow>
          if 0xD800 \<le> r \<and> r \<le> 0xDFFF then
            (case (take 2 (drop 4 t), getu4 (drop 6 t)) of
               ([b, u], Some r') \<Rightarrow>
                 if b = CHR 0x5C \<and> u = CHR ''u'' \<and> r \<le> 0xDBFF \<and> 0xDC00 \<le> r' \<and> r' \<le> 0xDFFF
                 then Some (encode_rune (0x10000 + 0x400 * (r - 0xD800) + (r' - 0xDC00)), 11)
                 else Some (replacement_char, 5)
             | _ \<Rightarrow> Some (replacement_char, 5))
          else Some (encode_rune r, 5))"

definition jescape :: "string \<Rightarrow> (string \<times> nat) option" where
  "jescape s =
     (case s of
        [] \<Rightarrow> None
      | e # t \<Rightarrow>
          if e = CHR 0x22 \<or> e = CHR 0x5C \<or> e = CHR ''/'' then Some ([e], 1)
          else if e = CHR ''b'' then Some ([CHR 0x08], 1)
          else if e = CHR ''f'' then Some ([CHR 0x0C], 1)
          else if e = CHR ''n'' then Some ([CHR 0x0A], 1)
          else if e = CHR ''r'' then Some ([CHR 0x0D], 1)
          else if e = CHR ''t'' then Some ([CHR 0x09], 1)
          else if e = CHR ''u'' then junicode t
          else None)"

definition prepend :: "string \<Rightarrow> (string \<times> string) option \<Rightarrow> (string \<times> string) option" where
  "prepend p m = map_option (\<lambda>(out, rest). (p @ out, rest)) m"

lemma prepend_Some [simp]: "prepend p (Some (out, rest)) = Some (p @ out, rest)"
  by (simp add: prepend_def)

lemma prepend_eq_Some: "prepend p m = Some (x, rest) \<longleftrightarrow> (\<exists>out. m = Some (out, rest) \<and> x = p @ out)"
  by (auto simp: prepend_def)

text \<open>The rest of a string literal after its opening quote.\<close>

function jstring :: "string \<Rightarrow> (string \<times> string) option" where
  "jstring [] = None"
| "jstring (c # r) =
     (if c = CHR 0x22 then Some ([], r)
      else if c = CHR 0x5C then
        (case jescape r of
           None \<Rightarrow> None
         | Some (out, n) \<Rightarrow> prepend out (jstring (drop n r)))
      else if byte_val c < 0x20 then None
      else if utf8_width (c # r) = 0 then prepend replacement_char (jstring r)
      else prepend (take (utf8_width (c # r)) (c # r)) (jstring (drop (utf8_width (c # r) - 1) r)))"
  by pat_completeness auto
termination by (relation "measure length") auto

declare jstring.simps(2) [simp del]

lemma jstring_length: "jstring s = Some (out, rest) \<Longrightarrow> length rest < length s"
proof (induction s arbitrary: out rest rule: jstring.induct)
  case 1
  then show ?case by simp
next
  case (2 c r)
  consider "c = CHR 0x22" | "c \<noteq> CHR 0x22" "c = CHR 0x5C"
    | "c \<noteq> CHR 0x22" "c \<noteq> CHR 0x5C" "byte_val c < 0x20"
    | "c \<noteq> CHR 0x22" "c \<noteq> CHR 0x5C" "\<not> byte_val c < 0x20" "utf8_width (c # r) = 0"
    | "c \<noteq> CHR 0x22" "c \<noteq> CHR 0x5C" "\<not> byte_val c < 0x20" "utf8_width (c # r) \<noteq> 0" by blast
  then show ?case
  proof cases
    case a: 2
    with "2.prems" obtain e n o1 where "jescape r = Some (e, n)" "jstring (drop n r) = Some (o1, rest)"
      by (auto simp: jstring.simps(2) prepend_eq_Some split: option.splits)
    with a "2.IH"(1) [of "(e, n)" e n] show ?thesis by fastforce
  next
    case a: 4
    with "2.prems" "2.IH"(2) show ?thesis by (force simp: jstring.simps(2) prepend_eq_Some)
  next
    case a: 5
    with "2.prems" "2.IH"(3) show ?thesis by (force simp: jstring.simps(2) prepend_eq_Some)
  qed (use "2.prems" in \<open>auto simp: jstring.simps(2)\<close>)
qed

section \<open>Numbers\<close>

definition digits1 :: "string \<Rightarrow> (string \<times> string) option" where
  "digits1 s = (if takeWhile is_digit s = [] then None else Some (takeWhile is_digit s, dropWhile is_digit s))"

definition jint_part :: "string \<Rightarrow> (string \<times> string) option" where
  "jint_part s =
     (case s of
        [] \<Rightarrow> None
      | c # r \<Rightarrow> if c = CHR ''0'' then Some ([c], r)
                 else if is_digit c then Some (takeWhile is_digit s, dropWhile is_digit s)
                 else None)"

definition jfrac_part :: "string \<Rightarrow> (string \<times> string) option" where
  "jfrac_part s =
     (case s of
        c # r \<Rightarrow> if c = CHR ''.'' then prepend [c] (digits1 r) else Some ([], s)
      | [] \<Rightarrow> Some ([], s))"

definition jexp_part :: "string \<Rightarrow> (string \<times> string) option" where
  "jexp_part s =
     (case s of
        e # r \<Rightarrow>
          if e = CHR ''e'' \<or> e = CHR ''E'' then
            (case r of
               g # r' \<Rightarrow> if g = CHR ''+'' \<or> g = CHR ''-'' then prepend [e, g] (digits1 r')
                         else prepend [e] (digits1 r)
             | [] \<Rightarrow> None)
          else Some ([], s)
      | [] \<Rightarrow> Some ([], s))"

text \<open>The literal text of a number and what follows it.\<close>

definition jnumber :: "string \<Rightarrow> (string \<times> string) option" where
  "jnumber s =
     (let (sign, r) = (case s of c # t \<Rightarrow> if c = CHR ''-'' then ([c], t) else ([], s) | [] \<Rightarrow> ([], s))
      in case jint_part r of
           None \<Rightarrow> None
         | Some (i, r1) \<Rightarrow>
             (case jfrac_part r1 of
                None \<Rightarrow> None
              | Some (f, r2) \<Rightarrow> prepend (sign @ i @ f) (jexp_part r2)))"

text \<open>\<open>isValidNumber\<close>, which \<open>json.Number\<close> fields apply to quoted numbers.\<close>

definition valid_number :: "string \<Rightarrow> bool" where
  "valid_number s \<longleftrightarrow> (case jnumber s of Some (_, rest) \<Rightarrow> rest = [] | None \<Rightarrow> False)"

section \<open>Values, arrays and objects\<close>

definition raw_of :: "string \<Rightarrow> string \<Rightarrow> string" where
  "raw_of s rest = take (length s - length rest) s"

text \<open>
  Recursive descent over the remaining text; \<open>d\<close> counts the nesting the scanner still allows.
  The tests that the rest is shorter than the input always succeed (\<open>jvalue_length\<close> below); they
  make the recursion well founded by its arguments alone.
\<close>

function jvalue :: "nat \<Rightarrow> string \<Rightarrow> (json \<times> string) option"
  and jelements :: "nat \<Rightarrow> string \<Rightarrow> ((string \<times> json) list \<times> string) option"
  and jmembers :: "nat \<Rightarrow> string \<Rightarrow> ((string \<times> string \<times> json) list \<times> string) option"
where
  "jvalue d s =
     (case s of
        [] \<Rightarrow> None
      | c # r \<Rightarrow>
          if c = CHR ''{'' then
            (if d = 0 then None
             else if take 1 (skip_ws r) = ''}'' then Some (JObj [], drop 1 (skip_ws r))
             else map_option (\<lambda>(ms, rest). (JObj ms, rest)) (jmembers (d - 1) (skip_ws r)))
          else if c = CHR ''['' then
            (if d = 0 then None
             else if take 1 (skip_ws r) = '']'' then Some (JArr [], drop 1 (skip_ws r))
             else map_option (\<lambda>(es, rest). (JArr es, rest)) (jelements (d - 1) (skip_ws r)))
          else if c = CHR 0x22 then map_option (\<lambda>(t, rest). (JStr t, rest)) (jstring r)
          else if take 4 s = ''true'' then Some (JBool True, drop 4 s)
          else if take 5 s = ''false'' then Some (JBool False, drop 5 s)
          else if take 4 s = ''null'' then Some (JNull, drop 4 s)
          else map_option (\<lambda>(t, rest). (JNum t, rest)) (jnumber s))"
| "jelements d s =
     (case jvalue d s of
        None \<Rightarrow> None
      | Some (v, rest) \<Rightarrow>
          (case skip_ws rest of
             [] \<Rightarrow> None
           | c # r \<Rightarrow>
               if c = CHR '']'' then Some ([(raw_of s rest, v)], r)
               else if c = CHR '','' \<and> length (skip_ws r) < length s then
                 map_option (\<lambda>(es, rest'). ((raw_of s rest, v) # es, rest')) (jelements d (skip_ws r))
               else None))"
| "jmembers d s =
     (case s of
        [] \<Rightarrow> None
      | q # t \<Rightarrow>
          if q \<noteq> CHR 0x22 then None
          else
            (case jstring t of
               None \<Rightarrow> None
             | Some (key, r1) \<Rightarrow>
                 (case skip_ws r1 of
                    [] \<Rightarrow> None
                  | col # r2 \<Rightarrow>
                      if col \<noteq> CHR '':'' then None
                      else
                        (case jvalue d (skip_ws r2) of
                           None \<Rightarrow> None
                         | Some (v, rest) \<Rightarrow>
                             (case skip_ws rest of
                                [] \<Rightarrow> None
                              | c # r \<Rightarrow>
                                  if c = CHR ''}'' then Some ([(key, raw_of (skip_ws r2) rest, v)], r)
                                  else if c = CHR '','' \<and> length (skip_ws r) < length s then
                                    map_option (\<lambda>(ms, rest'). ((key, raw_of (skip_ws r2) rest, v) # ms, rest'))
                                      (jmembers d (skip_ws r))
                                  else None)))))"
  by pat_completeness auto
termination
proof (relation "measure (\<lambda>x. case x of Inl (d, s) \<Rightarrow> 2 * length s
         | Inr (Inl (d, s)) \<Rightarrow> 2 * length s + 1 | Inr (Inr (d, s)) \<Rightarrow> 2 * length s + 1)", goal_cases)
  case 1
  show ?case by simp
next
  case (2 d s c r)
  then show ?case using length_skip_ws [of r] by simp
next
  case (3 d s c r)
  then show ?case using length_skip_ws [of r] by simp
next
  case (4 d s)
  show ?case by simp
next
  case (5 d s)
  then show ?case by simp
next
  case (6 d s q t p key r1 col r2)
  then have "length (skip_ws r1) = Suc (length r2)" by simp
  moreover from 6 have "length r1 < length t" by (auto dest: jstring_length)
  ultimately show ?case
    using 6 length_skip_ws [of r1] length_skip_ws [of r2] by simp
next
  case (7 d s q t)
  then show ?case by simp
qed

declare jvalue.simps [simp del] jelements.simps [simp del] jmembers.simps [simp del]

definition max_nesting_depth :: nat where "max_nesting_depth = 10000"

text \<open>One call of \<open>Decoder.Decode\<close>: the first value of the text and what follows it.\<close>

definition json_first :: "string \<Rightarrow> (json \<times> string) option" where
  "json_first s = jvalue max_nesting_depth (skip_ws s)"

text \<open>A second \<open>Decode\<close> reports the end of input.\<close>

definition json_eof :: "string \<Rightarrow> bool" where
  "json_eof rest \<longleftrightarrow> skip_ws rest = []"

definition json_document :: "string \<Rightarrow> json option" where
  "json_document s =
     (case json_first s of
        Some (v, rest) \<Rightarrow> if json_eof rest then Some v else None
      | None \<Rightarrow> None)"

section \<open>Decoding into Go values\<close>

text \<open>
  Object keys match struct fields without regard to case: \<open>foldName\<close> maps ASCII letters to upper
  case, the long s to S and the Kelvin sign to K.
\<close>

fun fold_key :: "string \<Rightarrow> string" where
  "fold_key [] = []"
| "fold_key (c # s) =
     (if take 2 (c # s) = [CHR 0xC5, CHR 0xBF] then CHR ''S'' # fold_key (drop 1 s)
      else if take 3 (c # s) = [CHR 0xE2, CHR 0x84, CHR 0xAA] then CHR ''K'' # fold_key (drop 2 s)
      else (if is_lower c then char_of (byte_val c - 32) else c) # fold_key s)"

definition is_field :: "string \<Rightarrow> string \<Rightarrow> bool" where
  "is_field name key \<longleftrightarrow> fold_key key = fold_key name"

fun foldO :: "('a \<Rightarrow> 's \<Rightarrow> 's option) \<Rightarrow> 'a list \<Rightarrow> 's \<Rightarrow> 's option" where
  "foldO f [] s = Some s"
| "foldO f (x # xs) s = (case f x s of None \<Rightarrow> None | Some t \<Rightarrow> foldO f xs t)"

text \<open>
  A struct: \<open>null\<close> leaves it unchanged, an object feeds its members one by one (a repeated key
  meets the value its first occurrence left), anything else is a type error.
\<close>

definition json_struct ::
    "(string \<Rightarrow> string \<Rightarrow> json \<Rightarrow> 's \<Rightarrow> 's option) \<Rightarrow> json \<Rightarrow> 's \<Rightarrow> 's option" where
  "json_struct field v s =
     (case v of
        JNull \<Rightarrow> Some s
      | JObj ms \<Rightarrow> foldO (\<lambda>(key, raw, w) t. field key raw w t) ms s
      | _ \<Rightarrow> None)"

text \<open>A slice: element \<open>i\<close> is decoded into what the slice holds at \<open>i\<close>, or into the zero value.\<close>

fun json_elems ::
    "(json \<Rightarrow> 'a \<Rightarrow> 'a option) \<Rightarrow> 'a \<Rightarrow> 'a list \<Rightarrow> (string \<times> json) list \<Rightarrow> 'a list option" where
  "json_elems dec zero old [] = Some []"
| "json_elems dec zero old ((raw, v) # es) =
     (case dec v (case old of [] \<Rightarrow> zero | x # _ \<Rightarrow> x) of
        None \<Rightarrow> None
      | Some a \<Rightarrow> map_option ((#) a) (json_elems dec zero (drop 1 old) es))"

definition json_slice ::
    "(json \<Rightarrow> 'a \<Rightarrow> 'a option) \<Rightarrow> 'a \<Rightarrow> 'a list \<Rightarrow> json \<Rightarrow> 'a list option" where
  "json_slice dec zero old v = (case v of JArr es \<Rightarrow> json_elems dec zero old es | _ \<Rightarrow> None)"

text \<open>Scalars. Integers are 64-bit and accept integer literals only.\<close>

definition json_string :: "json \<Rightarrow> string option" where
  "json_string v = (case v of JStr t \<Rightarrow> Some t | _ \<Rightarrow> None)"

definition json_int :: "json \<Rightarrow> int option" where
  "json_int v = (case v of JNum t \<Rightarrow> parse_int t | _ \<Rightarrow> None)"

definition json_bool :: "json \<Rightarrow> bool option" where
  "json_bool v = (case v of JBool b \<Rightarrow> Some b | _ \<Rightarrow> None)"

text \<open>\<open>json.Number\<close> keeps the literal text and also accepts a quoted number.\<close>

definition json_number :: "json \<Rightarrow> string option" where
  "json_number v =
     (case v of
        JNum t \<Rightarrow> Some t
      | JStr t \<Rightarrow> if valid_number t then Some t else None
      | _ \<Rightarrow> None)"

text \<open>Pointer fields (\<open>null\<close> gives nil) and value fields (\<open>null\<close> leaves the old value).\<close>

definition json_ptr :: "(json \<Rightarrow> 'a option) \<Rightarrow> json \<Rightarrow> 'a option option" where
  "json_ptr dec v = (if v = JNull then Some None else map_option Some (dec v))"

definition json_val :: "(json \<Rightarrow> 'a option) \<Rightarrow> 'a \<Rightarrow> json \<Rightarrow> 'a option" where
  "json_val dec old v = (if v = JNull then Some old else dec v)"

lemma json_elems_length: "json_elems dec zero old es = Some xs \<Longrightarrow> length xs = length es"
  by (induction dec zero old es arbitrary: xs rule: json_elems.induct) (auto split: option.splits)

text \<open>
  \<open>decodeExactJSON\<close> and its kin: one value, decoded into the target, and nothing but white space
  after it.
\<close>

definition decode_document :: "(json \<Rightarrow> 's \<Rightarrow> 's option) \<Rightarrow> 's \<Rightarrow> string \<Rightarrow> 's option" where
  "decode_document dec zero body =
     (case json_document body of None \<Rightarrow> None | Some v \<Rightarrow> dec v zero)"

section \<open>Encoding\<close>

definition hex4 :: "nat \<Rightarrow> string" where
  "hex4 n = CHR 0x5C # ''u'' @ [hex_digit (n div 4096 mod 16), hex_digit (n div 256 mod 16),
      hex_digit (n div 16 mod 16), hex_digit (n mod 16)]"

definition json_escape_char :: "char \<Rightarrow> string" where
  "json_escape_char c =
     (if c = CHR 0x22 \<or> c = CHR 0x5C then [CHR 0x5C, c]
      else if c = CHR 0x08 then [CHR 0x5C, CHR ''b'']
      else if c = CHR 0x0C then [CHR 0x5C, CHR ''f'']
      else if c = CHR 0x0A then [CHR 0x5C, CHR ''n'']
      else if c = CHR 0x0D then [CHR 0x5C, CHR ''r'']
      else if c = CHR 0x09 then [CHR 0x5C, CHR ''t'']
      else if byte_val c < 0x20 \<or> c = CHR ''<'' \<or> c = CHR ''>'' \<or> c = CHR ''&'' then hex4 (byte_val c)
      else [c])"

text \<open>\<open>appendString\<close> with HTML escaping; invalid bytes become the replacement character.\<close>

function json_escape :: "string \<Rightarrow> string" where
  "json_escape [] = []"
| "json_escape (c # s) =
     (if byte_val c < 0x80 then json_escape_char c @ json_escape s
      else if utf8_width (c # s) = 0 then hex4 0xFFFD @ json_escape s
      else if take 3 (c # s) = [CHR 0xE2, CHR 0x80, CHR 0xA8] then hex4 0x2028 @ json_escape (drop 2 s)
      else if take 3 (c # s) = [CHR 0xE2, CHR 0x80, CHR 0xA9] then hex4 0x2029 @ json_escape (drop 2 s)
      else take (utf8_width (c # s)) (c # s) @ json_escape (drop (utf8_width (c # s) - 1) s))"
  by pat_completeness auto
termination by (relation "measure length") auto

declare json_escape.simps(2) [simp del]

definition json_quote :: "string \<Rightarrow> string" where
  "json_quote s = CHR 0x22 # json_escape s @ [CHR 0x22]"

definition json_encode_bool :: "bool \<Rightarrow> string" where
  "json_encode_bool b = (if b then ''true'' else ''false'')"

definition json_member :: "string \<times> string \<Rightarrow> string" where
  "json_member m = json_quote (fst m) @ '':'' @ snd m"

definition json_object :: "(string \<times> string) list \<Rightarrow> string" where
  "json_object ms = ''{'' @ join_with (CHR '','') (map json_member ms) @ ''}''"

definition json_array :: "string list \<Rightarrow> string" where
  "json_array es = ''['' @ join_with (CHR '','') es @ '']''"

section \<open>What the encoder writes the decoder reads\<close>

lemma jstring_plain:
  assumes "utf8_width (c # s) = Suc n" "c \<noteq> CHR 0x22" "c \<noteq> CHR 0x5C" "\<not> byte_val c < 0x20"
  shows "jstring (c # s) = prepend (c # take n s) (jstring (drop n s))"
  using assms by (simp add: jstring.simps(2))

lemma utf8_width_bounds: "utf8_width s \<le> length s \<and> utf8_width s \<le> 4"
proof (cases s)
  case (Cons c t)
  consider "t = []" | a where "t = [a]" | a b where "t = [a, b]" | a b d u where "t = a # b # d # u"
    by (metis neq_Nil_conv)
  then show ?thesis unfolding Cons
    by cases (simp_all add: utf8_width.simps(2) Let_def)
qed simp

lemma utf8_width_append:
  assumes "utf8_width s \<noteq> 0"
  shows "utf8_width (s @ t) = utf8_width s"
proof (cases s)
  case (Cons c u)
  consider "u = []" | a where "u = [a]" | a b where "u = [a, b]" | a b d v where "u = a # b # d # v"
    by (metis neq_Nil_conv)
  then show ?thesis using assms unfolding Cons
  by cases (auto simp add: utf8_width.simps(2) Let_def split: if_splits)
qed (use assms in simp)

lemma utf8_width_take: "utf8_width (take (utf8_width s) s) = utf8_width s"
proof (cases s)
  case (Cons c u)
  consider "u = []" | a where "u = [a]" | a b where "u = [a, b]" | a b d v where "u = a # b # d # v"
    by (metis neq_Nil_conv)
  then show ?thesis unfolding Cons
    by cases (auto simp: utf8_width.simps(2) Let_def)
qed simp

lemma jstring_hex4:
  assumes "n < 0xD800"
  shows "jstring (hex4 n @ r) = prepend (encode_rune n) (jstring r)"
proof -
  have d: "n div 4096 = n div 16 div 16 div 16" "n div 256 = n div 16 div 16" by (simp_all add: div_mult2_eq [symmetric])
  have "4096 * (n div 4096) + 256 * (n div 256 mod 16) + 16 * (n div 16 mod 16) + n mod 16 = n"
    unfolding d using div_mult_mod_eq [of n 16] div_mult_mod_eq [of "n div 16" 16] div_mult_mod_eq [of "n div 16 div 16" 16]
    by linarith
  moreover have "n div 4096 mod 16 = n div 4096" using assms by simp
  ultimately have "getu4 (drop 2 (hex4 n @ r)) = Some n" using assms by (simp add: hex4_def getu4_def)
  with assms show ?thesis
    by (simp add: hex4_def jstring.simps(2) jescape_def junicode_def)
qed

lemma json_escape_char_cases:
  assumes "c \<noteq> CHR 0x22" "c \<noteq> CHR 0x5C"
    and "c \<notin> set [CHR 0x08, CHR 0x0C, CHR 0x0A, CHR 0x0D, CHR 0x09]"
  shows "json_escape_char c =
    (if byte_val c < 0x20 \<or> c = CHR ''<'' \<or> c = CHR ''>'' \<or> c = CHR ''&'' then hex4 (byte_val c) else [c])"
  using assms by (simp add: json_escape_char_def)

lemma jstring_escape_char:
  assumes "byte_val c < 0x80"
  shows "jstring (json_escape_char c @ r) = prepend [c] (jstring r)"
proof (cases "c \<in> set [CHR 0x22, CHR 0x5C, CHR 0x08, CHR 0x0C, CHR 0x0A, CHR 0x0D, CHR 0x09]")
  case True
  then show ?thesis unfolding list.set insert_iff empty_iff
    by (elim disjE FalseE) (simp_all add: json_escape_char_def jstring.simps(2) jescape_def)
next
  case False
  then have c: "c \<noteq> CHR 0x22" "c \<noteq> CHR 0x5C"
    "c \<notin> set [CHR 0x08, CHR 0x0C, CHR 0x0A, CHR 0x0D, CHR 0x09]" by simp_all
  have "utf8_width (c # r) = Suc 0" using assms by simp
  with assms c show ?thesis
    by (simp add: json_escape_char_cases [OF c] jstring_hex4 jstring_plain encode_rune_def)
qed

lemma jstring_escape:
  "utf8_valid s \<Longrightarrow> jstring (json_escape s @ CHR 0x22 # r) = Some (s, r)"
proof (induction s rule: json_escape.induct)
  case 1
  then show ?case by (simp add: jstring.simps(2))
next
  case (2 c s)
  from "2.prems" have nz: "utf8_width (c # s) \<noteq> 0" and
    valid: "utf8_valid (drop (utf8_width (c # s)) (c # s))"
    by (auto simp: utf8_valid.simps [of "c # s"] split: if_splits)
  obtain n where n: "utf8_width (c # s) = Suc n" using nz not0_implies_Suc by blast
  show ?case
  proof (cases "byte_val c < 0x80")
    case True
    with valid 2 show ?thesis by (simp add: json_escape.simps(2) jstring_escape_char)
  next
    case False
    let ?sep = "\<lambda>b. take 3 (c # s) = [CHR 0xE2, CHR 0x80, b]"
    show ?thesis
    proof (cases "?sep (CHR 0xA8) \<or> ?sep (CHR 0xA9)")
      case True
      then obtain b t where s: "c = CHR 0xE2" "s = CHR 0x80 # b # t" "b = CHR 0xA8 \<or> b = CHR 0xA9"
        by (cases s; cases "tl s") auto
      have w: "utf8_width (c # s) = 3"
        using s by (auto simp: utf8_width.simps(2) Let_def cont_byte_def)
      from s valid False 2 w show ?thesis
        by (auto simp: json_escape.simps(2) jstring_hex4 encode_rune_def intro!: char_of_eqI)
    next
      case sep: False
      have len: "n \<le> length s" using utf8_width_bounds [of "c # s"] n by simp
      have esc: "json_escape (c # s) = c # take n s @ json_escape (drop n s)"
        using False sep n by (auto simp: json_escape.simps(2))
      have w: "utf8_width (c # take n s @ json_escape (drop n s) @ CHR 0x22 # r) = Suc n"
        using utf8_width_append [of "c # take n s"] utf8_width_take [of "c # s"] n by simp
      from False have c: "c \<noteq> CHR 0x22" "c \<noteq> CHR 0x5C" "\<not> byte_val c < 0x20" by auto
      from False sep n nz valid have "jstring (json_escape (drop n s) @ CHR 0x22 # r) = Some (drop n s, r)"
        using "2.IH"(5) by simp
      with w c len show ?thesis by (simp add: esc jstring_plain)
    qed
  qed
qed
text \<open>A quoted string decodes to itself, whatever follows it.\<close>

lemma jvalue_quote:
  "utf8_valid s \<Longrightarrow> jvalue d (json_quote s @ r) = Some (JStr s, r)"
  unfolding json_quote_def by (subst jvalue.simps) (simp add: jstring_escape)

end
