(* ===== verification/GoCrypto.thy ===== *)
theory GoCrypto
  imports GoStd
begin

text \<open>
  The cryptographic part of Go's standard library the gateway calls: \<open>crypto/sha256\<close> and
  \<open>crypto/hmac\<close> on bytes, \<open>crypto/aes\<close> with 16- and 32-byte keys and the CBC modes of
  \<open>crypto/cipher\<close>, each as its standard defines it (FIPS 180-4, 198-1, 197). The block cipher and
  its inverse are proved to cancel, and so is CBC; SHA-256 has a fixed output length.
\<close>

section \<open>SHA-256\<close>

type_synonym word32 = "32 word"

text \<open>
  The constants are the first 32 bits of the fractional parts of the cube roots of the first 64
  primes and of the square roots of the first eight; \<open>root_bits\<close> finds an integer root bit by bit.
\<close>

fun root_bits :: "nat \<Rightarrow> nat \<Rightarrow> nat \<Rightarrow> nat list \<Rightarrow> nat" where
  "root_bits k n root [] = root"
| "root_bits k n root (b # bs) =
     root_bits k n (if (root + 2 ^ b) ^ k \<le> n then root + 2 ^ b else root) bs"

definition root_fraction :: "nat \<Rightarrow> nat \<Rightarrow> word32" where
  "root_fraction k p = of_nat (root_bits k (p * 2 ^ (32 * k)) 0 (rev [0..<36]))"

definition sha256_primes :: "nat list" where
  "sha256_primes =
     [2, 3, 5, 7, 11, 13, 17, 19, 23, 29, 31, 37, 41, 43, 47, 53, 59, 61, 67, 71, 73, 79, 83, 89, 97, 101,
      103, 107, 109, 113, 127, 131, 137, 139, 149, 151, 157, 163, 167, 173, 179, 181, 191, 193, 197, 199,
      211, 223, 227, 229, 233, 239, 241, 251, 257, 263, 269, 271, 277, 281, 283, 293, 307, 311]"

definition sha256_k :: "word32 list" where
  "sha256_k = map (root_fraction 3) sha256_primes"

definition sha256_init :: "word32 list" where
  "sha256_init = map (root_fraction 2) (take 8 sha256_primes)"

lemma length_sha256_init [simp]: "length sha256_init = 8"
  by (simp add: sha256_init_def sha256_primes_def)

definition rotr :: "nat \<Rightarrow> word32 \<Rightarrow> word32" where
  "rotr n x = drop_bit n x OR push_bit (32 - n) x"

definition sha_ch :: "word32 \<Rightarrow> word32 \<Rightarrow> word32 \<Rightarrow> word32" where
  "sha_ch x y z = (x AND y) XOR ((NOT x) AND z)"

definition sha_maj :: "word32 \<Rightarrow> word32 \<Rightarrow> word32 \<Rightarrow> word32" where
  "sha_maj x y z = (x AND y) XOR (x AND z) XOR (y AND z)"

definition sha_sum0 :: "word32 \<Rightarrow> word32" where
  "sha_sum0 x = rotr 2 x XOR rotr 13 x XOR rotr 22 x"

definition sha_sum1 :: "word32 \<Rightarrow> word32" where
  "sha_sum1 x = rotr 6 x XOR rotr 11 x XOR rotr 25 x"

definition sha_sigma0 :: "word32 \<Rightarrow> word32" where
  "sha_sigma0 x = rotr 7 x XOR rotr 18 x XOR drop_bit 3 x"

definition sha_sigma1 :: "word32 \<Rightarrow> word32" where
  "sha_sigma1 x = rotr 17 x XOR rotr 19 x XOR drop_bit 10 x"

text \<open>The message schedule, kept newest first while it grows.\<close>

fun sha_extend :: "nat \<Rightarrow> word32 list \<Rightarrow> word32 list" where
  "sha_extend 0 ws = ws"
| "sha_extend (Suc n) ws =
     sha_extend n ((sha_sigma1 (ws ! 1) + ws ! 6 + sha_sigma0 (ws ! 14) + ws ! 15) # ws)"

definition sha_schedule :: "word32 list \<Rightarrow> word32 list" where
  "sha_schedule block = rev (sha_extend 48 (rev block))"

fun sha_round :: "word32 list \<Rightarrow> word32 \<times> word32 \<Rightarrow> word32 list" where
  "sha_round [a, b, c, d, e, f, g, h] (k, w) =
     (let t1 = h + sha_sum1 e + sha_ch e f g + k + w;
          t2 = sha_sum0 a + sha_maj a b c
      in [t1 + t2, a, b, c, d + t1, e, f, g])"
| "sha_round st kw = st"

definition sha_compress :: "word32 list \<Rightarrow> word32 list \<Rightarrow> word32 list" where
  "sha_compress hs block =
     map2 (+) hs (foldl sha_round hs (zip sha256_k (sha_schedule block)))"

definition be_word :: "bytes \<Rightarrow> word32" where
  "be_word bs = of_nat (foldl (\<lambda>acc b. 256 * acc + byte_val b) 0 bs)"

definition word_be :: "word32 \<Rightarrow> bytes" where
  "word_be w = map (\<lambda>i. char_of (unat (drop_bit i w) mod 256)) [24, 16, 8, 0]"

fun chunks :: "nat \<Rightarrow> nat \<Rightarrow> 'a list \<Rightarrow> 'a list list" where
  "chunks 0 n xs = []"
| "chunks (Suc k) n xs = take n xs # chunks k n (drop n xs)"

definition be_bytes8 :: "nat \<Rightarrow> bytes" where
  "be_bytes8 n = map (\<lambda>i. char_of (n div 256 ^ i mod 256)) [7, 6, 5, 4, 3, 2, 1, 0]"

definition sha_pad :: "bytes \<Rightarrow> bytes" where
  "sha_pad m = m @ CHR 0x80 # replicate ((119 - length m mod 64) mod 64) (CHR 0x00) @ be_bytes8 (8 * length m)"

definition sha256 :: "bytes \<Rightarrow> bytes" where
  "sha256 m =
     (let p = sha_pad m
      in concat (map word_be
           (foldl (\<lambda>hs block. sha_compress hs (map be_word (chunks 16 4 block))) sha256_init
             (chunks (length p div 64) 64 p))))"

lemma length_sha_round: "length st = 8 \<Longrightarrow> length (sha_round st kw) = 8"
  by (induction st kw rule: sha_round.induct) (simp_all add: Let_def)

lemma length_sha_rounds: "length st = 8 \<Longrightarrow> length (foldl sha_round st kws) = 8"
  by (induction kws arbitrary: st) (simp_all add: length_sha_round)

lemma length_sha_compress: "length hs = 8 \<Longrightarrow> length (sha_compress hs block) = 8"
  by (simp add: sha_compress_def length_sha_rounds)

lemma length_sha_blocks:
  "length hs = 8 \<Longrightarrow> length (foldl (\<lambda>hs block. sha_compress hs (f block)) hs bs) = 8"
  by (induction bs arbitrary: hs) (simp_all add: length_sha_compress)

lemma length_word_be [simp]: "length (word_be w) = 4"
  by (simp add: word_be_def)

lemma length_concat_word_be: "length (concat (map word_be ws)) = 4 * length ws"
  by (induction ws) simp_all

lemma length_sha256 [simp]: "length (sha256 m) = 32"
  by (simp add: sha256_def Let_def length_concat_word_be length_sha_blocks length_sha256_init)

section \<open>HMAC-SHA256\<close>

definition xor_byte :: "nat \<Rightarrow> char \<Rightarrow> char" where
  "xor_byte k c = char_of (k XOR byte_val c)"

definition hmac_key :: "bytes \<Rightarrow> bytes" where
  "hmac_key key =
     (let k = (if length key > 64 then sha256 key else key)
      in k @ replicate (64 - length k) (CHR 0x00))"

definition hmac_sha256 :: "bytes \<Rightarrow> bytes \<Rightarrow> bytes" where
  "hmac_sha256 key m =
     sha256 (map (xor_byte 0x5C) (hmac_key key) @ sha256 (map (xor_byte 0x36) (hmac_key key) @ m))"

lemma length_hmac_sha256 [simp]: "length (hmac_sha256 key m) = 32"
  by (simp add: hmac_sha256_def)

section \<open>AES\<close>

type_synonym word8 = "8 word"

text \<open>The substitution tables, row by row of the high half of the byte.\<close>

definition aes_sbox0 :: "nat \<Rightarrow> nat list" where
  "aes_sbox0 i =
     (if i = 0 then [0x63, 0x7c, 0x77, 0x7b, 0xf2, 0x6b, 0x6f, 0xc5, 0x30, 0x01, 0x67, 0x2b, 0xfe, 0xd7, 0xab, 0x76]
      else if i = 1 then [0xca, 0x82, 0xc9, 0x7d, 0xfa, 0x59, 0x47, 0xf0, 0xad, 0xd4, 0xa2, 0xaf, 0x9c, 0xa4, 0x72, 0xc0]
      else if i = 2 then [0xb7, 0xfd, 0x93, 0x26, 0x36, 0x3f, 0xf7, 0xcc, 0x34, 0xa5, 0xe5, 0xf1, 0x71, 0xd8, 0x31, 0x15]
      else if i = 3 then [0x04, 0xc7, 0x23, 0xc3, 0x18, 0x96, 0x05, 0x9a, 0x07, 0x12, 0x80, 0xe2, 0xeb, 0x27, 0xb2, 0x75]
      else if i = 4 then [0x09, 0x83, 0x2c, 0x1a, 0x1b, 0x6e, 0x5a, 0xa0, 0x52, 0x3b, 0xd6, 0xb3, 0x29, 0xe3, 0x2f, 0x84]
      else if i = 5 then [0x53, 0xd1, 0x00, 0xed, 0x20, 0xfc, 0xb1, 0x5b, 0x6a, 0xcb, 0xbe, 0x39, 0x4a, 0x4c, 0x58, 0xcf]
      else if i = 6 then [0xd0, 0xef, 0xaa, 0xfb, 0x43, 0x4d, 0x33, 0x85, 0x45, 0xf9, 0x02, 0x7f, 0x50, 0x3c, 0x9f, 0xa8]
      else if i = 7 then [0x51, 0xa3, 0x40, 0x8f, 0x92, 0x9d, 0x38, 0xf5, 0xbc, 0xb6, 0xda, 0x21, 0x10, 0xff, 0xf3, 0xd2]
      else if i = 8 then [0xcd, 0x0c, 0x13, 0xec, 0x5f, 0x97, 0x44, 0x17, 0xc4, 0xa7, 0x7e, 0x3d, 0x64, 0x5d, 0x19, 0x73]
      else if i = 9 then [0x60, 0x81, 0x4f, 0xdc, 0x22, 0x2a, 0x90, 0x88, 0x46, 0xee, 0xb8, 0x14, 0xde, 0x5e, 0x0b, 0xdb]
      else if i = 10 then [0xe0, 0x32, 0x3a, 0x0a, 0x49, 0x06, 0x24, 0x5c, 0xc2, 0xd3, 0xac, 0x62, 0x91, 0x95, 0xe4, 0x79]
      else if i = 11 then [0xe7, 0xc8, 0x37, 0x6d, 0x8d, 0xd5, 0x4e, 0xa9, 0x6c, 0x56, 0xf4, 0xea, 0x65, 0x7a, 0xae, 0x08]
      else if i = 12 then [0xba, 0x78, 0x25, 0x2e, 0x1c, 0xa6, 0xb4, 0xc6, 0xe8, 0xdd, 0x74, 0x1f, 0x4b, 0xbd, 0x8b, 0x8a]
      else if i = 13 then [0x70, 0x3e, 0xb5, 0x66, 0x48, 0x03, 0xf6, 0x0e, 0x61, 0x35, 0x57, 0xb9, 0x86, 0xc1, 0x1d, 0x9e]
      else if i = 14 then [0xe1, 0xf8, 0x98, 0x11, 0x69, 0xd9, 0x8e, 0x94, 0x9b, 0x1e, 0x87, 0xe9, 0xce, 0x55, 0x28, 0xdf]
      else [0x8c, 0xa1, 0x89, 0x0d, 0xbf, 0xe6, 0x42, 0x68, 0x41, 0x99, 0x2d, 0x0f, 0xb0, 0x54, 0xbb, 0x16])"

definition aes_sbox1 :: "nat \<Rightarrow> nat list" where
  "aes_sbox1 i =
     (if i = 0 then [0x52, 0x09, 0x6a, 0xd5, 0x30, 0x36, 0xa5, 0x38, 0xbf, 0x40, 0xa3, 0x9e, 0x81, 0xf3, 0xd7, 0xfb]
      else if i = 1 then [0x7c, 0xe3, 0x39, 0x82, 0x9b, 0x2f, 0xff, 0x87, 0x34, 0x8e, 0x43, 0x44, 0xc4, 0xde, 0xe9, 0xcb]
      else if i = 2 then [0x54, 0x7b, 0x94, 0x32, 0xa6, 0xc2, 0x23, 0x3d, 0xee, 0x4c, 0x95, 0x0b, 0x42, 0xfa, 0xc3, 0x4e]
      else if i = 3 then [0x08, 0x2e, 0xa1, 0x66, 0x28, 0xd9, 0x24, 0xb2, 0x76, 0x5b, 0xa2, 0x49, 0x6d, 0x8b, 0xd1, 0x25]
      else if i = 4 then [0x72, 0xf8, 0xf6, 0x64, 0x86, 0x68, 0x98, 0x16, 0xd4, 0xa4, 0x5c, 0xcc, 0x5d, 0x65, 0xb6, 0x92]
      else if i = 5 then [0x6c, 0x70, 0x48, 0x50, 0xfd, 0xed, 0xb9, 0xda, 0x5e, 0x15, 0x46, 0x57, 0xa7, 0x8d, 0x9d, 0x84]
      else if i = 6 then [0x90, 0xd8, 0xab, 0x00, 0x8c, 0xbc, 0xd3, 0x0a, 0xf7, 0xe4, 0x58, 0x05, 0xb8, 0xb3, 0x45, 0x06]
      else if i = 7 then [0xd0, 0x2c, 0x1e, 0x8f, 0xca, 0x3f, 0x0f, 0x02, 0xc1, 0xaf, 0xbd, 0x03, 0x01, 0x13, 0x8a, 0x6b]
      else if i = 8 then [0x3a, 0x91, 0x11, 0x41, 0x4f, 0x67, 0xdc, 0xea, 0x97, 0xf2, 0xcf, 0xce, 0xf0, 0xb4, 0xe6, 0x73]
      else if i = 9 then [0x96, 0xac, 0x74, 0x22, 0xe7, 0xad, 0x35, 0x85, 0xe2, 0xf9, 0x37, 0xe8, 0x1c, 0x75, 0xdf, 0x6e]
      else if i = 10 then [0x47, 0xf1, 0x1a, 0x71, 0x1d, 0x29, 0xc5, 0x89, 0x6f, 0xb7, 0x62, 0x0e, 0xaa, 0x18, 0xbe, 0x1b]
      else if i = 11 then [0xfc, 0x56, 0x3e, 0x4b, 0xc6, 0xd2, 0x79, 0x20, 0x9a, 0xdb, 0xc0, 0xfe, 0x78, 0xcd, 0x5a, 0xf4]
      else if i = 12 then [0x1f, 0xdd, 0xa8, 0x33, 0x88, 0x07, 0xc7, 0x31, 0xb1, 0x12, 0x10, 0x59, 0x27, 0x80, 0xec, 0x5f]
      else if i = 13 then [0x60, 0x51, 0x7f, 0xa9, 0x19, 0xb5, 0x4a, 0x0d, 0x2d, 0xe5, 0x7a, 0x9f, 0x93, 0xc9, 0x9c, 0xef]
      else if i = 14 then [0xa0, 0xe0, 0x3b, 0x4d, 0xae, 0x2a, 0xf5, 0xb0, 0xc8, 0xeb, 0xbb, 0x3c, 0x83, 0x53, 0x99, 0x61]
      else [0x17, 0x2b, 0x04, 0x7e, 0xba, 0x77, 0xd6, 0x26, 0xe1, 0x69, 0x14, 0x63, 0x55, 0x21, 0x0c, 0x7d])"

definition sbox_lookup :: "(nat \<Rightarrow> nat list) \<Rightarrow> nat \<Rightarrow> nat" where
  "sbox_lookup t i = t (i div 16) ! (i mod 16)"

definition sub_byte :: "word8 \<Rightarrow> word8" where
  "sub_byte x = of_nat (sbox_lookup aes_sbox0 (unat x))"

definition inv_sub_byte :: "word8 \<Rightarrow> word8" where
  "inv_sub_byte x = of_nat (sbox_lookup aes_sbox1 (unat x))"

definition xtime :: "word8 \<Rightarrow> word8" where
  "xtime x = push_bit 1 x XOR (if bit x 7 then 0x1b else 0)"

definition mul3 :: "word8 \<Rightarrow> word8" where "mul3 x = xtime x XOR x"
definition mul9 :: "word8 \<Rightarrow> word8" where "mul9 x = xtime (xtime (xtime x)) XOR x"
definition mul11 :: "word8 \<Rightarrow> word8" where "mul11 x = xtime (xtime (xtime x)) XOR xtime x XOR x"
definition mul13 :: "word8 \<Rightarrow> word8" where "mul13 x = xtime (xtime (xtime x)) XOR xtime (xtime x) XOR x"
definition mul14 :: "word8 \<Rightarrow> word8" where "mul14 x = xtime (xtime (xtime x)) XOR xtime (xtime x) XOR xtime x"

text \<open>The state is its sixteen bytes, column by column.\<close>

definition sub_bytes :: "word8 list \<Rightarrow> word8 list" where "sub_bytes = map sub_byte"
definition inv_sub_bytes :: "word8 list \<Rightarrow> word8 list" where "inv_sub_bytes = map inv_sub_byte"

definition shift_rows :: "word8 list \<Rightarrow> word8 list" where
  "shift_rows st = map (nth st) [0, 5, 10, 15, 4, 9, 14, 3, 8, 13, 2, 7, 12, 1, 6, 11]"

definition inv_shift_rows :: "word8 list \<Rightarrow> word8 list" where
  "inv_shift_rows st = map (nth st) [0, 13, 10, 7, 4, 1, 14, 11, 8, 5, 2, 15, 12, 9, 6, 3]"

fun mix_columns :: "word8 list \<Rightarrow> word8 list" where
  "mix_columns (a # b # c # d # st) =
     (xtime a XOR mul3 b XOR c XOR d) # (a XOR xtime b XOR mul3 c XOR d) #
     (a XOR b XOR xtime c XOR mul3 d) # (mul3 a XOR b XOR c XOR xtime d) # mix_columns st"
| "mix_columns st = st"

fun inv_mix_columns :: "word8 list \<Rightarrow> word8 list" where
  "inv_mix_columns (a # b # c # d # st) =
     (mul14 a XOR mul11 b XOR mul13 c XOR mul9 d) # (mul9 a XOR mul14 b XOR mul11 c XOR mul13 d) #
     (mul13 a XOR mul9 b XOR mul14 c XOR mul11 d) # (mul11 a XOR mul13 b XOR mul9 c XOR mul14 d) #
     inv_mix_columns st"
| "inv_mix_columns st = st"

definition add_round_key :: "word8 list \<Rightarrow> word8 list \<Rightarrow> word8 list" where
  "add_round_key k st = map2 (XOR) st k"

text \<open>The key schedule: four-byte words, newest first while it grows.\<close>

definition rot_word :: "word8 list \<Rightarrow> word8 list" where "rot_word w = drop 1 w @ take 1 w"

definition aes_temp :: "nat \<Rightarrow> nat \<Rightarrow> word8 \<Rightarrow> word8 list \<Rightarrow> word8 list" where
  "aes_temp nk i rcon t =
     (if i mod nk = 0 then map2 (XOR) (sub_bytes (rot_word t)) [rcon, 0, 0, 0]
      else if nk > 6 \<and> i mod nk = 4 then sub_bytes t
      else t)"

fun aes_expand :: "nat \<Rightarrow> nat \<Rightarrow> nat \<Rightarrow> word8 \<Rightarrow> word8 list list \<Rightarrow> word8 list list" where
  "aes_expand nk 0 i rcon ws = ws"
| "aes_expand nk (Suc n) i rcon ws =
     aes_expand nk n (Suc i) (if i mod nk = 0 then xtime rcon else rcon)
       (map2 (XOR) (ws ! (nk - 1)) (aes_temp nk i rcon (ws ! 0)) # ws)"

definition to_word8 :: "bytes \<Rightarrow> word8 list" where "to_word8 = map (\<lambda>c. of_nat (byte_val c))"
definition of_word8 :: "word8 list \<Rightarrow> bytes" where "of_word8 = map (\<lambda>w. char_of (unat w))"

text \<open>
  \<open>aes.NewCipher\<close>: the round keys of a 16-, 24- or 32-byte key, \<open>None\<close> for any other length.
\<close>

definition aes_new_cipher :: "bytes \<Rightarrow> word8 list list option" where
  "aes_new_cipher key =
     (if length key \<notin> {16, 24, 32} then None
      else let nk = length key div 4;
               ws = rev (aes_expand nk (4 * (nk + 7) - nk) nk 1 (rev (chunks nk 4 (to_word8 key))))
           in Some (map concat (chunks (nk + 7) 4 ws)))"

fun aes_rounds :: "word8 list list \<Rightarrow> word8 list \<Rightarrow> word8 list" where
  "aes_rounds [] st = st"
| "aes_rounds [k] st = add_round_key k (shift_rows (sub_bytes st))"
| "aes_rounds (k # k' # ks) st =
     aes_rounds (k' # ks) (add_round_key k (mix_columns (shift_rows (sub_bytes st))))"

fun aes_unrounds :: "word8 list list \<Rightarrow> word8 list \<Rightarrow> word8 list" where
  "aes_unrounds [] st = st"
| "aes_unrounds [k] st = inv_sub_bytes (inv_shift_rows (add_round_key k st))"
| "aes_unrounds (k # k' # ks) st =
     inv_sub_bytes (inv_shift_rows (inv_mix_columns (add_round_key k (aes_unrounds (k' # ks) st))))"

definition aes_encrypt_block :: "word8 list list \<Rightarrow> word8 list \<Rightarrow> word8 list" where
  "aes_encrypt_block ks b = aes_rounds (drop 1 ks) (add_round_key (hd ks) b)"

definition aes_decrypt_block :: "word8 list list \<Rightarrow> word8 list \<Rightarrow> word8 list" where
  "aes_decrypt_block ks b = add_round_key (hd ks) (aes_unrounds (drop 1 ks) b)"

section \<open>CBC\<close>

fun cbc_encrypt :: "word8 list list \<Rightarrow> word8 list \<Rightarrow> word8 list list \<Rightarrow> word8 list list" where
  "cbc_encrypt ks iv [] = []"
| "cbc_encrypt ks iv (b # bs) =
     (let c = aes_encrypt_block ks (map2 (XOR) b iv) in c # cbc_encrypt ks c bs)"

fun cbc_decrypt :: "word8 list list \<Rightarrow> word8 list \<Rightarrow> word8 list list \<Rightarrow> word8 list list" where
  "cbc_decrypt ks iv [] = []"
| "cbc_decrypt ks iv (c # cs) = map2 (XOR) (aes_decrypt_block ks c) iv # cbc_decrypt ks c cs"

text \<open>\<open>NewCBCEncrypter(block, iv).CryptBlocks\<close> and its inverse, on whole blocks of bytes.\<close>

definition crypt_blocks :: "(word8 list \<Rightarrow> word8 list list \<Rightarrow> word8 list list) \<Rightarrow> bytes \<Rightarrow> bytes \<Rightarrow> bytes" where
  "crypt_blocks mode iv bs =
     of_word8 (concat (mode (to_word8 iv) (chunks (length bs div 16) 16 (to_word8 bs))))"

text \<open>Every round key of a cipher is a whole block.\<close>

definition round_keys_ok :: "word8 list list \<Rightarrow> bool" where
  "round_keys_ok ks \<longleftrightarrow> ks \<noteq> [] \<and> list_all (\<lambda>k. length k = 16) ks"

section \<open>The block cipher and its inverse cancel\<close>

lemma aes_sbox0_rows:
  "aes_sbox0 0 = [0x63, 0x7c, 0x77, 0x7b, 0xf2, 0x6b, 0x6f, 0xc5, 0x30, 0x01, 0x67, 0x2b, 0xfe, 0xd7, 0xab, 0x76]"
  "aes_sbox0 1 = [0xca, 0x82, 0xc9, 0x7d, 0xfa, 0x59, 0x47, 0xf0, 0xad, 0xd4, 0xa2, 0xaf, 0x9c, 0xa4, 0x72, 0xc0]"
  "aes_sbox0 2 = [0xb7, 0xfd, 0x93, 0x26, 0x36, 0x3f, 0xf7, 0xcc, 0x34, 0xa5, 0xe5, 0xf1, 0x71, 0xd8, 0x31, 0x15]"
  "aes_sbox0 3 = [0x04, 0xc7, 0x23, 0xc3, 0x18, 0x96, 0x05, 0x9a, 0x07, 0x12, 0x80, 0xe2, 0xeb, 0x27, 0xb2, 0x75]"
  "aes_sbox0 4 = [0x09, 0x83, 0x2c, 0x1a, 0x1b, 0x6e, 0x5a, 0xa0, 0x52, 0x3b, 0xd6, 0xb3, 0x29, 0xe3, 0x2f, 0x84]"
  "aes_sbox0 5 = [0x53, 0xd1, 0x00, 0xed, 0x20, 0xfc, 0xb1, 0x5b, 0x6a, 0xcb, 0xbe, 0x39, 0x4a, 0x4c, 0x58, 0xcf]"
  "aes_sbox0 6 = [0xd0, 0xef, 0xaa, 0xfb, 0x43, 0x4d, 0x33, 0x85, 0x45, 0xf9, 0x02, 0x7f, 0x50, 0x3c, 0x9f, 0xa8]"
  "aes_sbox0 7 = [0x51, 0xa3, 0x40, 0x8f, 0x92, 0x9d, 0x38, 0xf5, 0xbc, 0xb6, 0xda, 0x21, 0x10, 0xff, 0xf3, 0xd2]"
  "aes_sbox0 8 = [0xcd, 0x0c, 0x13, 0xec, 0x5f, 0x97, 0x44, 0x17, 0xc4, 0xa7, 0x7e, 0x3d, 0x64, 0x5d, 0x19, 0x73]"
  "aes_sbox0 9 = [0x60, 0x81, 0x4f, 0xdc, 0x22, 0x2a, 0x90, 0x88, 0x46, 0xee, 0xb8, 0x14, 0xde, 0x5e, 0x0b, 0xdb]"
  "aes_sbox0 10 = [0xe0, 0x32, 0x3a, 0x0a, 0x49, 0x06, 0x24, 0x5c, 0xc2, 0xd3, 0xac, 0x62, 0x91, 0x95, 0xe4, 0x79]"
  "aes_sbox0 11 = [0xe7, 0xc8, 0x37, 0x6d, 0x8d, 0xd5, 0x4e, 0xa9, 0x6c, 0x56, 0xf4, 0xea, 0x65, 0x7a, 0xae, 0x08]"
  "aes_sbox0 12 = [0xba, 0x78, 0x25, 0x2e, 0x1c, 0xa6, 0xb4, 0xc6, 0xe8, 0xdd, 0x74, 0x1f, 0x4b, 0xbd, 0x8b, 0x8a]"
  "aes_sbox0 13 = [0x70, 0x3e, 0xb5, 0x66, 0x48, 0x03, 0xf6, 0x0e, 0x61, 0x35, 0x57, 0xb9, 0x86, 0xc1, 0x1d, 0x9e]"
  "aes_sbox0 14 = [0xe1, 0xf8, 0x98, 0x11, 0x69, 0xd9, 0x8e, 0x94, 0x9b, 0x1e, 0x87, 0xe9, 0xce, 0x55, 0x28, 0xdf]"
  "aes_sbox0 15 = [0x8c, 0xa1, 0x89, 0x0d, 0xbf, 0xe6, 0x42, 0x68, 0x41, 0x99, 0x2d, 0x0f, 0xb0, 0x54, 0xbb, 0x16]"
  by (simp_all add: aes_sbox0_def)

lemma aes_sbox1_rows:
  "aes_sbox1 0 = [0x52, 0x09, 0x6a, 0xd5, 0x30, 0x36, 0xa5, 0x38, 0xbf, 0x40, 0xa3, 0x9e, 0x81, 0xf3, 0xd7, 0xfb]"
  "aes_sbox1 1 = [0x7c, 0xe3, 0x39, 0x82, 0x9b, 0x2f, 0xff, 0x87, 0x34, 0x8e, 0x43, 0x44, 0xc4, 0xde, 0xe9, 0xcb]"
  "aes_sbox1 2 = [0x54, 0x7b, 0x94, 0x32, 0xa6, 0xc2, 0x23, 0x3d, 0xee, 0x4c, 0x95, 0x0b, 0x42, 0xfa, 0xc3, 0x4e]"
  "aes_sbox1 3 = [0x08, 0x2e, 0xa1, 0x66, 0x28, 0xd9, 0x24, 0xb2, 0x76, 0x5b, 0xa2, 0x49, 0x6d, 0x8b, 0xd1, 0x25]"
  "aes_sbox1 4 = [0x72, 0xf8, 0xf6, 0x64, 0x86, 0x68, 0x98, 0x16, 0xd4, 0xa4, 0x5c, 0xcc, 0x5d, 0x65, 0xb6, 0x92]"
  "aes_sbox1 5 = [0x6c, 0x70, 0x48, 0x50, 0xfd, 0xed, 0xb9, 0xda, 0x5e, 0x15, 0x46, 0x57, 0xa7, 0x8d, 0x9d, 0x84]"
  "aes_sbox1 6 = [0x90, 0xd8, 0xab, 0x00, 0x8c, 0xbc, 0xd3, 0x0a, 0xf7, 0xe4, 0x58, 0x05, 0xb8, 0xb3, 0x45, 0x06]"
  "aes_sbox1 7 = [0xd0, 0x2c, 0x1e, 0x8f, 0xca, 0x3f, 0x0f, 0x02, 0xc1, 0xaf, 0xbd, 0x03, 0x01, 0x13, 0x8a, 0x6b]"
  "aes_sbox1 8 = [0x3a, 0x91, 0x11, 0x41, 0x4f, 0x67, 0xdc, 0xea, 0x97, 0xf2, 0xcf, 0xce, 0xf0, 0xb4, 0xe6, 0x73]"
  "aes_sbox1 9 = [0x96, 0xac, 0x74, 0x22, 0xe7, 0xad, 0x35, 0x85, 0xe2, 0xf9, 0x37, 0xe8, 0x1c, 0x75, 0xdf, 0x6e]"
  "aes_sbox1 10 = [0x47, 0xf1, 0x1a, 0x71, 0x1d, 0x29, 0xc5, 0x89, 0x6f, 0xb7, 0x62, 0x0e, 0xaa, 0x18, 0xbe, 0x1b]"
  "aes_sbox1 11 = [0xfc, 0x56, 0x3e, 0x4b, 0xc6, 0xd2, 0x79, 0x20, 0x9a, 0xdb, 0xc0, 0xfe, 0x78, 0xcd, 0x5a, 0xf4]"
  "aes_sbox1 12 = [0x1f, 0xdd, 0xa8, 0x33, 0x88, 0x07, 0xc7, 0x31, 0xb1, 0x12, 0x10, 0x59, 0x27, 0x80, 0xec, 0x5f]"
  "aes_sbox1 13 = [0x60, 0x51, 0x7f, 0xa9, 0x19, 0xb5, 0x4a, 0x0d, 0x2d, 0xe5, 0x7a, 0x9f, 0x93, 0xc9, 0x9c, 0xef]"
  "aes_sbox1 14 = [0xa0, 0xe0, 0x3b, 0x4d, 0xae, 0x2a, 0xf5, 0xb0, 0xc8, 0xeb, 0xbb, 0x3c, 0x83, 0x53, 0x99, 0x61]"
  "aes_sbox1 15 = [0x17, 0x2b, 0x04, 0x7e, 0xba, 0x77, 0xd6, 0x26, 0xe1, 0x69, 0x14, 0x63, 0x55, 0x21, 0x0c, 0x7d]"
  by (simp_all add: aes_sbox1_def)

lemma sbox_table:
  "list_all (\<lambda>h. list_all (\<lambda>l. aes_sbox0 h ! l < 256 \<and>
     aes_sbox1 (aes_sbox0 h ! l div 16) ! (aes_sbox0 h ! l mod 16) = 16 * h + l)
     [0, 1, 2, 3, 4, 5, 6, 7, 8, 9, 10, 11, 12, 13, 14, 15]) [0, 1, 2, 3, 4, 5, 6, 7, 8, 9, 10, 11, 12, 13, 14, 15]"
  by (simp add: aes_sbox0_rows aes_sbox1_rows del: One_nat_def)

lemma less_16: "n < 16 \<Longrightarrow> n \<in> set [0, 1, 2, 3, 4, 5, 6, 7, 8, 9, 10, 11, 12, 13, 14, 15 :: nat]"
  by (simp, arith)

lemma sbox_lookup_inverse:
  assumes "i < 256"
  shows "sbox_lookup aes_sbox0 i < 256" "sbox_lookup aes_sbox1 (sbox_lookup aes_sbox0 i) = i"
proof -
  have "i div 16 < 16" "i mod 16 < 16" using assms by simp_all
  then have "i div 16 \<in> set [0, 1, 2, 3, 4, 5, 6, 7, 8, 9, 10, 11, 12, 13, 14, 15]"
    "i mod 16 \<in> set [0, 1, 2, 3, 4, 5, 6, 7, 8, 9, 10, 11, 12, 13, 14, 15]" by (blast intro: less_16)+
  then have "aes_sbox0 (i div 16) ! (i mod 16) < 256 \<and>
     aes_sbox1 (aes_sbox0 (i div 16) ! (i mod 16) div 16) ! (aes_sbox0 (i div 16) ! (i mod 16) mod 16)
       = 16 * (i div 16) + i mod 16"
    using sbox_table unfolding list_all_iff by blast
  then show "sbox_lookup aes_sbox0 i < 256" "sbox_lookup aes_sbox1 (sbox_lookup aes_sbox0 i) = i"
    by (simp_all add: sbox_lookup_def)
qed

lemma inv_sub_byte_sub_byte [simp]: "inv_sub_byte (sub_byte x) = x"
proof -
  have "unat x < 256" using unsigned_less [of x, where ?'a = nat] by simp
  then show ?thesis
    by (simp add: sub_byte_def inv_sub_byte_def unat_of_nat sbox_lookup_inverse)
qed

lemma xtime_xor [simp]: "xtime (x XOR y) = xtime x XOR xtime y"
  unfolding xtime_def by (rule bit_word_eqI) (auto simp: bit_simps)

lemmas mul_defs = mul3_def mul9_def mul11_def mul13_def mul14_def

lemma inv_mix_columns_mix [simp]: "inv_mix_columns (mix_columns st) = st"
  by (induction st rule: mix_columns.induct) (simp_all add: mul_defs ac_simps)

lemma length_mix_columns [simp]: "length (mix_columns st) = length st"
  by (induction st rule: mix_columns.induct) simp_all

lemma inv_shift_rows_shift: "length st = 16 \<Longrightarrow> inv_shift_rows (shift_rows st) = st"
  by (rule nth_equalityI)
    (auto simp: inv_shift_rows_def shift_rows_def less_Suc_eq numeral_eq_Suc)

lemma inv_sub_bytes_sub [simp]: "inv_sub_bytes (sub_bytes st) = st"
  by (simp add: inv_sub_bytes_def sub_bytes_def comp_def)

lemma map2_xor_cancel: "length k = length st \<Longrightarrow> map2 (XOR) (map2 (XOR) st k) k = (st :: word8 list)"
  by (induction st k rule: list_induct2') (simp_all add: ac_simps)

lemma add_round_key_cancel [simp]:
  "length k = length st \<Longrightarrow> add_round_key k (add_round_key k st) = st"
  by (simp add: add_round_key_def map2_xor_cancel)

lemma length_aes_steps [simp]:
  "length (sub_bytes st) = length st" "length (shift_rows st) = 16"
  "length (add_round_key k st) = min (length st) (length k)"
  by (simp_all add: sub_bytes_def shift_rows_def add_round_key_def)

lemma aes_unrounds_rounds:
  "length st = 16 \<Longrightarrow> \<forall>k \<in> set ks. length k = 16 \<Longrightarrow> aes_unrounds ks (aes_rounds ks st) = st"
  by (induction ks st rule: aes_rounds.induct) (simp_all add: inv_shift_rows_shift)

lemma length_aes_rounds:
  "length st = 16 \<Longrightarrow> \<forall>k \<in> set ks. length k = 16 \<Longrightarrow> length (aes_rounds ks st) = 16"
  by (induction ks st rule: aes_rounds.induct) simp_all

lemma aes_decrypt_encrypt:
  assumes "round_keys_ok ks" "length b = 16"
  shows "aes_decrypt_block ks (aes_encrypt_block ks b) = b"
  using assms
  by (cases ks) (auto simp: round_keys_ok_def list_all_iff aes_decrypt_block_def aes_encrypt_block_def aes_unrounds_rounds)

lemma length_aes_encrypt_block:
  "round_keys_ok ks \<Longrightarrow> length b = 16 \<Longrightarrow> length (aes_encrypt_block ks b) = 16"
  by (cases ks) (auto simp: round_keys_ok_def list_all_iff aes_encrypt_block_def length_aes_rounds)

lemma length_aes_temp: "length t = 4 \<Longrightarrow> length (aes_temp nk i rcon t) = 4"
  by (simp add: aes_temp_def rot_word_def)

lemma length_aes_expand:
  assumes "0 < nk"
  shows "nk \<le> length ws \<Longrightarrow> \<forall>w \<in> set ws. length w = 4 \<Longrightarrow>
     length (aes_expand nk n i rcon ws) = n + length ws \<and>
     (\<forall>w \<in> set (aes_expand nk n i rcon ws). length w = 4)"
proof (induction n arbitrary: i rcon ws)
  case 0
  then show ?case by simp
next
  case (Suc n)
  let ?new = "map2 (XOR) (ws ! (nk - 1)) (aes_temp nk i rcon (ws ! 0))"
  have "ws ! 0 \<in> set ws" "ws ! (nk - 1) \<in> set ws"
    using assms Suc.prems(1) by (auto intro!: nth_mem)
  then have "length ?new = 4" using Suc.prems(2) by (simp add: length_aes_temp)
  then have "nk \<le> length (?new # ws)" "\<forall>w \<in> set (?new # ws). length w = 4"
    using Suc.prems by simp_all
  from Suc.IH [OF this] show ?case by simp
qed

lemma chunks_props:
  "length xs = k * n \<Longrightarrow> length (chunks k n xs) = k \<and> (\<forall>c \<in> set (chunks k n xs). length c = n) \<and> concat (chunks k n xs) = xs"
  by (induction k n xs rule: chunks.induct) auto

lemma set_chunks: "c \<in> set (chunks k n xs) \<Longrightarrow> set c \<subseteq> set xs"
  by (induction k n xs rule: chunks.induct) (auto dest: in_set_takeD in_set_dropD)

lemma length_concat_const: "\<forall>c \<in> set cs. length c = n \<Longrightarrow> length (concat cs) = length cs * n"
  by (induction cs) simp_all

lemma aes_new_cipher_ok:
  assumes "aes_new_cipher key = Some ks"
  shows "round_keys_ok ks"
proof -
  define nk where "nk = length key div 4"
  define start where "start = rev (chunks nk 4 (to_word8 key))"
  define ws where "ws = rev (aes_expand nk (4 * (nk + 7) - nk) nk 1 start)"
  from assms have len: "length key = nk * 4" and nk: "0 < nk" "nk \<le> 8"
    and ks: "ks = map concat (chunks (nk + 7) 4 ws)"
    by (auto simp: aes_new_cipher_def Let_def nk_def start_def ws_def split: if_splits)
  have start: "length start = nk" "\<forall>w \<in> set start. length w = 4"
    using chunks_props [of "to_word8 key" nk 4] len by (simp_all add: start_def to_word8_def)
  have ws: "length ws = (nk + 7) * 4" "\<forall>w \<in> set ws. length w = 4"
    using length_aes_expand [OF nk(1), of start "4 * (nk + 7) - nk" nk 1] start nk by (simp_all add: ws_def)
  have "length (concat c) = 16" if "c \<in> set (chunks (nk + 7) 4 ws)" for c
    using that chunks_props [of ws "nk + 7" 4] ws set_chunks [OF that] length_concat_const [of c 4]
    by (auto simp: subset_iff)
  moreover have "chunks (nk + 7) 4 ws \<noteq> []" using chunks_props [of ws "nk + 7" 4] ws by auto
  ultimately show ?thesis by (auto simp: round_keys_ok_def ks list_all_iff)
qed

lemma aes_new_cipher_defined: "length key \<in> {16, 32} \<Longrightarrow> \<exists>ks. aes_new_cipher key = Some ks"
  by (auto simp: aes_new_cipher_def)

lemma cbc_decrypt_encrypt:
  assumes "round_keys_ok ks"
  shows "length iv = 16 \<Longrightarrow> \<forall>b \<in> set bs. length b = 16 \<Longrightarrow> cbc_decrypt ks iv (cbc_encrypt ks iv bs) = bs"
  by (induction bs arbitrary: iv)
     (simp_all add: Let_def assms aes_decrypt_encrypt length_aes_encrypt_block map2_xor_cancel)

lemma length_cbc_encrypt:
  assumes "round_keys_ok ks"
  shows "length iv = 16 \<Longrightarrow> \<forall>b \<in> set bs. length b = 16 \<Longrightarrow> 
   length (cbc_encrypt ks iv bs) = length bs \<and> (\<forall>c \<in> set (cbc_encrypt ks iv bs). length c = 16)"
proof (induction bs arbitrary: iv)
  case (Cons b bs)
  let ?c = "aes_encrypt_block ks (map2 (XOR) b iv)"
  have "length ?c = 16" using Cons.prems by (simp add: assms length_aes_encrypt_block)
  with Cons.IH [of ?c] Cons.prems show ?case by (simp add: Let_def)
qed simp

lemma chunks_concat: "\<forall>c \<in> set cs. length c = n \<Longrightarrow> chunks (length cs) n (concat cs) = cs"
  by (induction cs) simp_all

lemma of_to_word8 [simp]: "of_word8 (to_word8 bs) = bs" 
  by (induction bs) (simp_all add: of_word8_def to_word8_def unat_of_nat)

lemma word8_bound: "unat (x :: word8) < 256"
  using unsigned_less [of x, where ?'a = nat] by simp

lemma to_of_word8 [simp]: "to_word8 (of_word8 ws) = ws"
  by (induction ws) (simp_all add: of_word8_def to_word8_def word8_bound)

lemma length_word8 [simp]: "length (of_word8 ws) = length ws" "length (to_word8 bs) = length bs"
  by (simp_all add: of_word8_def to_word8_def)

lemma crypt_blocks_inverse:
  assumes "round_keys_ok ks" "length iv = 16" "16 dvd length bs"
  shows "crypt_blocks (cbc_decrypt ks) iv (crypt_blocks (cbc_encrypt ks) iv bs) = bs" (is ?inv)
    and "length (crypt_blocks (cbc_encrypt ks) iv bs) = length bs" (is ?len)
proof -
  let ?cs = "chunks (length bs div 16) 16 (to_word8 bs)"
  let ?es = "cbc_encrypt ks (to_word8 iv) ?cs"
  have cs: "length ?cs = length bs div 16" "\<forall>c \<in> set ?cs. length c = 16" "concat ?cs = to_word8 bs"
    using chunks_props [of "to_word8 bs" "length bs div 16" 16] assms(3) by auto
  have es: "length ?es = length bs div 16" "\<forall>c \<in> set ?es. length c = 16"
    using length_cbc_encrypt [OF assms(1), of "to_word8 iv" ?cs] cs assms(2) by auto
  show ?len using es assms(3) by (simp add: crypt_blocks_def length_concat_const [of _ 16])
  then show ?inv
    using es cs assms chunks_concat [OF es(2)] cbc_decrypt_encrypt [OF assms(1), of "to_word8 iv" ?cs]
    unfolding crypt_blocks_def by simp
qed
end
