(* ===== verification/AccessControl.thy ===== *)
theory AccessControl
  imports GoTime GoJson GoCrypto
begin

text \<open>
  The read model of access-control events (\<open>internal/accesscontrol\<close>): the strict projection of a
  pushed event (\<open>Extract\<close>), the multipart form parts it may be wrapped in, the retained-event
  search (request, page and record) and the classification of a delivery picture. The parsers of
  MIME headers, multipart bodies, XML and JPEG are large library components; they are the fields
  of the record \<open>library\<close>, an argument of the definitions that call them.
\<close>

section \<open>Library components\<close>

datatype xml_token = XCharData string | XMarkup

text \<open>
  \<open>lib_read_mime_header\<close> is \<open>textproto.Reader.ReadMIMEHeader\<close>: the header with canonical keys and
  the unread rest. \<open>lib_multipart\<close> is the run of \<open>multipart.Reader.NextPart\<close> over a body with a
  boundary: the parts in order and whether the run ended with \<open>io.EOF\<close>; the content of a part is
  \<open>None\<close> when reading it fails. \<open>lib_xml_time\<close> is the decoding of the first XML element into a
  structure with the name \<open>Time\<close> and a \<open>localTime\<close> text (name space, local name, text) followed by
  the tokens after it and whether they end with \<open>io.EOF\<close>. \<open>lib_jpeg_config\<close> and \<open>lib_jpeg_decode\<close>
  are the two entry points of \<open>image/jpeg\<close>.
\<close>

record library =
  lib_read_mime_header :: "bytes \<Rightarrow> ((string \<times> string) list \<times> bytes) option"
  lib_multipart :: "string \<Rightarrow> bytes \<Rightarrow> ((string \<times> string) list \<times> bytes option) list \<times> bool"
  lib_xml_time :: "bytes \<Rightarrow> ((string \<times> string \<times> string) \<times> xml_token list \<times> bool) option"
  lib_jpeg_config :: "bytes \<Rightarrow> (int \<times> int) option"
  lib_jpeg_decode :: "bytes \<Rightarrow> bool"

section \<open>Categories\<close>

definition SchemaVersion :: int where "SchemaVersion = 3"
definition MajorAlarm :: int where "MajorAlarm = 1"
definition MajorException :: int where "MajorException = 2"
definition MajorOperation :: int where "MajorOperation = 3"
definition MajorEvent :: int where "MajorEvent = 5"

definition SubtypeLabel :: "int \<Rightarrow> int \<Rightarrow> string option" where
  "SubtypeLabel major subtype =
     (if major = MajorEvent \<and> subtype = 75 then Some ''Face Authentication Completed'' else None)"

definition MajorEventTypeForCategory :: "string \<Rightarrow> int option" where
  "MajorEventTypeForCategory category =
     (if category = ''alarm'' then Some MajorAlarm
      else if category = ''exception'' then Some MajorException
      else if category = ''operation'' then Some MajorOperation
      else if category = ''event'' then Some MajorEvent
      else None)"

definition CategoryForMajorEventType :: "int \<Rightarrow> string option" where
  "CategoryForMajorEventType major =
     (if major = MajorAlarm then Some ''alarm''
      else if major = MajorException then Some ''exception''
      else if major = MajorOperation then Some ''operation''
      else if major = MajorEvent then Some ''event''
      else None)"

section \<open>Projections\<close>

record FaceRect =
  fr_Height :: "string option"
  fr_Width :: "string option"
  fr_X :: "string option"
  fr_Y :: "string option"

record Projection =
  pr_MajorEventType :: int
  pr_SubEventType :: int
  pr_EventDescription :: "string option"
  pr_EventState :: "string option"
  pr_OccurredAt :: "go_time option"
  pr_SourceMACAddress :: "string option"
  pr_ChannelID :: "int option"
  pr_ActivePostCount :: "int option"
  pr_ShortSerialNumber :: "string option"
  pr_DeviceName :: "string option"
  pr_EmployeeNumber :: "string option"
  pr_EmployeeName :: "string option"
  pr_CardNumber :: "string option"
  pr_CardReaderNumber :: "int option"
  pr_DoorNumber :: "int option"
  pr_EventSerialNumber :: "int option"
  pr_FrontSerialNumber :: "int option"
  pr_UserType :: "string option"
  pr_CurrentVerifyMode :: "string option"
  pr_CurrentEvent :: "bool option"
  pr_Mask :: "string option"
  pr_PicturesNumber :: "int option"
  pr_PurePwdVerifyEnable :: "bool option"
  pr_FaceRect :: "FaceRect option"
  pr_SourceIPAddress :: "string option"

section \<open>The pushed event document\<close>

text \<open>
  A pointer to a structure: \<open>null\<close> gives nil; an object is decoded into what the pointer already
  points to, or into a new zero value.
\<close>

definition json_ptr_struct ::
    "(string \<Rightarrow> string \<Rightarrow> json \<Rightarrow> 's \<Rightarrow> 's option) \<Rightarrow> 's \<Rightarrow> 's option \<Rightarrow> json \<Rightarrow> 's option option" where
  "json_ptr_struct field zero old v =
     (if v = JNull then Some None
      else map_option Some (json_struct field v (case old of None \<Rightarrow> zero | Some s \<Rightarrow> s)))"

record faceRect =
  fc_Height :: "string option"
  fc_Width :: "string option"
  fc_X :: "string option"
  fc_Y :: "string option"

definition zero_faceRect :: faceRect where
  "zero_faceRect = \<lparr> fc_Height = None,
     fc_Width = None,
     fc_X = None,
     fc_Y = None \<rparr>"

definition faceRect_field :: "string \<Rightarrow> string \<Rightarrow> json \<Rightarrow> faceRect \<Rightarrow> faceRect option" where
  "faceRect_field key raw v f =
     (if is_field ''height'' key then map_option (\<lambda>x. f\<lparr>fc_Height := x\<rparr>) (json_ptr json_number v)
      else if is_field ''width'' key then map_option (\<lambda>x. f\<lparr>fc_Width := x\<rparr>) (json_ptr json_number v)
      else if is_field ''x'' key then map_option (\<lambda>x. f\<lparr>fc_X := x\<rparr>) (json_ptr json_number v)
      else if is_field ''y'' key then map_option (\<lambda>x. f\<lparr>fc_Y := x\<rparr>) (json_ptr json_number v)
      else Some f)"

record accessControllerEvent =
  ac_DeviceName :: "string option"
  ac_MajorEventType :: "int option"
  ac_SubEventType :: "int option"
  ac_CardNo :: "string option"
  ac_Name :: "string option"
  ac_EmployeeNoString :: "string option"
  ac_CardReaderNo :: "int option"
  ac_DoorNo :: "int option"
  ac_SerialNo :: "int option"
  ac_FrontSerialNo :: "int option"
  ac_UserType :: "string option"
  ac_CurrentVerifyMode :: "string option"
  ac_CurrentEvent :: "bool option"
  ac_Mask :: "string option"
  ac_PicturesNumber :: "int option"
  ac_PurePwdVerifyEnable :: "bool option"
  ac_FaceRect :: "faceRect option"

definition zero_accessControllerEvent :: accessControllerEvent where
  "zero_accessControllerEvent = \<lparr> ac_DeviceName = None,
     ac_MajorEventType = None,
     ac_SubEventType = None,
     ac_CardNo = None,
     ac_Name = None,
     ac_EmployeeNoString = None,
     ac_CardReaderNo = None,
     ac_DoorNo = None,
     ac_SerialNo = None,
     ac_FrontSerialNo = None,
     ac_UserType = None,
     ac_CurrentVerifyMode = None,
     ac_CurrentEvent = None,
     ac_Mask = None,
     ac_PicturesNumber = None,
     ac_PurePwdVerifyEnable = None,
     ac_FaceRect = None \<rparr>"

definition accessControllerEvent_field :: "string \<Rightarrow> string \<Rightarrow> json \<Rightarrow> accessControllerEvent \<Rightarrow> accessControllerEvent option" where
  "accessControllerEvent_field key raw v a =
     (if is_field ''deviceName'' key then map_option (\<lambda>x. a\<lparr>ac_DeviceName := x\<rparr>) (json_ptr json_string v)
      else if is_field ''majorEventType'' key then map_option (\<lambda>x. a\<lparr>ac_MajorEventType := x\<rparr>) (json_ptr json_int v)
      else if is_field ''subEventType'' key then map_option (\<lambda>x. a\<lparr>ac_SubEventType := x\<rparr>) (json_ptr json_int v)
      else if is_field ''cardNo'' key then map_option (\<lambda>x. a\<lparr>ac_CardNo := x\<rparr>) (json_ptr json_string v)
      else if is_field ''name'' key then map_option (\<lambda>x. a\<lparr>ac_Name := x\<rparr>) (json_ptr json_string v)
      else if is_field ''employeeNoString'' key then map_option (\<lambda>x. a\<lparr>ac_EmployeeNoString := x\<rparr>) (json_ptr json_string v)
      else if is_field ''cardReaderNo'' key then map_option (\<lambda>x. a\<lparr>ac_CardReaderNo := x\<rparr>) (json_ptr json_int v)
      else if is_field ''doorNo'' key then map_option (\<lambda>x. a\<lparr>ac_DoorNo := x\<rparr>) (json_ptr json_int v)
      else if is_field ''serialNo'' key then map_option (\<lambda>x. a\<lparr>ac_SerialNo := x\<rparr>) (json_ptr json_int v)
      else if is_field ''frontSerialNo'' key then map_option (\<lambda>x. a\<lparr>ac_FrontSerialNo := x\<rparr>) (json_ptr json_int v)
      else if is_field ''userType'' key then map_option (\<lambda>x. a\<lparr>ac_UserType := x\<rparr>) (json_ptr json_string v)
      else if is_field ''currentVerifyMode'' key then map_option (\<lambda>x. a\<lparr>ac_CurrentVerifyMode := x\<rparr>) (json_ptr json_string v)
      else if is_field ''currentEvent'' key then map_option (\<lambda>x. a\<lparr>ac_CurrentEvent := x\<rparr>) (json_ptr json_bool v)
      else if is_field ''mask'' key then map_option (\<lambda>x. a\<lparr>ac_Mask := x\<rparr>) (json_ptr json_string v)
      else if is_field ''picturesNumber'' key then map_option (\<lambda>x. a\<lparr>ac_PicturesNumber := x\<rparr>) (json_ptr json_int v)
      else if is_field ''purePwdVerifyEnable'' key then map_option (\<lambda>x. a\<lparr>ac_PurePwdVerifyEnable := x\<rparr>) (json_ptr json_bool v)
      else if is_field ''FaceRect'' key then map_option (\<lambda>x. a\<lparr>ac_FaceRect := x\<rparr>) (json_ptr_struct faceRect_field zero_faceRect (ac_FaceRect a) v)
      else Some a)"

record eventDocument =
  ed_EventType :: string
  ed_EventDescription :: "string option"
  ed_EventState :: "string option"
  ed_DateTime :: "string option"
  ed_IPAddress :: "string option"
  ed_MACAddress :: "string option"
  ed_ChannelID :: "int option"
  ed_ActivePostCount :: "int option"
  ed_ShortSerialNumber :: "string option"
  ed_AccessControllerEvent :: "accessControllerEvent option"

definition zero_eventDocument :: eventDocument where
  "zero_eventDocument = \<lparr> ed_EventType = [],
     ed_EventDescription = None,
     ed_EventState = None,
     ed_DateTime = None,
     ed_IPAddress = None,
     ed_MACAddress = None,
     ed_ChannelID = None,
     ed_ActivePostCount = None,
     ed_ShortSerialNumber = None,
     ed_AccessControllerEvent = None \<rparr>"

definition eventDocument_field :: "string \<Rightarrow> string \<Rightarrow> json \<Rightarrow> eventDocument \<Rightarrow> eventDocument option" where
  "eventDocument_field key raw v d =
     (if is_field ''eventType'' key then map_option (\<lambda>x. d\<lparr>ed_EventType := x\<rparr>) (json_val json_string (ed_EventType d) v)
      else if is_field ''eventDescription'' key then map_option (\<lambda>x. d\<lparr>ed_EventDescription := x\<rparr>) (json_ptr json_string v)
      else if is_field ''eventState'' key then map_option (\<lambda>x. d\<lparr>ed_EventState := x\<rparr>) (json_ptr json_string v)
      else if is_field ''dateTime'' key then map_option (\<lambda>x. d\<lparr>ed_DateTime := x\<rparr>) (json_ptr json_string v)
      else if is_field ''ipAddress'' key then map_option (\<lambda>x. d\<lparr>ed_IPAddress := x\<rparr>) (json_ptr json_string v)
      else if is_field ''macAddress'' key then map_option (\<lambda>x. d\<lparr>ed_MACAddress := x\<rparr>) (json_ptr json_string v)
      else if is_field ''channelID'' key then map_option (\<lambda>x. d\<lparr>ed_ChannelID := x\<rparr>) (json_ptr json_int v)
      else if is_field ''activePostCount'' key then map_option (\<lambda>x. d\<lparr>ed_ActivePostCount := x\<rparr>) (json_ptr json_int v)
      else if is_field ''shortSerialNumber'' key then map_option (\<lambda>x. d\<lparr>ed_ShortSerialNumber := x\<rparr>) (json_ptr json_string v)
      else if is_field ''AccessControllerEvent'' key then map_option (\<lambda>x. d\<lparr>ed_AccessControllerEvent := x\<rparr>) (json_ptr_struct accessControllerEvent_field zero_accessControllerEvent (ed_AccessControllerEvent d) v)
      else Some d)"

definition projectFaceRect :: "faceRect option \<Rightarrow> FaceRect option" where
  "projectFaceRect source =
     map_option (\<lambda>f. \<lparr> fr_Height = fc_Height f, fr_Width = fc_Width f, fr_X = fc_X f, fr_Y = fc_Y f \<rparr>) source"

section \<open>Multipart form parts\<close>

record multipartFormPart =
  mp_name :: string
  mp_fileName :: string
  mp_contentID :: string
  mp_mediaType :: string
  mp_data :: bytes

text \<open>\<open>Header.Get\<close>: the first value under a key, empty when there is none.\<close>

definition header_get :: "(string \<times> string) list \<Rightarrow> string \<Rightarrow> string" where
  "header_get hs key = (case map_of hs key of Some v \<Rightarrow> v | None \<Rightarrow> [])"

definition form_part :: "(string \<times> string) list \<times> bytes option \<Rightarrow> multipartFormPart option" where
  "form_part p =
     (case parse_media_type (header_get (fst p) ''Content-Disposition'') of
        None \<Rightarrow> None
      | Some (disposition, parameters) \<Rightarrow>
          if disposition \<noteq> ''form-data'' \<or> header_get parameters ''name'' = [] then None
          else (case parse_media_type (header_get (fst p) ''Content-Type'') of
                  None \<Rightarrow> None
                | Some (mediaType, _) \<Rightarrow>
                    map_option (\<lambda>dat. \<lparr> mp_name = header_get parameters ''name'',
                        mp_fileName = header_get parameters ''filename'',
                        mp_contentID = header_get (fst p) ''Content-Id'',
                        mp_mediaType = mediaType, mp_data = dat \<rparr>) (snd p)))"

definition multipartFormParts :: "library \<Rightarrow> bytes \<Rightarrow> multipartFormPart list option" where
  "multipartFormParts L payload =
     (case lib_read_mime_header L payload of
        None \<Rightarrow> None
      | Some (header, rest) \<Rightarrow>
          (case parse_media_type (header_get header ''Content-Type'') of
             None \<Rightarrow> None
           | Some (mediaType, parameters) \<Rightarrow>
               if mediaType \<noteq> ''multipart/form-data'' \<or> header_get parameters ''boundary'' = [] then None
               else let (parts, eof) = lib_multipart L (header_get parameters ''boundary'') rest;
                        formed = map form_part parts
                    in if \<not> eof \<or> None \<in> set formed then None else Some (map the formed)))"

text \<open>Exactly one part named \<open>AccessControllerEvent\<close>, and that one JSON.\<close>

definition accessControllerEventPart :: "library \<Rightarrow> bytes \<Rightarrow> bytes option" where
  "accessControllerEventPart L payload =
     (case multipartFormParts L payload of
        None \<Rightarrow> None
      | Some parts \<Rightarrow>
          (case filter (\<lambda>p. mp_name p = ''AccessControllerEvent'') parts of
             [p] \<Rightarrow> if mp_mediaType p = ''application/json'' then Some (mp_data p) else None
           | _ \<Rightarrow> None))"

section \<open>Extraction\<close>

definition event_payload :: "library \<Rightarrow> string \<Rightarrow> string \<Rightarrow> bytes option" where
  "event_payload L dataFormat payloadBase64 =
     (case b64_decode payloadBase64 of
        None \<Rightarrow> None
      | Some payload \<Rightarrow>
          if dataFormat = ''boundaryData'' then accessControllerEventPart L payload
          else if dataFormat = ''jsonData'' then Some payload
          else None)"

text \<open>A declared time must parse; an absent one stays absent.\<close>

definition parse_optional_time :: "string option \<Rightarrow> go_time option option" where
  "parse_optional_time t = (case t of None \<Rightarrow> Some None | Some s \<Rightarrow> map_option Some (parse_rfc3339 s))"

definition projection_of :: "eventDocument \<Rightarrow> accessControllerEvent \<Rightarrow> int \<Rightarrow> int \<Rightarrow> go_time option \<Rightarrow> Projection" where
  "projection_of document access major subtype occurredAt =
     \<lparr> pr_MajorEventType = major, pr_SubEventType = subtype,
       pr_EventDescription = ed_EventDescription document, pr_EventState = ed_EventState document,
       pr_OccurredAt = occurredAt, pr_SourceMACAddress = ed_MACAddress document,
       pr_ChannelID = ed_ChannelID document, pr_ActivePostCount = ed_ActivePostCount document,
       pr_ShortSerialNumber = ed_ShortSerialNumber document, pr_DeviceName = ac_DeviceName access,
       pr_EmployeeNumber = ac_EmployeeNoString access, pr_EmployeeName = ac_Name access,
       pr_CardNumber = ac_CardNo access, pr_CardReaderNumber = ac_CardReaderNo access,
       pr_DoorNumber = ac_DoorNo access, pr_EventSerialNumber = ac_SerialNo access,
       pr_FrontSerialNumber = ac_FrontSerialNo access, pr_UserType = ac_UserType access,
       pr_CurrentVerifyMode = ac_CurrentVerifyMode access, pr_CurrentEvent = ac_CurrentEvent access,
       pr_Mask = ac_Mask access, pr_PicturesNumber = ac_PicturesNumber access,
       pr_PurePwdVerifyEnable = ac_PurePwdVerifyEnable access,
       pr_FaceRect = projectFaceRect (ac_FaceRect access),
       pr_SourceIPAddress = ed_IPAddress document \<rparr>"

definition Extract :: "library \<Rightarrow> string \<Rightarrow> string \<Rightarrow> Projection option" where
  "Extract L dataFormat payloadBase64 =
     obind (event_payload L dataFormat payloadBase64) (\<lambda>payload.
     obind (decode_document (json_struct eventDocument_field) zero_eventDocument payload) (\<lambda>document.
     obind (if ed_EventType document = ''AccessControllerEvent''
            then ed_AccessControllerEvent document else None) (\<lambda>access.
     obind (ac_MajorEventType access) (\<lambda>major.
     obind (ac_SubEventType access) (\<lambda>subtype.
       if major < 1 \<or> major > 5 \<or> subtype < 0 then None
       else map_option (projection_of document access major subtype)
              (parse_optional_time (ed_DateTime document)))))))"

section \<open>Pictures\<close>

definition MaxPictureBytes :: nat where "MaxPictureBytes = 5 * 1024 * 1024"

record Attachment =
  at_ContentType :: string
  at_ByteSize :: int
  at_SHA256 :: string
  at_DataBase64 :: string

text \<open>The parts named \<open>Picture\<close>: the data of the only one, refused when it is not a named JPEG.\<close>

definition picture_part :: "multipartFormPart list \<Rightarrow> (bytes option) option" where
  "picture_part parts =
     (case filter (\<lambda>p. mp_name p = ''Picture'') parts of
        [] \<Rightarrow> Some None
      | [p] \<Rightarrow> if mp_mediaType p \<noteq> ''image/jpeg'' \<or> mp_fileName p = [] \<or> mp_data p = [] then None
               else Some (Some (mp_data p))
      | _ \<Rightarrow> None)"

definition jpeg_ok :: "library \<Rightarrow> bytes \<Rightarrow> bool" where
  "jpeg_ok L raw \<longleftrightarrow>
     (case lib_jpeg_config L raw of
        None \<Rightarrow> False
      | Some (w, h) \<Rightarrow> w > 0 \<and> h > 0 \<and> w * h \<le> 40000000 \<and> lib_jpeg_decode L raw)"

datatype picture = Unavailable string | NotProvided | Available Attachment

definition classify_picture :: "library \<Rightarrow> int option \<Rightarrow> bytes option \<Rightarrow> picture" where
  "classify_picture L picture_count raw =
     (case raw of
        None \<Rightarrow> (case picture_count of
                   Some n \<Rightarrow> if n > 0 then Unavailable ''missing_picture'' else NotProvided
                 | None \<Rightarrow> NotProvided)
      | Some dat \<Rightarrow>
          if picture_count = Some 0 then Unavailable ''invalid_picture''
          else if length dat > MaxPictureBytes then Unavailable ''picture_too_large''
          else if \<not> jpeg_ok L dat then Unavailable ''invalid_jpeg''
          else Available \<lparr> at_ContentType = ''image/jpeg'', at_ByteSize = int (length dat),
                 at_SHA256 = hex_encode (sha256 dat), at_DataBase64 = b64_encode dat \<rparr>)"

definition DeliveryPicture :: "library \<Rightarrow> string \<Rightarrow> string \<Rightarrow> picture" where
  "DeliveryPicture L format payload =
     (case Extract L format payload of
        None \<Rightarrow> Unavailable ''invalid_multipart''
      | Some projection \<Rightarrow>
          let picture_count = pr_PicturesNumber projection
          in if (case picture_count of Some n \<Rightarrow> n < 0 \<or> n > 1 | None \<Rightarrow> False)
             then Unavailable ''unsupported_picture_count''
             else if format = ''boundaryData'' then
               (case obind (b64_decode payload) (multipartFormParts L) of
                  None \<Rightarrow> Unavailable ''invalid_multipart''
                | Some parts \<Rightarrow>
                    (case picture_part parts of
                       None \<Rightarrow> Unavailable ''invalid_picture''
                     | Some raw \<Rightarrow> classify_picture L picture_count raw))
             else classify_picture L picture_count None)"

text \<open>The picture shown with a payload: the only form part named \<open>Picture\<close>, as it was sent.\<close>

record Picture =
  pc_ContentType :: string
  pc_FileName :: string
  pc_ContentID :: string
  pc_DataBase64 :: string

definition ExtractPicture :: "library \<Rightarrow> string \<Rightarrow> string \<Rightarrow> Picture option" where
  "ExtractPicture L dataFormat payloadBase64 =
     (if dataFormat \<noteq> ''boundaryData'' then None
      else obind (obind (b64_decode payloadBase64) (multipartFormParts L)) (\<lambda>parts.
        case filter (\<lambda>p. mp_name p = ''Picture'') parts of
          [p] \<Rightarrow> if mp_mediaType p \<noteq> ''image/jpeg'' \<or> mp_fileName p = [] then None
                 else Some \<lparr> pc_ContentType = mp_mediaType p, pc_FileName = mp_fileName p, pc_ContentID = mp_contentID p,
                   pc_DataBase64 = b64_encode (mp_data p) \<rparr>
        | _ \<Rightarrow> None))"

section \<open>Retained events\<close>

definition RetainedEventSearchURL :: string where
  "RetainedEventSearchURL = ''/ISAPI/AccessControl/AcsEvent?format=json''"

definition RetainedEventPageSize :: int where "RetainedEventPageSize = 30"

definition retained_history_start :: "int \<Rightarrow> go_time" where
  "retained_history_start offset = go_date 2000 1 1 0 0 0 0 offset"

definition NewRetainedEventSearchRequest :: "string \<Rightarrow> int \<Rightarrow> go_time \<Rightarrow> bytes result" where
  "NewRetainedEventSearchRequest searchID position terminalNow =
     bindE (guardE (searchID \<noteq> [] \<and> length searchID \<le> 64)
              (ErrNew ''retained event search ID must contain 1..64 bytes'')) (\<lambda>_.
     bindE (guardE (0 \<le> position \<and> position \<le> 150000)
              (ErrNew ''retained event search position must be 0..150000'')) (\<lambda>_.
     bindE (guardE (\<not> go_is_zero terminalNow) (ErrNew ''terminal time is required'')) (\<lambda>_.
     let start = retained_history_start (gt_offset terminalNow)
     in bindE (guardE (gt_instant terminalNow > gt_instant start)
                 (ErrNew ''terminal time precedes the supported retained-event range'')) (\<lambda>_.
        Inr (json_object [(''AcsEventCond'', json_object
          [(''searchID'', json_quote searchID), (''searchResultPosition'', itoa position),
           (''maxResults'', itoa RetainedEventPageSize), (''major'', itoa 0), (''minor'', itoa 0),
           (''startTime'', json_quote (format_rfc3339 start)),
           (''endTime'', json_quote (format_rfc3339 terminalNow)),
           (''timeReverseOrder'', json_encode_bool True)])])))))"

definition isapi_namespace :: string where
  "isapi_namespace = ''http://www.isapi.org/ver20/XMLSchema''"

definition blank_token :: "xml_token \<Rightarrow> bool" where
  "blank_token tok \<longleftrightarrow> (case tok of XCharData s \<Rightarrow> is_blank s | XMarkup \<Rightarrow> False)"

definition ParseTerminalTime :: "library \<Rightarrow> bytes \<Rightarrow> go_time result" where
  "ParseTerminalTime L source =
     bindE (someE (ErrNew ''decode System/time XML'') (lib_xml_time L source)) (\<lambda>((ns, local, localTime), toks, eof).
     bindE (guardE (ns = isapi_namespace \<and> local = ''Time'')
              (ErrNew ''System/time XML root is not the documented Time element'')) (\<lambda>_.
     bindE (guardE (list_all blank_token toks) (ErrNew ''System/time XML contains trailing content'')) (\<lambda>_.
     bindE (guardE eof (ErrNew ''read after System/time XML'')) (\<lambda>_.
     bindE (guardE (localTime \<noteq> []) (ErrNew ''System/time XML omits localTime'')) (\<lambda>_.
       someE (ErrNew ''parse terminal localTime'') (parse_rfc3339 localTime))))))"

record RetainedEventPage =
  rp_SearchID :: string
  rp_ResponseStatus :: string
  rp_NumOfMatches :: int
  rp_TotalMatches :: int
  rp_InfoList :: "string list"

record acsEventResult =
  ar_SearchID :: "string option"
  ar_ResponseStatus :: "string option"
  ar_NumOfMatches :: "int option"
  ar_TotalMatches :: "int option"
  ar_InfoList :: "string list"

definition zero_acsEventResult :: acsEventResult where
  "zero_acsEventResult = \<lparr> ar_SearchID = None, ar_ResponseStatus = None, ar_NumOfMatches = None,
     ar_TotalMatches = None, ar_InfoList = [] \<rparr>"

text \<open>A slice of raw messages keeps the source text of every element.\<close>

definition json_raw_list :: "json \<Rightarrow> string list option" where
  "json_raw_list v = (case v of JNull \<Rightarrow> Some [] | JArr es \<Rightarrow> Some (map fst es) | _ \<Rightarrow> None)"

definition acsEventResult_field :: "string \<Rightarrow> string \<Rightarrow> json \<Rightarrow> acsEventResult \<Rightarrow> acsEventResult option" where
  "acsEventResult_field key raw v a =
     (if is_field ''searchID'' key then map_option (\<lambda>x. a\<lparr>ar_SearchID := x\<rparr>) (json_ptr json_string v)
      else if is_field ''responseStatusStrg'' key then
        map_option (\<lambda>x. a\<lparr>ar_ResponseStatus := x\<rparr>) (json_ptr json_string v)
      else if is_field ''numOfMatches'' key then
        map_option (\<lambda>x. a\<lparr>ar_NumOfMatches := x\<rparr>) (json_ptr json_int v)
      else if is_field ''totalMatches'' key then
        map_option (\<lambda>x. a\<lparr>ar_TotalMatches := x\<rparr>) (json_ptr json_int v)
      else if is_field ''InfoList'' key then map_option (\<lambda>x. a\<lparr>ar_InfoList := x\<rparr>) (json_raw_list v)
      else Some a)"

definition retainedEventPageDocument_field ::
    "string \<Rightarrow> string \<Rightarrow> json \<Rightarrow> acsEventResult option \<Rightarrow> acsEventResult option option" where
  "retainedEventPageDocument_field key raw v d =
     (if is_field ''AcsEvent'' key then json_ptr_struct acsEventResult_field zero_acsEventResult d v
      else Some d)"

definition page_status_check :: "RetainedEventPage \<Rightarrow> unit result" where
  "page_status_check page =
     (if rp_ResponseStatus page = ''MORE'' \<or> rp_ResponseStatus page = ''OK'' then
        guardE (rp_NumOfMatches page = int (length (rp_InfoList page)))
          (ErrNew ''AcsEvent result numOfMatches does not equal InfoList length'')
      else if rp_ResponseStatus page = ''NO MATCH'' then
        guardE (rp_NumOfMatches page = 0 \<and> rp_TotalMatches page = 0 \<and> rp_InfoList page = [])
          (ErrNew ''AcsEvent NO MATCH result has records or a non-zero count'')
      else Inl (ErrNew ''AcsEvent result has unsupported responseStatusStrg''))"

definition page_of_result :: "acsEventResult option \<Rightarrow> RetainedEventPage option" where
  "page_of_result document =
     obind document (\<lambda>a.
     obind (ar_SearchID a) (\<lambda>sid.
     obind (ar_ResponseStatus a) (\<lambda>st.
     obind (ar_NumOfMatches a) (\<lambda>num.
     obind (ar_TotalMatches a) (\<lambda>total.
       Some \<lparr> rp_SearchID = sid, rp_ResponseStatus = st, rp_NumOfMatches = num,
              rp_TotalMatches = total, rp_InfoList = ar_InfoList a \<rparr>)))))"

definition ParseRetainedEventPage :: "bytes \<Rightarrow> RetainedEventPage result" where
  "ParseRetainedEventPage source =
     bindE (someE (ErrNew ''decode AcsEvent result'') (json_first source)) (\<lambda>(v, rest).
     bindE (someE (ErrNew ''decode AcsEvent result'')
              (json_struct retainedEventPageDocument_field v None)) (\<lambda>document.
     bindE (guardE (json_eof rest) (ErrNew ''JSON document contains trailing value'')) (\<lambda>_.
     bindE (someE (ErrNew ''AcsEvent result omits a required pagination field'') (page_of_result document)) (\<lambda>page.
     bindE (guardE (rp_SearchID page \<noteq> [] \<and> length (rp_SearchID page) \<le> 64)
              (ErrNew ''AcsEvent result has an invalid searchID'')) (\<lambda>_.
     bindE (guardE (0 \<le> rp_NumOfMatches page \<and> rp_NumOfMatches page \<le> RetainedEventPageSize \<and>
                    0 \<le> rp_TotalMatches page \<and> rp_TotalMatches page \<le> 150000)
              (ErrNew ''AcsEvent result has an out-of-range pagination count'')) (\<lambda>_.
     bindE (page_status_check page) (\<lambda>_. Inr page)))))))"

record retainedRecord =
  re_Major :: "int option"
  re_Minor :: "int option"
  re_Time :: "string option"
  re_CardNo :: "string option"
  re_Name :: "string option"
  re_EmployeeNoString :: "string option"
  re_CardReaderNo :: "int option"
  re_DoorNo :: "int option"
  re_SerialNo :: "int option"
  re_UserType :: "string option"
  re_CurrentVerifyMode :: "string option"
  re_Mask :: "string option"
  re_FaceRect :: "faceRect option"

definition zero_retainedRecord :: retainedRecord where
  "zero_retainedRecord = \<lparr> re_Major = None,
     re_Minor = None,
     re_Time = None,
     re_CardNo = None,
     re_Name = None,
     re_EmployeeNoString = None,
     re_CardReaderNo = None,
     re_DoorNo = None,
     re_SerialNo = None,
     re_UserType = None,
     re_CurrentVerifyMode = None,
     re_Mask = None,
     re_FaceRect = None \<rparr>"

definition retainedRecord_field :: "string \<Rightarrow> string \<Rightarrow> json \<Rightarrow> retainedRecord \<Rightarrow> retainedRecord option" where
  "retainedRecord_field key raw v r =
     (if is_field ''major'' key then map_option (\<lambda>x. r\<lparr>re_Major := x\<rparr>) (json_ptr json_int v)
      else if is_field ''minor'' key then map_option (\<lambda>x. r\<lparr>re_Minor := x\<rparr>) (json_ptr json_int v)
      else if is_field ''time'' key then map_option (\<lambda>x. r\<lparr>re_Time := x\<rparr>) (json_ptr json_string v)
      else if is_field ''cardNo'' key then map_option (\<lambda>x. r\<lparr>re_CardNo := x\<rparr>) (json_ptr json_string v)
      else if is_field ''name'' key then map_option (\<lambda>x. r\<lparr>re_Name := x\<rparr>) (json_ptr json_string v)
      else if is_field ''employeeNoString'' key then map_option (\<lambda>x. r\<lparr>re_EmployeeNoString := x\<rparr>) (json_ptr json_string v)
      else if is_field ''cardReaderNo'' key then map_option (\<lambda>x. r\<lparr>re_CardReaderNo := x\<rparr>) (json_ptr json_int v)
      else if is_field ''doorNo'' key then map_option (\<lambda>x. r\<lparr>re_DoorNo := x\<rparr>) (json_ptr json_int v)
      else if is_field ''serialNo'' key then map_option (\<lambda>x. r\<lparr>re_SerialNo := x\<rparr>) (json_ptr json_int v)
      else if is_field ''userType'' key then map_option (\<lambda>x. r\<lparr>re_UserType := x\<rparr>) (json_ptr json_string v)
      else if is_field ''currentVerifyMode'' key then map_option (\<lambda>x. r\<lparr>re_CurrentVerifyMode := x\<rparr>) (json_ptr json_string v)
      else if is_field ''mask'' key then map_option (\<lambda>x. r\<lparr>re_Mask := x\<rparr>) (json_ptr json_string v)
      else if is_field ''FaceRect'' key then map_option (\<lambda>x. r\<lparr>re_FaceRect := x\<rparr>) (json_ptr_struct faceRect_field zero_faceRect (re_FaceRect r) v)
      else Some r)"

definition retained_projection :: "retainedRecord \<Rightarrow> int \<Rightarrow> int \<Rightarrow> go_time \<Rightarrow> Projection" where
  "retained_projection r major minor occurredAt =
     \<lparr> pr_MajorEventType = major, pr_SubEventType = minor,
       pr_EventDescription = None, pr_EventState = None,
       pr_OccurredAt = Some occurredAt, pr_SourceMACAddress = None,
       pr_ChannelID = None, pr_ActivePostCount = None,
       pr_ShortSerialNumber = None, pr_DeviceName = None,
       pr_EmployeeNumber = re_EmployeeNoString r, pr_EmployeeName = re_Name r,
       pr_CardNumber = re_CardNo r, pr_CardReaderNumber = re_CardReaderNo r,
       pr_DoorNumber = re_DoorNo r, pr_EventSerialNumber = re_SerialNo r,
       pr_FrontSerialNumber = None, pr_UserType = re_UserType r,
       pr_CurrentVerifyMode = re_CurrentVerifyMode r, pr_CurrentEvent = None,
       pr_Mask = re_Mask r, pr_PicturesNumber = None, pr_PurePwdVerifyEnable = None,
       pr_FaceRect = projectFaceRect (re_FaceRect r), pr_SourceIPAddress = None \<rparr>"

definition ExtractRetainedEvent :: "string \<Rightarrow> Projection result" where
  "ExtractRetainedEvent source =
     bindE (someE (ErrNew ''decode retained AcsEvent record'')
              (decode_document (json_struct retainedRecord_field) zero_retainedRecord source)) (\<lambda>r.
     case (re_Major r, re_Minor r, re_Time r) of
       (Some major, Some minor, Some t) \<Rightarrow>
         bindE (guardE (1 \<le> major \<and> major \<le> 5 \<and> 0 \<le> minor)
                  (ErrNew ''retained AcsEvent record has invalid major or minor code'')) (\<lambda>_.
         bindE (someE (ErrNew ''parse retained AcsEvent time'') (parse_rfc3339 t)) (\<lambda>occurredAt.
           Inr (retained_projection r major minor occurredAt)))
     | _ \<Rightarrow> Inl (ErrNew ''retained AcsEvent record omits major, minor, or time''))"

end
