(* ===== verification/Config.thy ===== *)
theory Config
  imports GoJson GoCrypto
begin

text \<open>
  The gateway's configuration (\<open>internal/config/config.go\<close>): the environment and the terminals
  file are read into a \<open>Config\<close>, \<open>Validate\<close> refuses every configuration the protocol code does
  not expect, and a terminal's fingerprints identify its credentials and its whole protocol
  contract. The process environment and the file system are arguments of \<open>Load\<close>; the duration
  parser and the boolean parser of the standard library are written out.
\<close>

section \<open>Data\<close>

record Terminal =
  SerialNumber :: string
  PushSDKSerial :: string
  Username :: string
  PasswordEnvironmentVariable :: string
  Password :: string
  LoginPasswordDigest :: string
  SecurityVersion :: int
  CommandIntervalSeconds :: int
  ErrorDelaySeconds :: int

record Config =
  ListenAddress :: string
  DatabaseURL :: string
  TerminalsFile :: string
  AdminUsername :: string
  AdminPassword :: string
  CookieSecure :: bool
  SessionTTL :: int
  WebDir :: string
  MigrationsDir :: string
  MetricsCIDRs :: "string list"
  Terminals :: "Terminal list"
  DeliverySigningKeys :: "(string \<times> string) list"

definition zero_terminal :: Terminal where
  "zero_terminal = \<lparr> SerialNumber = [], PushSDKSerial = [], Username = [],
     PasswordEnvironmentVariable = [], Password = [], LoginPasswordDigest = [], SecurityVersion = 0,
     CommandIntervalSeconds = 0, ErrorDelaySeconds = 0 \<rparr>"

definition zero_config :: Config where
  "zero_config = \<lparr> ListenAddress = [], DatabaseURL = [], TerminalsFile = [], AdminUsername = [],
     AdminPassword = [], CookieSecure = False, SessionTTL = 0, WebDir = [], MigrationsDir = [],
     MetricsCIDRs = [], Terminals = [], DeliverySigningKeys = [] \<rparr>"

section \<open>Regular expressions\<close>

definition environmentVariableName :: "string \<Rightarrow> bool" where
  "environmentVariableName s \<longleftrightarrow>
     (case s of
        [] \<Rightarrow> False
      | c # r \<Rightarrow> is_upper c \<and> list_all (\<lambda>d. is_upper d \<or> is_digit d \<or> d = CHR ''_'') r)"

definition signing_key_id :: "string \<Rightarrow> bool" where
  "signing_key_id = matches_class (\<lambda>c. is_alnum c \<or> c = CHR ''_'' \<or> c = CHR ''-'') 1 64"

definition lowerHex64 :: "string \<Rightarrow> bool" where
  "lowerHex64 = matches_class is_lower_hex 64 64"

section \<open>Validation\<close>

text \<open>
  The five required texts of a terminal. Go visits the map that lists them in an unspecified
  order; the order here is the order in which the source writes them.
\<close>

definition required_fields :: "Terminal \<Rightarrow> (string \<times> string) list" where
  "required_fields t =
     [(''serialNumber'', SerialNumber t), (''pushSdkSerial'', PushSDKSerial t),
      (''username'', Username t), (''passwordEnvironmentVariable'', PasswordEnvironmentVariable t),
      (''loginPasswordDigest'', LoginPasswordDigest t)]"

definition require_nonblank :: "string \<Rightarrow> string \<times> string \<Rightarrow> unit \<Rightarrow> unit result" where
  "require_nonblank prefix f u = guardE (\<not> is_blank (snd f)) (ErrNew (prefix @ fst f @ '' is required''))"

definition validate_terminal ::
    "nat \<times> Terminal \<Rightarrow> string list \<times> string list \<Rightarrow> (string list \<times> string list) result" where
  "validate_terminal it seen =
     (let (i, t) = it; (seenDevice, seenPush) = seen;
          prefix = ''terminals['' @ itoa (int i) @ '']''
      in bindE (foldE (require_nonblank (prefix @ ''.'')) (required_fields t) ()) (\<lambda>_.
         bindE (guardE (SerialNumber t \<notin> set seenDevice) (ErrNew (prefix @ ''.serialNumber is duplicated''))) (\<lambda>_.
         bindE (guardE (PushSDKSerial t \<notin> set seenPush) (ErrNew (prefix @ ''.pushSdkSerial is duplicated''))) (\<lambda>_.
         bindE (guardE (LoginPasswordDigest t = ''sha1'' \<or> LoginPasswordDigest t = ''sha256'')
                  (ErrNew (prefix @ ''.loginPasswordDigest must be sha1 or sha256''))) (\<lambda>_.
         bindE (guardE (SecurityVersion t = 3 \<or> SecurityVersion t = 4)
                  (ErrNew (prefix @ ''.securityVersion must be 3 or 4''))) (\<lambda>_.
         bindE (guardE (1 \<le> CommandIntervalSeconds t \<and> CommandIntervalSeconds t \<le> 300)
                  (ErrNew (prefix @ ''.commandIntervalSeconds must be 1..300''))) (\<lambda>_.
         bindE (guardE (30 \<le> ErrorDelaySeconds t \<and> ErrorDelaySeconds t \<le> 300)
                  (ErrNew (prefix @ ''.errorDelaySeconds must be 30..300''))) (\<lambda>_.
         bindE (guardE (environmentVariableName (PasswordEnvironmentVariable t))
                  (ErrNew (prefix @ ''.passwordEnvironmentVariable is invalid''))) (\<lambda>_.
         bindE (guardE (1 \<le> length (Password t) \<and> length (Password t) \<le> 64)
                  (ErrNew (''environment variable '' @ PasswordEnvironmentVariable t @ '' for '' @ prefix @
                     '' must contain 1..64 characters''))) (\<lambda>_.
           Inr (SerialNumber t # seenDevice, PushSDKSerial t # seenPush)))))))))))"

definition required_settings :: "Config \<Rightarrow> (string \<times> string) list" where
  "required_settings c =
     [(''GATEWAY_LISTEN_ADDRESS'', ListenAddress c), (''DATABASE_URL'', DatabaseURL c),
      (''GATEWAY_TERMINALS_FILE'', TerminalsFile c), (''ADMIN_USERNAME'', AdminUsername c),
      (''ADMIN_PASSWORD'', AdminPassword c), (''WEB_DIR'', WebDir c),
      (''MIGRATIONS_DIR'', MigrationsDir c)]"

definition signing_keys_message :: string where
  "signing_keys_message =
     ''DELIVERY_SIGNING_KEYS requires key IDs of 1..64 letters, digits, underscores or hyphens and 64 lowercase hexadecimal key values''"

definition Validate :: "Config \<Rightarrow> unit result" where
  "Validate c =
     bindE (guardE (list_all (\<lambda>(kid, key). signing_key_id kid \<and> lowerHex64 key) (DeliverySigningKeys c))
              (ErrNew signing_keys_message)) (\<lambda>_.
     bindE (foldE (require_nonblank []) (required_settings c) ()) (\<lambda>_.
     bindE (guardE (SessionTTL c > 0) (ErrNew ''SESSION_TTL must be positive'')) (\<lambda>_.
     bindE (guardE (MetricsCIDRs c \<noteq> []) (ErrNew ''METRICS_ALLOW_CIDRS is required'')) (\<lambda>_.
     bindE (guardE (Terminals c \<noteq> []) (ErrNew ''at least one terminal is required'')) (\<lambda>_.
     bindE (foldE validate_terminal (List.enumerate 0 (Terminals c)) ([], [])) (\<lambda>_. Inr ()))))))"

section \<open>Lookups and fingerprints\<close>

definition TerminalByPushSDKSerial :: "Config \<Rightarrow> string \<Rightarrow> Terminal option" where
  "TerminalByPushSDKSerial c serial = find (\<lambda>t. PushSDKSerial t = serial) (Terminals c)"

definition TerminalBySerialNumber :: "Config \<Rightarrow> string \<Rightarrow> Terminal option" where
  "TerminalBySerialNumber c serial = find (\<lambda>t. SerialNumber t = serial) (Terminals c)"

definition CredentialFingerprint :: "Terminal \<Rightarrow> string" where
  "CredentialFingerprint t = hex_encode (take 8 (sha256 (Username t @ [CHR 0x00] @ Password t)))"

text \<open>The text whose digest is the session fingerprint.\<close>

definition fingerprint_source :: "Terminal \<Rightarrow> string" where
  "fingerprint_source t =
     CredentialFingerprint t @ [CHR 0x00] @ LoginPasswordDigest t @ [CHR 0x00] @
     itoa (SecurityVersion t) @ [CHR 0x00] @ itoa (CommandIntervalSeconds t) @ [CHR 0x00] @
     itoa (ErrorDelaySeconds t) @ [CHR 0x00] @ PushSDKSerial t"

definition SessionFingerprint :: "Terminal \<Rightarrow> string" where
  "SessionFingerprint t = hex_encode (sha256 (fingerprint_source t))"

section \<open>Loading\<close>

text \<open>\<open>strconv.ParseBool\<close>\<close>

definition parse_bool :: "string \<Rightarrow> bool option" where
  "parse_bool s =
     (if s \<in> set [''1'', ''t'', ''T'', ''TRUE'', ''true'', ''True''] then Some True
      else if s \<in> set [''0'', ''f'', ''F'', ''FALSE'', ''false'', ''False''] then Some False
      else None)"

text \<open>One terminal of the terminals file; unknown keys are refused, the password is not read.\<close>

definition terminal_field :: "string \<Rightarrow> string \<Rightarrow> json \<Rightarrow> Terminal \<Rightarrow> Terminal option" where
  "terminal_field key raw v t =
     (if is_field ''serialNumber'' key then
        map_option (\<lambda>x. t\<lparr>SerialNumber := x\<rparr>) (json_val json_string (SerialNumber t) v)
      else if is_field ''pushSdkSerial'' key then
        map_option (\<lambda>x. t\<lparr>PushSDKSerial := x\<rparr>) (json_val json_string (PushSDKSerial t) v)
      else if is_field ''username'' key then
        map_option (\<lambda>x. t\<lparr>Username := x\<rparr>) (json_val json_string (Username t) v)
      else if is_field ''passwordEnvironmentVariable'' key then
        map_option (\<lambda>x. t\<lparr>PasswordEnvironmentVariable := x\<rparr>) (json_val json_string (PasswordEnvironmentVariable t) v)
      else if is_field ''loginPasswordDigest'' key then
        map_option (\<lambda>x. t\<lparr>LoginPasswordDigest := x\<rparr>) (json_val json_string (LoginPasswordDigest t) v)
      else if is_field ''securityVersion'' key then
        map_option (\<lambda>x. t\<lparr>SecurityVersion := x\<rparr>) (json_val json_int (SecurityVersion t) v)
      else if is_field ''commandIntervalSeconds'' key then
        map_option (\<lambda>x. t\<lparr>CommandIntervalSeconds := x\<rparr>) (json_val json_int (CommandIntervalSeconds t) v)
      else if is_field ''errorDelaySeconds'' key then
        map_option (\<lambda>x. t\<lparr>ErrorDelaySeconds := x\<rparr>) (json_val json_int (ErrorDelaySeconds t) v)
      else None)"

definition decode_terminals :: "json \<Rightarrow> Terminal list \<Rightarrow> Terminal list option" where
  "decode_terminals v ts =
     (if v = JNull then Some [] else json_slice (json_struct terminal_field) zero_terminal ts v)"

text \<open>\<open>os.Getenv\<close>: an unset variable reads as the empty string.\<close>

definition getenv :: "(string \<Rightarrow> string option) \<Rightarrow> string \<Rightarrow> string" where
  "getenv env name = (case env name of Some v \<Rightarrow> v | None \<Rightarrow> [])"

definition loadTerminals ::
    "(string \<Rightarrow> string option) \<Rightarrow> (string \<Rightarrow> bytes option) \<Rightarrow> Config \<Rightarrow> Config result" where
  "loadTerminals env readFile c =
     bindE (someE (ErrNew ''read GATEWAY_TERMINALS_FILE'') (readFile (TerminalsFile c))) (\<lambda>contents.
     bindE (someE (ErrNew ''decode terminals'') (json_first contents)) (\<lambda>(v, rest).
     bindE (someE (ErrNew ''decode terminals'') (decode_terminals v (Terminals c))) (\<lambda>ts.
     bindE (guardE (json_eof rest) (ErrNew ''decode terminals: trailing JSON value'')) (\<lambda>_.
       Inr (c\<lparr>Terminals := map (\<lambda>t. t\<lparr>Password := getenv env (PasswordEnvironmentVariable t)\<rparr>) ts\<rparr>)))))"

text \<open>A JSON object into a nil \<open>map[string]string\<close>: the last occurrence of a key wins.\<close>

definition decode_signing_keys :: "json \<Rightarrow> (string \<times> string) list option" where
  "decode_signing_keys v =
     (case v of
        JObj ms \<Rightarrow>
          foldO (\<lambda>(key, raw, w) m.
            map_option (\<lambda>x. (key, x) # filter (\<lambda>e. fst e \<noteq> key) m) (json_val json_string [] w)) ms []
      | _ \<Rightarrow> None)"

definition signing_keys_from_env :: "string \<Rightarrow> ((string \<times> string) list) result" where
  "signing_keys_from_env raw =
     (if raw = [] then Inr []
      else someE (ErrNew ''DELIVERY_SIGNING_KEYS must be a JSON object of key IDs and signing keys'')
             (case json_document raw of None \<Rightarrow> None | Some v \<Rightarrow> decode_signing_keys v))"

text \<open>A required variable: unset and empty are the same refusal.\<close>

definition required_env :: "(string \<Rightarrow> string option) \<Rightarrow> string \<Rightarrow> string result" where
  "required_env env name =
     bindE (guardE (getenv env name \<noteq> []) (ErrNew (name @ '' is required''))) (\<lambda>_. Inr (getenv env name))"

text \<open>
  \<open>Load\<close>. The duration parser (which computes fractions in floating point) is an argument, as are
  the environment and the file system.
\<close>

definition Load ::
    "(string \<Rightarrow> int option) \<Rightarrow> (string \<Rightarrow> string option) \<Rightarrow> (string \<Rightarrow> bytes option) \<Rightarrow> Config result" where
  "Load parse_duration env readFile =
     bindE (signing_keys_from_env (getenv env ''DELIVERY_SIGNING_KEYS'')) (\<lambda>keys.
     bindE (required_env env ''COOKIE_SECURE'') (\<lambda>rawCookieSecure.
     bindE (someE (ErrNew ''COOKIE_SECURE'') (parse_bool rawCookieSecure)) (\<lambda>cookieSecure.
     bindE (required_env env ''SESSION_TTL'') (\<lambda>rawSessionTTL.
     bindE (someE (ErrNew ''SESSION_TTL'') (parse_duration rawSessionTTL)) (\<lambda>sessionTTL.
     bindE (required_env env ''METRICS_ALLOW_CIDRS'') (\<lambda>rawMetricsCIDRs.
     bindE (guardE (list_all (\<lambda>v. v \<noteq> []) (split_on (CHR '','') rawMetricsCIDRs))
              (ErrNew ''METRICS_ALLOW_CIDRS contains an empty entry'')) (\<lambda>_.
     bindE (loadTerminals env readFile
              (zero_config\<lparr>ListenAddress := getenv env ''GATEWAY_LISTEN_ADDRESS'',
                 DatabaseURL := getenv env ''DATABASE_URL'',
                 TerminalsFile := getenv env ''GATEWAY_TERMINALS_FILE'',
                 AdminUsername := getenv env ''ADMIN_USERNAME'',
                 AdminPassword := getenv env ''ADMIN_PASSWORD'',
                 WebDir := getenv env ''WEB_DIR'',
                 MigrationsDir := getenv env ''MIGRATIONS_DIR'',
                 DeliverySigningKeys := keys, CookieSecure := cookieSecure,
                 SessionTTL := sessionTTL,
                 MetricsCIDRs := split_on (CHR '','') rawMetricsCIDRs\<rparr>)) (\<lambda>c.
     bindE (Validate c) (\<lambda>_. Inr c)))))))))"

section \<open>What validation guarantees\<close>

definition terminal_ok :: "Terminal \<Rightarrow> bool" where
  "terminal_ok t \<longleftrightarrow>
     list_all (\<lambda>f. \<not> is_blank (snd f)) (required_fields t) \<and>
     LoginPasswordDigest t \<in> {''sha1'', ''sha256''} \<and> SecurityVersion t \<in> {3, 4} \<and>
     1 \<le> CommandIntervalSeconds t \<and> CommandIntervalSeconds t \<le> 300 \<and>
     30 \<le> ErrorDelaySeconds t \<and> ErrorDelaySeconds t \<le> 300 \<and>
     environmentVariableName (PasswordEnvironmentVariable t) \<and>
     1 \<le> length (Password t) \<and> length (Password t) \<le> 64"

definition config_ok :: "Config \<Rightarrow> bool" where
  "config_ok c \<longleftrightarrow>
     list_all (\<lambda>(kid, key). signing_key_id kid \<and> lowerHex64 key) (DeliverySigningKeys c) \<and>
     list_all (\<lambda>f. \<not> is_blank (snd f)) (required_settings c) \<and>
     SessionTTL c > 0 \<and> MetricsCIDRs c \<noteq> [] \<and> Terminals c \<noteq> [] \<and>
     list_all terminal_ok (Terminals c) \<and>
     distinct (map SerialNumber (Terminals c)) \<and> distinct (map PushSDKSerial (Terminals c))"

lemma require_nonblank_all:
  "foldE (require_nonblank p) fs () = Inr u \<longleftrightarrow> list_all (\<lambda>f. \<not> is_blank (snd f)) fs"
  by (induction fs) (auto simp: require_nonblank_def res_simps)

lemma validate_terminal_Inr:
  "validate_terminal (i, t) (ds, ps) = Inr s \<longleftrightarrow>
     terminal_ok t \<and> SerialNumber t \<notin> set ds \<and> PushSDKSerial t \<notin> set ps \<and>
     s = (SerialNumber t # ds, PushSDKSerial t # ps)"
  unfolding validate_terminal_def Let_def terminal_ok_def
  by (auto simp: bindE_eq_Inr guardE_eq_Inr require_nonblank_all)

lemma validate_terminals_Inr:
  "(\<exists>s. foldE validate_terminal (List.enumerate n ts) (ds, ps) = Inr s) \<longleftrightarrow>
     list_all terminal_ok ts \<and>
     distinct (map SerialNumber ts) \<and> set (map SerialNumber ts) \<inter> set ds = {} \<and>
     distinct (map PushSDKSerial ts) \<and> set (map PushSDKSerial ts) \<inter> set ps = {}"
proof (induction ts arbitrary: n ds ps)
  case Nil
  show ?case by simp
next
  case (Cons t ts)
  have "(\<exists>s. foldE validate_terminal (List.enumerate n (t # ts)) (ds, ps) = Inr s) \<longleftrightarrow>
      terminal_ok t \<and> SerialNumber t \<notin> set ds \<and> PushSDKSerial t \<notin> set ps \<and>
      (\<exists>s. foldE validate_terminal (List.enumerate (Suc n) ts)
             (SerialNumber t # ds, PushSDKSerial t # ps) = Inr s)"
    by (auto simp: bindE_eq_Inr validate_terminal_Inr)
  then show ?case unfolding Cons.IH by auto
qed

lemma Validate_accepts: "Validate c = Inr () \<longleftrightarrow> config_ok c"
  unfolding Validate_def config_ok_def
  using validate_terminals_Inr [of 0 "Terminals c" "[]" "[]"]
  by (auto simp: bindE_eq_Inr guardE_eq_Inr require_nonblank_all)

lemma find_distinct:
  "distinct (map k xs) \<Longrightarrow> find (\<lambda>x. k x = v) xs = Some x \<longleftrightarrow> x \<in> set xs \<and> k x = v"
  by (induction xs) (auto simp: image_iff)

lemma terminal_by_push_serial:
  "config_ok c \<Longrightarrow> TerminalByPushSDKSerial c s = Some t \<longleftrightarrow> t \<in> set (Terminals c) \<and> PushSDKSerial t = s"
  by (simp add: config_ok_def TerminalByPushSDKSerial_def find_distinct)

lemma terminal_by_serial:
  "config_ok c \<Longrightarrow> TerminalBySerialNumber c s = Some t \<longleftrightarrow> t \<in> set (Terminals c) \<and> SerialNumber t = s"
  by (simp add: config_ok_def TerminalBySerialNumber_def find_distinct)

section \<open>Fingerprints\<close>

lemma length_CredentialFingerprint: "length (CredentialFingerprint t) = 16"
  by (simp add: CredentialFingerprint_def)

lemma SessionFingerprint_format: "lowerHex64 (SessionFingerprint t)"
  by (simp add: SessionFingerprint_def lowerHex64_def matches_class_def)

lemma sep_append_eq:
  "c \<notin> set a \<Longrightarrow> c \<notin> set a' \<Longrightarrow> a @ c # b = a' @ c # b' \<longleftrightarrow> a = a' \<and> b = b'"
  by (induction a arbitrary: a') (case_tac a'; auto)+

lemma nul_not_in [simp]:
  "CHR 0x00 \<notin> set (hex_encode bs)" "CHR 0x00 \<notin> set (itoa i)"
proof -
  show "CHR 0x00 \<notin> set (hex_encode bs)"
    using list_all_hex_encode [of bs] by (auto simp: list_all_iff is_lower_hex_def is_digit_def)
  show "CHR 0x00 \<notin> set (itoa i)"
    using set_nat_dec [of "CHR 0x00"] by (auto simp: itoa_def is_digit_def)
qed

lemma nat_dec_inj: "nat_dec m = nat_dec n \<longleftrightarrow> m = n"
  by (metis dec_val_nat_dec option.inject)

lemma itoa_inj: "itoa i = itoa j \<longleftrightarrow> i = j"
proof
  assume eq: "itoa i = itoa j"
  have neg: "nat_dec n \<noteq> CHR ''-'' # s" for n s using nat_dec_sign(1) by blast
  from eq neg neg [symmetric] show "i = j"
    by (auto simp: itoa_def nat_dec_inj split: if_splits)
qed simp

lemma fingerprint_source_eq:
  assumes "CHR 0x00 \<notin> set (LoginPasswordDigest t)" "CHR 0x00 \<notin> set (LoginPasswordDigest t')"
  shows "fingerprint_source t = fingerprint_source t' \<longleftrightarrow>
    CredentialFingerprint t = CredentialFingerprint t' \<and> LoginPasswordDigest t = LoginPasswordDigest t' \<and>
    SecurityVersion t = SecurityVersion t' \<and> CommandIntervalSeconds t = CommandIntervalSeconds t' \<and>
    ErrorDelaySeconds t = ErrorDelaySeconds t' \<and> PushSDKSerial t = PushSDKSerial t'"
  using assms by (simp add: fingerprint_source_def CredentialFingerprint_def sep_append_eq itoa_inj)

end
