(* ===== verification/PushParse.thy ===== *)
theory PushParse
  imports GoJson
begin

text \<open>
  The PushSDK request envelopes (\<open>internal/pushsdk/events.go\<close> and \<open>commands.go\<close>): the protocol
  errors, the Event batch and the CommandResult batch. Both parsers are all-or-nothing; a batch
  that passes has the declared number of items, distinct well-formed identifiers and payloads
  that are base64 and kept verbatim. Error texts that quote a library's own message stop before
  the quotation.
\<close>

section \<open>Protocol errors\<close>

definition badRequest :: "string \<Rightarrow> go_error" where
  "badRequest message = ProtocolError 400 [] message []"

definition unprocessable :: "string \<Rightarrow> go_error" where
  "unprocessable message = ProtocolError 422 [] message []"

definition invalidSessionCode :: string where "invalidSessionCode = ''0x0020000f''"
definition invalidSessionMessage :: string where "invalidSessionMessage = ''Invalid SessionID.''"

definition invalidSession :: "string \<Rightarrow> go_error" where
  "invalidSession reason = ProtocolError 401 invalidSessionCode invalidSessionMessage reason"

definition supportedDataFormat :: "string \<Rightarrow> bool" where
  "supportedDataFormat f \<longleftrightarrow> f = ''jsonData'' \<or> f = ''xmlData'' \<or> f = ''boundaryData'' \<or> f = ''noData''"

section \<open>Event batches\<close>

record NewDeviceEvent =
  ne_TerminalSerialNumber :: string
  ne_VendorEventID :: string
  ne_DataFormat :: string
  ne_PayloadBase64 :: string

record ParsedEvent =
  pv_UUID :: string
  pv_Format :: string
  pv_Record :: NewDeviceEvent

record eventItem =
  ei_UUID :: string
  ei_DataFormat :: string
  ei_Data :: "string option"

record eventEnvelope =
  ee_EventNum :: "int option"
  ee_EventList :: "eventItem list option"

definition vendorEventID :: "string \<Rightarrow> bool" where
  "vendorEventID = matches_class (\<lambda>c. is_alnum c \<or> c \<in> set ''._:-'') 1 64"

definition eventItem_field :: "string \<Rightarrow> string \<Rightarrow> json \<Rightarrow> eventItem \<Rightarrow> eventItem option" where
  "eventItem_field key raw v item =
     (if is_field ''UUID'' key then
        map_option (\<lambda>x. item\<lparr>ei_UUID := x\<rparr>) (json_val json_string (ei_UUID item) v)
      else if is_field ''dataFormat'' key then
        map_option (\<lambda>x. item\<lparr>ei_DataFormat := x\<rparr>) (json_val json_string (ei_DataFormat item) v)
      else if is_field ''data'' key then
        map_option (\<lambda>x. item\<lparr>ei_Data := x\<rparr>) (json_ptr json_string v)
      else None)"

definition zero_eventItem :: eventItem where
  "zero_eventItem = \<lparr> ei_UUID = [], ei_DataFormat = [], ei_Data = None \<rparr>"

text \<open>A repeated list key meets the elements its first occurrence left.\<close>

definition old_list :: "'a list option \<Rightarrow> 'a list" where
  "old_list m = (case m of None \<Rightarrow> [] | Some xs \<Rightarrow> xs)"

definition eventEnvelope_field :: "string \<Rightarrow> string \<Rightarrow> json \<Rightarrow> eventEnvelope \<Rightarrow> eventEnvelope option" where
  "eventEnvelope_field key raw v e =
     (if is_field ''eventNum'' key then
        map_option (\<lambda>x. e\<lparr>ee_EventNum := x\<rparr>) (json_ptr json_int v)
      else if is_field ''eventList'' key then
        map_option (\<lambda>x. e\<lparr>ee_EventList := x\<rparr>)
          (json_ptr (json_slice (json_struct eventItem_field) zero_eventItem (old_list (ee_EventList e))) v)
      else None)"

definition parse_event_item ::
    "string \<Rightarrow> eventItem \<Rightarrow> string list \<times> ParsedEvent list \<Rightarrow> (string list \<times> ParsedEvent list) result" where
  "parse_event_item terminalSerial item s =
     (let (seen, parsed) = s
      in bindE (guardE (vendorEventID (ei_UUID item)) (badRequest ''event UUID is invalid'')) (\<lambda>_.
         bindE (guardE (ei_UUID item \<notin> set seen) (badRequest ''eventList contains a duplicate UUID'')) (\<lambda>_.
         bindE (guardE (supportedDataFormat (ei_DataFormat item))
                  (badRequest (''event '' @ ei_UUID item @ '' has an unsupported dataFormat''))) (\<lambda>_.
         bindE (someE (badRequest (''event '' @ ei_UUID item @ '' has no data'')) (ei_Data item)) (\<lambda>dat.
         bindE (guardE (b64_decode dat \<noteq> None)
                  (badRequest (''event '' @ ei_UUID item @ '' data is not base64''))) (\<lambda>_.
         bindE (guardE (\<not> (ei_DataFormat item = ''noData'' \<and> dat \<noteq> []))
                  (badRequest (''event '' @ ei_UUID item @ '' noData payload must be empty''))) (\<lambda>_.
           Inr (ei_UUID item # seen,
                parsed @ [\<lparr> pv_UUID = ei_UUID item, pv_Format = ei_DataFormat item,
                            pv_Record = \<lparr> ne_TerminalSerialNumber = terminalSerial,
                                          ne_VendorEventID = ei_UUID item,
                                          ne_DataFormat = ei_DataFormat item,
                                          ne_PayloadBase64 = dat \<rparr> \<rparr>]))))))))"

definition ParseEventBatch :: "string \<Rightarrow> bytes \<Rightarrow> (ParsedEvent list) result" where
  "ParseEventBatch terminalSerial body =
     bindE (someE (badRequest ''event envelope is not valid JSON'') (json_first body)) (\<lambda>(v, rest).
     bindE (someE (badRequest ''event envelope is not valid JSON'')
              (json_struct eventEnvelope_field v \<lparr> ee_EventNum = None, ee_EventList = None \<rparr>)) (\<lambda>envelope.
     bindE (guardE (json_eof rest) (badRequest ''event envelope contains a trailing JSON value'')) (\<lambda>_.
     case (ee_EventNum envelope, ee_EventList envelope) of
       (Some num, Some items) \<Rightarrow>
         bindE (guardE (0 \<le> num \<and> num \<le> 20) (badRequest ''eventNum must be between 0 and 20'')) (\<lambda>_.
         bindE (guardE (int (length items) = num) (badRequest ''eventNum must equal eventList length'')) (\<lambda>_.
         bindE (foldE (parse_event_item terminalSerial) items ([], [])) (\<lambda>(seen, parsed). Inr parsed)))
     | _ \<Rightarrow> Inl (badRequest ''event envelope must contain eventNum and eventList''))))"

section \<open>Command results\<close>

record ISAPICommandResult =
  cr_UUID :: string
  cr_DataFormat :: "string option"
  cr_DataBase64 :: string

record commandResultItem =
  ci_UUID :: string
  ci_DataFormat :: "(string \<times> json) option"
  ci_Data :: "string option"

record commandResultEnvelope =
  ce_CommandNum :: "int option"
  ce_CommandList :: "commandResultItem list option"

text \<open>\<open>^[0-9a-f]{8}-[0-9a-f]{4}-[0-9a-f]{4}-[0-9a-f]{4}-[0-9a-f]{12}$\<close>\<close>

definition commandUUID :: "string \<Rightarrow> bool" where
  "commandUUID s \<longleftrightarrow>
     (case split_on (CHR ''-'') s of
        [a, b, c, d, e] \<Rightarrow>
          matches_class is_lower_hex 8 8 a \<and> matches_class is_lower_hex 4 4 b \<and>
          matches_class is_lower_hex 4 4 c \<and> matches_class is_lower_hex 4 4 d \<and>
          matches_class is_lower_hex 12 12 e
      | _ \<Rightarrow> False)"

text \<open>\<open>dataFormat\<close> is a raw message: its source text and, here, the value that text denotes.\<close>

definition commandResultItem_field ::
    "string \<Rightarrow> string \<Rightarrow> json \<Rightarrow> commandResultItem \<Rightarrow> commandResultItem option" where
  "commandResultItem_field key raw v item =
     (if is_field ''UUID'' key then
        map_option (\<lambda>x. item\<lparr>ci_UUID := x\<rparr>) (json_val json_string (ci_UUID item) v)
      else if is_field ''dataFormat'' key then Some (item\<lparr>ci_DataFormat := Some (raw, v)\<rparr>)
      else if is_field ''data'' key then
        map_option (\<lambda>x. item\<lparr>ci_Data := x\<rparr>) (json_ptr json_string v)
      else None)"

definition zero_commandResultItem :: commandResultItem where
  "zero_commandResultItem = \<lparr> ci_UUID = [], ci_DataFormat = None, ci_Data = None \<rparr>"

definition commandResultEnvelope_field ::
    "string \<Rightarrow> string \<Rightarrow> json \<Rightarrow> commandResultEnvelope \<Rightarrow> commandResultEnvelope option" where
  "commandResultEnvelope_field key raw v e =
     (if is_field ''commandNum'' key then
        map_option (\<lambda>x. e\<lparr>ce_CommandNum := x\<rparr>) (json_ptr json_int v)
      else if is_field ''commandList'' key then
        map_option (\<lambda>x. e\<lparr>ce_CommandList := x\<rparr>)
          (json_ptr (json_slice (json_struct commandResultItem_field) zero_commandResultItem
             (old_list (ce_CommandList e))) v)
      else None)"

text \<open>
  The declared format of a result: absent stays absent, a present one must be a JSON string that
  names a supported format and agree with whether there is a payload.
\<close>

definition result_data_format ::
    "string \<Rightarrow> (string \<times> json) option \<Rightarrow> string \<Rightarrow> (string option) result" where
  "result_data_format uuid declared dat =
     (case declared of
        None \<Rightarrow> Inr None
      | Some (raw, v) \<Rightarrow>
          bindE (guardE (trim_space raw \<noteq> ''null'')
                   (badRequest (''command result '' @ uuid @ '' dataFormat must be a string when present''))) (\<lambda>_.
          bindE (someE (badRequest (''command result '' @ uuid @ '' dataFormat must be a string when present''))
                   (json_val json_string [] v)) (\<lambda>f.
          bindE (guardE (supportedDataFormat f)
                   (badRequest (''command result '' @ uuid @ '' has an unsupported dataFormat''))) (\<lambda>_.
          bindE (guardE (\<not> (f = ''noData'' \<and> dat \<noteq> []))
                   (badRequest (''command result '' @ uuid @ '' noData payload must be empty''))) (\<lambda>_.
          bindE (guardE (\<not> (f \<noteq> ''noData'' \<and> dat = []))
                   (badRequest (''command result '' @ uuid @ '' payload must not be empty''))) (\<lambda>_.
            Inr (Some f)))))))"

definition parse_result_item ::
    "commandResultItem \<Rightarrow> string list \<times> ISAPICommandResult list \<Rightarrow>
       (string list \<times> ISAPICommandResult list) result" where
  "parse_result_item item s =
     (let (seen, results) = s
      in bindE (guardE (commandUUID (ci_UUID item)) (badRequest ''command result UUID is invalid'')) (\<lambda>_.
         bindE (guardE (ci_UUID item \<notin> set seen) (badRequest ''command result contains a duplicate UUID'')) (\<lambda>_.
         bindE (someE (badRequest (''command result '' @ ci_UUID item @ '' has no data'')) (ci_Data item)) (\<lambda>dat.
         bindE (guardE (b64_decode dat \<noteq> None)
                  (badRequest (''command result '' @ ci_UUID item @ '' data is not base64''))) (\<lambda>_.
         bindE (result_data_format (ci_UUID item) (ci_DataFormat item) dat) (\<lambda>f.
           Inr (ci_UUID item # seen,
                results @ [\<lparr> cr_UUID = ci_UUID item, cr_DataFormat = f, cr_DataBase64 = dat \<rparr>])))))))"

definition ParseCommandResultBatch :: "bytes \<Rightarrow> (ISAPICommandResult list) result" where
  "ParseCommandResultBatch body =
     bindE (someE (badRequest ''command result envelope is not valid JSON'')
              (decode_document (json_struct commandResultEnvelope_field)
                 \<lparr> ce_CommandNum = None, ce_CommandList = None \<rparr> body)) (\<lambda>envelope.
     case (ce_CommandNum envelope, ce_CommandList envelope) of
       (Some num, Some items) \<Rightarrow>
         bindE (guardE (0 \<le> num \<and> num \<le> 20) (badRequest ''commandNum must be between 0 and 20'')) (\<lambda>_.
         bindE (guardE (int (length items) = num) (badRequest ''commandNum must equal commandList length'')) (\<lambda>_.
         bindE (foldE parse_result_item items ([], [])) (\<lambda>(seen, results). Inr results)))
     | _ \<Rightarrow> Inl (badRequest ''command result must contain commandNum and commandList''))"

section \<open>What a parsed batch looks like\<close>

definition parsed_event_ok :: "string \<Rightarrow> ParsedEvent \<Rightarrow> bool" where
  "parsed_event_ok terminalSerial p \<longleftrightarrow>
     vendorEventID (pv_UUID p) \<and> supportedDataFormat (pv_Format p) \<and>
     ne_TerminalSerialNumber (pv_Record p) = terminalSerial \<and>
     ne_VendorEventID (pv_Record p) = pv_UUID p \<and> ne_DataFormat (pv_Record p) = pv_Format p \<and>
     b64_decode (ne_PayloadBase64 (pv_Record p)) \<noteq> None \<and>
     (pv_Format p = ''noData'' \<longrightarrow> ne_PayloadBase64 (pv_Record p) = [])"

text \<open>The loop of the parser keeps the identifiers it has seen and appends one event per item.\<close>

definition events_loop_inv :: "string \<Rightarrow> string list \<times> ParsedEvent list \<Rightarrow> bool" where
  "events_loop_inv serial s \<longleftrightarrow>
     set (fst s) = pv_UUID ` set (snd s) \<and> distinct (map pv_UUID (snd s)) \<and>
     (\<forall>p \<in> set (snd s). parsed_event_ok serial p)"

lemma parse_event_item_Inr:
  "parse_event_item serial item (seen, parsed) = Inr s \<longleftrightarrow>
     (\<exists>dat. ei_Data item = Some dat \<and> vendorEventID (ei_UUID item) \<and> ei_UUID item \<notin> set seen \<and>
        supportedDataFormat (ei_DataFormat item) \<and> b64_decode dat \<noteq> None \<and>
        (ei_DataFormat item = ''noData'' \<longrightarrow> dat = []) \<and>
        s = (ei_UUID item # seen,
             parsed @ [\<lparr> pv_UUID = ei_UUID item, pv_Format = ei_DataFormat item,
                pv_Record = \<lparr> ne_TerminalSerialNumber = serial, ne_VendorEventID = ei_UUID item,
                  ne_DataFormat = ei_DataFormat item, ne_PayloadBase64 = dat \<rparr> \<rparr>]))"
  by (auto simp: parse_event_item_def res_simps)

lemma parse_event_item_inv:
  "events_loop_inv serial s \<Longrightarrow> parse_event_item serial item s = Inr s' \<Longrightarrow> events_loop_inv serial s'"
  by (cases s) (auto simp: parse_event_item_Inr events_loop_inv_def parsed_event_ok_def)

lemma parse_event_items_verbatim:
  "foldE (parse_event_item serial) items (seen, parsed) = Inr (seen', parsed') \<Longrightarrow>
     map (\<lambda>p. (pv_UUID p, pv_Format p, Some (ne_PayloadBase64 (pv_Record p)))) parsed' =
     map (\<lambda>p. (pv_UUID p, pv_Format p, Some (ne_PayloadBase64 (pv_Record p)))) parsed @
     map (\<lambda>i. (ei_UUID i, ei_DataFormat i, ei_Data i)) items"
  by (induction items arbitrary: seen parsed)
     (auto simp: bindE_eq_Inr parse_event_item_Inr)

lemma ParseEventBatch_Inr:
  assumes "ParseEventBatch serial body = Inr parsed"
  obtains v envelope items seen where
    "json_document body = Some v"
    "json_struct eventEnvelope_field v \<lparr> ee_EventNum = None, ee_EventList = None \<rparr> = Some envelope"
    "ee_EventNum envelope = Some (int (length items))" "ee_EventList envelope = Some items"
    "length items \<le> 20" "foldE (parse_event_item serial) items ([], []) = Inr (seen, parsed)"
proof -
  let ?zero = "\<lparr> ee_EventNum = None, ee_EventList = None \<rparr>"
  from assms obtain v rest envelope where first: "json_first body = Some (v, rest)" "json_eof rest"
    and env: "json_struct eventEnvelope_field v ?zero = Some envelope"
    and more: "(case (ee_EventNum envelope, ee_EventList envelope) of
       (Some num, Some items) \<Rightarrow>
         bindE (guardE (0 \<le> num \<and> num \<le> 20) (badRequest ''eventNum must be between 0 and 20'')) (\<lambda>_.
         bindE (guardE (int (length items) = num) (badRequest ''eventNum must equal eventList length'')) (\<lambda>_.
         bindE (foldE (parse_event_item serial) items ([], [])) (\<lambda>(seen, parsed). Inr parsed)))
     | _ \<Rightarrow> Inl (badRequest ''event envelope must contain eventNum and eventList'')) = Inr parsed"
    by (auto simp: ParseEventBatch_def bindE_eq_Inr someE_eq_Inr guardE_eq_Inr)
  from more obtain items where "ee_EventNum envelope = Some (int (length items))"
    "ee_EventList envelope = Some items" "length items \<le> 20"
    "\<exists>seen. foldE (parse_event_item serial) items ([], []) = Inr (seen, parsed)"
    by (cases "ee_EventNum envelope"; cases "ee_EventList envelope")
      (auto simp: bindE_eq_Inr guardE_eq_Inr)
  with first env that show ?thesis by (auto simp: json_document_def)
qed

definition result_ok :: "ISAPICommandResult \<Rightarrow> bool" where
  "result_ok r \<longleftrightarrow>
     commandUUID (cr_UUID r) \<and> b64_decode (cr_DataBase64 r) \<noteq> None \<and>
     (case cr_DataFormat r of
        None \<Rightarrow> True
      | Some f \<Rightarrow> supportedDataFormat f \<and> (f = ''noData'' \<longleftrightarrow> cr_DataBase64 r = []))"

lemma result_data_format_Inr:
  "result_data_format uuid declared dat = Inr f \<Longrightarrow>
     (case f of None \<Rightarrow> declared = None
      | Some g \<Rightarrow> supportedDataFormat g \<and> (g = ''noData'' \<longleftrightarrow> dat = []))"
  by (auto simp: result_data_format_def res_simps split: option.splits)

definition results_loop_inv :: "string list \<times> ISAPICommandResult list \<Rightarrow> bool" where
  "results_loop_inv s \<longleftrightarrow>
     set (fst s) = cr_UUID ` set (snd s) \<and> distinct (map cr_UUID (snd s)) \<and> list_all result_ok (snd s)"

lemma parse_result_item_inv:
  "results_loop_inv s \<Longrightarrow> parse_result_item item s = Inr s' \<Longrightarrow> results_loop_inv s'"
  by (cases s)
     (auto simp: parse_result_item_def res_simps results_loop_inv_def result_ok_def
       dest!: result_data_format_Inr split: option.splits)

lemma parse_result_items_length:
  "foldE parse_result_item items (seen, results) = Inr (seen', results') \<Longrightarrow>
     map cr_UUID results' = map cr_UUID results @ map ci_UUID items"
  by (induction items arbitrary: seen results) (auto simp: res_simps parse_result_item_def)

end
