(* ===== verification/Database.thy ===== *)
theory Database
  imports AccessControl Config PushParse
begin

text \<open>
  The PostgreSQL database of the gateway (\<open>db/schema.sql\<close>): one record type per table the store
  reads or writes, the database as the record of its tables in insertion order, and the one
  insertion every component shares, \<open>insertGatewayActivity\<close>. Nullable columns are options;
  identity columns count from one in insertion order; \<open>now\<close> is the transaction time. A store
  operation is a function from the database to an error or a result with the new database: an
  error is a rolled-back transaction.
\<close>

section \<open>Activities\<close>

datatype field_value = FStr string | FInt int | FBool bool

text \<open>\<open>activity.Event\<close>; a row of \<open>gateway_activities\<close> is an event with its identity and time set.\<close>

record activity =
  act_ID :: int
  act_At :: instant
  act_Kind :: string
  act_Terminal :: string
  act_Message :: string
  act_Fields :: "(string \<times> field_value) list"

definition new_activity :: "string \<Rightarrow> string \<Rightarrow> string \<Rightarrow> (string \<times> field_value) list \<Rightarrow> activity" where
  "new_activity kind terminal message fs =
     \<lparr> act_ID = 0, act_At = zero_time, act_Kind = kind, act_Terminal = terminal,
       act_Message = message, act_Fields = fs \<rparr>"

section \<open>Tables\<close>

record terminal_row =
  tr_serial_number :: string
  tr_pushsdk_serial :: string
  tr_username :: string
  tr_credential_fingerprint :: string
  tr_security_version :: int
  tr_command_interval_seconds :: int
  tr_error_delay_seconds :: int
  tr_connection_status :: string
  tr_last_seen_at :: "instant option"
  tr_last_error :: "string option"
  tr_created_at :: instant
  tr_updated_at :: instant

text \<open>\<open>store.PushSDKSession\<close>, also the row of \<open>pushsdk_sessions\<close>.\<close>

record PushSDKSession =
  ps_TerminalSerialNumber :: string
  ps_ConfigurationFingerprint :: string
  ps_PayloadMode :: string
  ps_Salt :: string
  ps_LoginChallenge :: string
  ps_NextChallenge :: string
  ps_Iterations :: int
  ps_CreatedAt :: instant
  ps_NextChallengeAt :: "instant option"
  ps_Authenticated :: bool

record device_event_row =
  de_id :: int
  de_terminal_serial_number :: string
  de_vendor_event_id :: string
  de_data_format :: string
  de_received_at :: instant
  de_payload_base64 :: "string option"

text \<open>
  A row of \<open>access_event_projections\<close>: \<open>None\<close> is the status \<open>unclassified\<close>, whose other columns
  are null.
\<close>

record projection_row =
  pj_device_event_id :: int
  pj_schema_version :: int
  pj_projection :: "Projection option"

record admin_user_row =
  au_id :: int
  au_username :: string
  au_password_hash :: string
  au_created_at :: instant
  au_updated_at :: instant

record admin_session_row =
  as_id :: int
  as_admin_user_id :: int
  as_token_hash :: bytes
  as_expires_at :: instant
  as_created_at :: instant

record command_row =
  cmd_uuid :: string
  cmd_terminal_serial_number :: string
  cmd_created_by_admin_user_id :: "int option"
  cmd_created_by_username :: string
  cmd_method :: string
  cmd_url :: string
  cmd_data_format :: string
  cmd_request_data :: bytes
  cmd_status :: string
  cmd_created_at :: instant
  cmd_expires_at :: instant
  cmd_sent_at :: "instant option"
  cmd_completed_at :: "instant option"
  cmd_response_data_format :: "string option"
  cmd_response_data_format_declared :: "bool option"
  cmd_response_data_base64 :: "string option"

record sync_run_row =
  sr_uuid :: string
  sr_terminal_serial_number :: string
  sr_created_by_admin_user_id :: "int option"
  sr_created_by_username :: string
  sr_search_id :: string
  sr_status :: string
  sr_search_started_at :: "instant option"
  sr_search_ended_at :: "instant option"
  sr_total_matches :: "int option"
  sr_pages_completed :: int
  sr_records_imported :: int
  sr_records_duplicate :: int
  sr_failure :: "string option"
  sr_created_at :: instant
  sr_completed_at :: "instant option"

record sync_command_row =
  sc_command_uuid :: string
  sc_sync_run_uuid :: string
  sc_phase :: string
  sc_search_result_position :: "int option"

record retained_row =
  ra_id :: int
  ra_terminal_serial_number :: string
  ra_source_sync_run_uuid :: string
  ra_source_command_uuid :: string
  ra_source_record :: bytes
  ra_source_sha256 :: bytes
  ra_imported_at :: instant
  ra_projection :: Projection

record route_row =
  dr_terminal_serial_number :: string
  dr_endpoint_url :: string
  dr_signing_key_id :: string
  dr_enabled :: bool
  dr_updated_at :: instant
  dr_updated_by :: int

record delivery_row =
  dl_id :: int
  dl_device_event_id :: "int option"
  dl_retained_event_id :: "int option"
  dl_backfill_id :: "int option"
  dl_terminal_serial_number :: string
  dl_endpoint_url :: string
  dl_signing_key_id :: string
  dl_request_body :: bytes
  dl_status :: string
  dl_attempts :: int
  dl_next_attempt_at :: instant
  dl_lease_until :: "instant option"
  dl_last_http_status :: "int option"
  dl_last_error :: "string option"
  dl_created_at :: instant
  dl_delivered_at :: "instant option"

record attachment_row =
  ad_id :: int
  ad_event_delivery_id :: int
  ad_request_body :: "bytes option"
  ad_availability :: "string option"
  ad_reason :: "string option"
  ad_status :: string
  ad_attempts :: int
  ad_next_attempt_at :: instant
  ad_lease_until :: "instant option"
  ad_last_http_status :: "int option"
  ad_last_error :: "string option"
  ad_created_at :: instant
  ad_delivered_at :: "instant option"

record backfill_row =
  bf_id :: int
  bf_terminal_serial_number :: string
  bf_starts_at :: instant
  bf_ends_at :: instant
  bf_preview_sha256 :: string
  bf_queued_count :: int
  bf_created_by :: int
  bf_created_at :: instant

record db =
  db_terminals :: "terminal_row list"
  db_device_events :: "device_event_row list"
  db_admin_users :: "admin_user_row list"
  db_admin_sessions :: "admin_session_row list"
  db_activities :: "activity list"
  db_sessions :: "PushSDKSession list"
  db_projections :: "projection_row list"
  db_commands :: "command_row list"
  db_sync_runs :: "sync_run_row list"
  db_sync_commands :: "sync_command_row list"
  db_retained :: "retained_row list"
  db_routes :: "route_row list"
  db_deliveries :: "delivery_row list"
  db_attachments :: "attachment_row list"
  db_backfills :: "backfill_row list"
  db_admin_user_seq :: int
  db_admin_session_seq :: int

definition empty_db :: db where
  "empty_db = \<lparr> db_terminals = [], db_device_events = [], db_admin_users = [], db_admin_sessions = [],
     db_activities = [], db_sessions = [], db_projections = [], db_commands = [], db_sync_runs = [],
     db_sync_commands = [], db_retained = [], db_routes = [], db_deliveries = [], db_attachments = [], db_backfills = [],
     db_admin_user_seq = 1, db_admin_session_seq = 1 \<rparr>"

text \<open>
  The next identity value of a table whose rows are never deleted; the two tables that lose rows
  keep their sequences in the database.
\<close>

definition next_id :: "('r \<Rightarrow> int) \<Rightarrow> 'r list \<Rightarrow> int" where
  "next_id k rows = foldr max (map k rows) 0 + 1"

section \<open>Column domains\<close>

text \<open>A \<open>TEXT\<close> value is valid UTF-8 without the zero character.\<close>

definition pg_text :: "string \<Rightarrow> bool" where
  "pg_text s \<longleftrightarrow> utf8_valid s \<and> CHR 0x00 \<notin> set s"

definition pg_smallint :: "int \<Rightarrow> bool" where "pg_smallint i \<longleftrightarrow> - (2 ^ 15) \<le> i \<and> i < 2 ^ 15"
definition pg_integer :: "int \<Rightarrow> bool" where "pg_integer i \<longleftrightarrow> - (2 ^ 31) \<le> i \<and> i < 2 ^ 31"

definition pg_null :: "('a \<Rightarrow> bool) \<Rightarrow> 'a option \<Rightarrow> bool" where
  "pg_null P m = (case m of None \<Rightarrow> True | Some a \<Rightarrow> P a)"

definition registered :: "db \<Rightarrow> string \<Rightarrow> bool" where
  "registered d serial = exists_row (\<lambda>t. tr_serial_number t = serial) (db_terminals d)"

section \<open>Recording an activity\<close>

text \<open>
  The check of the column \<open>kind\<close>: \<open>^[a-z][a-z0-9_]*([.][a-z][a-z0-9_]*)*$\<close>; and the rule of
  \<open>JSONB\<close> that no text holds the zero character.
\<close>

definition kind_ok :: "string \<Rightarrow> bool" where
  "kind_ok kind \<longleftrightarrow>
     list_all (\<lambda>p. case p of [] \<Rightarrow> False
        | c # r \<Rightarrow> is_lower c \<and> list_all (\<lambda>x. is_lower x \<or> is_digit x \<or> x = CHR ''_'') r)
       (split_on (CHR ''.'') kind)"

definition field_ok :: "string \<times> field_value \<Rightarrow> bool" where
  "field_ok f \<longleftrightarrow> CHR 0x00 \<notin> set (fst f) \<and> (case snd f of FStr s \<Rightarrow> CHR 0x00 \<notin> set s | _ \<Rightarrow> True)"

definition activity_row_ok :: "db \<Rightarrow> activity \<Rightarrow> bool" where
  "activity_row_ok d event \<longleftrightarrow>
     kind_ok (act_Kind event) \<and> pg_text (act_Message event) \<and> list_all field_ok (act_Fields event) \<and>
     (act_Terminal event = [] \<or> registered d (act_Terminal event))"

definition insertGatewayActivity :: "instant \<Rightarrow> activity \<Rightarrow> db \<Rightarrow> (activity \<times> db) result" where
  "insertGatewayActivity now event d =
     bindE (guardE (act_Kind event \<noteq> []) (ErrNew ''gateway activity kind is required'')) (\<lambda>_.
     bindE (guardE (act_Message event \<noteq> []) (ErrNew ''gateway activity message is required'')) (\<lambda>_.
     bindE (guardE (activity_row_ok d event) (ErrConstraint ''record gateway activity'')) (\<lambda>_.
       let stored = event\<lparr>act_ID := next_id act_ID (db_activities d), act_At := now\<rparr>
       in Inr (stored, d\<lparr>db_activities := db_activities d @ [stored]\<rparr>))))"

definition RecordGatewayActivity :: "instant \<Rightarrow> activity \<Rightarrow> db \<Rightarrow> (activity \<times> db) result" where
  "RecordGatewayActivity now event d = insertGatewayActivity now event d"

lemma insertGatewayActivity_Inr:
  "insertGatewayActivity now event d = Inr (stored, d') \<longleftrightarrow>
     act_Kind event \<noteq> [] \<and> act_Message event \<noteq> [] \<and> activity_row_ok d event \<and>
     stored = event\<lparr>act_ID := next_id act_ID (db_activities d), act_At := now\<rparr> \<and>
     d' = d\<lparr>db_activities := db_activities d @ [stored]\<rparr>"
  by (auto simp: insertGatewayActivity_def res_simps Let_def)

lemma insertGatewayActivity_append:
  "insertGatewayActivity now event d = Inr (stored, d') \<Longrightarrow>
     d' = d\<lparr>db_activities := db_activities d @ [stored]\<rparr>"
  by (simp add: insertGatewayActivity_Inr)

text \<open>Recording an activity changes no other table.\<close>

lemma insertGatewayActivity_frame:
  assumes "insertGatewayActivity now event d = Inr (stored, d')"
  shows "db_terminals d' = db_terminals d" "db_sessions d' = db_sessions d"
    "db_device_events d' = db_device_events d" "db_admin_users d' = db_admin_users d"
    "db_admin_sessions d' = db_admin_sessions d" "db_projections d' = db_projections d"
    "db_commands d' = db_commands d" "db_sync_runs d' = db_sync_runs d"
    "db_sync_commands d' = db_sync_commands d" "db_retained d' = db_retained d"
    "db_routes d' = db_routes d" "db_deliveries d' = db_deliveries d"
    "db_attachments d' = db_attachments d" "db_backfills d' = db_backfills d"
    "db_admin_user_seq d' = db_admin_user_seq d" "db_admin_session_seq d' = db_admin_session_seq d"
    "db_activities d' = db_activities d @ [stored]"
  using assms by (auto simp: insertGatewayActivity_Inr)

lemma next_id_greater: "r \<in> set rows \<Longrightarrow> k r < next_id k rows"
  by (induction rows) (auto simp: next_id_def)

lemma unique_key_next_id:
  "unique_key k rows \<Longrightarrow> k r = next_id k rows \<Longrightarrow> unique_key k (rows @ [r])"
  using next_id_greater [of _ rows k] by (fastforce simp: unique_key_snoc)

end
