(* ===== verification/StoreCore.thy ===== *)
theory StoreCore
  imports Database
begin

text \<open>
  The terminals, PushSDK session checkpoints and administrator accounts of the store
  (\<open>internal/store/store.go\<close>). Every definition is one transaction: its result carries the
  committed database, its error leaves the database as it was. The bcrypt functions of
  \<open>golang.org/x/crypto\<close> are arguments.
\<close>

section \<open>Terminals\<close>

definition terminal_row_ok :: "db \<Rightarrow> Terminal \<Rightarrow> bool" where
  "terminal_row_ok d t \<longleftrightarrow>
     pg_text (SerialNumber t) \<and> pg_text (PushSDKSerial t) \<and> pg_text (Username t) \<and>
     (SecurityVersion t = 3 \<or> SecurityVersion t = 4) \<and>
     1 \<le> CommandIntervalSeconds t \<and> CommandIntervalSeconds t \<le> 300 \<and>
     1 \<le> ErrorDelaySeconds t \<and> ErrorDelaySeconds t \<le> 300 \<and>
     \<not> exists_row (\<lambda>r. tr_pushsdk_serial r = PushSDKSerial t \<and> tr_serial_number r \<noteq> SerialNumber t)
         (db_terminals d)"

definition seed_terminal :: "instant \<Rightarrow> Terminal \<Rightarrow> db \<Rightarrow> db result" where
  "seed_terminal now t d =
     bindE (guardE (terminal_row_ok d t) (ErrConstraint (''reconcile terminal '' @ SerialNumber t))) (\<lambda>_.
       if registered d (SerialNumber t) then
         Inr (d\<lparr>db_terminals := update_where (\<lambda>r. tr_serial_number r = SerialNumber t)
           (\<lambda>r. r\<lparr>tr_pushsdk_serial := PushSDKSerial t, tr_username := Username t,
                  tr_credential_fingerprint := CredentialFingerprint t,
                  tr_security_version := SecurityVersion t,
                  tr_command_interval_seconds := CommandIntervalSeconds t,
                  tr_error_delay_seconds := ErrorDelaySeconds t,
                  tr_connection_status := ''offline'', tr_last_error := None, tr_updated_at := now\<rparr>)
           (db_terminals d)\<rparr>)
       else
         Inr (d\<lparr>db_terminals := db_terminals d @
           [\<lparr> tr_serial_number = SerialNumber t, tr_pushsdk_serial = PushSDKSerial t,
              tr_username = Username t, tr_credential_fingerprint = CredentialFingerprint t,
              tr_security_version = SecurityVersion t,
              tr_command_interval_seconds = CommandIntervalSeconds t,
              tr_error_delay_seconds = ErrorDelaySeconds t, tr_connection_status = ''offline'',
              tr_last_seen_at = None, tr_last_error = None, tr_created_at = now, tr_updated_at = now \<rparr>]\<rparr>))"

definition SeedConfiguredTerminals :: "instant \<Rightarrow> Terminal list \<Rightarrow> db \<Rightarrow> db result" where
  "SeedConfiguredTerminals now terminals d = foldE (seed_terminal now) terminals d"

definition connection_status_ok :: "string \<Rightarrow> bool" where
  "connection_status_ok status \<longleftrightarrow>
     status = ''offline'' \<or> status = ''authenticating'' \<or> status = ''online'' \<or> status = ''error''"

definition set_terminal_state ::
    "instant \<Rightarrow> string \<Rightarrow> string \<Rightarrow> string option \<Rightarrow> terminal_row list \<Rightarrow> terminal_row list" where
  "set_terminal_state now serial status lastError rows =
     update_where (\<lambda>r. tr_serial_number r = serial)
       (\<lambda>r. (if status = ''offline'' then r else r\<lparr>tr_last_seen_at := Some now\<rparr>)
              \<lparr>tr_connection_status := status, tr_last_error := lastError, tr_updated_at := now\<rparr>) rows"

definition TransitionTerminalState ::
    "instant \<Rightarrow> string \<Rightarrow> string \<Rightarrow> string option \<Rightarrow> activity \<Rightarrow> db \<Rightarrow> (activity \<times> db) result" where
  "TransitionTerminalState now serial status lastError event d =
     bindE (guardE (act_Terminal event = serial)
              (ErrNew ''gateway activity terminal does not match state transition terminal'')) (\<lambda>_.
     bindE (guardE (connection_status_ok status \<and> pg_null pg_text lastError)
              (ErrConstraint ''set terminal state'')) (\<lambda>_.
     bindE (guardE (rows_affected (\<lambda>r. tr_serial_number r = serial) (db_terminals d) = 1)
              (ErrNew (''terminal '' @ serial @ '' is not registered''))) (\<lambda>_.
       insertGatewayActivity now event
         (d\<lparr>db_terminals := set_terminal_state now serial status lastError (db_terminals d)\<rparr>))))"

section \<open>Session checkpoints\<close>

text \<open>The checks of \<open>pushsdk_sessions\<close>.\<close>

definition session_row_ok :: "db \<Rightarrow> PushSDKSession \<Rightarrow> bool" where
  "session_row_ok d s \<longleftrightarrow>
     registered d (ps_TerminalSerialNumber s) \<and> lowerHex64 (ps_ConfigurationFingerprint s) \<and>
     (ps_PayloadMode s = ''plaintext'' \<or> ps_PayloadMode s = ''encrypted'') \<and>
     matches_class is_alnum 64 64 (ps_Salt s) \<and> matches_class is_alnum 64 64 (ps_LoginChallenge s) \<and>
     500 \<le> ps_Iterations s \<and> ps_Iterations s \<le> 5000 \<and>
     (if ps_Authenticated s
      then lowerHex64 (ps_NextChallenge s) \<and> ps_NextChallengeAt s \<noteq> None
      else ps_NextChallenge s = [] \<and> ps_NextChallengeAt s = None)"

text \<open>The stored form of a checkpoint: its times are PostgreSQL timestamps.\<close>

definition stored_session :: "PushSDKSession \<Rightarrow> PushSDKSession" where
  "stored_session s =
     s\<lparr>ps_CreatedAt := pg_timestamp (ps_CreatedAt s),
       ps_NextChallengeAt := map_option pg_timestamp (ps_NextChallengeAt s)\<rparr>"

definition put_session :: "PushSDKSession \<Rightarrow> PushSDKSession list \<Rightarrow> PushSDKSession list" where
  "put_session s rows =
     (if exists_row (\<lambda>r. ps_TerminalSerialNumber r = ps_TerminalSerialNumber s) rows
      then update_where (\<lambda>r. ps_TerminalSerialNumber r = ps_TerminalSerialNumber s) (\<lambda>_. s) rows
      else rows @ [s])"

definition UpsertPushSDKSession :: "instant \<Rightarrow> PushSDKSession \<Rightarrow> db \<Rightarrow> db result" where
  "UpsertPushSDKSession now s d =
     bindE (guardE (session_row_ok d s) (ErrConstraint ''upsert PushSDK session'')) (\<lambda>_.
     let d1 = d\<lparr>db_sessions := put_session (stored_session s) (db_sessions d)\<rparr>
     in if ps_Authenticated s then
          Inr (d1\<lparr>db_terminals := update_where (\<lambda>r. tr_serial_number r = ps_TerminalSerialNumber s)
            (\<lambda>r. r\<lparr>tr_last_seen_at := map_option pg_timestamp (ps_NextChallengeAt s), tr_updated_at := now\<rparr>)
            (db_terminals d1)\<rparr>)
        else Inr d1)"

definition ExpirePushSDKLoginChallenge ::
    "instant \<Rightarrow> string \<Rightarrow> string \<Rightarrow> db \<Rightarrow> (activity option \<times> db) result" where
  "ExpirePushSDKLoginChallenge now serial reason d =
     (let stale = (\<lambda>r. tr_serial_number r = serial \<and> tr_connection_status r \<noteq> ''offline'');
          d1 = d\<lparr>db_sessions := delete_where (\<lambda>s. ps_TerminalSerialNumber s = serial) (db_sessions d),
                 db_terminals := update_where stale
                   (\<lambda>r. r\<lparr>tr_connection_status := ''offline'', tr_last_error := Some reason, tr_updated_at := now\<rparr>)
                   (db_terminals d)\<rparr>
      in bindE (guardE (pg_text reason) (ErrConstraint ''expire login challenge'')) (\<lambda>_.
         if rows_affected stale (db_terminals d) > 0 then
           bindE (insertGatewayActivity now (new_activity ''pushsdk.session_expired'' serial reason []) d1)
             (\<lambda>(stored, d2). Inr (Some stored, d2))
         else Inr (None, d1)))"

definition PushSDKSessions :: "db \<Rightarrow> PushSDKSession list" where
  "PushSDKSessions d = sort_key ps_TerminalSerialNumber (db_sessions d)"

definition DeletePushSDKSession :: "string \<Rightarrow> db \<Rightarrow> db" where
  "DeletePushSDKSession serial d =
     d\<lparr>db_sessions := delete_where (\<lambda>s. ps_TerminalSerialNumber s = serial) (db_sessions d)\<rparr>"

text \<open>The checkpoint of a terminal.\<close>

definition checkpoint :: "db \<Rightarrow> string \<Rightarrow> PushSDKSession option" where
  "checkpoint d serial = select_row (\<lambda>s. ps_TerminalSerialNumber s = serial) (db_sessions d)"

section \<open>Administrators\<close>

text \<open>
  Deleting administrators cascades to their sessions and clears their mark on commands and sync
  runs; the routes they saved and the backfills they queued still refer to them, so the database
  refuses the deletion while such a row exists.
\<close>

definition admin_referenced :: "db \<Rightarrow> int \<Rightarrow> bool" where
  "admin_referenced d i \<longleftrightarrow>
     exists_row (\<lambda>r. dr_updated_by r = i) (db_routes d) \<or> exists_row (\<lambda>b. bf_created_by b = i) (db_backfills d)"

definition clear_id :: "int list \<Rightarrow> int option \<Rightarrow> int option" where
  "clear_id ids m = (case m of Some i \<Rightarrow> if i \<in> set ids then None else m | None \<Rightarrow> None)"

definition delete_admins :: "(admin_user_row \<Rightarrow> bool) \<Rightarrow> db \<Rightarrow> db result" where
  "delete_admins p d =
     (let ids = map au_id (filter p (db_admin_users d))
      in bindE (guardE (\<not> list_ex (admin_referenced d) ids) (ErrConstraint ''remove replaced administrator'')) (\<lambda>_.
         Inr (d\<lparr>db_admin_users := delete_where p (db_admin_users d),
                db_admin_sessions := delete_where (\<lambda>s. as_admin_user_id s \<in> set ids) (db_admin_sessions d),
                db_commands := map (\<lambda>c. c\<lparr>cmd_created_by_admin_user_id := clear_id ids (cmd_created_by_admin_user_id c)\<rparr>) (db_commands d),
                db_sync_runs := map (\<lambda>r. r\<lparr>sr_created_by_admin_user_id := clear_id ids (sr_created_by_admin_user_id r)\<rparr>) (db_sync_runs d)\<rparr>)))"

definition ReconcileConfiguredAdministrator ::
    "(string \<Rightarrow> string result) \<Rightarrow> (string \<Rightarrow> string \<Rightarrow> bool) \<Rightarrow> instant \<Rightarrow> string \<Rightarrow> string \<Rightarrow> db \<Rightarrow> db result" where
  "ReconcileConfiguredAdministrator bcrypt_generate bcrypt_matches now username password d =
     bindE (delete_admins (\<lambda>u. au_username u \<noteq> username) d) (\<lambda>d1.
     case select_row (\<lambda>u. au_username u = username) (db_admin_users d1) of
       None \<Rightarrow>
         bindE (bcrypt_generate password) (\<lambda>hash.
         bindE (guardE (pg_text username) (ErrConstraint ''create configured administrator'')) (\<lambda>_.
           Inr (d1\<lparr>db_admin_users := db_admin_users d1 @
                    [\<lparr> au_id = db_admin_user_seq d1, au_username = username, au_password_hash = hash,
                       au_created_at = now, au_updated_at = now \<rparr>],
                  db_admin_user_seq := db_admin_user_seq d1 + 1\<rparr>)))
     | Some u \<Rightarrow>
         if bcrypt_matches (au_password_hash u) password then Inr d1
         else bindE (bcrypt_generate password) (\<lambda>hash.
           Inr (d1\<lparr>db_admin_users := update_where (\<lambda>r. au_username r = username)
             (\<lambda>r. r\<lparr>au_password_hash := hash, au_updated_at := now\<rparr>) (db_admin_users d1)\<rparr>)))"

definition VerifyAdmin :: "(string \<Rightarrow> string \<Rightarrow> bool) \<Rightarrow> string \<Rightarrow> string \<Rightarrow> db \<Rightarrow> int option" where
  "VerifyAdmin bcrypt_matches username password d =
     (case select_row (\<lambda>u. au_username u = username) (db_admin_users d) of
        None \<Rightarrow> None
      | Some u \<Rightarrow> if bcrypt_matches (au_password_hash u) password then Some (au_id u) else None)"

definition CreateSessionWithActivity ::
    "instant \<Rightarrow> int \<Rightarrow> bytes \<Rightarrow> instant \<Rightarrow> activity \<Rightarrow> db \<Rightarrow> (activity \<times> db) result" where
  "CreateSessionWithActivity now userID tokenHash expiresAt event d =
     bindE (guardE (exists_row (\<lambda>u. au_id u = userID) (db_admin_users d) \<and>
                    \<not> exists_row (\<lambda>s. as_token_hash s = tokenHash) (db_admin_sessions d))
              (ErrConstraint ''create admin session'')) (\<lambda>_.
       insertGatewayActivity now event
         (d\<lparr>db_admin_sessions := db_admin_sessions d @
              [\<lparr> as_id = db_admin_session_seq d, as_admin_user_id = userID, as_token_hash = tokenHash,
                 as_expires_at = pg_timestamp expiresAt, as_created_at = now \<rparr>],
            db_admin_session_seq := db_admin_session_seq d + 1\<rparr>))"

definition SessionValid :: "instant \<Rightarrow> bytes \<Rightarrow> db \<Rightarrow> bool" where
  "SessionValid now tokenHash d =
     exists_row (\<lambda>s. as_token_hash s = tokenHash \<and> as_expires_at s > now) (db_admin_sessions d)"

definition DeleteSessionWithActivity :: "instant \<Rightarrow> bytes \<Rightarrow> activity \<Rightarrow> db \<Rightarrow> (activity \<times> db) result" where
  "DeleteSessionWithActivity now tokenHash event d =
     insertGatewayActivity now event
       (d\<lparr>db_admin_sessions := delete_where (\<lambda>s. as_token_hash s = tokenHash) (db_admin_sessions d)\<rparr>)"

definition PurgeExpiredSessions :: "instant \<Rightarrow> db \<Rightarrow> db" where
  "PurgeExpiredSessions now d =
     d\<lparr>db_admin_sessions := delete_where (\<lambda>s. as_expires_at s \<le> now) (db_admin_sessions d)\<rparr>"

record AdminIdentity =
  ai_ID :: int
  ai_Username :: string

definition AdminIdentityForSession :: "instant \<Rightarrow> bytes \<Rightarrow> db \<Rightarrow> AdminIdentity option" where
  "AdminIdentityForSession now tokenHash d =
     (case select_row (\<lambda>s. as_token_hash s = tokenHash \<and> as_expires_at s > now) (db_admin_sessions d) of
        None \<Rightarrow> None
      | Some s \<Rightarrow>
          map_option (\<lambda>u. \<lparr> ai_ID = au_id u, ai_Username = au_username u \<rparr>)
            (select_row (\<lambda>u. au_id u = as_admin_user_id s) (db_admin_users d)))"

section \<open>Checkpoint laws\<close>

text \<open>
  What the protocol service relies on: a checkpoint that was put is what is read back, in the
  stored form, until it is replaced or removed, and no operation touches another terminal's.
\<close>

locale checkpoint_store =
  fixes get :: "'d \<Rightarrow> string \<Rightarrow> 's option"
    and put :: "'s \<Rightarrow> 'd \<Rightarrow> 'd result"
    and remove :: "string \<Rightarrow> 'd \<Rightarrow> 'd"
    and key :: "'s \<Rightarrow> string"
    and stored :: "'s \<Rightarrow> 's"
  assumes get_put: "put s d = Inr d' \<Longrightarrow> get d' k = (if k = key s then Some (stored s) else get d k)"
    and get_remove: "get (remove j d) k = (if k = j then None else get d k)"
begin

lemma put_get_same: "put s d = Inr d' \<Longrightarrow> get d' (key s) = Some (stored s)"
  by (simp add: get_put)

lemma put_put:
  "put s d = Inr d1 \<Longrightarrow> put s' d1 = Inr d2 \<Longrightarrow> key s' = key s \<Longrightarrow>
     get d2 k = (if k = key s then Some (stored s') else get d k)"
  by (simp add: get_put)

text \<open>Putting the previous checkpoint back undoes a replacement; removing it undoes a first one.\<close>

lemma put_undo:
  "get d (key s) = Some (stored old) \<Longrightarrow> put s d = Inr d1 \<Longrightarrow> put old d1 = Inr d2 \<Longrightarrow> key old = key s \<Longrightarrow>
     get d2 k = get d k"
  by (simp add: get_put)

lemma remove_undo: "get d (key s) = None \<Longrightarrow> put s d = Inr d1 \<Longrightarrow> get (remove (key s) d1) k = get d k"
  by (simp add: get_put get_remove)

end

lemma checkpoint_put_session:
  "select_row (\<lambda>r. ps_TerminalSerialNumber r = k) (put_session s rows) =
     (if k = ps_TerminalSerialNumber s then Some s
      else select_row (\<lambda>r. ps_TerminalSerialNumber r = k) rows)"
  unfolding put_session_def by (rule select_upsert_key)

lemma Upsert_Inr:
  assumes "UpsertPushSDKSession now s d = Inr d'"
  shows "session_row_ok d s" "db_sessions d' = put_session (stored_session s) (db_sessions d)"
    "\<exists>terminals. d' = d\<lparr>db_sessions := put_session (stored_session s) (db_sessions d), db_terminals := terminals\<rparr> \<and>
       map tr_serial_number terminals = map tr_serial_number (db_terminals d) \<and>
       map tr_connection_status terminals = map tr_connection_status (db_terminals d)"
proof -
  from assms show "session_row_ok d s" "db_sessions d' = put_session (stored_session s) (db_sessions d)"
    by (auto simp: UpsertPushSDKSession_def res_simps Let_def split: if_splits)
  from assms show "\<exists>terminals. d' = d\<lparr>db_sessions := put_session (stored_session s) (db_sessions d), db_terminals := terminals\<rparr> \<and>
       map tr_serial_number terminals = map tr_serial_number (db_terminals d) \<and>
       map tr_connection_status terminals = map tr_connection_status (db_terminals d)"
  proof (cases "ps_Authenticated s")
    case True
    with assms show ?thesis
      by (auto simp: UpsertPushSDKSession_def res_simps Let_def map_update_where intro!: exI)
  next
    case False
    with assms show ?thesis
      by (intro exI [of _ "db_terminals d"]) (auto simp: UpsertPushSDKSession_def res_simps Let_def)
  qed
qed

lemma Upsert_checkpoint:
  "UpsertPushSDKSession now s d = Inr d' \<Longrightarrow>
     checkpoint d' k = (if k = ps_TerminalSerialNumber s then Some (stored_session s) else checkpoint d k)"
  by (simp add: checkpoint_def Upsert_Inr(2) checkpoint_put_session stored_session_def)

lemma Delete_checkpoint: "checkpoint (DeletePushSDKSession j d) k = (if k = j then None else checkpoint d k)"
  by (simp add: checkpoint_def DeletePushSDKSession_def select_delete_key)

interpretation cps: checkpoint_store checkpoint "UpsertPushSDKSession now" DeletePushSDKSession
  ps_TerminalSerialNumber stored_session for now
  by unfold_locales (simp_all add: Upsert_checkpoint Delete_checkpoint)

section \<open>Terminal state\<close>

lemma Transition_Inr:
  "TransitionTerminalState now serial status lastError event d = Inr (stored, d') \<longleftrightarrow>
     act_Terminal event = serial \<and> connection_status_ok status \<and> pg_null pg_text lastError \<and>
     rows_affected (\<lambda>r. tr_serial_number r = serial) (db_terminals d) = 1 \<and>
     insertGatewayActivity now event
       (d\<lparr>db_terminals := set_terminal_state now serial status lastError (db_terminals d)\<rparr>) = Inr (stored, d')"
  by (auto simp: TransitionTerminalState_def res_simps)

lemma Transition_frame:
  assumes "TransitionTerminalState now serial status lastError event d = Inr (stored, d')"
  shows "d' = d\<lparr>db_terminals := set_terminal_state now serial status lastError (db_terminals d),
                 db_activities := db_activities d @ [stored]\<rparr>"
  using assms by (auto simp: Transition_Inr dest!: insertGatewayActivity_append)

lemma serials_set_terminal_state:
  "map tr_serial_number (set_terminal_state now serial status lastError rows) = map tr_serial_number rows"
  by (simp add: set_terminal_state_def map_update_where)

text \<open>The connection status the store reports for a terminal.\<close>

definition terminal_status :: "db \<Rightarrow> string \<Rightarrow> string option" where
  "terminal_status d serial =
     map_option tr_connection_status (select_row (\<lambda>r. tr_serial_number r = serial) (db_terminals d))"

lemma terminal_status_set:
  "terminal_status (d\<lparr>db_terminals := set_terminal_state now serial status lastError (db_terminals d)\<rparr>) k =
     (if k = serial then map_option (\<lambda>_. status) (terminal_status d k) else terminal_status d k)"
  unfolding terminal_status_def set_terminal_state_def
  by (simp add: select_update_key option.map_comp comp_def)

section \<open>Administrator sessions and accounts\<close>

lemma SessionValid_Create:
  assumes "CreateSessionWithActivity now userID h expiresAt event d = Inr (stored, d')"
  shows "SessionValid t k d' \<longleftrightarrow> (if k = h then t < pg_timestamp expiresAt else SessionValid t k d)"
proof -
  from assms obtain s where "db_admin_sessions d' = db_admin_sessions d @ [s]" "as_token_hash s = h"
    "as_expires_at s = pg_timestamp expiresAt" "\<forall>r \<in> set (db_admin_sessions d). as_token_hash r \<noteq> h"
    by (auto simp: CreateSessionWithActivity_def res_simps row_simps dest!: insertGatewayActivity_append)
  then show ?thesis by (auto simp: SessionValid_def row_simps)
qed

lemma AdminIdentity_Create:
  assumes "CreateSessionWithActivity now userID h expiresAt event d = Inr (stored, d')"
    and "unique_key au_id (db_admin_users d)" "t < pg_timestamp expiresAt"
  shows "map_option ai_ID (AdminIdentityForSession t h d') = Some userID"
proof -
  from assms(1) obtain s u where s: "db_admin_sessions d' = db_admin_sessions d @ [s]" "as_token_hash s = h"
    "as_expires_at s = pg_timestamp expiresAt" "\<forall>r \<in> set (db_admin_sessions d). as_token_hash r \<noteq> h"
    "as_admin_user_id s = userID" "db_admin_users d' = db_admin_users d" "u \<in> set (db_admin_users d)" "au_id u = userID"
    by (auto simp: CreateSessionWithActivity_def res_simps row_simps dest!: insertGatewayActivity_append)
  have "select_row (\<lambda>s. as_token_hash s = h \<and> as_expires_at s > t) (db_admin_sessions d') = Some s"
  proof -
    have "select_row (\<lambda>s. as_token_hash s = h \<and> as_expires_at s > t) (db_admin_sessions d) = None"
      using s(4) by (auto simp: select_row_None)
    then show ?thesis using s assms(3) by (simp add: select_row_append) (simp add: select_row_def)
  qed
  with select_row_unique [OF assms(2) s(7)] s show ?thesis by (simp add: AdminIdentityForSession_def)
qed

lemma SessionValid_Delete:
  "DeleteSessionWithActivity now h event d = Inr (stored, d') \<Longrightarrow> SessionValid t k d' \<longleftrightarrow> k \<noteq> h \<and> SessionValid t k d"
  by (auto simp: DeleteSessionWithActivity_def SessionValid_def row_simps dest!: insertGatewayActivity_append)

lemma SessionValid_Purge: "t \<ge> now \<Longrightarrow> SessionValid t k (PurgeExpiredSessions now d) = SessionValid t k d"
  by (auto simp: PurgeExpiredSessions_def SessionValid_def row_simps)

text \<open>
  Reconciling the configured administrator, under the contract of bcrypt: a hash generated from a
  password matches it.
\<close>

definition bcrypt_contract :: "(string \<Rightarrow> string result) \<Rightarrow> (string \<Rightarrow> string \<Rightarrow> bool) \<Rightarrow> bool" where
  "bcrypt_contract generate matches \<longleftrightarrow> (\<forall>password hash. generate password = Inr hash \<longrightarrow> matches hash password)"

lemma delete_admins_Inr:
  assumes "delete_admins p d = Inr d'"
  shows "db_admin_users d' = delete_where p (db_admin_users d)"
    "set (db_admin_sessions d') = {s \<in> set (db_admin_sessions d). as_admin_user_id s \<notin> au_id ` {u \<in> set (db_admin_users d). p u}}"
  using assms by (auto simp: delete_admins_def res_simps Let_def row_simps)

lemma Reconcile_Inr:
  assumes "ReconcileConfiguredAdministrator generate matches now username password d = Inr d'"
    and "bcrypt_contract generate matches" "unique_key au_username (db_admin_users d)"
  shows "\<exists>u. db_admin_users d' = [u] \<and> au_username u = username \<and> matches (au_password_hash u) password"
    "set (db_admin_sessions d') \<subseteq> {s \<in> set (db_admin_sessions d). as_admin_user_id s \<notin> au_id ` {u \<in> set (db_admin_users d). au_username u \<noteq> username}}"
proof -
  let ?others = "\<lambda>u. au_username u \<noteq> username"
  from assms(1) obtain d1 where d1: "delete_admins ?others d = Inr d1"
    by (auto simp: ReconcileConfiguredAdministrator_def bindE_eq_Inr)
  have users: "db_admin_users d1 = filter (\<lambda>u. au_username u = username) (db_admin_users d)"
    using delete_admins_Inr(1) [OF d1] by (simp add: delete_where_def)
  have one: "length (db_admin_users d1) \<le> 1"
    using rows_affected_unique [OF assms(3), of username] by (simp add: users rows_affected_def)
  show "\<exists>u. db_admin_users d' = [u] \<and> au_username u = username \<and> matches (au_password_hash u) password"
  proof (cases "db_admin_users d1")
    case Nil
    with assms(1,2) d1 show ?thesis
      by (auto simp: ReconcileConfiguredAdministrator_def select_row_def res_simps bcrypt_contract_def)
  next
    case (Cons u us)
    with one have u: "db_admin_users d1 = [u]" by simp
    have "au_username u = username" using users u by (auto dest!: arg_cong [of _ _ set])
    with u assms(1,2) d1 show ?thesis
      by (auto simp: ReconcileConfiguredAdministrator_def select_row_def res_simps bcrypt_contract_def update_where_def split: if_splits)
  qed
  have "db_admin_sessions d' = db_admin_sessions d1"
    using assms(1) d1 by (auto simp: ReconcileConfiguredAdministrator_def res_simps split: option.splits if_splits)
  then show "set (db_admin_sessions d') \<subseteq> {s \<in> set (db_admin_sessions d). as_admin_user_id s \<notin> au_id ` {u \<in> set (db_admin_users d). au_username u \<noteq> username}}"
    using delete_admins_Inr(2) [OF d1] by simp
qed

lemma Reconcile_refused:
  assumes "u \<in> set (db_admin_users d)" "au_username u \<noteq> username" "admin_referenced d (au_id u)"
  shows "ReconcileConfiguredAdministrator generate matches now username password d =
    Inl (ErrConstraint ''remove replaced administrator'')"
  using assms by (auto simp: ReconcileConfiguredAdministrator_def delete_admins_def Let_def list_ex_iff guardE_def)

end
