(* ===== verification/PushCrypto.thy ===== *)
theory PushCrypto
  imports Config
begin

text \<open>
  The cryptography of the PushSDK protocol (\<open>internal/pushsdk/crypto.go\<close>): random strings and
  challenges, the password hash and the two proofs derived from it, the encryption parameters of
  a request, and the AES-CBC payload encryption with PKCS#7 padding. The key-derivation function
  PBKDF2 comes from \<open>golang.org/x/crypto\<close> and is the argument \<open>pbkdf2\<close>; the system's random
  source is the string of bytes it will still deliver, and its end is a read error.
\<close>

section \<open>Random strings\<close>

definition alphabet :: string where
  "alphabet = ''0123456789ABCDEFGHIJKLMNOPQRSTUVWXYZabcdefghijklmnopqrstuvwxyz''"

text \<open>\<open>io.ReadFull(rand.Reader, ..)\<close>: the bytes read and the bytes left.\<close>

definition read_full :: "nat \<Rightarrow> bytes \<Rightarrow> (bytes \<times> bytes) result" where
  "read_full n rand = (if length rand < n then Inl (ErrNew ''random source'') else Inr (take n rand, drop n rand))"

definition random_limit :: nat where
  "random_limit = 256 - 256 mod length alphabet"

text \<open>The characters a block of random bytes yields; bytes at or above the limit are skipped.\<close>

definition alphabet_chars :: "bytes \<Rightarrow> string" where
  "alphabet_chars block =
     map (\<lambda>b. alphabet ! (byte_val b mod length alphabet)) (filter (\<lambda>b. byte_val b < random_limit) block)"

function random_fill :: "nat \<Rightarrow> string \<Rightarrow> bytes \<Rightarrow> (string \<times> bytes) result" where
  "random_fill n acc rand =
     (if n \<le> length acc then Inr (acc, rand)
      else if length rand < 32 then Inl (ErrNew ''random source'')
      else random_fill n (acc @ take (n - length acc) (alphabet_chars (take 32 rand))) (drop 32 rand))"
  by pat_completeness auto
termination by (relation "measure (\<lambda>(n, acc, rand). length rand)") auto

declare random_fill.simps [simp del]

definition randomAlphaNumeric :: "nat \<Rightarrow> bytes \<Rightarrow> (string \<times> bytes) result" where
  "randomAlphaNumeric n rand = random_fill n [] rand"

definition randomCustomChallenge :: "bytes \<Rightarrow> (string \<times> bytes) result" where
  "randomCustomChallenge rand =
     bindE (read_full 32 rand) (\<lambda>(value, rest). Inr (hex_encode value, rest))"

definition hex32 :: "string \<Rightarrow> bool" where
  "hex32 = matches_class is_hex 32 32"

definition alphaNumeric64 :: "string \<Rightarrow> bool" where
  "alphaNumeric64 = matches_class is_alnum 64 64"

section \<open>Proofs of the shared password\<close>

datatype digest = SHA1 | SHA256

type_synonym kdf = "digest \<Rightarrow> bytes \<Rightarrow> bytes \<Rightarrow> int \<Rightarrow> nat \<Rightarrow> bytes"

definition passwordHash :: "Terminal \<Rightarrow> string \<Rightarrow> string" where
  "passwordHash t salt = hex_encode (sha256 (Username t @ salt @ Password t))"

text \<open>\<open>None\<close> is the panic on a digest that validation would have refused.\<close>

definition loginPasswordHash :: "string \<Rightarrow> digest option" where
  "loginPasswordHash d =
     (if d = ''sha1'' then Some SHA1 else if d = ''sha256'' then Some SHA256 else None)"

definition expectedLoginPassword :: "kdf \<Rightarrow> Terminal \<Rightarrow> string \<Rightarrow> string \<Rightarrow> int \<Rightarrow> string option" where
  "expectedLoginPassword pbkdf2 t salt challenge iterations =
     map_option (\<lambda>h. hex_encode (pbkdf2 h (passwordHash t salt @ challenge) salt iterations 64))
       (loginPasswordHash (LoginPasswordDigest t))"

definition expectedCustomAuth :: "Terminal \<Rightarrow> string \<Rightarrow> string \<Rightarrow> string" where
  "expectedCustomAuth t salt challenge = hex_encode (sha256 (passwordHash t salt @ challenge))"

text \<open>\<open>hmac.Equal\<close>, which takes the same time on every input, compares bytes.\<close>

definition constantTimeEqual :: "string \<Rightarrow> string \<Rightarrow> bool" where
  "constantTimeEqual l r \<longleftrightarrow> l = r"

text \<open>PBKDF2 delivers as many bytes as it is asked for.\<close>

definition kdf_length :: "kdf \<Rightarrow> bool" where
  "kdf_length pbkdf2 \<longleftrightarrow> (\<forall>h password salt iterations n. length (pbkdf2 h password salt iterations n) = n)"

section \<open>Encryption parameters\<close>

record EncryptionParameters =
  ep_SecurityVersion :: int
  ep_IV :: bytes
  ep_Random :: string

definition ParseEncryptionParameters ::
    "string \<Rightarrow> string \<Rightarrow> string \<Rightarrow> int \<Rightarrow> EncryptionParameters result" where
  "ParseEncryptionParameters security iv random expectedSecurity =
     bindE (guardE (security \<noteq> [] \<and> iv \<noteq> [] \<and> random \<noteq> [])
              (ErrNew ''security, iv, and random must all be present'')) (\<lambda>_.
     bindE (guardE (security = itoa expectedSecurity) (ErrNew ''security version is not negotiated'')) (\<lambda>_.
     bindE (guardE (hex32 iv) (ErrNew ''iv must be exactly 32 hexadecimal characters'')) (\<lambda>_.
     bindE (guardE (length random = 16) (ErrNew ''random must be exactly 16 UTF-8 bytes'')) (\<lambda>_.
     bindE (someE (ErrNew ''decode iv'') (hex_decode iv)) (\<lambda>decoded.
       Inr \<lparr> ep_SecurityVersion = expectedSecurity, ep_IV = decoded, ep_Random = random \<rparr>)))))"

section \<open>Payload encryption\<close>

definition deriveKey :: "kdf \<Rightarrow> Terminal \<Rightarrow> string \<Rightarrow> int \<Rightarrow> EncryptionParameters \<Rightarrow> bytes" where
  "deriveKey pbkdf2 t salt iterations params =
     pbkdf2 SHA256 (passwordHash t salt @ ep_Random params) salt iterations
       (if ep_SecurityVersion params = 4 then 32 else 16)"

definition padPKCS7 :: "bytes \<Rightarrow> nat \<Rightarrow> bytes" where
  "padPKCS7 value blocksize =
     (let padding = blocksize - length value mod blocksize in value @ replicate padding (char_of padding))"

definition unpadPKCS7 :: "bytes \<Rightarrow> bytes result" where
  "unpadPKCS7 value =
     (if value = [] \<or> length value mod 16 \<noteq> 0 then Inl (ErrNew ''invalid padded plaintext length'')
      else let padding = byte_val (last value)
           in if padding < 1 \<or> padding > 16 \<or> padding > length value then Inl (ErrNew ''invalid PKCS#7 padding'')
              else if \<not> list_all (\<lambda>c. byte_val c = padding) (drop (length value - padding) value)
                then Inl (ErrNew ''invalid PKCS#7 padding'')
              else Inr (take (length value - padding) value))"

definition decrypt ::
    "kdf \<Rightarrow> Terminal \<Rightarrow> string \<Rightarrow> int \<Rightarrow> EncryptionParameters \<Rightarrow> bytes \<Rightarrow> bytes result" where
  "decrypt pbkdf2 t salt iterations params encrypted =
     bindE (someE (ErrNew ''request body must be base64 ciphertext'') (b64_decode encrypted)) (\<lambda>encoded.
     bindE (someE (ErrNew ''crypto/aes: invalid key size'')
              (aes_new_cipher (deriveKey pbkdf2 t salt iterations params))) (\<lambda>block.
     bindE (guardE (encoded \<noteq> [] \<and> length encoded mod 16 = 0)
              (ErrNew ''ciphertext has invalid AES-CBC length'')) (\<lambda>_.
       unpadPKCS7 (crypt_blocks (cbc_decrypt block) (ep_IV params) encoded))))"

definition encrypt ::
    "kdf \<Rightarrow> Terminal \<Rightarrow> string \<Rightarrow> int \<Rightarrow> EncryptionParameters \<Rightarrow> bytes \<Rightarrow> bytes result" where
  "encrypt pbkdf2 t salt iterations params plain =
     bindE (someE (ErrNew ''crypto/aes: invalid key size'')
              (aes_new_cipher (deriveKey pbkdf2 t salt iterations params))) (\<lambda>block.
       Inr (b64_encode (crypt_blocks (cbc_encrypt block) (ep_IV params) (padPKCS7 plain 16))))"

section \<open>Lemmas\<close>

lemma length_alphabet [simp]: "length alphabet = 62"
  by (simp add: alphabet_def)

lemma random_limit_eq: "random_limit = 248"
  by (simp add: random_limit_def)

lemma alphabet_alnum: "list_all is_alnum alphabet"
  by (simp add: alphabet_def char_class_defs)

lemma alphabet_chars_alnum: "list_all is_alnum (alphabet_chars block)"
  using alphabet_alnum by (auto simp: alphabet_chars_def list_all_length)

lemma random_fill_ok:
  assumes "random_fill n acc rand = Inr (s, rest)" "length acc \<le> n" "list_all is_alnum acc"
  shows "length s = n \<and> list_all is_alnum s \<and> length rest \<le> length rand"
  using assms
proof (induction n acc rand rule: random_fill.induct)
  case (1 n acc rand)
  show ?case
  proof (cases "n \<le> length acc")
    case True
    with "1.prems" show ?thesis by (simp add: random_fill.simps)
  next
    case False
    with "1.prems"(1) have long: "\<not> length rand < 32"
      and step: "random_fill n (acc @ take (n - length acc) (alphabet_chars (take 32 rand))) (drop 32 rand) = Inr (s, rest)"
      by (auto simp: random_fill.simps [of n acc] split: if_splits)
    have "list_all is_alnum (take k (alphabet_chars b))" for k b
      using alphabet_chars_alnum [of b] by (auto simp: list_all_iff dest: in_set_takeD)
    with "1.prems" False have "length s = n \<and> list_all is_alnum s \<and> length rest \<le> length (drop 32 rand)"
      by (intro "1.IH" [OF False long step]) auto
    then show ?thesis by auto
  qed
qed

lemma randomAlphaNumeric_alphabet:
  "randomAlphaNumeric n rand = Inr (s, rest) \<Longrightarrow> length s = n \<and> list_all is_alnum s"
  using random_fill_ok [of n "[]" rand s rest] by (simp add: randomAlphaNumeric_def)

lemma randomAlphaNumeric_64: "randomAlphaNumeric 64 rand = Inr (s, rest) \<Longrightarrow> alphaNumeric64 s"
  by (auto dest!: randomAlphaNumeric_alphabet simp: alphaNumeric64_def matches_class_def)

lemma randomCustomChallenge_format:
  "randomCustomChallenge rand = Inr (s, rest) \<Longrightarrow>
     lowerHex64 s \<and> s = hex_encode (take 32 rand) \<and> rest = drop 32 rand"
  by (auto simp: randomCustomChallenge_def read_full_def bindE_eq_Inr lowerHex64_def matches_class_def
      split: if_splits)

lemma ParseEncryptionParameters_IV:
  "ParseEncryptionParameters security iv random v = Inr p \<Longrightarrow>
     length (ep_IV p) = 16 \<and> length (ep_Random p) = 16 \<and> ep_SecurityVersion p = v"
  by (auto simp: ParseEncryptionParameters_def bindE_eq_Inr guardE_eq_Inr someE_eq_Inr hex32_def
      matches_class_def dest!: hex_decode_length)

lemma ParseEncryptionParameters_accepts:
  "(\<exists>p. ParseEncryptionParameters security iv random v = Inr p) \<longleftrightarrow>
     security = itoa v \<and> hex32 iv \<and> length random = 16"
proof -
  have "\<exists>bs. hex_decode iv = Some bs" if "hex32 iv"
    using that by (intro hex_decode_total) (auto simp: hex32_def matches_class_def)
  moreover have "itoa v \<noteq> []" by (simp add: itoa_def)
  ultimately show ?thesis
    by (auto simp: ParseEncryptionParameters_def bindE_eq_Inr guardE_eq_Inr someE_eq_Inr hex32_def matches_class_def)
qed

lemma pad_mod: "(n + (16 - n mod 16)) mod 16 = (0 :: nat)"
proof -
  have "n mod 16 < 16" by simp
  with div_mult_mod_eq [of n 16] have "n + (16 - n mod 16) = (n div 16 + 1) * 16"
    unfolding add_mult_distrib by linarith
  then show ?thesis by (metis mod_mult_self2_is_0)
qed

lemma unpad_pad: "unpadPKCS7 (padPKCS7 value 16) = Inr value"
proof -
  define p where "p = 16 - length value mod 16"
  have p: "1 \<le> p" "p \<le> 16" using mod_less_divisor [of 16 "length value"] by (simp_all add: p_def)
  have len: "(length value + p) mod 16 = 0" unfolding p_def by (rule pad_mod)
  have "last (value @ replicate p (char_of p)) = (char_of p :: char)" using p by simp
  moreover have "byte_val (char_of p :: char) = p" using p by simp
  ultimately show ?thesis
    using p len by (simp add: unpadPKCS7_def padPKCS7_def Let_def list_all_iff flip: p_def)
qed

lemma pad_length: "16 dvd length (padPKCS7 value 16)" "padPKCS7 value 16 \<noteq> []"
  using pad_mod [of "length value"] mod_less_divisor [of 16 "length value"]
  by (auto simp: padPKCS7_def Let_def)

lemma deriveKey_cipher:
  assumes "kdf_length pbkdf2"
  shows "\<exists>ks. aes_new_cipher (deriveKey pbkdf2 t salt iterations params) = Some ks \<and> round_keys_ok ks"
proof -
  have "length (deriveKey pbkdf2 t salt iterations params) \<in> {16, 32}"
    using assms by (simp add: deriveKey_def kdf_length_def)
  then show ?thesis using aes_new_cipher_defined aes_new_cipher_ok by blast
qed

lemma encrypt_defined: "kdf_length pbkdf2 \<Longrightarrow> \<exists>c. encrypt pbkdf2 t salt iterations params plain = Inr c"
  using deriveKey_cipher [of pbkdf2 t salt iterations params] by (auto simp: encrypt_def)

lemma decrypt_encrypt:
  assumes "kdf_length pbkdf2" "length (ep_IV params) = 16"
    and "encrypt pbkdf2 t salt iterations params plain = Inr c"
  shows "decrypt pbkdf2 t salt iterations params c = Inr plain"
proof -
  obtain ks where ks: "aes_new_cipher (deriveKey pbkdf2 t salt iterations params) = Some ks"
    and ok: "round_keys_ok ks" using deriveKey_cipher [OF assms(1)] by blast
  let ?padded = "padPKCS7 plain 16"
  let ?ct = "crypt_blocks (cbc_encrypt ks) (ep_IV params) ?padded"
  have c: "c = b64_encode ?ct" using assms(3) ks by (simp add: encrypt_def)
  note inv = crypt_blocks_inverse [OF ok assms(2) pad_length(1) [of plain]]
  have "?ct \<noteq> []" using inv(2) pad_length(2) [of plain] by (metis length_0_conv)
  moreover have "length ?ct mod 16 = 0" using inv(2) pad_length(1) [of plain] by simp
  ultimately show ?thesis by (simp add: c decrypt_def ks inv(1) unpad_pad)
qed

end
