(* ===== verification/Session.thy ===== *)
theory Session
  imports StoreCore PushCrypto
begin

text \<open>
  The PushSDK sessions a gateway process keeps (\<open>internal/pushsdk/session.go\<close>): the session
  record, the table of sessions by PushSDK serial, the deadlines of a login challenge and of an
  idle terminal, and the checkpoint form of a session. A session is changed only by the exchange
  that holds its terminal's lock, so a pointer into the table is the entry of the table.
\<close>

section \<open>Sessions\<close>

record Session =
  ss_Terminal :: Terminal
  ss_Salt :: string
  ss_LoginChallenge :: string
  ss_NextChallenge :: string
  ss_Iterations :: int
  ss_PayloadMode :: string
  ss_CreatedAt :: instant
  ss_NextChallengeAt :: instant
  ss_Authenticated :: bool
  ss_Online :: bool

definition PlaintextPayload :: string where "PlaintextPayload = ''plaintext''"
definition EncryptedPayload :: string where "EncryptedPayload = ''encrypted''"

definition IsEncrypted :: "string \<Rightarrow> bool" where
  "IsEncrypted mode \<longleftrightarrow> mode = EncryptedPayload"

type_synonym sessions = "string \<Rightarrow> Session option"

definition NewSessions :: sessions where
  "NewSessions = (\<lambda>_. None)"

definition Get :: "sessions \<Rightarrow> string \<Rightarrow> Session option" where
  "Get entries serial = entries serial"

definition Remove :: "string \<Rightarrow> sessions \<Rightarrow> sessions" where
  "Remove serial entries = entries(serial := None)"

definition Replace :: "string \<Rightarrow> Session option \<Rightarrow> sessions \<Rightarrow> sessions" where
  "Replace serial session entries = entries(serial := session)"

definition keyDerivationIterations :: int where "keyDerivationIterations = 4096"
definition sessionIdleTimeout :: int where "sessionIdleTimeout = minute"

record SessionStart =
  st_Session :: Session
  st_Previous :: "Session option"
  st_ReplacedOnlineSession :: bool

text \<open>The salt is drawn before the challenge, from the same random source.\<close>

definition Start :: "bytes \<Rightarrow> instant \<Rightarrow> Terminal \<Rightarrow> string \<Rightarrow> sessions \<Rightarrow> (SessionStart \<times> sessions) result" where
  "Start rand now terminal mode entries =
     bindE (randomAlphaNumeric 64 rand) (\<lambda>(salt, rest).
     bindE (randomAlphaNumeric 64 rest) (\<lambda>(challenge, _).
       let session = \<lparr> ss_Terminal = terminal, ss_Salt = salt, ss_LoginChallenge = challenge,
             ss_NextChallenge = [], ss_Iterations = keyDerivationIterations, ss_PayloadMode = mode,
             ss_CreatedAt = now, ss_NextChallengeAt = zero_time, ss_Authenticated = False, ss_Online = False \<rparr>;
           previous = entries (PushSDKSerial terminal)
       in Inr (\<lparr> st_Session = session, st_Previous = previous,
                 st_ReplacedOnlineSession = (case previous of None \<Rightarrow> False | Some p \<Rightarrow> ss_Online p) \<rparr>,
               entries(PushSDKSerial terminal := Some session))))"

definition LoginChallengeExpired :: "Session \<Rightarrow> instant \<Rightarrow> bool" where
  "LoginChallengeExpired s now \<longleftrightarrow>
     \<not> now < ss_CreatedAt s + (CommandIntervalSeconds (ss_Terminal s) * 3) * second"

definition IsIdle :: "Session \<Rightarrow> instant \<Rightarrow> bool" where
  "IsIdle s now \<longleftrightarrow> ss_NextChallengeAt s = zero_time \<or> \<not> now < ss_NextChallengeAt s + sessionIdleTimeout"

definition IssueNextChallenge :: "bytes \<Rightarrow> instant \<Rightarrow> Session \<Rightarrow> (string \<times> Session) result" where
  "IssueNextChallenge rand now s =
     bindE (randomCustomChallenge rand) (\<lambda>(challenge, _).
       Inr (challenge, s\<lparr>ss_NextChallenge := challenge, ss_NextChallengeAt := now\<rparr>))"

section \<open>Checkpoints\<close>

definition PersistentState :: "Session \<Rightarrow> PushSDKSession" where
  "PersistentState s =
     \<lparr> ps_TerminalSerialNumber = SerialNumber (ss_Terminal s),
       ps_ConfigurationFingerprint = SessionFingerprint (ss_Terminal s),
       ps_PayloadMode = ss_PayloadMode s, ps_Salt = ss_Salt s, ps_LoginChallenge = ss_LoginChallenge s,
       ps_NextChallenge = ss_NextChallenge s, ps_Iterations = ss_Iterations s,
       ps_CreatedAt = ss_CreatedAt s,
       ps_NextChallengeAt = (if ss_NextChallengeAt s = zero_time then None else Some (ss_NextChallengeAt s)),
       ps_Authenticated = ss_Authenticated s \<rparr>"

definition validStoredSession :: "PushSDKSession \<Rightarrow> bool" where
  "validStoredSession s \<longleftrightarrow>
     (if \<not> lowerHex64 (ps_ConfigurationFingerprint s) \<or>
         (ps_PayloadMode s \<noteq> PlaintextPayload \<and> ps_PayloadMode s \<noteq> EncryptedPayload) \<or>
         \<not> alphaNumeric64 (ps_Salt s) \<or> \<not> alphaNumeric64 (ps_LoginChallenge s) \<or>
         ps_Iterations s \<noteq> keyDerivationIterations then False
      else if \<not> ps_Authenticated s then ps_NextChallenge s = [] \<and> ps_NextChallengeAt s = None
      else lowerHex64 (ps_NextChallenge s) \<and> ps_NextChallengeAt s \<noteq> None)"

text \<open>The session a checkpoint is restored to, once its terminal is known.\<close>

definition restored_session :: "Terminal \<Rightarrow> PushSDKSession \<Rightarrow> Session" where
  "restored_session terminal stored =
     \<lparr> ss_Terminal = terminal, ss_Salt = ps_Salt stored, ss_LoginChallenge = ps_LoginChallenge stored,
       ss_NextChallenge = ps_NextChallenge stored, ss_Iterations = ps_Iterations stored,
       ss_PayloadMode = ps_PayloadMode stored, ss_CreatedAt = ps_CreatedAt stored,
       ss_NextChallengeAt = (case ps_NextChallengeAt stored of None \<Rightarrow> zero_time | Some t \<Rightarrow> t),
       ss_Authenticated = ps_Authenticated stored, ss_Online = False \<rparr>"

text \<open>What \<open>Restore\<close> does with one checkpoint: the session it becomes, or that it is deleted.\<close>

definition restore_decision :: "Config \<Rightarrow> instant \<Rightarrow> PushSDKSession \<Rightarrow> Session option" where
  "restore_decision cfg now stored =
     (case TerminalBySerialNumber cfg (ps_TerminalSerialNumber stored) of
        None \<Rightarrow> None
      | Some terminal \<Rightarrow>
          if ps_ConfigurationFingerprint stored \<noteq> SessionFingerprint terminal \<or> \<not> validStoredSession stored
          then None
          else let session = restored_session terminal stored
               in if \<not> ss_Authenticated session \<and> LoginChallengeExpired session now then None
                  else Some session)"

section \<open>Well-formed sessions\<close>

text \<open>
  What every session of a running gateway satisfies: its terminal is the configured one of its
  serial, its key material has the protocol's format, only an authenticated session is online,
  and an authenticated session holds a challenge.
\<close>

definition session_ok :: "Config \<Rightarrow> string \<Rightarrow> Session \<Rightarrow> bool" where
  "session_ok cfg serial s \<longleftrightarrow>
     TerminalByPushSDKSerial cfg serial = Some (ss_Terminal s) \<and>
     (ss_PayloadMode s = PlaintextPayload \<or> ss_PayloadMode s = EncryptedPayload) \<and>
     alphaNumeric64 (ss_Salt s) \<and> alphaNumeric64 (ss_LoginChallenge s) \<and>
     ss_Iterations s = keyDerivationIterations \<and>
     (ss_Online s \<longrightarrow> ss_Authenticated s) \<and>
     (ss_Authenticated s \<longrightarrow> lowerHex64 (ss_NextChallenge s) \<and> ss_NextChallengeAt s \<noteq> zero_time)"

text \<open>A session whose login is not complete has never been given a next challenge.\<close>

definition unissued :: "Session \<Rightarrow> bool" where
  "unissued s \<longleftrightarrow> ss_NextChallenge s = [] \<and> ss_NextChallengeAt s = zero_time"

lemma Start_Inr:
  assumes "Start rand now t mode entries = Inr (started, entries')"
  shows "entries' = entries(PushSDKSerial t := Some (st_Session started))"
    "st_Previous started = entries (PushSDKSerial t)"
    "st_ReplacedOnlineSession started \<longleftrightarrow> (\<exists>p. entries (PushSDKSerial t) = Some p \<and> ss_Online p)"
    "ss_Terminal (st_Session started) = t" "ss_PayloadMode (st_Session started) = mode"
    "ss_CreatedAt (st_Session started) = now" "ss_Iterations (st_Session started) = keyDerivationIterations"
    "\<not> ss_Authenticated (st_Session started)" "\<not> ss_Online (st_Session started)" "unissued (st_Session started)"
    "alphaNumeric64 (ss_Salt (st_Session started))" "alphaNumeric64 (ss_LoginChallenge (st_Session started))"
  using assms
  by (auto simp: Start_def res_simps Let_def unissued_def split: option.splits dest: randomAlphaNumeric_64)

lemma Start_ok:
  assumes "Start rand now t mode entries = Inr (started, entries')"
    and "TerminalByPushSDKSerial cfg (PushSDKSerial t) = Some t"
    and "mode = PlaintextPayload \<or> mode = EncryptedPayload"
  shows "session_ok cfg (PushSDKSerial t) (st_Session started)"
  using Start_Inr [OF assms(1)] assms(2,3) by (simp add: session_ok_def)

lemma IssueNextChallenge_Inr:
  "IssueNextChallenge rand now s = Inr (challenge, s') \<longleftrightarrow>
     32 \<le> length rand \<and> challenge = hex_encode (take 32 rand) \<and>
     s' = s\<lparr>ss_NextChallenge := challenge, ss_NextChallengeAt := now\<rparr>"
  by (auto simp: IssueNextChallenge_def randomCustomChallenge_def read_full_def res_simps split: if_splits)

lemma challenge_format: "32 \<le> length rand \<Longrightarrow> lowerHex64 (hex_encode (take 32 rand))"
  by (simp add: lowerHex64_def matches_class_def)

text \<open>A well-formed session has a checkpoint the database accepts and \<open>Restore\<close> recognises.\<close>

lemma PersistentState_valid:
  assumes "session_ok cfg serial s" "\<not> ss_Authenticated s \<Longrightarrow> unissued s"
  shows "validStoredSession (PersistentState s)"
  using assms SessionFingerprint_format [of "ss_Terminal s"]
  by (auto simp: validStoredSession_def session_ok_def PersistentState_def unissued_def)

lemma PersistentState_row_ok:
  assumes "session_ok cfg serial s" "\<not> ss_Authenticated s \<Longrightarrow> unissued s"
    and "registered d (SerialNumber (ss_Terminal s))"
  shows "session_row_ok d (PersistentState s)"
  using assms SessionFingerprint_format [of "ss_Terminal s"]
  by (auto simp: session_row_ok_def session_ok_def PersistentState_def unissued_def alphaNumeric64_def
      PlaintextPayload_def EncryptedPayload_def keyDerivationIterations_def)

lemma validStored_stored [simp]: "validStoredSession (stored_session s) = validStoredSession s"
  by (simp add: validStoredSession_def stored_session_def)

text \<open>
  Persisting and restoring: the restored session is the persisted one, offline, its times cut to
  the database's resolution.
\<close>

definition offline_copy :: "Session \<Rightarrow> Session" where
  "offline_copy s = s\<lparr>ss_CreatedAt := pg_timestamp (ss_CreatedAt s),
     ss_NextChallengeAt := (if ss_NextChallengeAt s = zero_time then zero_time else pg_timestamp (ss_NextChallengeAt s)),
     ss_Online := False\<rparr>"

lemma restored_persisted: "restored_session (ss_Terminal s) (stored_session (PersistentState s)) = offline_copy s"
  by (simp add: restored_session_def stored_session_def PersistentState_def offline_copy_def)

lemma restore_persisted:
  assumes ok: "session_ok cfg serial s" and un: "\<not> ss_Authenticated s \<Longrightarrow> unissued s"
    and t: "TerminalBySerialNumber cfg (SerialNumber (ss_Terminal s)) = Some (ss_Terminal s)"
  shows "restore_decision cfg now (stored_session (PersistentState s)) =
    (if \<not> ss_Authenticated s \<and> LoginChallengeExpired (offline_copy s) now then None else Some (offline_copy s))"
proof -
  have "ps_TerminalSerialNumber (stored_session (PersistentState s)) = SerialNumber (ss_Terminal s)"
    "ps_ConfigurationFingerprint (stored_session (PersistentState s)) = SessionFingerprint (ss_Terminal s)"
    by (simp_all add: stored_session_def PersistentState_def)
  moreover have "ss_Authenticated (offline_copy s) = ss_Authenticated s" by (simp add: offline_copy_def)
  ultimately show ?thesis
    using t PersistentState_valid [OF ok un] by (simp add: restore_decision_def restored_persisted)
qed

lemma restore_decision_Some:
  assumes "restore_decision cfg now stored = Some s"
  shows "TerminalBySerialNumber cfg (ps_TerminalSerialNumber stored) = Some (ss_Terminal s)"
    "ps_ConfigurationFingerprint stored = SessionFingerprint (ss_Terminal s)" "validStoredSession stored"
    "s = restored_session (ss_Terminal s) stored" "\<not> ss_Online s"
    "ss_Authenticated s \<or> \<not> LoginChallengeExpired s now"
  using assms by (auto simp: restore_decision_def Let_def restored_session_def split: option.splits if_splits)

text \<open>The deadlines are exact instants.\<close>

lemma LoginChallengeExpired_iff:
  "LoginChallengeExpired s now \<longleftrightarrow> ss_CreatedAt s + 3 * CommandIntervalSeconds (ss_Terminal s) * 1000000000 \<le> now"
  by (auto simp: LoginChallengeExpired_def second_def)

lemma LoginChallengeExpired_mono: "LoginChallengeExpired s now \<Longrightarrow> now \<le> later \<Longrightarrow> LoginChallengeExpired s later"
  by (simp add: LoginChallengeExpired_def)

lemma IsIdle_mono: "IsIdle s now \<Longrightarrow> now \<le> later \<Longrightarrow> IsIdle s later"
  by (auto simp: IsIdle_def)

end
