(* ===== verification/CommandQueue.thy ===== *)
theory CommandQueue
  imports StoreCore
begin

text \<open>
  The durable ISAPI command queue (\<open>internal/store/isapi_commands.go\<close>): queueing, claiming and
  deadline expiry of commands, with the failure of the retained-event sync a command may belong
  to (\<open>failAccessEventSync\<close> of \<open>access_event_sync.go\<close>). A command moves from \<open>queued\<close> to \<open>sent\<close> to
  \<open>completed\<close>, or to \<open>expired\<close> when its deadline passes first; the lemmas show that no other step
  is possible here, that a claim takes the oldest live commands and at most as many as asked for,
  and that an expired command is never handed out.
\<close>

section \<open>The environment of a transaction\<close>

text \<open>
  The database's transaction time, the host clock and the random bytes the operation may read.
\<close>

record tx_env =
  tx_now :: instant
  tx_host :: instant
  tx_rand :: bytes

section \<open>Command identifiers\<close>

definition set_byte :: "nat \<Rightarrow> (nat \<Rightarrow> nat) \<Rightarrow> bytes \<Rightarrow> bytes" where
  "set_byte i f bs = bs[i := char_of (f (byte_val (bs ! i)))]"

definition format_uuid :: "string \<Rightarrow> string" where
  "format_uuid encoded =
     take 8 encoded @ ''-'' @ take 4 (drop 8 encoded) @ ''-'' @ take 4 (drop 12 encoded) @ ''-'' @
     take 4 (drop 16 encoded) @ ''-'' @ take 12 (drop 20 encoded)"

definition newISAPICommandUUID :: "bytes \<Rightarrow> (string \<times> bytes) result" where
  "newISAPICommandUUID rand =
     (if length rand < 16 then Inl (ErrNew ''generate ISAPI command UUID'')
      else let bs = set_byte 8 (\<lambda>b. (b AND 0x3f) OR 0x80) (set_byte 6 (\<lambda>b. (b AND 0x0f) OR 0x40) (take 16 rand))
           in Inr (format_uuid (hex_encode bs), drop 16 rand))"

section \<open>Queueing\<close>

record NewISAPICommand =
  nc_TerminalSerialNumber :: string
  nc_CreatedBy :: AdminIdentity
  nc_Method :: string
  nc_URL :: string
  nc_DataFormat :: string
  nc_Data :: bytes
  nc_ExpiresAt :: instant

definition ErrISAPICommandTerminalNotFound :: go_error where
  "ErrISAPICommandTerminalNotFound = ErrNew ''ISAPI command terminal is not registered''"

definition ErrISAPICommandTerminalOffline :: go_error where
  "ErrISAPICommandTerminalOffline = ErrNew ''ISAPI command terminal is offline''"

text \<open>Characters of a UTF-8 text.\<close>

definition pg_length :: "string \<Rightarrow> nat" where
  "pg_length s = length (filter (\<lambda>c. \<not> (0x80 \<le> byte_val c \<and> byte_val c \<le> 0xBF)) s)"

text \<open>The checks of \<open>isapi_commands\<close> on a new row.\<close>

definition new_command_ok :: "db \<Rightarrow> command_row \<Rightarrow> bool" where
  "new_command_ok d c \<longleftrightarrow>
     commandUUID (cmd_uuid c) \<and> \<not> exists_row (\<lambda>r. cmd_uuid r = cmd_uuid c) (db_commands d) \<and>
     registered d (cmd_terminal_serial_number c) \<and>
     pg_null (\<lambda>i. exists_row (\<lambda>u. au_id u = i) (db_admin_users d)) (cmd_created_by_admin_user_id c) \<and>
     cmd_created_by_username c \<noteq> [] \<and> pg_text (cmd_created_by_username c) \<and>
     cmd_method c \<in> set [''GET'', ''POST'', ''PUT'', ''DELETE''] \<and>
     pg_text (cmd_url c) \<and> 8 \<le> pg_length (cmd_url c) \<and> pg_length (cmd_url c) \<le> 4096 \<and>
     has_prefix ''/ISAPI/'' (cmd_url c) \<and> supportedDataFormat (cmd_data_format c) \<and>
     (cmd_data_format c = ''noData'' \<longleftrightarrow> cmd_request_data c = []) \<and>
     cmd_expires_at c > cmd_created_at c"

definition commandActivityFields :: "command_row \<Rightarrow> (string \<times> field_value) list \<Rightarrow> (string \<times> field_value) list" where
  "commandActivityFields c additional =
     [(''commandId'', FStr (cmd_uuid c)), (''method'', FStr (cmd_method c)), (''url'', FStr (cmd_url c)),
      (''dataFormat'', FStr (cmd_data_format c))] @ additional"

definition queued_command :: "tx_env \<Rightarrow> NewISAPICommand \<Rightarrow> string \<Rightarrow> command_row" where
  "queued_command X input uuid =
     \<lparr> cmd_uuid = uuid, cmd_terminal_serial_number = nc_TerminalSerialNumber input,
       cmd_created_by_admin_user_id = Some (ai_ID (nc_CreatedBy input)),
       cmd_created_by_username = ai_Username (nc_CreatedBy input), cmd_method = nc_Method input,
       cmd_url = nc_URL input, cmd_data_format = nc_DataFormat input, cmd_request_data = nc_Data input,
       cmd_status = ''queued'', cmd_created_at = tx_now X, cmd_expires_at = pg_timestamp (nc_ExpiresAt input),
       cmd_sent_at = None, cmd_completed_at = None, cmd_response_data_format = None,
       cmd_response_data_format_declared = None, cmd_response_data_base64 = None \<rparr>"

text \<open>The guards that both \<open>QueueISAPICommand\<close> and \<open>queueISAPICommandTx\<close> start with.\<close>

definition queue_guards :: "instant \<Rightarrow> NewISAPICommand \<Rightarrow> unit result" where
  "queue_guards host input =
     bindE (guardE (ai_ID (nc_CreatedBy input) \<noteq> 0 \<and> ai_Username (nc_CreatedBy input) \<noteq> [])
              (ErrNew ''ISAPI command administrator identity is required'')) (\<lambda>_.
       guardE (nc_ExpiresAt input > host) (ErrNew ''ISAPI command expiry must be in the future''))"

definition queueISAPICommandTx ::
    "tx_env \<Rightarrow> NewISAPICommand \<Rightarrow> bytes \<Rightarrow> db \<Rightarrow> ((command_row \<times> activity \<times> bytes) \<times> db) result" where
  "queueISAPICommandTx X input rand d =
     bindE (queue_guards (tx_host X) input) (\<lambda>_.
     bindE (someE ErrISAPICommandTerminalNotFound
              (select_row (\<lambda>t. tr_serial_number t = nc_TerminalSerialNumber input) (db_terminals d))) (\<lambda>t.
     bindE (guardE (tr_connection_status t = ''online'') ErrISAPICommandTerminalOffline) (\<lambda>_.
     bindE (newISAPICommandUUID rand) (\<lambda>(uuid, rest).
     let command = queued_command X input uuid
     in bindE (guardE (new_command_ok d command) (ErrConstraint ''insert ISAPI command'')) (\<lambda>_.
        bindE (insertGatewayActivity (tx_now X)
                 (new_activity ''admin.isapi_command_queued'' (cmd_terminal_serial_number command)
                    ''administrator queued an ISAPI command''
                    (commandActivityFields command [(''issuedBy'', FStr (cmd_created_by_username command))]))
                 (d\<lparr>db_commands := db_commands d @ [command]\<rparr>)) (\<lambda>(stored, d1).
          Inr ((command, stored, rest), d1)))))))"

definition QueueISAPICommand ::
    "tx_env \<Rightarrow> NewISAPICommand \<Rightarrow> db \<Rightarrow> ((command_row \<times> activity) \<times> db) result" where
  "QueueISAPICommand X input d =
     bindE (queue_guards (tx_host X) input) (\<lambda>_.
     bindE (queueISAPICommandTx X input (tx_rand X) d) (\<lambda>((command, stored, rest), d1).
       Inr ((command, stored), d1)))"

section \<open>Failing a sync run\<close>

definition active_run :: "sync_run_row \<Rightarrow> bool" where
  "active_run r \<longleftrightarrow> sr_status r = ''awaiting_time'' \<or> sr_status r = ''running''"

definition failAccessEventSync ::
    "instant \<Rightarrow> string \<Rightarrow> string \<Rightarrow> db \<Rightarrow> (activity list \<times> db) result" where
  "failAccessEventSync now runUUID reason d =
     (case select_row (\<lambda>r. sr_uuid r = runUUID \<and> active_run r) (db_sync_runs d) of
        None \<Rightarrow> Inr ([], d)
      | Some run \<Rightarrow>
          bindE (insertGatewayActivity now
                   (new_activity ''device.access_event_sync_failed'' (sr_terminal_serial_number run)
                      ''gateway stopped a retained access-event sync''
                      [(''syncRunId'', FStr runUUID), (''reason'', FStr reason)])
                   (d\<lparr>db_sync_runs := update_where (\<lambda>r. sr_uuid r = runUUID \<and> active_run r)
                        (\<lambda>r. r\<lparr>sr_status := ''failed'', sr_failure := Some reason, sr_completed_at := Some now\<rparr>)
                        (db_sync_runs d)\<rparr>))
            (\<lambda>(stored, d1). Inr ([stored], d1)))"

definition failExpiredAccessEventSyncCommand ::
    "instant \<Rightarrow> string \<Rightarrow> bool \<Rightarrow> db \<Rightarrow> (activity list \<times> db) result" where
  "failExpiredAccessEventSyncCommand now commandUUID' delivered d =
     (case select_row (\<lambda>l. sc_command_uuid l = commandUUID') (db_sync_commands d) of
        None \<Rightarrow> Inr ([], d)
      | Some link \<Rightarrow>
          failAccessEventSync now (sc_sync_run_uuid link)
            (if delivered
             then ''terminal did not return the retained-event command result before the command deadline''
             else ''retained-event command expired before terminal delivery'') d)"

section \<open>Deadlines\<close>

definition overdue :: "instant \<Rightarrow> string option \<Rightarrow> command_row \<Rightarrow> bool" where
  "overdue now terminal c \<longleftrightarrow>
     (cmd_status c = ''queued'' \<or> cmd_status c = ''sent'') \<and> cmd_expires_at c \<le> now \<and>
     (case terminal of None \<Rightarrow> True | Some s \<Rightarrow> cmd_terminal_serial_number c = s)"

definition expire_command :: "instant \<Rightarrow> command_row \<Rightarrow> command_row" where
  "expire_command now c = c\<lparr>cmd_status := ''expired'', cmd_completed_at := Some now\<rparr>"

definition record_expired ::
    "instant \<Rightarrow> command_row \<Rightarrow> activity list \<times> db \<Rightarrow> (activity list \<times> db) result" where
  "record_expired now c s =
     (let (activities, d) = s; delivered = (cmd_sent_at c \<noteq> None)
      in bindE (insertGatewayActivity now
                  (new_activity ''pushsdk.command_expired'' (cmd_terminal_serial_number c)
                     (if delivered then ''ISAPI command expired before terminal result''
                      else ''ISAPI command expired before terminal delivery'')
                     (commandActivityFields c
                        [(''status'', FStr ''expired''),
                         (''phase'', FStr (if delivered then ''awaiting_result'' else ''before_delivery''))])) d)
           (\<lambda>(stored, d1).
         bindE (failExpiredAccessEventSyncCommand now (cmd_uuid c) delivered d1) (\<lambda>(more, d2).
           Inr (activities @ stored # more, d2))))"

definition expireOverdueISAPICommandsTx ::
    "instant \<Rightarrow> string option \<Rightarrow> db \<Rightarrow> (activity list \<times> db) result" where
  "expireOverdueISAPICommandsTx now terminal d =
     foldE (record_expired now) (filter (overdue now terminal) (db_commands d))
       ([], d\<lparr>db_commands := update_where (overdue now terminal) (expire_command now) (db_commands d)\<rparr>)"

definition ExpireOverdueISAPICommands :: "instant \<Rightarrow> db \<Rightarrow> (activity list \<times> db) result" where
  "ExpireOverdueISAPICommands now d = expireOverdueISAPICommandsTx now None d"

section \<open>Claiming\<close>

record ISAPICommandDelivery =
  cd_UUID :: string
  cd_Method :: string
  cd_URL :: string
  cd_DataFormat :: string
  cd_Data :: bytes

definition claimable :: "instant \<Rightarrow> string \<Rightarrow> command_row \<Rightarrow> bool" where
  "claimable now terminal c \<longleftrightarrow>
     cmd_terminal_serial_number c = terminal \<and> cmd_status c = ''queued'' \<and> cmd_expires_at c > now"

text \<open>\<open>ORDER BY created_at ASC, uuid ASC LIMIT n\<close>\<close>

definition selected_commands :: "instant \<Rightarrow> string \<Rightarrow> nat \<Rightarrow> command_row list \<Rightarrow> command_row list" where
  "selected_commands now terminal n rows =
     take n (sort_key (\<lambda>c. (cmd_created_at c, cmd_uuid c)) (filter (claimable now terminal) rows))"

definition delivery_of :: "command_row \<Rightarrow> ISAPICommandDelivery" where
  "delivery_of c = \<lparr> cd_UUID = cmd_uuid c, cd_Method = cmd_method c, cd_URL = cmd_url c,
     cd_DataFormat = cmd_data_format c, cd_Data = cmd_request_data c \<rparr>"

definition record_sent ::
    "instant \<Rightarrow> string \<Rightarrow> ISAPICommandDelivery \<Rightarrow> activity list \<times> db \<Rightarrow> (activity list \<times> db) result" where
  "record_sent now terminal delivery s =
     (let (activities, d) = s
      in bindE (insertGatewayActivity now
                  (new_activity ''pushsdk.command_sent'' terminal ''gateway sent an ISAPI command to the terminal''
                     [(''commandId'', FStr (cd_UUID delivery)), (''method'', FStr (cd_Method delivery)),
                      (''url'', FStr (cd_URL delivery)), (''dataFormat'', FStr (cd_DataFormat delivery))]) d)
           (\<lambda>(stored, d1). Inr (activities @ [stored], d1)))"

definition mark_sent :: "instant \<Rightarrow> command_row list \<Rightarrow> command_row list \<Rightarrow> command_row list" where
  "mark_sent now chosen rows =
     update_where (\<lambda>c. cmd_uuid c \<in> set (map cmd_uuid chosen))
       (\<lambda>c. c\<lparr>cmd_status := ''sent'', cmd_sent_at := Some now\<rparr>) rows"

definition ClaimISAPICommands ::
    "instant \<Rightarrow> string \<Rightarrow> int \<Rightarrow> db \<Rightarrow> ((ISAPICommandDelivery list \<times> activity list) \<times> db) result" where
  "ClaimISAPICommands now terminal limit d =
     bindE (guardE (1 \<le> limit \<and> limit \<le> 20) (ErrNew ''ISAPI command delivery limit must be 1..20'')) (\<lambda>_.
     bindE (expireOverdueISAPICommandsTx now (Some terminal) d) (\<lambda>(activities, d1).
     let chosen = selected_commands now terminal (nat limit) (db_commands d1)
     in bindE (foldE (record_sent now terminal) (map delivery_of chosen)
                 (activities, d1\<lparr>db_commands := mark_sent now chosen (db_commands d1)\<rparr>)) (\<lambda>(activities', d2).
        Inr ((map delivery_of chosen, activities'), d2))))"

section \<open>What the operations change\<close>

text \<open>
  Failing a run and recording expiries touch the sync runs and append exactly the activities they
  return.
\<close>

definition fail_run :: "instant \<Rightarrow> string \<Rightarrow> string \<Rightarrow> sync_run_row list \<Rightarrow> sync_run_row list" where
  "fail_run now runUUID reason rows =
     update_where (\<lambda>r. sr_uuid r = runUUID \<and> active_run r)
       (\<lambda>r. r\<lparr>sr_status := ''failed'', sr_failure := Some reason, sr_completed_at := Some now\<rparr>) rows"

lemma failAccessEventSync_Inr:
  assumes "failAccessEventSync now runUUID reason d = Inr (acts, d')"
  shows "d' = d\<lparr>db_activities := db_activities d @ acts, db_sync_runs := fail_run now runUUID reason (db_sync_runs d)\<rparr>"
  using assms
  by (auto simp: failAccessEventSync_def fail_run_def res_simps update_where_none select_row_None
      dest!: insertGatewayActivity_append split: option.splits)

lemma failExpired_Inr:
  assumes "failExpiredAccessEventSyncCommand now uuid delivered d = Inr (acts, d')"
  obtains runs where "d' = d\<lparr>db_activities := db_activities d @ acts, db_sync_runs := runs\<rparr>"
    "\<forall>r \<in> set runs. \<exists>r0 \<in> set (db_sync_runs d). r = r0 \<or> (active_run r0 \<and> sr_status r = ''failed'')"
proof (cases "select_row (\<lambda>l. sc_command_uuid l = uuid) (db_sync_commands d)")
  case None
  with assms show ?thesis by (intro that [of "db_sync_runs d"]) (auto simp: failExpiredAccessEventSyncCommand_def)
next
  case (Some link)
  with assms obtain reason where "failAccessEventSync now (sc_sync_run_uuid link) reason d = Inr (acts, d')"
    by (auto simp: failExpiredAccessEventSyncCommand_def)
  then show ?thesis
    by (intro that [of "fail_run now (sc_sync_run_uuid link) reason (db_sync_runs d)"])
      (auto simp: fail_run_def row_simps dest!: failAccessEventSync_Inr)
qed

lemma record_expired_Inr:
  assumes "record_expired now c (acts, d) = Inr (acts', d')"
  shows "\<exists>new runs. acts' = acts @ new \<and> d' = d\<lparr>db_activities := db_activities d @ new, db_sync_runs := runs\<rparr>"
  using assms
  by (auto simp: record_expired_def res_simps Let_def dest!: insertGatewayActivity_append elim!: failExpired_Inr)

lemma record_expireds_Inr:
  "foldE (record_expired now) cs (acts, d) = Inr (acts', d') \<Longrightarrow>
    \<exists>new runs. acts' = acts @ new \<and> d' = d\<lparr>db_activities := db_activities d @ new, db_sync_runs := runs\<rparr>"
proof (induction cs arbitrary: acts d)
  case Nil
  then show ?case by (auto intro!: exI [of _ "db_sync_runs d"])
next
  case (Cons c cs)
  then obtain acts1 d1 where 1: "record_expired now c (acts, d) = Inr (acts1, d1)"
    and rest: "foldE (record_expired now) cs (acts1, d1) = Inr (acts', d')"
    by (auto simp: bindE_eq_Inr)
  from Cons.IH [OF rest] record_expired_Inr [OF 1] show ?case by auto
qed

lemma expireOverdue_Inr:
  assumes "expireOverdueISAPICommandsTx now terminal d = Inr (acts, d')"
  obtains runs where "d' = d\<lparr>db_commands := update_where (overdue now terminal) (expire_command now) (db_commands d),
      db_activities := db_activities d @ acts, db_sync_runs := runs\<rparr>"
  using record_expireds_Inr [OF assms [unfolded expireOverdueISAPICommandsTx_def]] that by auto

lemma record_sents_Inr:
  "foldE (record_sent now terminal) ds (acts, d) = Inr (acts', d') \<Longrightarrow>
    \<exists>new. acts' = acts @ new \<and> d' = d\<lparr>db_activities := db_activities d @ new\<rparr>"
proof (induction ds arbitrary: acts d)
  case Nil
  then show ?case by auto
next
  case (Cons c cs)
  then obtain acts1 d1 where 1: "record_sent now terminal c (acts, d) = Inr (acts1, d1)"
    and rest: "foldE (record_sent now terminal) cs (acts1, d1) = Inr (acts', d')"
    by (auto simp: bindE_eq_Inr)
  from 1 obtain st where "acts1 = acts @ [st]" "d1 = d\<lparr>db_activities := db_activities d @ [st]\<rparr>"
    by (auto simp: record_sent_def res_simps dest!: insertGatewayActivity_append)
  with Cons.IH [OF rest] show ?case by auto
qed

lemma Claim_Inr:
  assumes "ClaimISAPICommands now terminal limit d = Inr ((deliveries, acts), d')"
  obtains chosen rows runs where
    "1 \<le> limit" "limit \<le> 20"
    "rows = update_where (overdue now (Some terminal)) (expire_command now) (db_commands d)"
    "chosen = selected_commands now terminal (nat limit) rows"
    "deliveries = map delivery_of chosen"
    "d' = d\<lparr>db_commands := mark_sent now chosen rows, db_activities := db_activities d @ acts, db_sync_runs := runs\<rparr>"
proof -
  from assms obtain acts1 d1 where lim: "1 \<le> limit" "limit \<le> 20"
    and ex: "expireOverdueISAPICommandsTx now (Some terminal) d = Inr (acts1, d1)"
    and sent: "foldE (record_sent now terminal) (map delivery_of (selected_commands now terminal (nat limit) (db_commands d1)))
        (acts1, d1\<lparr>db_commands := mark_sent now (selected_commands now terminal (nat limit) (db_commands d1)) (db_commands d1)\<rparr>) = Inr (acts, d')"
    and del: "deliveries = map delivery_of (selected_commands now terminal (nat limit) (db_commands d1))"
    by (auto simp: ClaimISAPICommands_def res_simps Let_def)
  from ex obtain runs where d1: "d1 = d\<lparr>db_commands := update_where (overdue now (Some terminal)) (expire_command now) (db_commands d),
      db_activities := db_activities d @ acts1, db_sync_runs := runs\<rparr>" by (rule expireOverdue_Inr)
  let ?rows = "update_where (overdue now (Some terminal)) (expire_command now) (db_commands d)"
  from record_sents_Inr [OF sent] show ?thesis using lim del
    by (intro that [of ?rows "selected_commands now terminal (nat limit) ?rows" runs]) (auto simp: d1)
qed

section \<open>The life of a command\<close>

inductive command_step :: "instant \<Rightarrow> command_row \<Rightarrow> command_row \<Rightarrow> bool" for now where
  expire: "cmd_status c = ''queued'' \<or> cmd_status c = ''sent'' \<Longrightarrow> cmd_expires_at c \<le> now \<Longrightarrow>
    command_step now c (expire_command now c)"
| send: "cmd_status c = ''queued'' \<Longrightarrow> cmd_expires_at c > now \<Longrightarrow>
    command_step now c (c\<lparr>cmd_status := ''sent'', cmd_sent_at := Some now\<rparr>)"
| complete: "cmd_status c = ''sent'' \<Longrightarrow> cmd_expires_at c > now \<Longrightarrow>
    command_step now c (c\<lparr>cmd_status := ''completed'', cmd_completed_at := Some now,
      cmd_response_data_format := f, cmd_response_data_format_declared := Some (f \<noteq> None),
      cmd_response_data_base64 := Some b\<rparr>)"

inductive_cases command_stepE: "command_step now c c'"

definition commands_evolve :: "instant \<Rightarrow> command_row list \<Rightarrow> command_row list \<Rightarrow> bool" where
  "commands_evolve now xs ys \<longleftrightarrow>
     (\<exists>zs new. ys = zs @ new \<and> list_all2 (\<lambda>c c'. (command_step now)\<^sup>*\<^sup>* c c') xs zs \<and>
        (\<forall>c \<in> set new. \<exists>q. cmd_status q = ''queued'' \<and> (command_step now)\<^sup>*\<^sup>* q c))"

lemma final_command:
  assumes "(command_step now)\<^sup>*\<^sup>* c c'" "cmd_status c = ''completed'' \<or> cmd_status c = ''expired''"
  shows "c' = c"
  using assms by (induction rule: rtranclp_induct) (auto elim: command_stepE)

lemma evolve_update:
  assumes "\<And>c. c \<in> set xs \<Longrightarrow> p c \<Longrightarrow> command_step now c (f c)"
  shows "commands_evolve now xs (update_where p f xs)"
proof -
  have "list_all2 (\<lambda>c c'. (command_step now)\<^sup>*\<^sup>* c c') xs (update_where p f xs)"
    using assms by (auto simp: list_all2_conv_all_nth update_where_def)
  then show ?thesis unfolding commands_evolve_def by (metis append_Nil2 empty_iff list.set(1))
qed


lemma command_step_uuid: "(command_step now)\<^sup>*\<^sup>* c c' \<Longrightarrow> cmd_uuid c' = cmd_uuid c"
  by (induction rule: rtranclp_induct) (auto elim: command_stepE simp: expire_command_def)

lemma evolve_refl: "commands_evolve now xs xs"
  unfolding commands_evolve_def by (intro exI [of _ xs] exI [of _ "[]"]) (simp add: list.rel_refl)

lemma evolve_snoc: "cmd_status c = ''queued'' \<Longrightarrow> commands_evolve now xs (xs @ [c])"
  unfolding commands_evolve_def by (intro exI [of _ xs] exI [of _ "[c]"]) (auto simp: list.rel_refl)

lemma set_selected:
  "c \<in> set (selected_commands now terminal n rows) \<Longrightarrow> c \<in> set rows \<and> claimable now terminal c"
  by (auto simp: selected_commands_def dest!: in_set_takeD)

lemma length_selected: "length (selected_commands now terminal n rows) \<le> n"
  by (simp add: selected_commands_def)

lemma take_sorted_le:
  assumes "sorted (map k xs)" "x \<in> set (take n xs)" "y \<in> set xs" "y \<notin> set (take n xs)"
  shows "k x \<le> k y"
proof -
  from assms(3,4) have "y \<in> set (drop n xs)" by (metis append_take_drop_id set_append UnE)
  moreover from assms(1) have "sorted (map k (take n xs) @ map k (drop n xs))"
    by (metis append_take_drop_id map_append)
  ultimately show ?thesis using assms(2) by (auto simp: sorted_append)
qed

lemma selected_oldest:
  assumes "x \<in> set (selected_commands now terminal n rows)"
    and "y \<in> set rows" "claimable now terminal y" "y \<notin> set (selected_commands now terminal n rows)"
  shows "(cmd_created_at x, cmd_uuid x) \<le> (cmd_created_at y, cmd_uuid y)"
  using assms unfolding selected_commands_def
  by (intro take_sorted_le [where k = "\<lambda>c. (cmd_created_at c, cmd_uuid c)"]) auto

lemma selected_sorted:
  "sorted (map (\<lambda>c. (cmd_created_at c, cmd_uuid c)) (selected_commands now terminal n rows))"
  unfolding selected_commands_def take_map [symmetric] by (intro sorted_wrt_take) simp

lemma selected_full:
  assumes "c \<in> set rows" "claimable now terminal c" "c \<notin> set (selected_commands now terminal n rows)"
  shows "length (selected_commands now terminal n rows) = n"
proof (rule ccontr)
  let ?s = "sort_key (\<lambda>c. (cmd_created_at c, cmd_uuid c)) (filter (claimable now terminal) rows)"
  assume "length (selected_commands now terminal n rows) \<noteq> n"
  then have "selected_commands now terminal n rows = ?s" by (simp add: selected_commands_def)
  with assms show False by simp
qed

lemma claim_chosen_original:
  assumes "c \<in> set (selected_commands now terminal n (update_where (overdue now t) (expire_command now) rows))"
  shows "c \<in> set rows \<and> claimable now terminal c"
proof -
  from set_selected [OF assms] obtain c0 where "c0 \<in> set rows" "claimable now terminal c"
    "c = (if overdue now t c0 then expire_command now c0 else c0)"
    by (auto simp: row_simps)
  then show ?thesis by (auto simp: claimable_def expire_command_def split: if_splits)
qed

lemma mark_sent_evolve:
  assumes "unique_key cmd_uuid rows"
  shows "commands_evolve now rows (mark_sent now (selected_commands now terminal n rows) rows)"
  unfolding mark_sent_def
proof (rule evolve_update)
  fix c assume c: "c \<in> set rows" "cmd_uuid c \<in> set (map cmd_uuid (selected_commands now terminal n rows))"
  then obtain x where x: "x \<in> set (selected_commands now terminal n rows)" "cmd_uuid x = cmd_uuid c" by auto
  with set_selected [OF x(1)] c(1) assms have "x = c" by (auto dest: unique_keyD)
  with set_selected [OF x(1)] show "command_step now c (c\<lparr>cmd_status := ''sent'', cmd_sent_at := Some now\<rparr>)"
    by (auto simp: claimable_def intro: command_step.send)
qed

lemma expire_evolve: "commands_evolve now rows (update_where (overdue now t) (expire_command now) rows)"
  by (rule evolve_update) (auto simp: overdue_def intro: command_step.expire)

lemma list_all2_rtranclp_trans:
  "list_all2 R\<^sup>*\<^sup>* xs ys \<Longrightarrow> list_all2 R\<^sup>*\<^sup>* ys zs \<Longrightarrow> list_all2 R\<^sup>*\<^sup>* xs zs"
  by (rule list_all2_trans [of "R\<^sup>*\<^sup>*" "R\<^sup>*\<^sup>*"]) auto

lemma list_all2_set2E:
  assumes "list_all2 R xs ys" "y \<in> set ys"
  obtains x where "x \<in> set xs" "R x y"
  using assms by (induction arbitrary: thesis rule: list_all2_induct) auto

lemma evolve_trans:
  assumes "commands_evolve now xs ys" "commands_evolve now ys zs"
  shows "commands_evolve now xs zs"
proof -
  let ?R = "(command_step now)\<^sup>*\<^sup>*"
  from assms(1) obtain ys1 new1 where y: "ys = ys1 @ new1" "list_all2 ?R xs ys1"
    "\<forall>c \<in> set new1. \<exists>q. cmd_status q = ''queued'' \<and> ?R q c" unfolding commands_evolve_def by blast
  from assms(2) obtain zs0 new2 where z: "zs = zs0 @ new2" "list_all2 ?R (ys1 @ new1) zs0"
    "\<forall>c \<in> set new2. \<exists>q. cmd_status q = ''queued'' \<and> ?R q c" unfolding commands_evolve_def y(1) by blast
  from z(2) obtain zs1 zs2 where zz: "zs0 = zs1 @ zs2" "list_all2 ?R ys1 zs1" "list_all2 ?R new1 zs2"
    by (auto simp: list_all2_append1)
  have "\<exists>q. cmd_status q = ''queued'' \<and> ?R q c" if "c \<in> set zs2" for c
  proof -
    from zz(3) that obtain b where "b \<in> set new1" "?R b c" by (rule list_all2_set2E)
    with y(3) show ?thesis by (meson rtranclp_trans)
  qed
  with y z zz list_all2_rtranclp_trans [OF y(2) zz(2)] show ?thesis
    unfolding commands_evolve_def by (intro exI [of _ zs1] exI [of _ "zs2 @ new2"]) auto
qed

lemma unique_uuid_expire:
  "unique_key cmd_uuid rows \<Longrightarrow> unique_key cmd_uuid (update_where (overdue now t) (expire_command now) rows)"
  by (erule unique_key_update_where) (simp add: expire_command_def)

lemma claim_evolve:
  assumes "ClaimISAPICommands now terminal limit d = Inr (r, d')" "unique_key cmd_uuid (db_commands d)"
  shows "commands_evolve now (db_commands d) (db_commands d')"
proof -
  obtain ds acts where r: "r = (ds, acts)" by (cases r)
  from assms(1) [unfolded r] show ?thesis
  proof (rule Claim_Inr)
    fix chosen rows runs
    assume rows: "rows = update_where (overdue now (Some terminal)) (expire_command now) (db_commands d)"
      and chosen: "chosen = selected_commands now terminal (nat limit) rows"
      and d': "d' = d\<lparr>db_commands := mark_sent now chosen rows, db_activities := db_activities d @ acts, db_sync_runs := runs\<rparr>"
    have "unique_key cmd_uuid rows" unfolding rows by (rule unique_uuid_expire [OF assms(2)])
    then have "commands_evolve now rows (db_commands d')" unfolding d' chosen by (simp add: mark_sent_evolve)
    with expire_evolve show ?thesis unfolding rows by (rule evolve_trans)
  qed
qed

text \<open>A claimed command was claimable and is sent afterwards.\<close>

lemma claim_marks:
  assumes "ClaimISAPICommands now terminal limit d = Inr ((deliveries, acts), d')" "x \<in> set deliveries"
  shows "\<exists>c \<in> set (db_commands d). claimable now terminal c \<and> cmd_uuid c = cd_UUID x \<and>
    c\<lparr>cmd_status := ''sent'', cmd_sent_at := Some now\<rparr> \<in> set (db_commands d')"
  using assms(1)
proof (rule Claim_Inr)
  fix chosen rows runs
  assume rows: "rows = update_where (overdue now (Some terminal)) (expire_command now) (db_commands d)"
    and chosen: "chosen = selected_commands now terminal (nat limit) rows"
    and dl: "deliveries = map delivery_of chosen"
    and d': "d' = d\<lparr>db_commands := mark_sent now chosen rows, db_activities := db_activities d @ acts, db_sync_runs := runs\<rparr>"
  from assms(2) dl obtain c where c: "c \<in> set chosen" "x = delivery_of c" by auto
  have "c \<in> set (db_commands d) \<and> claimable now terminal c" using claim_chosen_original c(1) unfolding chosen rows by blast
  moreover have "c \<in> set rows" using set_selected c(1) unfolding chosen by blast
  then have "c\<lparr>cmd_status := ''sent'', cmd_sent_at := Some now\<rparr> \<in> set (db_commands d')"
    using c(1) by (auto simp: d' mark_sent_def row_simps intro!: rev_image_eqI [of c])
  ultimately show ?thesis using c(2) by (auto simp: delivery_of_def)
qed

text \<open>The format of a fresh identifier.\<close>

lemma lower_hex_no_dash: "list_all is_lower_hex s \<Longrightarrow> CHR ''-'' \<notin> set s"
  by (auto simp: list_all_iff is_lower_hex_def is_digit_def)

lemma matches_class_slice:
  "list_all P s \<Longrightarrow> i + n \<le> length s \<Longrightarrow> matches_class P n n (take n (drop i s))"
  by (auto simp: matches_class_def list_all_iff dest!: in_set_takeD in_set_dropD)

lemma format_uuid_commandUUID:
  assumes "length s = 32" "list_all is_lower_hex s"
  shows "commandUUID (format_uuid s)"
proof -
  let ?ps = "[take 8 s, take 4 (drop 8 s), take 4 (drop 12 s), take 4 (drop 16 s), take 12 (drop 20 s)]"
  have "CHR ''-'' \<notin> set p" if "p \<in> set ?ps" for p
    using that lower_hex_no_dash [OF assms(2)] by (auto dest!: in_set_takeD in_set_dropD)
  then have "split_on (CHR ''-'') (join_with (CHR ''-'') ?ps) = ?ps" by (intro split_join) auto
  moreover have "join_with (CHR ''-'') ?ps = format_uuid s" by (simp add: format_uuid_def)
  moreover have "matches_class is_lower_hex 8 8 (take 8 s)"
    using matches_class_slice [OF assms(2), of 0 8] assms(1) by simp
  moreover have "matches_class is_lower_hex 12 12 (drop 20 s)"
    using matches_class_slice [OF assms(2), of 20 12] assms(1) by simp
  ultimately show ?thesis
    using assms by (simp add: commandUUID_def matches_class_slice)
qed

lemma newISAPICommandUUID_format: "newISAPICommandUUID rand = Inr (uuid, rest) \<Longrightarrow> commandUUID uuid"
  by (auto simp: newISAPICommandUUID_def Let_def set_byte_def split: if_splits intro!: format_uuid_commandUUID)

text \<open>It is a version-4 identifier: the version and variant digits are fixed.\<close>

lemma nth_hex_encode: "i < length bs \<Longrightarrow> hex_encode bs ! (2 * i) = hex_digit (byte_val (bs ! i) div 16)"
  by (induction bs arbitrary: i rule: hex_encode.induct) (auto simp: nth_Cons split: nat.splits)

lemma nibbles_check:
  "list_all (\<lambda>b. ((b AND 15) OR 64) div 16 = 4 \<and> ((b AND 63) OR 128) div 16 \<in> set [8, 9, 10, 11] \<and>
     ((b AND 15) OR 64) < 256 \<and> ((b AND 63) OR 128) < (256 :: nat)) [0..<256]"
  by code_simp

lemma nibbles:
  assumes "b < 256"
  shows "((b AND 15) OR 64) div 16 = (4 :: nat)" "((b AND 63) OR 128) div 16 \<in> set [8, 9, 10, 11]"
    "((b AND 15) OR 64) < 256" "((b AND 63) OR 128) < 256"
  using nibbles_check assms by (auto simp: list_all_iff)

lemma nth_format_uuid:
  assumes "length s = 32"
  shows "format_uuid s ! 14 = s ! 12" "format_uuid s ! 19 = s ! 16"
  using assms by (simp_all add: format_uuid_def nth_append)

lemma newISAPICommandUUID_version:
  assumes "newISAPICommandUUID rand = Inr (uuid, rest)"
  shows "uuid ! 14 = CHR ''4'' \<and> uuid ! 19 \<in> set ''89ab'' \<and> rest = drop 16 rand"
proof -
  define bs where "bs = set_byte 8 (\<lambda>b. (b AND 63) OR 128) (set_byte 6 (\<lambda>b. (b AND 15) OR 64) (take 16 rand))"
  from assms have r: "16 \<le> length rand" "uuid = format_uuid (hex_encode bs)" "rest = drop 16 rand"
    by (auto simp: newISAPICommandUUID_def Let_def bs_def split: if_splits)
  have len: "length bs = 16" using r(1) by (simp add: bs_def set_byte_def)
  have "byte_val (bs ! 6) div 16 = 4" "byte_val (bs ! 8) div 16 \<in> set [8, 9, 10, 11]"
    using r(1) nibbles [OF byte_val_less] by (simp_all add: bs_def set_byte_def)
  moreover have "uuid ! 14 = hex_digit (byte_val (bs ! 6) div 16)" "uuid ! 19 = hex_digit (byte_val (bs ! 8) div 16)"
    using nth_hex_encode [of 6 bs] nth_hex_encode [of 8 bs] len by (simp_all add: r(2) nth_format_uuid)
  moreover have "char_of (52 :: nat) = CHR ''4''" "char_of (56 :: nat) = CHR ''8''" "char_of (57 :: nat) = CHR ''9''"
    "char_of (97 :: nat) = CHR ''a''" "char_of (98 :: nat) = CHR ''b''" by (simp_all add: char_of_eqI)
  ultimately show ?thesis using r(3) by (auto simp: hex_digit_def)
qed

end
