(* ===== verification/AccessEventSync.thy ===== *)
theory AccessEventSync
  imports CommandQueue
begin

text \<open>
  The retained-event reconciliation (\<open>internal/store/access_event_sync.go\<close>) and the completion of
  commands that drives it (\<open>CompleteISAPICommands\<close> of \<open>isapi_commands.go\<close>). A run reads the
  terminal's clock, then pages through the terminal's archive; each result is interpreted in the
  transaction that stores it. Times of a run are kept as instants; a time read back from the
  database is in the process's own zone, UTC.
\<close>

section \<open>Starting a run\<close>

definition accessEventSyncCommandTTL :: int where "accessEventSyncCommandTTL = 5 * minute"

definition ErrAccessEventSyncTerminalNotFound :: go_error where
  "ErrAccessEventSyncTerminalNotFound = ErrNew ''retained event sync terminal is not registered''"
definition ErrAccessEventSyncTerminalOffline :: go_error where
  "ErrAccessEventSyncTerminalOffline = ErrNew ''retained event sync terminal is offline''"
definition ErrAccessEventSyncInProgress :: go_error where
  "ErrAccessEventSyncInProgress = ErrNew ''a retained event sync is already active for this terminal''"

text \<open>The checks of \<open>access_event_sync_runs\<close> on a new run, the one-active-run index included.\<close>

definition new_run_ok :: "db \<Rightarrow> sync_run_row \<Rightarrow> bool" where
  "new_run_ok d r \<longleftrightarrow>
     commandUUID (sr_uuid r) \<and> \<not> exists_row (\<lambda>x. sr_uuid x = sr_uuid r) (db_sync_runs d) \<and>
     registered d (sr_terminal_serial_number r) \<and>
     pg_null (\<lambda>i. exists_row (\<lambda>u. au_id u = i) (db_admin_users d)) (sr_created_by_admin_user_id r) \<and>
     sr_created_by_username r \<noteq> [] \<and> pg_text (sr_created_by_username r) \<and>
     \<not> exists_row (\<lambda>x. sr_terminal_serial_number x = sr_terminal_serial_number r \<and> active_run x) (db_sync_runs d)"

definition new_run :: "instant \<Rightarrow> string \<Rightarrow> string \<Rightarrow> AdminIdentity \<Rightarrow> sync_run_row" where
  "new_run now uuid terminal identity =
     \<lparr> sr_uuid = uuid, sr_terminal_serial_number = terminal, sr_created_by_admin_user_id = Some (ai_ID identity),
       sr_created_by_username = ai_Username identity, sr_search_id = uuid, sr_status = ''awaiting_time'',
       sr_search_started_at = None, sr_search_ended_at = None, sr_total_matches = None,
       sr_pages_completed = 0, sr_records_imported = 0, sr_records_duplicate = 0, sr_failure = None,
       sr_created_at = now, sr_completed_at = None \<rparr>"

text \<open>The link of a command to its run; a position, when there is one, is in 0..150000 and new.\<close>

definition link_command :: "sync_command_row \<Rightarrow> db \<Rightarrow> db result" where
  "link_command l d =
     bindE (guardE (\<not> exists_row (\<lambda>x. sc_command_uuid x = sc_command_uuid l) (db_sync_commands d) \<and>
                    pg_null (\<lambda>p. 0 \<le> p \<and> p \<le> 150000 \<and>
                       \<not> exists_row (\<lambda>x. sc_sync_run_uuid x = sc_sync_run_uuid l \<and> sc_phase x = sc_phase l \<and>
                            sc_search_result_position x = Some p) (db_sync_commands d))
                      (sc_search_result_position l))
              (ErrConstraint ''link retained event sync command'')) (\<lambda>_.
       Inr (d\<lparr>db_sync_commands := db_sync_commands d @ [l]\<rparr>))"

definition QueueAccessEventSync ::
    "tx_env \<Rightarrow> string \<Rightarrow> AdminIdentity \<Rightarrow> db \<Rightarrow> ((sync_run_row \<times> activity list) \<times> db) result" where
  "QueueAccessEventSync X terminal identity d =
     bindE (guardE (ai_ID identity \<noteq> 0 \<and> ai_Username identity \<noteq> [])
              (ErrNew ''retained event sync administrator identity is required'')) (\<lambda>_.
     bindE (expireOverdueISAPICommandsTx (tx_now X) (Some terminal) d) (\<lambda>(expiryActivities, d1).
     bindE (someE ErrAccessEventSyncTerminalNotFound
              (select_row (\<lambda>t. tr_serial_number t = terminal) (db_terminals d1))) (\<lambda>t.
     bindE (guardE (tr_connection_status t = ''online'') ErrAccessEventSyncTerminalOffline) (\<lambda>_.
     bindE (guardE (\<not> exists_row (\<lambda>r. sr_terminal_serial_number r = terminal \<and> active_run r) (db_sync_runs d1))
              ErrAccessEventSyncInProgress) (\<lambda>_.
     bindE (newISAPICommandUUID (tx_rand X)) (\<lambda>(runUUID, rand1).
     let run = new_run (tx_now X) runUUID terminal identity
     in bindE (guardE (new_run_ok d1 run) (ErrConstraint ''insert retained event sync'')) (\<lambda>_.
        bindE (queueISAPICommandTx X
                 \<lparr> nc_TerminalSerialNumber = terminal, nc_CreatedBy = identity, nc_Method = ''GET'',
                   nc_URL = ''/ISAPI/System/time'', nc_DataFormat = ''noData'', nc_Data = [],
                   nc_ExpiresAt = tx_host X + accessEventSyncCommandTTL \<rparr> rand1
                 (d1\<lparr>db_sync_runs := db_sync_runs d1 @ [run]\<rparr>)) (\<lambda>((command, commandActivity, rand2), d2).
        bindE (link_command \<lparr> sc_command_uuid = cmd_uuid command, sc_sync_run_uuid = runUUID,
                 sc_phase = ''time'', sc_search_result_position = None \<rparr> d2) (\<lambda>d3.
        bindE (insertGatewayActivity (tx_now X)
                 (new_activity ''admin.access_event_sync_queued'' terminal
                    ''administrator queued a retained access-event sync''
                    [(''syncRunId'', FStr runUUID), (''issuedBy'', FStr (ai_Username identity))]) d3)
          (\<lambda>(queuedActivity, d4).
          Inr ((run, expiryActivities @ [commandActivity, queuedActivity]), d4)))))))))))"

section \<open>Completing the clock command\<close>

text \<open>
  A failed statement aborts the surrounding transaction, so the failure of a run can only be
  recorded after an error that no statement raised.
\<close>

definition aborts_transaction :: "go_error \<Rightarrow> bool" where
  "aborts_transaction e \<longleftrightarrow> (case e of ErrConstraint _ \<Rightarrow> True | ErrDatabase \<Rightarrow> True | _ \<Rightarrow> False)"

definition fail_unless_aborted :: "go_error \<Rightarrow> 'a result \<Rightarrow> 'a result" where
  "fail_unless_aborted e failed = (if aborts_transaction e then Inl e else failed)"

definition failed_sync ::
    "tx_env \<Rightarrow> string \<Rightarrow> string \<Rightarrow> bytes \<Rightarrow> db \<Rightarrow> ((activity list \<times> bytes) \<times> db) result" where
  "failed_sync X runUUID reason rand d =
     bindE (failAccessEventSync (tx_now X) runUUID reason d) (\<lambda>(acts, d1). Inr ((acts, rand), d1))"

definition page_command :: "tx_env \<Rightarrow> sync_run_row \<Rightarrow> int \<Rightarrow> bytes \<Rightarrow> NewISAPICommand" where
  "page_command X run creator request =
     \<lparr> nc_TerminalSerialNumber = sr_terminal_serial_number run,
       nc_CreatedBy = \<lparr> ai_ID = creator, ai_Username = sr_created_by_username run \<rparr>, nc_Method = ''POST'',
       nc_URL = RetainedEventSearchURL, nc_DataFormat = ''jsonData'', nc_Data = request,
       nc_ExpiresAt = tx_host X + accessEventSyncCommandTTL \<rparr>"

text \<open>
  Queue the command for the page at a position, link it to the run and go on with \<open>k\<close>; a refusal
  of the queue fails the run.
\<close>

definition queue_page_command ::
    "tx_env \<Rightarrow> sync_run_row \<Rightarrow> NewISAPICommand \<Rightarrow> int \<Rightarrow> string \<Rightarrow> bytes \<Rightarrow>
       (activity \<Rightarrow> bytes \<Rightarrow> db \<Rightarrow> ((activity list \<times> bytes) \<times> db) result) \<Rightarrow> db \<Rightarrow>
       ((activity list \<times> bytes) \<times> db) result" where
  "queue_page_command X run input position reason rand k d =
     (case queueISAPICommandTx X input rand d of
        Inl e \<Rightarrow> fail_unless_aborted e (failed_sync X (sr_uuid run) reason rand d)
      | Inr ((next, commandActivity, rest), d1) \<Rightarrow>
          bindE (link_command \<lparr> sc_command_uuid = cmd_uuid next, sc_sync_run_uuid = sr_uuid run,
                   sc_phase = ''page'', sc_search_result_position = Some position \<rparr> d1)
            (k commandActivity rest))"

definition completeAccessEventSyncTime ::
    "library \<Rightarrow> tx_env \<Rightarrow> sync_run_row \<Rightarrow> bytes \<Rightarrow> bytes \<Rightarrow> db \<Rightarrow> ((activity list \<times> bytes) \<times> db) result" where
  "completeAccessEventSyncTime L X run source rand d =
     (if sr_status run \<noteq> ''awaiting_time'' then
        failed_sync X (sr_uuid run) ''System/time result arrived after retained-event search began'' rand d
      else case ParseTerminalTime L source of
        Inl _ \<Rightarrow> failed_sync X (sr_uuid run) ''System/time result is not the documented terminal time XML'' rand d
      | Inr terminalNow \<Rightarrow>
          (case NewRetainedEventSearchRequest (sr_search_id run) 0 terminalNow of
             Inl _ \<Rightarrow> failed_sync X (sr_uuid run) ''terminal time cannot bound the retained-event search'' rand d
           | Inr request \<Rightarrow>
               (case sr_created_by_admin_user_id run of
                  None \<Rightarrow> failed_sync X (sr_uuid run) ''sync administrator no longer exists before event search delivery'' rand d
                | Some creator \<Rightarrow>
                    queue_page_command X run (page_command X run creator request) 0
                      ''could not queue the retained-event search command'' rand
                      (\<lambda>commandActivity rest d2.
                        bindE (insertGatewayActivity (tx_now X)
                                 (new_activity ''device.access_event_sync_started'' (sr_terminal_serial_number run)
                                    ''gateway started the terminal retained access-event search''
                                    [(''syncRunId'', FStr (sr_uuid run)), (''pageSize'', FInt RetainedEventPageSize)]) d2)
                          (\<lambda>(startedActivity, d3). Inr (([commandActivity, startedActivity], rest), d3)))
                      (d\<lparr>db_sync_runs := update_where (\<lambda>r. sr_uuid r = sr_uuid run)
                          (\<lambda>r. r\<lparr>sr_status := ''running'',
                                 sr_search_started_at := Some (pg_timestamp (gt_instant (retained_history_start (gt_offset terminalNow)))),
                                 sr_search_ended_at := Some (pg_timestamp (gt_instant terminalNow))\<rparr>)
                          (db_sync_runs d)\<rparr>))))"

section \<open>Retaining a page\<close>

text \<open>The columns of \<open>retained_access_events\<close> accept a projection.\<close>

definition face_text_ok :: "FaceRect option \<Rightarrow> bool" where
  "face_text_ok f =
     (case f of None \<Rightarrow> True
      | Some r \<Rightarrow> pg_null pg_text (fr_Height r) \<and> pg_null pg_text (fr_Width r) \<and>
                  pg_null pg_text (fr_X r) \<and> pg_null pg_text (fr_Y r))"

definition projection_columns_ok :: "Projection \<Rightarrow> bool" where
  "projection_columns_ok p \<longleftrightarrow>
     pg_smallint (pr_MajorEventType p) \<and> pg_integer (pr_SubEventType p) \<and>
     pg_null pg_text (pr_EventDescription p) \<and> pg_null pg_text (pr_EventState p) \<and>
     pg_null pg_text (pr_SourceMACAddress p) \<and> pg_null pg_integer (pr_ChannelID p) \<and>
     pg_null pg_integer (pr_ActivePostCount p) \<and> pg_null pg_text (pr_ShortSerialNumber p) \<and>
     pg_null pg_text (pr_DeviceName p) \<and> pg_null pg_text (pr_EmployeeNumber p) \<and>
     pg_null pg_text (pr_EmployeeName p) \<and> pg_null pg_text (pr_CardNumber p) \<and>
     pg_null pg_integer (pr_CardReaderNumber p) \<and> pg_null pg_integer (pr_DoorNumber p) \<and>
     pg_null pg_text (pr_UserType p) \<and> pg_null pg_text (pr_CurrentVerifyMode p) \<and>
     pg_null pg_text (pr_Mask p) \<and> pg_null pg_integer (pr_PicturesNumber p) \<and>
     face_text_ok (pr_FaceRect p) \<and> pg_null pg_text (pr_SourceIPAddress p)"

record retainedEventRecord =
  rr_Source :: bytes
  rr_Fingerprint :: bytes
  rr_Projection :: Projection

definition insert_retained ::
    "instant \<Rightarrow> sync_run_row \<Rightarrow> string \<Rightarrow> retainedEventRecord \<Rightarrow> int \<times> db \<Rightarrow> (int \<times> db) result" where
  "insert_retained now run commandUUID' record' s =
     (let (inserted, d) = s
      in bindE (guardE (rr_Source record' \<noteq> [] \<and> projection_columns_ok (rr_Projection record'))
                  (ErrConstraint ''retain access-event record'')) (\<lambda>_.
         if exists_row (\<lambda>r. ra_terminal_serial_number r = sr_terminal_serial_number run \<and>
                            ra_source_sha256 r = rr_Fingerprint record') (db_retained d)
         then Inr (inserted, d)
         else Inr (inserted + 1, d\<lparr>db_retained := db_retained d @
                [\<lparr> ra_id = next_id ra_id (db_retained d),
                   ra_terminal_serial_number = sr_terminal_serial_number run,
                   ra_source_sync_run_uuid = sr_uuid run, ra_source_command_uuid = commandUUID',
                   ra_source_record = rr_Source record', ra_source_sha256 = rr_Fingerprint record',
                   ra_imported_at = now, ra_projection = rr_Projection record' \<rparr>]\<rparr>)))"

definition insertRetainedAccessEvents ::
    "instant \<Rightarrow> sync_run_row \<Rightarrow> string \<Rightarrow> retainedEventRecord list \<Rightarrow> db \<Rightarrow> ((int \<times> int) \<times> db) result" where
  "insertRetainedAccessEvents now run commandUUID' records d =
     bindE (foldE (insert_retained now run commandUUID') records (0, d)) (\<lambda>(inserted, d1).
       Inr ((inserted, int (length records) - inserted), d1))"

text \<open>The conditions a page must satisfy at its position; the reason is the failure of the run.\<close>

definition page_refusal :: "sync_run_row \<Rightarrow> int \<Rightarrow> RetainedEventPage \<Rightarrow> string option" where
  "page_refusal run position page =
     (let nextPosition = position + rp_NumOfMatches page
      in if rp_SearchID page \<noteq> sr_search_id run then Some ''AcsEvent result searchID does not match the sync run''
         else if sr_total_matches run \<noteq> None \<and> sr_total_matches run \<noteq> Some (rp_TotalMatches page)
           then Some ''AcsEvent result totalMatches changed during the sync run''
         else if nextPosition > rp_TotalMatches page then Some ''AcsEvent result exceeds totalMatches''
         else if rp_ResponseStatus page = ''NO MATCH'' \<and> position \<noteq> 0
           then Some ''AcsEvent NO MATCH result appeared after the first page''
         else if rp_ResponseStatus page = ''MORE'' \<and> (rp_NumOfMatches page = 0 \<or> nextPosition \<ge> rp_TotalMatches page)
           then Some ''AcsEvent MORE result does not advance to another page''
         else if rp_ResponseStatus page = ''OK'' \<and> nextPosition \<noteq> rp_TotalMatches page
           then Some ''AcsEvent OK result does not complete totalMatches''
         else None)"

definition retained_record :: "string \<Rightarrow> retainedEventRecord result" where
  "retained_record raw =
     bindE (ExtractRetainedEvent raw) (\<lambda>p.
       Inr \<lparr> rr_Source = raw, rr_Fingerprint = sha256 raw, rr_Projection = p \<rparr>)"

definition retained_records :: "string list \<Rightarrow> (retainedEventRecord list) result" where
  "retained_records raws =
     foldE (\<lambda>raw rs. bindE (retained_record raw) (\<lambda>r. Inr (rs @ [r]))) raws []"

text \<open>The state of the run after a page, \<open>inserted\<close> of its records being new.\<close>

definition count_page :: "RetainedEventPage \<Rightarrow> int \<Rightarrow> int \<Rightarrow> sync_run_row \<Rightarrow> sync_run_row \<Rightarrow> sync_run_row" where
  "count_page page inserted duplicate run r =
     r\<lparr>sr_total_matches := Some (rp_TotalMatches page),
       sr_pages_completed := sr_pages_completed run + 1,
       sr_records_imported := sr_records_imported run + inserted,
       sr_records_duplicate := sr_records_duplicate run + duplicate\<rparr>"

definition next_page ::
    "tx_env \<Rightarrow> sync_run_row \<Rightarrow> int \<Rightarrow> instant \<Rightarrow> RetainedEventPage \<Rightarrow> int \<Rightarrow> int \<Rightarrow> activity \<Rightarrow> bytes \<Rightarrow> db \<Rightarrow>
       ((activity list \<times> bytes) \<times> db) result" where
  "next_page X run nextPosition searchEnded page inserted duplicate pageActivity rand d =
     (case sr_created_by_admin_user_id run of
        None \<Rightarrow> failed_sync X (sr_uuid run) ''sync administrator no longer exists before next page delivery'' rand d
      | Some creator \<Rightarrow>
          bindE (NewRetainedEventSearchRequest (sr_search_id run) nextPosition
                   \<lparr> gt_instant = searchEnded, gt_offset = 0 \<rparr>) (\<lambda>request.
          queue_page_command X run (page_command X run creator request) nextPosition
            ''could not queue the next retained-event page'' rand
            (\<lambda>commandActivity rest d2. Inr (([pageActivity, commandActivity], rest), d2))
            (d\<lparr>db_sync_runs := update_where (\<lambda>r. sr_uuid r = sr_uuid run)
                 (count_page page inserted duplicate run) (db_sync_runs d)\<rparr>)))"

definition last_page ::
    "tx_env \<Rightarrow> sync_run_row \<Rightarrow> RetainedEventPage \<Rightarrow> int \<Rightarrow> int \<Rightarrow> instant \<Rightarrow> activity \<Rightarrow> bytes \<Rightarrow> db \<Rightarrow>
       ((activity list \<times> bytes) \<times> db) result" where
  "last_page X run page inserted duplicate completedAt pageActivity rand d =
     (let imported = sr_records_imported run + inserted;
          duplicates = sr_records_duplicate run + duplicate
      in if imported + duplicates \<noteq> rp_TotalMatches page then
           failed_sync X (sr_uuid run) ''retained-event totals do not account for every device record'' rand d
         else
           bindE (insertGatewayActivity (tx_now X)
                    (new_activity ''device.access_event_sync_completed'' (sr_terminal_serial_number run)
                       ''gateway completed the terminal retained access-event sync''
                       [(''syncRunId'', FStr (sr_uuid run)), (''totalMatches'', FInt (rp_TotalMatches page)),
                        (''recordsImported'', FInt imported), (''recordsDuplicate'', FInt duplicates)])
                    (d\<lparr>db_sync_runs := update_where (\<lambda>r. sr_uuid r = sr_uuid run)
                         (\<lambda>r. (count_page page inserted duplicate run r)
                            \<lparr>sr_status := ''completed'', sr_completed_at := Some completedAt\<rparr>)
                         (db_sync_runs d)\<rparr>))
             (\<lambda>(completedActivity, d1). Inr (([pageActivity, completedActivity], rand), d1)))"

definition accept_page ::
    "tx_env \<Rightarrow> sync_run_row \<Rightarrow> int \<Rightarrow> instant \<Rightarrow> string \<Rightarrow> RetainedEventPage \<Rightarrow> retainedEventRecord list \<Rightarrow>
       instant \<Rightarrow> bytes \<Rightarrow> db \<Rightarrow> ((activity list \<times> bytes) \<times> db) result" where
  "accept_page X run position searchEnded commandUUID' page records completedAt rand d =
     bindE (insertRetainedAccessEvents (tx_now X) run commandUUID' records d) (\<lambda>((inserted, duplicate), d1).
     bindE (insertGatewayActivity (tx_now X)
              (new_activity ''device.access_event_sync_page_captured'' (sr_terminal_serial_number run)
                 ''gateway retained one terminal access-event archive page''
                 [(''syncRunId'', FStr (sr_uuid run)), (''searchPosition'', FInt position),
                  (''recordsReturned'', FInt (rp_NumOfMatches page)), (''recordsImported'', FInt inserted),
                  (''recordsDuplicate'', FInt duplicate), (''totalMatches'', FInt (rp_TotalMatches page))]) d1)
       (\<lambda>(pageActivity, d2).
     if rp_ResponseStatus page = ''MORE''
     then next_page X run (position + rp_NumOfMatches page) searchEnded page inserted duplicate pageActivity rand d2
     else last_page X run page inserted duplicate completedAt pageActivity rand d2))"

definition completeAccessEventSyncPage ::
    "tx_env \<Rightarrow> sync_run_row \<Rightarrow> int option \<Rightarrow> string \<Rightarrow> bytes \<Rightarrow> instant \<Rightarrow> bytes \<Rightarrow> db \<Rightarrow>
       ((activity list \<times> bytes) \<times> db) result" where
  "completeAccessEventSyncPage X run position commandUUID' source completedAt rand d =
     (case (sr_status run = ''running'' \<and> sr_search_started_at run \<noteq> None, position, sr_search_ended_at run) of
        (True, Some pos, Some searchEnded) \<Rightarrow>
          (case ParseRetainedEventPage source of
             Inl _ \<Rightarrow> failed_sync X (sr_uuid run) ''AcsEvent result is not the documented pagination response'' rand d
           | Inr page \<Rightarrow>
               (case page_refusal run pos page of
                  Some reason \<Rightarrow> failed_sync X (sr_uuid run) reason rand d
                | None \<Rightarrow>
                    (case retained_records (rp_InfoList page) of
                       Inl _ \<Rightarrow> failed_sync X (sr_uuid run) ''AcsEvent result contains an undocumented record'' rand d
                     | Inr records \<Rightarrow>
                         accept_page X run pos searchEnded commandUUID' page records completedAt rand d)))
      | _ \<Rightarrow> failed_sync X (sr_uuid run) ''AcsEvent result does not match an active retained-event page'' rand d)"

definition completeAccessEventSyncCommand ::
    "library \<Rightarrow> tx_env \<Rightarrow> string \<Rightarrow> ISAPICommandResult \<Rightarrow> instant \<Rightarrow> bytes \<Rightarrow> db \<Rightarrow>
       ((activity list \<times> bytes) \<times> db) result" where
  "completeAccessEventSyncCommand L X terminal result' completedAt rand d =
     (case select_row (\<lambda>l. sc_command_uuid l = cr_UUID result') (db_sync_commands d) of
        None \<Rightarrow> Inr (([], rand), d)
      | Some link \<Rightarrow>
          (case select_row (\<lambda>r. sr_uuid r = sc_sync_run_uuid link) (db_sync_runs d) of
             None \<Rightarrow> Inr (([], rand), d)
           | Some run \<Rightarrow>
               bindE (guardE (sr_terminal_serial_number run = terminal)
                        (ErrNew (''retained event sync command '' @ cr_UUID result' @ '' is linked to another terminal''))) (\<lambda>_.
               bindE (guardE (active_run run)
                        (ErrNew (''retained event sync run '' @ sr_uuid run @ '' is not active''))) (\<lambda>_.
               case b64_decode (cr_DataBase64 result') of
                 None \<Rightarrow> failed_sync X (sr_uuid run) ''terminal command result is not decodable Base64'' rand d
               | Some source \<Rightarrow>
                   if sc_phase link = ''time'' then completeAccessEventSyncTime L X run source rand d
                   else if sc_phase link = ''page'' then
                     (if cr_DataFormat result' \<noteq> None \<and> cr_DataFormat result' \<noteq> Some ''jsonData''
                      then failed_sync X (sr_uuid run) ''AcsEvent result declared a format other than jsonData'' rand d
                      else completeAccessEventSyncPage X run (sc_search_result_position link) (cr_UUID result')
                             source completedAt rand d)
                   else Inl (ErrNew (''retained event sync command '' @ cr_UUID result' @ '' has unknown phase''))))))"

section \<open>Completing commands\<close>

definition commandResultActivityFields :: "ISAPICommandResult \<Rightarrow> (string \<times> field_value) list" where
  "commandResultActivityFields r =
     [(''commandId'', FStr (cr_UUID r)), (''dataFormatDeclared'', FBool (cr_DataFormat r \<noteq> None))] @
     (case cr_DataFormat r of None \<Rightarrow> [] | Some f \<Rightarrow> [(''dataFormat'', FStr f)])"

definition complete_command :: "instant \<Rightarrow> ISAPICommandResult \<Rightarrow> command_row \<Rightarrow> command_row" where
  "complete_command now r c =
     c\<lparr>cmd_status := ''completed'', cmd_completed_at := Some now, cmd_response_data_format := cr_DataFormat r,
       cmd_response_data_format_declared := Some (cr_DataFormat r \<noteq> None),
       cmd_response_data_base64 := Some (cr_DataBase64 r)\<rparr>"

text \<open>A result equals the one a completed command already has.\<close>

definition same_result :: "ISAPICommandResult \<Rightarrow> command_row \<Rightarrow> bool" where
  "same_result r c \<longleftrightarrow>
     cmd_response_data_format c = cr_DataFormat r \<and>
     cmd_response_data_format_declared c = Some (cr_DataFormat r \<noteq> None) \<and>
     cmd_response_data_base64 c = Some (cr_DataBase64 r)"

definition result_columns_ok :: "ISAPICommandResult \<Rightarrow> bool" where
  "result_columns_ok r \<longleftrightarrow> pg_null supportedDataFormat (cr_DataFormat r) \<and> pg_text (cr_DataBase64 r)"

type_synonym complete_state = "(activity list \<times> bytes) \<times> db"

definition complete_result ::
    "library \<Rightarrow> tx_env \<Rightarrow> string \<Rightarrow> ISAPICommandResult \<Rightarrow> complete_state \<Rightarrow> complete_state result" where
  "complete_result L X terminal r s =
     (let ((activities, rand), d) = s
      in case select_row (\<lambda>c. cmd_uuid c = cr_UUID r \<and> cmd_terminal_serial_number c = terminal) (db_commands d) of
           None \<Rightarrow> Inl (ErrNew (''command result UUID '' @ cr_UUID r @ '' is not a sent command for this terminal''))
         | Some c \<Rightarrow>
             if cmd_status c = ''sent'' then
               bindE (guardE (result_columns_ok r) (ErrConstraint (''complete ISAPI command '' @ cr_UUID r))) (\<lambda>_.
               bindE (insertGatewayActivity (tx_now X)
                        (new_activity ''pushsdk.command_completed'' terminal
                           ''terminal returned an ISAPI command result'' (commandResultActivityFields r))
                        (d\<lparr>db_commands := update_where (\<lambda>x. cmd_uuid x = cr_UUID r)
                             (complete_command (tx_now X) r) (db_commands d)\<rparr>)) (\<lambda>(stored, d1).
               bindE (completeAccessEventSyncCommand L X terminal r (tx_now X) rand d1)
                 (\<lambda>((syncActivities, rest), d2).
                 Inr ((activities @ stored # syncActivities, rest), d2))))
             else if cmd_status c = ''completed'' then
               bindE (guardE (same_result r c)
                        (ErrNew (''command result UUID '' @ cr_UUID r @ '' conflicts with its completed result''))) (\<lambda>_.
                 Inr s)
             else Inl (ErrNew (''command result UUID '' @ cr_UUID r @ '' is in '' @ cmd_status c @ '' state, not sent'')))"

definition CompleteISAPICommands ::
    "library \<Rightarrow> tx_env \<Rightarrow> string \<Rightarrow> ISAPICommandResult list \<Rightarrow> db \<Rightarrow> ((activity list \<times> bool) \<times> db) result" where
  "CompleteISAPICommands L X terminal results d =
     bindE (expireOverdueISAPICommandsTx (tx_now X) (Some terminal) d) (\<lambda>(activities, d1).
     bindE (foldE (complete_result L X terminal) results ((activities, tx_rand X), d1))
       (\<lambda>((activities', rest), d2).
       Inr ((activities', exists_row (claimable (tx_now X) terminal) (db_commands d2)), d2)))"

section \<open>What completing a result changes\<close>

lemma queueISAPICommandTx_Inr:
  assumes "queueISAPICommandTx X input rand d = Inr ((c, stored, rest), d')"
  shows "c = queued_command X input (cmd_uuid c) \<and> commandUUID (cmd_uuid c) \<and> new_command_ok d c \<and>
    d' = d\<lparr>db_commands := db_commands d @ [c], db_activities := db_activities d @ [stored]\<rparr>"
  using assms
  by (auto simp: queueISAPICommandTx_def res_simps Let_def queued_command_def
      dest!: insertGatewayActivity_append newISAPICommandUUID_format)

text \<open>
  Everything a sync step may do: append queued commands and activities, and change the tables of
  the sync.
\<close>

definition sync_effect :: "db \<Rightarrow> db \<Rightarrow> bool" where
  "sync_effect d d' \<longleftrightarrow>
     (\<exists>cmds acts runs links kept. d' = d\<lparr>db_commands := db_commands d @ cmds,
        db_activities := db_activities d @ acts, db_sync_runs := runs, db_sync_commands := links,
        db_retained := kept\<rparr> \<and> (\<forall>c \<in> set cmds. cmd_status c = ''queued'') \<and>
        (unique_key cmd_uuid (db_commands d) \<longrightarrow> unique_key cmd_uuid (db_commands d @ cmds)))"

lemma sync_effectI:
  assumes "d' = d\<lparr>db_commands := db_commands d @ cmds, db_activities := db_activities d @ acts,
      db_sync_runs := runs, db_sync_commands := links, db_retained := kept\<rparr>"
    and "\<forall>c \<in> set cmds. cmd_status c = ''queued''"
    and "unique_key cmd_uuid (db_commands d) \<longrightarrow> unique_key cmd_uuid (db_commands d @ cmds)"
  shows "sync_effect d d'"
  using assms unfolding sync_effect_def by blast

lemma sync_effect_refl [intro!, simp]: "sync_effect d d"
  by (rule sync_effectI [where cmds = "[]" and acts = "[]" and runs = "db_sync_runs d" and links = "db_sync_commands d" and kept = "db_retained d"]) auto

lemma sync_effect_trans [trans]:
  assumes "sync_effect d d'" "sync_effect d' d''"
  shows "sync_effect d d''"
proof -
  from assms(1) obtain c1 a1 r1 l1 k1 where 1: "d' = d\<lparr>db_commands := db_commands d @ c1,
      db_activities := db_activities d @ a1, db_sync_runs := r1, db_sync_commands := l1, db_retained := k1\<rparr>"
    "\<forall>c \<in> set c1. cmd_status c = ''queued''"
    "unique_key cmd_uuid (db_commands d) \<longrightarrow> unique_key cmd_uuid (db_commands d @ c1)"
    unfolding sync_effect_def by blast
  from assms(2) obtain c2 a2 r2 l2 k2 where 2: "d'' = d'\<lparr>db_commands := db_commands d' @ c2,
      db_activities := db_activities d' @ a2, db_sync_runs := r2, db_sync_commands := l2, db_retained := k2\<rparr>"
    "\<forall>c \<in> set c2. cmd_status c = ''queued''"
    "unique_key cmd_uuid (db_commands d') \<longrightarrow> unique_key cmd_uuid (db_commands d' @ c2)"
    unfolding sync_effect_def by blast
  show ?thesis
    by (rule sync_effectI [where cmds = "c1 @ c2" and acts = "a1 @ a2" and runs = r2 and links = l2 and kept = k2]) (use 1 2 in auto)
qed

lemma sync_effect_activity:
  "insertGatewayActivity now event d = Inr (stored, d') \<Longrightarrow> sync_effect d d'"
  by (rule sync_effectI [where cmds = "[]" and acts = "[stored]" and runs = "db_sync_runs d" and links = "db_sync_commands d" and kept = "db_retained d"])
    (auto dest: insertGatewayActivity_append)

lemma sync_effect_tables:
  "sync_effect d (d\<lparr>db_sync_runs := runs\<rparr>)" "sync_effect d (d\<lparr>db_sync_commands := links\<rparr>)"
  "sync_effect d (d\<lparr>db_retained := kept\<rparr>)"
proof -
  show "sync_effect d (d\<lparr>db_sync_runs := runs\<rparr>)"
    by (rule sync_effectI [where cmds = "[]" and acts = "[]" and links = "db_sync_commands d" and kept = "db_retained d"]) auto
  show "sync_effect d (d\<lparr>db_sync_commands := links\<rparr>)"
    by (rule sync_effectI [where cmds = "[]" and acts = "[]" and runs = "db_sync_runs d" and kept = "db_retained d"]) auto
  show "sync_effect d (d\<lparr>db_retained := kept\<rparr>)"
    by (rule sync_effectI [where cmds = "[]" and acts = "[]" and runs = "db_sync_runs d" and links = "db_sync_commands d"]) auto
qed

lemma sync_effect_link: "link_command l d = Inr d' \<Longrightarrow> sync_effect d d'"
  by (auto simp: link_command_def res_simps sync_effect_tables)

lemma sync_effect_queue:
  assumes "queueISAPICommandTx X input rand d = Inr ((c, stored, rest), d')"
  shows "sync_effect d d'"
  using queueISAPICommandTx_Inr [OF assms]
  by (intro sync_effectI [where cmds = "[c]" and acts = "[stored]" and runs = "db_sync_runs d" and links = "db_sync_commands d" and kept = "db_retained d"])
    (auto simp: new_command_ok_def unique_key_snoc row_simps queued_command_def dest: arg_cong [of _ _ cmd_status])

lemma sync_effect_failed: "failed_sync X uuid reason rand d = Inr (s, d') \<Longrightarrow> sync_effect d d'"
  by (auto simp: failed_sync_def res_simps dest!: failAccessEventSync_Inr
      intro!: sync_effectI [where cmds = "[]" and links = "db_sync_commands d" and kept = "db_retained d"])

lemma sync_effect_fail_unless:
  "fail_unless_aborted e (failed_sync X uuid reason rand d) = Inr (s, d') \<Longrightarrow> sync_effect d d'"
  by (auto simp: fail_unless_aborted_def split: if_splits dest: sync_effect_failed)

lemma sync_effect_retained:
  assumes "insertRetainedAccessEvents now run uuid records d = Inr (n, d')"
  shows "sync_effect d d'"
proof -
  from assms obtain k where "foldE (insert_retained now run uuid) records (0, d) = Inr (k, d')"
    by (auto simp: insertRetainedAccessEvents_def res_simps)
  then have "(\<lambda>s. sync_effect d (snd s)) (k, d')"
  proof (rule foldE_invariant)
    fix x s t assume "sync_effect d (snd s)" "insert_retained now run uuid x s = Inr t"
    then show "sync_effect d (snd t)"
      by (cases s) (auto simp: insert_retained_def res_simps split: if_splits
          intro: sync_effect_trans [OF _ sync_effect_tables(3)])
  qed simp
  then show ?thesis by simp
qed

lemmas sync_effects = sync_effect_activity sync_effect_link sync_effect_queue sync_effect_failed
  sync_effect_fail_unless sync_effect_retained

lemma sync_effect_queue_page:
  assumes "queue_page_command X run input position reason rand k d = Inr (s, d')"
    and "\<And>a r d1. k a r d1 = Inr (s, d') \<Longrightarrow> sync_effect d1 d'"
  shows "sync_effect d d'"
proof (cases "queueISAPICommandTx X input rand d")
  case (Inl e)
  with assms(1) show ?thesis by (auto simp: queue_page_command_def dest: sync_effect_fail_unless)
next
  case (Inr p)
  then obtain c stored rest d1 where q: "queueISAPICommandTx X input rand d = Inr ((c, stored, rest), d1)"
    by (metis prod.exhaust)
  with assms(1) obtain d2 where "link_command \<lparr> sc_command_uuid = cmd_uuid c, sc_sync_run_uuid = sr_uuid run,
      sc_phase = ''page'', sc_search_result_position = Some position \<rparr> d1 = Inr d2" "k stored rest d2 = Inr (s, d')"
    by (auto simp: queue_page_command_def bindE_eq_Inr)
  with q assms(2) show ?thesis
    by (blast intro: sync_effect_trans sync_effect_queue sync_effect_link)
qed

lemma sync_effect_time:
  assumes "completeAccessEventSyncTime L X run source rand d = Inr (s, d')"
  shows "sync_effect d d'"
  using assms unfolding completeAccessEventSyncTime_def
  by (auto simp: res_simps split: if_splits sum.splits option.splits
      intro: sync_effect_trans [OF sync_effect_tables(1)] dest: sync_effects
      elim!: sync_effect_trans [OF sync_effect_tables(1) sync_effect_queue_page])

lemma sync_effect_next_page:
  assumes "next_page X run nextPosition searchEnded page inserted duplicate pageActivity rand d = Inr (s, d')"
  shows "sync_effect d d'"
  using assms unfolding next_page_def
  by (auto simp: res_simps split: option.splits dest: sync_effects
      elim!: sync_effect_trans [OF sync_effect_tables(1) sync_effect_queue_page])

lemma sync_effect_last_page:
  assumes "last_page X run page inserted duplicate completedAt pageActivity rand d = Inr (s, d')"
  shows "sync_effect d d'"
  using assms unfolding last_page_def
  by (auto simp: res_simps Let_def split: if_splits
      intro: sync_effect_trans [OF sync_effect_tables(1)] dest!: sync_effects)

lemma sync_effect_accept:
  assumes "accept_page X run position searchEnded uuid page records completedAt rand d = Inr (s, d')"
  shows "sync_effect d d'"
  using assms unfolding accept_page_def
  by (auto simp: res_simps split: if_splits intro: sync_effect_trans
      dest!: sync_effects sync_effect_next_page sync_effect_last_page)

lemma sync_effect_page:
  assumes "completeAccessEventSyncPage X run position uuid source completedAt rand d = Inr (s, d')"
  shows "sync_effect d d'"
  using assms unfolding completeAccessEventSyncPage_def
  by (auto split: option.splits sum.splits bool.splits dest!: sync_effects sync_effect_accept)

lemma sync_effect_complete:
  assumes "completeAccessEventSyncCommand L X terminal r completedAt rand d = Inr (s, d')"
  shows "sync_effect d d'"
  using assms unfolding completeAccessEventSyncCommand_def
  by (auto simp: res_simps split: option.splits if_splits
      dest!: sync_effects sync_effect_time sync_effect_page)


section \<open>Completion and retries\<close>

lemma sync_effect_commands:
  assumes "sync_effect d d'"
  obtains cmds where "db_commands d' = db_commands d @ cmds" "\<forall>c \<in> set cmds. cmd_status c = ''queued''"
    "unique_key cmd_uuid (db_commands d) \<Longrightarrow> unique_key cmd_uuid (db_commands d')"
  using assms unfolding sync_effect_def by auto

lemma evolve_append:
  assumes "\<forall>c \<in> set cmds. cmd_status c = ''queued''"
  shows "commands_evolve now xs (xs @ cmds)"
  unfolding commands_evolve_def
  by (intro exI [of _ xs] exI [of _ cmds]) (use assms in \<open>auto simp: list.rel_refl\<close>)

text \<open>A result either completes a sent command of the terminal or repeats a completed one.\<close>

lemma complete_result_cases:
  assumes "complete_result L X terminal r ((acts, rand), d) = Inr ((acts', rand'), d')"
  obtains (sent) c stored d1 where
      "c \<in> set (db_commands d)" "cmd_uuid c = cr_UUID r" "cmd_terminal_serial_number c = terminal"
      "cmd_status c = ''sent''"
      "d1 = d\<lparr>db_commands := update_where (\<lambda>x. cmd_uuid x = cr_UUID r) (complete_command (tx_now X) r) (db_commands d),
         db_activities := db_activities d @ [stored]\<rparr>" "sync_effect d1 d'"
  | (repeated) c where
      "c \<in> set (db_commands d)" "cmd_uuid c = cr_UUID r" "cmd_terminal_serial_number c = terminal"
      "cmd_status c = ''completed''" "same_result r c" "acts' = acts" "rand' = rand" "d' = d"
proof -
  let ?p = "\<lambda>c. cmd_uuid c = cr_UUID r \<and> cmd_terminal_serial_number c = terminal"
  from assms obtain c where sel: "select_row ?p (db_commands d) = Some c"
    by (auto simp: complete_result_def split: option.splits)
  note c = select_row_Some [OF sel]
  show ?thesis
  proof (cases "cmd_status c = ''sent''")
    case True
    with assms sel obtain stored d1 sa rest where
      "insertGatewayActivity (tx_now X) (new_activity ''pushsdk.command_completed'' terminal
          ''terminal returned an ISAPI command result'' (commandResultActivityFields r))
          (d\<lparr>db_commands := update_where (\<lambda>x. cmd_uuid x = cr_UUID r) (complete_command (tx_now X) r) (db_commands d)\<rparr>)
        = Inr (stored, d1)"
      "completeAccessEventSyncCommand L X terminal r (tx_now X) rand d1 = Inr ((sa, rest), d')"
      by (auto simp: complete_result_def bindE_eq_Inr guardE_eq_Inr)
    with c True show ?thesis
      by (intro sent [of c d1 stored]) (auto dest!: insertGatewayActivity_append sync_effect_complete)
  next
    case False
    with assms sel c show ?thesis
      by (intro repeated [of c]) (auto simp: complete_result_def res_simps split: if_splits)
  qed
qed

definition complete_inv :: "instant \<Rightarrow> string \<Rightarrow> command_row list \<Rightarrow> db \<Rightarrow> bool" where
  "complete_inv now terminal start d \<longleftrightarrow>
     unique_key cmd_uuid (db_commands d) \<and> commands_evolve now start (db_commands d) \<and>
     (\<forall>c \<in> set (db_commands d). cmd_terminal_serial_number c = terminal \<longrightarrow> cmd_status c = ''sent'' \<longrightarrow>
        cmd_expires_at c > now)"

lemma command_step_complete:
  assumes "cmd_status c = ''sent''" "cmd_expires_at c > now"
  shows "command_step now c (complete_command now r c)"
  unfolding complete_command_def by (rule command_step.complete [OF assms])

lemma complete_result_inv:
  assumes "complete_result L X terminal r ((acts, rand), d) = Inr ((acts', rand'), d')"
    and inv: "complete_inv (tx_now X) terminal start d"
  shows "complete_inv (tx_now X) terminal start d'"
  using assms(1)
proof (cases rule: complete_result_cases)
  case (sent c stored d1)
  let ?f = "complete_command (tx_now X) r"
  let ?cs = "update_where (\<lambda>x. cmd_uuid x = cr_UUID r) ?f (db_commands d)"
  have one: "x = c" if "x \<in> set (db_commands d)" "cmd_uuid x = cr_UUID r" for x
    using that sent inv by (auto simp: complete_inv_def dest: unique_keyD)
  have "commands_evolve (tx_now X) (db_commands d) ?cs"
    by (rule evolve_update) (use one sent inv in \<open>auto simp: complete_inv_def intro!: command_step_complete\<close>)
  moreover have "unique_key cmd_uuid ?cs"
    using inv by (auto simp: complete_inv_def complete_command_def intro: unique_key_update_where)
  moreover from sent(6) obtain new where new: "db_commands d' = ?cs @ new" "\<forall>c \<in> set new. cmd_status c = ''queued''"
    "unique_key cmd_uuid (db_commands d1) \<Longrightarrow> unique_key cmd_uuid (db_commands d')"
    by (rule sync_effect_commands) (simp add: sent(5))
  ultimately show ?thesis
    using inv sent(5) evolve_append [OF new(2), of "tx_now X" ?cs]
    by (auto simp: complete_inv_def row_simps complete_command_def intro: evolve_trans split: if_splits)
qed (use inv in simp)

lemma complete_results_inv:
  "foldE (complete_result L X terminal) rs ((acts, rand), d) = Inr ((acts', rand'), d') \<Longrightarrow>
     complete_inv (tx_now X) terminal start d \<Longrightarrow> complete_inv (tx_now X) terminal start d'"
proof (induction rs arbitrary: acts rand d)
  case Nil
  then show ?case by simp
next
  case (Cons r rs)
  then obtain a1 r1 d1 where "complete_result L X terminal r ((acts, rand), d) = Inr ((a1, r1), d1)"
    "foldE (complete_result L X terminal) rs ((a1, r1), d1) = Inr ((acts', rand'), d')"
    by (auto simp: bindE_eq_Inr)
  with Cons.IH Cons.prems(2) complete_result_inv show ?case by blast
qed

lemma Complete_Inr:
  assumes "CompleteISAPICommands L X terminal results d = Inr ((acts, pending), d')"
  obtains acts0 d0 rest where "expireOverdueISAPICommandsTx (tx_now X) (Some terminal) d = Inr (acts0, d0)"
    "foldE (complete_result L X terminal) results ((acts0, tx_rand X), d0) = Inr ((acts, rest), d')"
    "pending = exists_row (claimable (tx_now X) terminal) (db_commands d')"
  using assms by (auto simp: CompleteISAPICommands_def bindE_eq_Inr)

lemma expire_complete_inv:
  assumes "expireOverdueISAPICommandsTx now (Some terminal) d = Inr (acts, d')" "unique_key cmd_uuid (db_commands d)"
  shows "complete_inv now terminal (db_commands d) d'"
proof -
  let ?cs = "update_where (overdue now (Some terminal)) (expire_command now) (db_commands d)"
  from assms(1) obtain runs where "d' = d\<lparr>db_commands := ?cs, db_activities := db_activities d @ acts, db_sync_runs := runs\<rparr>"
    by (rule expireOverdue_Inr)
  then have cs: "db_commands d' = ?cs" by simp
  have "cmd_expires_at c > now"
    if "c \<in> set ?cs" "cmd_terminal_serial_number c = terminal" "cmd_status c = ''sent''" for c
  proof (rule ccontr)
    assume late: "\<not> cmd_expires_at c > now"
    from that(1) obtain c0 where "c = (if overdue now (Some terminal) c0 then expire_command now c0 else c0)"
      unfolding set_update_where by blast
    with that(2,3) have "c = c0" "\<not> overdue now (Some terminal) c0"
      by (auto simp: expire_command_def split: if_splits)
    with that(2,3) late show False by (auto simp: overdue_def)
  qed
  then show ?thesis
    unfolding complete_inv_def cs by (simp add: unique_uuid_expire [OF assms(2)] expire_evolve)
qed

lemma complete_evolve:
  assumes "CompleteISAPICommands L X terminal results d = Inr (out, d')" "unique_key cmd_uuid (db_commands d)"
  shows "commands_evolve (tx_now X) (db_commands d) (db_commands d')" "unique_key cmd_uuid (db_commands d')"
proof -
  obtain acts pending where "out = (acts, pending)" by (cases out)
  with assms(1) obtain acts0 d0 rest where
    "expireOverdueISAPICommandsTx (tx_now X) (Some terminal) d = Inr (acts0, d0)"
    "foldE (complete_result L X terminal) results ((acts0, tx_rand X), d0) = Inr ((acts, rest), d')"
    by (auto elim: Complete_Inr)
  with expire_complete_inv assms(2) complete_results_inv have "complete_inv (tx_now X) terminal (db_commands d) d'"
    by blast
  then show "commands_evolve (tx_now X) (db_commands d) (db_commands d')" "unique_key cmd_uuid (db_commands d')"
    by (simp_all add: complete_inv_def)
qed

text \<open>Results whose command already holds them.\<close>

definition settled :: "string \<Rightarrow> db \<Rightarrow> ISAPICommandResult \<Rightarrow> bool" where
  "settled terminal d r \<longleftrightarrow>
     (\<exists>c \<in> set (db_commands d). cmd_uuid c = cr_UUID r \<and> cmd_terminal_serial_number c = terminal \<and>
        cmd_status c = ''completed'' \<and> same_result r c)"

lemma complete_result_settles:
  assumes "complete_result L X terminal r ((acts, rand), d) = Inr ((acts', rand'), d')"
  shows "settled terminal d' r"
  using assms
proof (cases rule: complete_result_cases)
  case (sent c stored d1)
  from sent(6) obtain new where "db_commands d' = db_commands d1 @ new" by (rule sync_effect_commands)
  moreover have "complete_command (tx_now X) r c \<in> set (db_commands d1)"
    using sent by (auto simp: row_simps intro: rev_image_eqI)
  ultimately show ?thesis
    using sent by (auto simp: settled_def complete_command_def same_result_def intro!: bexI [of _ "complete_command (tx_now X) r c"])
qed (auto simp: settled_def)

lemma complete_result_keeps:
  assumes "complete_result L X terminal r ((acts, rand), d) = Inr ((acts', rand'), d')"
    and "settled terminal d r0" "unique_key cmd_uuid (db_commands d)"
  shows "settled terminal d' r0"
  using assms(1)
proof (cases rule: complete_result_cases)
  case (sent c stored d1)
  from assms(2) obtain c0 where c0: "c0 \<in> set (db_commands d)" "cmd_uuid c0 = cr_UUID r0"
    "cmd_terminal_serial_number c0 = terminal" "cmd_status c0 = ''completed''" "same_result r0 c0"
    by (auto simp: settled_def)
  have "cmd_uuid c0 \<noteq> cr_UUID r"
    using c0 sent assms(3) by (auto dest: unique_keyD [of cmd_uuid _ c c0])
  then have "c0 \<in> set (db_commands d1)" using c0(1) sent(5) by (force simp: row_simps)
  moreover from sent(6) obtain new where "db_commands d' = db_commands d1 @ new" by (rule sync_effect_commands)
  ultimately show ?thesis using c0 by (auto simp: settled_def)
qed (use assms in simp)

lemma complete_results_settled:
  "foldE (complete_result L X terminal) rs ((acts, rand), d) = Inr ((acts', rand'), d') \<Longrightarrow>
     complete_inv (tx_now X) terminal start d \<Longrightarrow> \<forall>r \<in> set done. settled terminal d r \<Longrightarrow>
     \<forall>r \<in> set done \<union> set rs. settled terminal d' r"
proof (induction rs arbitrary: acts rand d "done")
  case Nil
  then show ?case by simp
next
  case (Cons r rs)
  then obtain a1 r1 d1 where 1: "complete_result L X terminal r ((acts, rand), d) = Inr ((a1, r1), d1)"
    and rest: "foldE (complete_result L X terminal) rs ((a1, r1), d1) = Inr ((acts', rand'), d')"
    by (auto simp: bindE_eq_Inr)
  have "\<forall>x \<in> set (r # done). settled terminal d1 x"
    using complete_result_settles [OF 1] complete_result_keeps [OF 1] Cons.prems(2,3)
    by (auto simp: complete_inv_def)
  from Cons.IH [OF rest complete_result_inv [OF 1 Cons.prems(2)] this] show ?case by auto
qed

lemma complete_settled:
  assumes "\<forall>r \<in> set rs. settled terminal d r" "unique_key cmd_uuid (db_commands d)"
  shows "foldE (complete_result L X terminal) rs ((acts, rand), d) = Inr ((acts, rand), d)"
  using assms(1)
proof (induction rs)
  case (Cons r rs)
  then obtain c where c: "c \<in> set (db_commands d)" "cmd_uuid c = cr_UUID r"
    "cmd_terminal_serial_number c = terminal" "cmd_status c = ''completed''" "same_result r c"
    by (auto simp: settled_def)
  let ?p = "\<lambda>c. cmd_uuid c = cr_UUID r \<and> cmd_terminal_serial_number c = terminal"
  have "select_row ?p (db_commands d) = Some c"
  proof (cases "select_row ?p (db_commands d)")
    case None
    with c show ?thesis by (auto simp: select_row_None)
  next
    case (Some x)
    with c assms(2) show ?thesis by (auto dest!: select_row_Some dest: unique_keyD)
  qed
  with c Cons show ?case by (simp add: complete_result_def)
qed simp

lemma expire_nothing:
  assumes "\<forall>c \<in> set (db_commands d). \<not> overdue now terminal c"
  shows "expireOverdueISAPICommandsTx now terminal d = Inr ([], d)"
proof -
  have "filter (overdue now terminal) (db_commands d) = []" using assms by (simp add: filter_empty_conv)
  with assms show ?thesis by (simp add: expireOverdueISAPICommandsTx_def update_where_none)
qed

lemma complete_again:
  assumes "CompleteISAPICommands L X terminal results d = Inr (out, d')" "unique_key cmd_uuid (db_commands d)"
    and "\<forall>c \<in> set (db_commands d'). \<not> overdue (tx_now X') (Some terminal) c"
  shows "CompleteISAPICommands L X' terminal results d' =
    Inr (([], exists_row (claimable (tx_now X') terminal) (db_commands d')), d')"
proof -
  obtain acts pending where "out = (acts, pending)" by (cases out)
  with assms(1) obtain acts0 d0 rest where
    ex: "expireOverdueISAPICommandsTx (tx_now X) (Some terminal) d = Inr (acts0, d0)" and
    fold: "foldE (complete_result L X terminal) results ((acts0, tx_rand X), d0) = Inr ((acts, rest), d')"
    by (auto elim: Complete_Inr)
  have "\<forall>r \<in> set results. settled terminal d' r"
    using complete_results_settled [OF fold expire_complete_inv [OF ex assms(2)], of "[]"] by simp
  with complete_settled [of results terminal d' L X'] complete_evolve(2) [OF assms(1,2)]
  show ?thesis by (simp add: CompleteISAPICommands_def expire_nothing [OF assms(3)])
qed


end
