(* ===== verification/EventStore.thy ===== *)
theory EventStore
  imports AccessEventSync
begin

text \<open>
  The event archive and the delivery outbox it feeds (\<open>internal/store/store.go\<close>,
  \<open>event_deliveries.go\<close>, \<open>event_attachments.go\<close>): inserting an Event batch with the projection of
  every new event and, for a completed face authentication on a routed terminal, the delivery and
  its attachment receipt; and the back-fill of projections of an older schema.
\<close>

section \<open>Projections\<close>

text \<open>A projection as the database returns it: its time is a UTC timestamp.\<close>

definition stored_time :: "go_time \<Rightarrow> go_time" where
  "stored_time t = \<lparr> gt_instant = pg_timestamp (gt_instant t), gt_offset = 0 \<rparr>"

definition stored_projection :: "Projection \<Rightarrow> Projection" where
  "stored_projection p = p\<lparr>pr_OccurredAt := map_option stored_time (pr_OccurredAt p)\<rparr>"

definition put_projection :: "projection_row \<Rightarrow> projection_row list \<Rightarrow> projection_row list" where
  "put_projection p rows =
     (if exists_row (\<lambda>r. pj_device_event_id r = pj_device_event_id p) rows
      then update_where (\<lambda>r. pj_device_event_id r = pj_device_event_id p) (\<lambda>_. p) rows
      else rows @ [p])"

definition insertAccessEventProjection :: "library \<Rightarrow> int \<Rightarrow> string \<Rightarrow> string \<Rightarrow> db \<Rightarrow> db result" where
  "insertAccessEventProjection L deviceEventID dataFormat payload d =
     (let projection = Extract L dataFormat payload
      in bindE (guardE (pg_null projection_columns_ok projection) (ErrConstraint ''record classified access event'')) (\<lambda>_.
         Inr (d\<lparr>db_projections := put_projection
            \<lparr> pj_device_event_id = deviceEventID, pj_schema_version = SchemaVersion,
              pj_projection = map_option stored_projection projection \<rparr> (db_projections d)\<rparr>)))"

section \<open>Deliveries\<close>

text \<open>\<open>json.Marshal\<close> of an \<open>EventMessage\<close>; \<open>None\<close> when its time cannot be written.\<close>

record EventMessage =
  em_SchemaVersion :: int
  em_Source :: string
  em_EventID :: string
  em_TerminalSerialNumber :: string
  em_PushSDKSerial :: string
  em_MajorEventType :: int
  em_SubEventType :: int
  em_EventState :: "string option"
  em_OccurredAt :: "go_time option"
  em_EmployeeNumber :: "string option"
  em_EmployeeName :: "string option"
  em_EventSerialNumber :: "int option"

definition json_null_or :: "('a \<Rightarrow> string) \<Rightarrow> 'a option \<Rightarrow> string" where
  "json_null_or enc m = (case m of None \<Rightarrow> ''null'' | Some a \<Rightarrow> enc a)"

definition encode_event_message :: "EventMessage \<Rightarrow> bytes option" where
  "encode_event_message m =
     (case (case em_OccurredAt m of None \<Rightarrow> Some ''null'' | Some t \<Rightarrow> json_time t) of
        None \<Rightarrow> None
      | Some occurredAt \<Rightarrow>
          Some (json_object
            ([(''schemaVersion'', itoa (em_SchemaVersion m))] @
             (if em_Source m = [] then [] else [(''source'', json_quote (em_Source m))]) @
             [(''eventId'', json_quote (em_EventID m)),
              (''terminalSerialNumber'', json_quote (em_TerminalSerialNumber m)),
              (''pushSdkSerial'', json_quote (em_PushSDKSerial m)),
              (''majorEventType'', itoa (em_MajorEventType m)), (''subEventType'', itoa (em_SubEventType m)),
              (''eventState'', json_null_or json_quote (em_EventState m)), (''occurredAt'', occurredAt),
              (''employeeNoString'', json_null_or json_quote (em_EmployeeNumber m)),
              (''employeeName'', json_null_or json_quote (em_EmployeeName m)),
              (''eventSerialNumber'', json_null_or itoa (em_EventSerialNumber m))])))"

text \<open>A completed face authentication that is active: category 5, subtype 75.\<close>

definition attendance_event :: "Projection \<Rightarrow> bool" where
  "attendance_event p \<longleftrightarrow>
     pr_MajorEventType p = 5 \<and> pr_SubEventType p = 75 \<and> pr_EventState p = Some ''active''"

definition event_message :: "device_event_row \<Rightarrow> terminal_row \<Rightarrow> Projection \<Rightarrow> EventMessage" where
  "event_message e t p =
     \<lparr> em_SchemaVersion = 2, em_Source = ''pushsdk'', em_EventID = de_vendor_event_id e,
       em_TerminalSerialNumber = de_terminal_serial_number e, em_PushSDKSerial = tr_pushsdk_serial t,
       em_MajorEventType = pr_MajorEventType p, em_SubEventType = pr_SubEventType p,
       em_EventState = pr_EventState p, em_OccurredAt = pr_OccurredAt p,
       em_EmployeeNumber = pr_EmployeeNumber p, em_EmployeeName = pr_EmployeeName p,
       em_EventSerialNumber = pr_EventSerialNumber p \<rparr>"

definition new_delivery :: "instant \<Rightarrow> int \<Rightarrow> int option \<Rightarrow> int option \<Rightarrow> int option \<Rightarrow> route_row \<Rightarrow> bytes \<Rightarrow> delivery_row" where
  "new_delivery now i deviceEvent retainedEvent backfill route body =
     \<lparr> dl_id = i, dl_device_event_id = deviceEvent, dl_retained_event_id = retainedEvent,
       dl_backfill_id = backfill, dl_terminal_serial_number = dr_terminal_serial_number route,
       dl_endpoint_url = dr_endpoint_url route, dl_signing_key_id = dr_signing_key_id route,
       dl_request_body = body, dl_status = ''pending'', dl_attempts = 0, dl_next_attempt_at = now,
       dl_lease_until = None, dl_last_http_status = None, dl_last_error = None, dl_created_at = now,
       dl_delivered_at = None \<rparr>"

definition enqueueAttachment :: "instant \<Rightarrow> int \<Rightarrow> db \<Rightarrow> db result" where
  "enqueueAttachment now parent d =
     bindE (guardE (\<not> exists_row (\<lambda>a. ad_event_delivery_id a = parent) (db_attachments d))
              (ErrConstraint ''event_attachment_deliveries'')) (\<lambda>_.
       Inr (d\<lparr>db_attachments := db_attachments d @
         [\<lparr> ad_id = next_id ad_id (db_attachments d), ad_event_delivery_id = parent, ad_request_body = None,
            ad_availability = None, ad_reason = None, ad_status = ''pending'', ad_attempts = 0,
            ad_next_attempt_at = now, ad_lease_until = None, ad_last_http_status = None,
            ad_last_error = None, ad_created_at = now, ad_delivered_at = None \<rparr>]\<rparr>))"

text \<open>The row of the join that selects a delivery for an event.\<close>

definition delivery_source ::
    "int \<Rightarrow> db \<Rightarrow> (device_event_row \<times> Projection \<times> terminal_row \<times> route_row) option" where
  "delivery_source eventID d =
     obind (select_row (\<lambda>e. de_id e = eventID) (db_device_events d)) (\<lambda>e.
     obind (select_row (\<lambda>p. pj_device_event_id p = eventID) (db_projections d)) (\<lambda>row.
     obind (pj_projection row) (\<lambda>p.
     obind (select_row (\<lambda>t. tr_serial_number t = de_terminal_serial_number e) (db_terminals d)) (\<lambda>t.
     obind (select_row (\<lambda>r. dr_terminal_serial_number r = de_terminal_serial_number e) (db_routes d)) (\<lambda>r.
       if dr_enabled r \<and> attendance_event p then Some (e, p, t, r) else None)))))"

definition enqueueEventDelivery :: "instant \<Rightarrow> int \<Rightarrow> db \<Rightarrow> db result" where
  "enqueueEventDelivery now eventID d =
     (case delivery_source eventID d of
        None \<Rightarrow> Inr d
      | Some (e, p, t, r) \<Rightarrow>
          bindE (someE (ErrNew ''json: year outside of range [0,9999]'') (encode_event_message (event_message e t p))) (\<lambda>body.
          bindE (guardE (\<not> exists_row (\<lambda>x. dl_device_event_id x = Some eventID) (db_deliveries d))
                   (ErrConstraint ''event_deliveries'')) (\<lambda>_.
          let row = new_delivery now (next_id dl_id (db_deliveries d)) (Some eventID) None None r body
          in enqueueAttachment now (dl_id row) (d\<lparr>db_deliveries := db_deliveries d @ [row]\<rparr>))))"

section \<open>Event batches\<close>

record DeviceEventPersistence =
  dp_Inserted :: bool
  dp_Activity :: activity

definition device_event_ok :: "db \<Rightarrow> NewDeviceEvent \<Rightarrow> bool" where
  "device_event_ok d e \<longleftrightarrow>
     registered d (ne_TerminalSerialNumber e) \<and> pg_text (ne_VendorEventID e) \<and>
     supportedDataFormat (ne_DataFormat e) \<and> pg_text (ne_PayloadBase64 e)"

definition archived :: "db \<Rightarrow> string \<Rightarrow> string \<Rightarrow> bool" where
  "archived d serial vendorID =
     exists_row (\<lambda>r. de_terminal_serial_number r = serial \<and> de_vendor_event_id r = vendorID) (db_device_events d)"

definition archive_row :: "instant \<Rightarrow> int \<Rightarrow> NewDeviceEvent \<Rightarrow> device_event_row" where
  "archive_row now i e =
     \<lparr> de_id = i, de_terminal_serial_number = ne_TerminalSerialNumber e,
       de_vendor_event_id = ne_VendorEventID e, de_data_format = ne_DataFormat e,
       de_received_at = now, de_payload_base64 = Some (ne_PayloadBase64 e) \<rparr>"

text \<open>A new event is archived, projected and, if it qualifies, queued for delivery.\<close>

definition archive_new :: "library \<Rightarrow> instant \<Rightarrow> NewDeviceEvent \<Rightarrow> db \<Rightarrow> db result" where
  "archive_new L now e d =
     (let i = next_id de_id (db_device_events d)
      in bindE (insertAccessEventProjection L i (ne_DataFormat e) (ne_PayloadBase64 e)
                  (d\<lparr>db_device_events := db_device_events d @ [archive_row now i e]\<rparr>))
           (enqueueEventDelivery now i))"

definition event_activity :: "bool \<Rightarrow> NewDeviceEvent \<Rightarrow> activity" where
  "event_activity inserted e =
     new_activity (if inserted then ''device.event_persisted'' else ''device.event_duplicate'')
       (ne_TerminalSerialNumber e)
       (if inserted then ''device event payload persisted'' else ''device event payload was already retained'')
       [(''eventId'', FStr (ne_VendorEventID e)), (''dataFormat'', FStr (ne_DataFormat e))]"

definition insert_device_event ::
    "library \<Rightarrow> instant \<Rightarrow> NewDeviceEvent \<Rightarrow> DeviceEventPersistence list \<times> db \<Rightarrow>
       (DeviceEventPersistence list \<times> db) result" where
  "insert_device_event L now e s =
     (let (persisted, d) = s; inserted = (\<not> archived d (ne_TerminalSerialNumber e) (ne_VendorEventID e))
      in bindE (guardE (device_event_ok d e) (ErrConstraint ''insert device event'')) (\<lambda>_.
         bindE (if inserted then archive_new L now e d else Inr d) (\<lambda>d1.
         bindE (insertGatewayActivity now (event_activity inserted e) d1) (\<lambda>(stored, d2).
           Inr (persisted @ [\<lparr> dp_Inserted = inserted, dp_Activity = stored \<rparr>], d2)))))"

definition InsertDeviceEventBatch ::
    "library \<Rightarrow> instant \<Rightarrow> NewDeviceEvent list \<Rightarrow> db \<Rightarrow> (DeviceEventPersistence list \<times> db) result" where
  "InsertDeviceEventBatch L now events d = foldE (insert_device_event L now) events ([], d)"

section \<open>Back-filling projections\<close>

definition stale_projection :: "db \<Rightarrow> device_event_row \<Rightarrow> bool" where
  "stale_projection d e \<longleftrightarrow>
     (case select_row (\<lambda>p. pj_device_event_id p = de_id e) (db_projections d) of
        None \<Rightarrow> True
      | Some p \<Rightarrow> pj_schema_version p < SchemaVersion)"

definition backfill_batch :: "db \<Rightarrow> device_event_row list" where
  "backfill_batch d = take 500 (sort_key de_id (filter (stale_projection d) (db_device_events d)))"

definition project_row :: "library \<Rightarrow> device_event_row \<Rightarrow> db \<Rightarrow> db result" where
  "project_row L e d =
     insertAccessEventProjection L (de_id e) (de_data_format e)
       (case de_payload_base64 e of None \<Rightarrow> [] | Some payload \<Rightarrow> payload) d"

section \<open>What archiving a new event does\<close>

lemma select_put_projection:
  "select_row (\<lambda>r. pj_device_event_id r = i) (put_projection p rows) =
     (if i = pj_device_event_id p then Some p
      else select_row (\<lambda>r. pj_device_event_id r = i) rows)"
  unfolding put_projection_def by (rule select_upsert_key)

text \<open>
  The delivery a new event qualifies for: its projection is a completed, active face
  authentication and its terminal has an enabled route.
\<close>

definition qualifying :: "library \<Rightarrow> NewDeviceEvent \<Rightarrow> db \<Rightarrow> (Projection \<times> terminal_row \<times> route_row) option" where
  "qualifying L e d =
     obind (Extract L (ne_DataFormat e) (ne_PayloadBase64 e)) (\<lambda>p.
     obind (select_row (\<lambda>t. tr_serial_number t = ne_TerminalSerialNumber e) (db_terminals d)) (\<lambda>t.
     obind (select_row (\<lambda>r. dr_terminal_serial_number r = ne_TerminalSerialNumber e) (db_routes d)) (\<lambda>r.
       if dr_enabled r \<and> attendance_event p then Some (stored_projection p, t, r) else None)))"

lemma attendance_stored [simp]: "attendance_event (stored_projection p) = attendance_event p"
  by (simp add: attendance_event_def stored_projection_def)

lemma select_new_event:
  "select_row (\<lambda>e. de_id e = next_id de_id rows) (rows @ [archive_row now (next_id de_id rows) e]) =
     Some (archive_row now (next_id de_id rows) e)"
proof -
  have "select_row (\<lambda>e. de_id e = next_id de_id rows) rows = None"
    using next_id_greater [of _ rows de_id] by (fastforce simp: select_row_None)
  then show ?thesis by (simp add: select_row_append) (simp add: select_row_def archive_row_def)
qed

lemma enqueueAttachment_Inr:
  "enqueueAttachment now parent d = Inr d' \<Longrightarrow>
     \<exists>a. d' = d\<lparr>db_attachments := db_attachments d @ [a]\<rparr> \<and> ad_event_delivery_id a = parent \<and> ad_status a = ''pending''"
  by (auto simp: enqueueAttachment_def res_simps)

lemma archive_new_Inr:
  assumes "archive_new L now e d = Inr d'"
  obtains projs dels atts where
    "d' = d\<lparr>db_device_events := db_device_events d @ [archive_row now (next_id de_id (db_device_events d)) e],
       db_projections := projs, db_deliveries := db_deliveries d @ dels, db_attachments := db_attachments d @ atts\<rparr>"
    "case qualifying L e d of
       None \<Rightarrow> dels = [] \<and> atts = []
     | Some (p, t, r) \<Rightarrow>
         (\<exists>body a. encode_event_message
             (event_message (archive_row now (next_id de_id (db_device_events d)) e) t p) = Some body \<and>
           dels = [new_delivery now (next_id dl_id (db_deliveries d))
                     (Some (next_id de_id (db_device_events d))) None None r body] \<and>
           atts = [a] \<and> ad_event_delivery_id a = next_id dl_id (db_deliveries d))"
proof -
  let ?i = "next_id de_id (db_device_events d)"
  let ?row = "archive_row now ?i e"
  let ?x = "Extract L (ne_DataFormat e) (ne_PayloadBase64 e)"
  let ?projs = "put_projection \<lparr> pj_device_event_id = ?i, pj_schema_version = SchemaVersion,
      pj_projection = map_option stored_projection ?x \<rparr> (db_projections d)"
  let ?d1 = "d\<lparr>db_device_events := db_device_events d @ [?row], db_projections := ?projs\<rparr>"
  from assms have enq: "enqueueEventDelivery now ?i ?d1 = Inr d'"
    by (auto simp: archive_new_def insertAccessEventProjection_def res_simps Let_def)
  have row: "de_terminal_serial_number ?row = ne_TerminalSerialNumber e" by (simp add: archive_row_def)
  have src: "delivery_source ?i ?d1 = map_option (\<lambda>(p, t, r). (?row, p, t, r)) (qualifying L e d)"
    by (cases ?x; cases "select_row (\<lambda>t. tr_serial_number t = ne_TerminalSerialNumber e) (db_terminals d)";
        cases "select_row (\<lambda>r. dr_terminal_serial_number r = ne_TerminalSerialNumber e) (db_routes d)")
      (simp_all add: delivery_source_def qualifying_def select_new_event select_put_projection row)
  show ?thesis
  proof (cases "qualifying L e d")
    case None
    with enq src show ?thesis by (intro that [where projs = ?projs and dels = "[]" and atts = "[]"]) (auto simp: enqueueEventDelivery_def)
  next
    case (Some q)
    obtain p t r where q: "q = (p, t, r)" by (cases q)
    from enq src Some q obtain body where body: "encode_event_message (event_message ?row t p) = Some body"
      and att: "enqueueAttachment now (next_id dl_id (db_deliveries d))
          (?d1\<lparr>db_deliveries := db_deliveries d @ [new_delivery now (next_id dl_id (db_deliveries d)) (Some ?i) None None r body]\<rparr>) = Inr d'"
      by (auto simp: enqueueEventDelivery_def res_simps Let_def new_delivery_def)
    from enqueueAttachment_Inr [OF att] obtain a where
      "d' = (?d1\<lparr>db_deliveries := db_deliveries d @ [new_delivery now (next_id dl_id (db_deliveries d)) (Some ?i) None None r body],
              db_attachments := db_attachments d @ [a]\<rparr>)"
      "ad_event_delivery_id a = next_id dl_id (db_deliveries d)" by auto
    with Some q body show ?thesis
      by (intro that [where projs = ?projs and dels = "[new_delivery now (next_id dl_id (db_deliveries d)) (Some ?i) None None r body]" and atts = "[a]"])
        auto
  qed
qed

section \<open>Batches\<close>

abbreviation retained_already :: "db \<Rightarrow> NewDeviceEvent \<Rightarrow> bool" where
  "retained_already d e \<equiv> archived d (ne_TerminalSerialNumber e) (ne_VendorEventID e)"

lemma insert_device_event_Inr:
  assumes "insert_device_event L now e (persisted, d) = Inr (persisted', d')"
  obtains stored d1 where
    "device_event_ok d e" "persisted' = persisted @ [\<lparr> dp_Inserted = (\<not> archived d (ne_TerminalSerialNumber e) (ne_VendorEventID e)), dp_Activity = stored \<rparr>]"
    "if archived d (ne_TerminalSerialNumber e) (ne_VendorEventID e) then d1 = d else archive_new L now e d = Inr d1"
    "d' = d1\<lparr>db_activities := db_activities d1 @ [stored]\<rparr>"
    "activity_row_ok d1 (event_activity (\<not> archived d (ne_TerminalSerialNumber e) (ne_VendorEventID e)) e)"
  using assms
  by (auto simp: insert_device_event_def res_simps Let_def insertGatewayActivity_Inr split: if_splits)

text \<open>The archive only grows, by a verbatim row for every event of the batch that it did not hold.\<close>

definition archive_key :: "device_event_row \<Rightarrow> string \<times> string" where
  "archive_key r = (de_terminal_serial_number r, de_vendor_event_id r)"

definition event_key :: "NewDeviceEvent \<Rightarrow> string \<times> string" where
  "event_key e = (ne_TerminalSerialNumber e, ne_VendorEventID e)"

lemma archived_iff: "archived d s v \<longleftrightarrow> (s, v) \<in> archive_key ` set (db_device_events d)"
  by (auto simp: archived_def exists_row_iff archive_key_def)

definition row_holds :: "device_event_row \<Rightarrow> NewDeviceEvent \<Rightarrow> bool" where
  "row_holds r e \<longleftrightarrow> archive_key r = event_key e \<and> de_data_format r = ne_DataFormat e \<and>
     de_payload_base64 r = Some (ne_PayloadBase64 e)"


text \<open>
  What one event adds: nothing but an activity when it is retained already; otherwise its row, and
  a pending delivery with one attachment receipt exactly when it qualifies.
\<close>

definition delivers :: "library \<Rightarrow> db \<Rightarrow> device_event_row list \<Rightarrow> delivery_row \<Rightarrow> NewDeviceEvent \<Rightarrow> bool" where
  "delivers L d rows r e \<longleftrightarrow>
     (case qualifying L e d of None \<Rightarrow> False
      | Some (p, t, route) \<Rightarrow>
          dl_status r = ''pending'' \<and> dl_attempts r = 0 \<and>
          dl_endpoint_url r = dr_endpoint_url route \<and> dl_signing_key_id r = dr_signing_key_id route \<and>
          (\<exists>row \<in> set rows. row_holds row e \<and> dl_device_event_id r = Some (de_id row) \<and>
             encode_event_message (event_message row t p) = Some (dl_request_body r)))"

definition fresh_events :: "db \<Rightarrow> NewDeviceEvent list \<Rightarrow> NewDeviceEvent list" where
  "fresh_events d events = filter (\<lambda>e. \<not> retained_already d e) events"

definition extends_outbox :: "library \<Rightarrow> db \<Rightarrow> NewDeviceEvent list \<Rightarrow> db \<Rightarrow> bool" where
  "extends_outbox L d events d' \<longleftrightarrow>
     db_terminals d' = db_terminals d \<and> db_routes d' = db_routes d \<and>
     (\<exists>rows dels atts.
        db_device_events d' = db_device_events d @ rows \<and> list_all2 row_holds rows (fresh_events d events) \<and>
        db_deliveries d' = db_deliveries d @ dels \<and>
        list_all2 (delivers L d rows) dels (filter (\<lambda>e. qualifying L e d \<noteq> None) (fresh_events d events)) \<and>
        db_attachments d' = db_attachments d @ atts \<and> map ad_event_delivery_id atts = map dl_id dels)"

lemma row_holds_archive_row [simp]: "row_holds (archive_row now i e) e"
  by (simp add: row_holds_def archive_key_def event_key_def archive_row_def)

lemma archive_new_extends:
  assumes "archive_new L now e d = Inr d'" and "\<not> retained_already d e"
  shows "extends_outbox L d [e] d'"
  using assms(1)
proof (rule archive_new_Inr)
  fix projs dels atts
  let ?row = "archive_row now (next_id de_id (db_device_events d)) e"
  assume d': "d' = d\<lparr>db_device_events := db_device_events d @ [?row],
       db_projections := projs, db_deliveries := db_deliveries d @ dels, db_attachments := db_attachments d @ atts\<rparr>"
    and q: "case qualifying L e d of
       None \<Rightarrow> dels = [] \<and> atts = []
     | Some (p, t, r) \<Rightarrow>
         (\<exists>body a. encode_event_message (event_message ?row t p) = Some body \<and>
           dels = [new_delivery now (next_id dl_id (db_deliveries d))
                     (Some (next_id de_id (db_device_events d))) None None r body] \<and>
           atts = [a] \<and> ad_event_delivery_id a = next_id dl_id (db_deliveries d))"
  have id: "de_id ?row = next_id de_id (db_device_events d)" by (simp add: archive_row_def)
  have "list_all2 (delivers L d [?row]) dels (filter (\<lambda>e. qualifying L e d \<noteq> None) [e]) \<and>
        map ad_event_delivery_id atts = map dl_id dels"
  proof (cases "qualifying L e d")
    case (Some x)
    obtain p t r where x: "x = (p, t, r)" by (cases x)
    from q Some x obtain body a where
      b: "encode_event_message (event_message ?row t p) = Some body"
      "dels = [new_delivery now (next_id dl_id (db_deliveries d))
                     (Some (next_id de_id (db_device_events d))) None None r body]"
      "atts = [a]" "ad_event_delivery_id a = next_id dl_id (db_deliveries d)" by auto
    have "delivers L d [?row] (new_delivery now (next_id dl_id (db_deliveries d))
                     (Some (next_id de_id (db_device_events d))) None None r body) e"
      using Some x b(1) id by (auto simp: delivers_def new_delivery_def)
    with b Some x show ?thesis by (simp add: new_delivery_def)
  qed (use q in simp)
  with d' assms(2) show ?thesis
    by (simp add: extends_outbox_def fresh_events_def)
qed

lemma insert_step_extends:
  assumes "insert_device_event L now e (persisted, d) = Inr (persisted', d')"
  shows "extends_outbox L d [e] d' \<and> map dp_Inserted persisted' = map dp_Inserted persisted @ [\<not> retained_already d e]"
  using assms
proof (rule insert_device_event_Inr)
  fix stored d1
  assume s: "if retained_already d e then d1 = d else archive_new L now e d = Inr d1"
    and d': "d' = d1\<lparr>db_activities := db_activities d1 @ [stored]\<rparr>"
    and p: "persisted' = persisted @ [\<lparr> dp_Inserted = (\<not> retained_already d e), dp_Activity = stored \<rparr>]"
  have "extends_outbox L d [e] d1"
    using s archive_new_extends [of L now e d d1]
    by (cases "retained_already d e") (auto simp: extends_outbox_def fresh_events_def)
  with d' p show ?thesis by (simp add: extends_outbox_def)
qed

lemma retained_after:
  assumes "extends_outbox L d es d'"
  shows "retained_already d' x \<longleftrightarrow> retained_already d x \<or> event_key x \<in> event_key ` set (fresh_events d es)"
proof -
  from assms obtain rows where r: "db_device_events d' = db_device_events d @ rows"
    "list_all2 row_holds rows (fresh_events d es)" by (auto simp: extends_outbox_def)
  have "archive_key ` set rows = event_key ` set (fresh_events d es)"
    using r(2) by (induction rule: list_all2_induct) (auto simp: row_holds_def)
  with r(1) show ?thesis by (auto simp: archived_iff event_key_def [symmetric])
qed

lemma qualifying_frame: "db_terminals d1 = db_terminals d \<Longrightarrow> db_routes d1 = db_routes d \<Longrightarrow> qualifying L e d1 = qualifying L e d"
  by (simp add: qualifying_def)

lemma delivers_append:
  "list_all2 (delivers L d r1) dels es \<Longrightarrow> list_all2 (delivers L d (r1 @ r2)) dels es"
  "list_all2 (delivers L d r2) dels es \<Longrightarrow> list_all2 (delivers L d (r1 @ r2)) dels es"
  by (erule list_all2_mono, force simp: delivers_def split: option.splits prod.splits)+

lemma extends_outbox_trans:
  assumes 1: "extends_outbox L d es d1" and 2: "extends_outbox L d1 es' d2"
    and fresh: "fresh_events d1 es' = fresh_events d es'"
  shows "extends_outbox L d (es @ es') d2"
proof -
  have q: "qualifying L e d1 = qualifying L e d" for e
    using 1 by (intro qualifying_frame) (auto simp: extends_outbox_def)
  then have dq: "delivers L d1 = delivers L d" by (intro ext) (simp add: delivers_def)
  from 1 obtain r1 e1 a1 where
    "db_device_events d1 = db_device_events d @ r1" "list_all2 row_holds r1 (fresh_events d es)"
    "db_deliveries d1 = db_deliveries d @ e1"
    "list_all2 (delivers L d r1) e1 (filter (\<lambda>e. qualifying L e d \<noteq> None) (fresh_events d es))"
    "db_attachments d1 = db_attachments d @ a1" "map ad_event_delivery_id a1 = map dl_id e1"
    by (auto simp: extends_outbox_def)
  moreover from 2 obtain r2 e2 a2 where
    "db_device_events d2 = db_device_events d1 @ r2" "list_all2 row_holds r2 (fresh_events d es')"
    "db_deliveries d2 = db_deliveries d1 @ e2"
    "list_all2 (delivers L d r2) e2 (filter (\<lambda>e. qualifying L e d \<noteq> None) (fresh_events d es'))"
    "db_attachments d2 = db_attachments d1 @ a2" "map ad_event_delivery_id a2 = map dl_id e2"
    unfolding extends_outbox_def fresh q dq by auto
  ultimately have "db_device_events d2 = db_device_events d @ (r1 @ r2) \<and>
      list_all2 row_holds (r1 @ r2) (fresh_events d (es @ es')) \<and>
      db_deliveries d2 = db_deliveries d @ (e1 @ e2) \<and>
      list_all2 (delivers L d (r1 @ r2)) (e1 @ e2) (filter (\<lambda>e. qualifying L e d \<noteq> None) (fresh_events d (es @ es'))) \<and>
      db_attachments d2 = db_attachments d @ (a1 @ a2) \<and> map ad_event_delivery_id (a1 @ a2) = map dl_id (e1 @ e2)"
    by (simp add: fresh_events_def list_all2_appendI delivers_append)
  moreover have "db_terminals d2 = db_terminals d" "db_routes d2 = db_routes d"
    using 1 2 by (auto simp: extends_outbox_def)
  ultimately show ?thesis unfolding extends_outbox_def by blast
qed

lemma insert_batch_extends:
  "foldE (insert_device_event L now) events (persisted, d) = Inr (persisted', d') \<Longrightarrow>
     unique_key event_key events \<Longrightarrow>
     extends_outbox L d events d' \<and>
     map dp_Inserted persisted' = map dp_Inserted persisted @ map (\<lambda>e. \<not> retained_already d e) events"
proof (induction events arbitrary: persisted d)
  case Nil
  then show ?case by (simp add: extends_outbox_def fresh_events_def)
next
  case (Cons e es)
  from Cons.prems(1) obtain p1 d1 where 1: "insert_device_event L now e (persisted, d) = Inr (p1, d1)"
    and rest: "foldE (insert_device_event L now) es (p1, d1) = Inr (persisted', d')"
    by (auto simp: bindE_eq_Inr)
  from insert_step_extends [OF 1] have step: "extends_outbox L d [e] d1"
    "map dp_Inserted p1 = map dp_Inserted persisted @ [\<not> retained_already d e]" by auto
  have uniq: "unique_key event_key es" and other: "\<forall>x \<in> set es. event_key x \<noteq> event_key e"
    using Cons.prems(2) by (auto simp: unique_key_def image_iff)
  have same: "retained_already d1 x = retained_already d x" if "x \<in> set es" for x
    using retained_after [OF step(1), of x] other that by (auto simp: fresh_events_def split: if_splits)
  then have fresh: "fresh_events d1 es = fresh_events d es"
    and flags: "map (\<lambda>x. \<not> retained_already d1 x) es = map (\<lambda>x. \<not> retained_already d x) es"
    by (auto simp: fresh_events_def intro: filter_cong)
  from Cons.IH [OF rest uniq] have IH: "extends_outbox L d1 es d'"
    "map dp_Inserted persisted' = map dp_Inserted p1 @ map (\<lambda>x. \<not> retained_already d x) es"
    unfolding flags by auto
  from extends_outbox_trans [OF step(1) IH(1) fresh] IH(2) step(2) show ?case by simp
qed


section \<open>Repeating a batch\<close>

text \<open>
  A batch that was committed once is accepted again: nothing but the activities that record the
  duplicates is added.
\<close>

definition event_fields_ok :: "NewDeviceEvent \<Rightarrow> bool" where
  "event_fields_ok e \<longleftrightarrow> CHR 0x00 \<notin> set (ne_VendorEventID e) \<and> CHR 0x00 \<notin> set (ne_DataFormat e)"

lemma event_kinds_ok: "kind_ok ''device.event_persisted''" "kind_ok ''device.event_duplicate''"
  by code_simp+

lemma event_messages_ok:
  "pg_text ''device event payload persisted''" "pg_text ''device event payload was already retained''"
  by code_simp+

lemma event_field_names: "CHR 0x00 \<notin> set ''eventId''" "CHR 0x00 \<notin> set ''dataFormat''"
  by simp_all

lemma event_activity_row_ok:
  "activity_row_ok d (event_activity inserted e) \<longleftrightarrow>
     event_fields_ok e \<and> (ne_TerminalSerialNumber e = [] \<or> registered d (ne_TerminalSerialNumber e))"
  using event_field_names
  by (auto simp: activity_row_ok_def event_activity_def new_activity_def event_kinds_ok event_messages_ok
      field_ok_def event_fields_ok_def)

lemma insert_step_valid:
  assumes "insert_device_event L now e (persisted, d) = Inr (persisted', d')"
  shows "device_event_ok d e \<and> event_fields_ok e"
  using assms by (elim insert_device_event_Inr) (simp add: event_activity_row_ok)

lemma device_event_ok_frame: "db_terminals d1 = db_terminals d \<Longrightarrow> device_event_ok d1 e = device_event_ok d e"
  by (simp add: device_event_ok_def registered_def)

lemma insert_batch_retained:
  "foldE (insert_device_event L now) events (persisted, d) = Inr (persisted', d') \<Longrightarrow>
     (\<forall>x. retained_already d x \<longrightarrow> retained_already d' x) \<and> db_terminals d' = db_terminals d \<and>
     (\<forall>e \<in> set events. device_event_ok d e \<and> event_fields_ok e \<and> retained_already d' e)"
proof (induction events arbitrary: persisted d)
  case Nil
  then show ?case by simp
next
  case (Cons e es)
  from Cons.prems(1) obtain p1 d1 where 1: "insert_device_event L now e (persisted, d) = Inr (p1, d1)"
    and rest: "foldE (insert_device_event L now) es (p1, d1) = Inr (persisted', d')"
    by (auto simp: bindE_eq_Inr)
  from insert_step_extends [OF 1] have x: "extends_outbox L d [e] d1" by simp
  then have t: "db_terminals d1 = db_terminals d" by (simp add: extends_outbox_def)
  have "retained_already d1 e" by (cases "retained_already d e") (simp_all add: retained_after [OF x] fresh_events_def)
  with Cons.IH [OF rest] insert_step_valid [OF 1] retained_after [OF x] t device_event_ok_frame [OF t]
  show ?case by auto
qed

lemma insert_duplicates:
  "\<forall>e \<in> set events. device_event_ok d e \<and> event_fields_ok e \<and> retained_already d e \<Longrightarrow>
     \<exists>acts. foldE (insert_device_event L now) events (persisted, d) =
        Inr (persisted @ map (\<lambda>a. \<lparr> dp_Inserted = False, dp_Activity = a \<rparr>) acts,
             d\<lparr>db_activities := db_activities d @ acts\<rparr>) \<and> length acts = length events"
proof (induction events arbitrary: persisted d)
  case Nil
  then show ?case by simp
next
  case (Cons e es)
  define stored where "stored = (event_activity False e)\<lparr>act_ID := next_id act_ID (db_activities d), act_At := now\<rparr>"
  define d1 where "d1 = d\<lparr>db_activities := db_activities d @ [stored]\<rparr>"
  have "insertGatewayActivity now (event_activity False e) d = Inr (stored, d1)"
    using Cons.prems unfolding insertGatewayActivity_Inr d1_def stored_def
    by (simp add: event_activity_row_ok device_event_ok_def) (simp add: event_activity_def new_activity_def)
  with Cons.prems have 1: "insert_device_event L now e (persisted, d) =
      Inr (persisted @ [\<lparr> dp_Inserted = False, dp_Activity = stored \<rparr>], d1)"
    by (simp add: insert_device_event_def)
  have "\<forall>x \<in> set es. device_event_ok d1 x \<and> event_fields_ok x \<and> retained_already d1 x"
    using Cons.prems by (simp add: d1_def device_event_ok_def registered_def archived_def)
  from Cons.IH [OF this] obtain acts where
    "foldE (insert_device_event L now) es (persisted @ [\<lparr> dp_Inserted = False, dp_Activity = stored \<rparr>], d1) =
        Inr ((persisted @ [\<lparr> dp_Inserted = False, dp_Activity = stored \<rparr>]) @
          map (\<lambda>a. \<lparr> dp_Inserted = False, dp_Activity = a \<rparr>) acts,
             d1\<lparr>db_activities := db_activities d1 @ acts\<rparr>)" "length acts = length es" by blast
  with 1 show ?case by (intro exI [of _ "stored # acts"]) (simp add: d1_def)
qed

lemma insert_batch_again:
  assumes "InsertDeviceEventBatch L now events d = Inr (persisted, d')"
  shows "\<exists>acts. InsertDeviceEventBatch L now' events d' =
      Inr (map (\<lambda>a. \<lparr> dp_Inserted = False, dp_Activity = a \<rparr>) acts, d'\<lparr>db_activities := db_activities d' @ acts\<rparr>) \<and>
    length acts = length events"
proof -
  from assms have 1: "foldE (insert_device_event L now) events ([], d) = Inr (persisted, d')"
    by (simp add: InsertDeviceEventBatch_def)
  then have "\<forall>e \<in> set events. device_event_ok d' e \<and> event_fields_ok e \<and> retained_already d' e"
    using insert_batch_retained [OF 1] device_event_ok_frame [of d' d] by simp
  from insert_duplicates [OF this, of L now' "[]"] show ?thesis by (simp add: InsertDeviceEventBatch_def)
qed

section \<open>The back-fill loop\<close>

lemma insertProjection_Inr:
  "insertAccessEventProjection L i f p d = Inr d' \<Longrightarrow>
     \<exists>row. d' = d\<lparr>db_projections := put_projection row (db_projections d)\<rparr> \<and>
       pj_device_event_id row = i \<and> pj_schema_version row = SchemaVersion \<and>
       pj_projection row = map_option stored_projection (Extract L f p)"
  by (auto simp: insertAccessEventProjection_def res_simps Let_def)

lemma stale_after_project:
  assumes "project_row L e d = Inr d'"
  shows "db_device_events d' = db_device_events d" "stale_projection d' x \<longleftrightarrow> stale_projection d x \<and> de_id x \<noteq> de_id e"
  using insertProjection_Inr [OF assms [unfolded project_row_def]]
  by (auto simp: stale_projection_def select_put_projection split: option.splits if_splits)

lemma stale_after_batch:
  "foldE (project_row L) es d = Inr d' \<Longrightarrow>
     db_device_events d' = db_device_events d \<and>
     (\<forall>x. stale_projection d' x \<longleftrightarrow> stale_projection d x \<and> de_id x \<notin> de_id ` set es)"
proof (induction es arbitrary: d)
  case (Cons e es)
  then obtain d1 where 1: "project_row L e d = Inr d1" and "foldE (project_row L) es d1 = Inr d'"
    by (auto simp: bindE_eq_Inr)
  with Cons.IH [of d1] stale_after_project [OF 1] show ?case by auto
qed simp

definition stale_events :: "db \<Rightarrow> device_event_row list" where
  "stale_events d = filter (stale_projection d) (db_device_events d)"

lemma set_backfill_batch: "set (backfill_batch d) \<subseteq> set (stale_events d)"
  unfolding backfill_batch_def stale_events_def by (metis set_take_subset set_sort)

lemma backfill_batch_empty: "backfill_batch d = [] \<longleftrightarrow> stale_events d = []"
  by (simp add: backfill_batch_def stale_events_def) (metis length_0_conv length_sort filter_empty_conv)

lemma backfill_progress:
  assumes "foldE (project_row L) (backfill_batch d) d = Inr d'" "backfill_batch d \<noteq> []"
  shows "length (stale_events d') < length (stale_events d)"
proof -
  note after = stale_after_batch [OF assms(1)]
  from assms(2) obtain e where e: "e \<in> set (backfill_batch d)" by (cases "backfill_batch d") auto
  have "stale_events d' = filter (stale_projection d') (stale_events d)"
    using after by (auto simp: stale_events_def intro: filter_cong)
  moreover have "e \<in> set (stale_events d)" "\<not> stale_projection d' e"
    using e set_backfill_batch after by auto
  ultimately show ?thesis by (metis length_filter_less)
qed

function BackfillAccessEventProjections :: "library \<Rightarrow> int \<Rightarrow> db \<Rightarrow> (int \<times> go_error option) \<times> db" where
  "BackfillAccessEventProjections L projected d =
     (case foldE (project_row L) (backfill_batch d) d of
        Inl err \<Rightarrow> ((projected, Some err), d)
      | Inr d' \<Rightarrow>
          if backfill_batch d = [] then ((projected, None), d')
          else BackfillAccessEventProjections L (projected + int (length (backfill_batch d))) d')"
  by pat_completeness auto
termination
  by (relation "measure (\<lambda>(L, projected, d). length (stale_events d))") (auto intro: backfill_progress)

declare BackfillAccessEventProjections.simps [simp del]

lemma backfill_count:
  assumes fold: "foldE (project_row L) (backfill_batch d) d = Inr d'" and uniq: "unique_key de_id (db_device_events d)"
  shows "length (stale_events d) = length (backfill_batch d) + length (stale_events d')"
proof -
  let ?b = "backfill_batch d" and ?s = "sort_key de_id (stale_events d)"
  note after = stale_after_batch [OF fold]
  have b: "?b = take 500 ?s" by (simp add: backfill_batch_def stale_events_def)
  have "unique_key de_id (stale_events d)"
    using uniq by (simp add: stale_events_def unique_key_def distinct_map_filter)
  then have dist: "distinct (map de_id ?s)"
    by (simp add: unique_key_def distinct_map)
  have "stale_events d' = filter (\<lambda>x. de_id x \<notin> de_id ` set ?b) (stale_events d)"
    using after by (auto simp: stale_events_def intro: filter_cong)
  then have "length (stale_events d') = length (filter (\<lambda>x. de_id x \<notin> de_id ` set ?b) ?s)"
    by (simp add: filter_sort)
  also have "filter (\<lambda>x. de_id x \<notin> de_id ` set ?b) ?s = drop 500 ?s"
  proof -
    have "filter (\<lambda>x. de_id x \<notin> de_id ` set ?b) (take 500 ?s) = []" by (simp add: b)
    moreover have "de_id x \<notin> de_id ` set ?b" if "x \<in> set (drop 500 ?s)" for x
    proof -
      have "distinct (map de_id (take 500 ?s @ drop 500 ?s))" using dist by simp
      then have "set (map de_id (take 500 ?s)) \<inter> set (map de_id (drop 500 ?s)) = {}"
        by (simp only: map_append distinct_append)
      with that show ?thesis unfolding b by auto
    qed
    ultimately show ?thesis
      using filter_append [of "\<lambda>x. de_id x \<notin> de_id ` set ?b" "take 500 ?s" "drop 500 ?s"]
      by (simp add: filter_id_conv)
  qed
  finally have "length (stale_events d') = length ?s - 500" by simp
  then show ?thesis by (simp add: b)
qed

lemma Backfill_complete:
  "BackfillAccessEventProjections L projected d = ((n, None), d') \<Longrightarrow> unique_key de_id (db_device_events d) \<Longrightarrow>
     stale_events d' = [] \<and> db_device_events d' = db_device_events d \<and> n = projected + int (length (stale_events d))"
proof (induction L projected d rule: BackfillAccessEventProjections.induct)
  case (1 L projected d)
  from 1(2) obtain d1 where f: "foldE (project_row L) (backfill_batch d) d = Inr d1"
    by (subst (asm) BackfillAccessEventProjections.simps) (auto split: sum.splits)
  note after = stale_after_batch [OF f]
  show ?case
  proof (cases "backfill_batch d = []")
    case True
    with f 1(2) have "d' = d" "n = projected"
      by (subst (asm) BackfillAccessEventProjections.simps, simp)+
    with True show ?thesis by (simp add: backfill_batch_empty)
  next
    case False
    with f 1(2) have "BackfillAccessEventProjections L (projected + int (length (backfill_batch d))) d1 = ((n, None), d')"
      by (subst (asm) BackfillAccessEventProjections.simps) simp
    with 1(1) [OF f False] 1(3) after backfill_count [OF f 1(3)] show ?thesis by auto
  qed
qed

text \<open>A row with the current projection of its payload.\<close>

definition row_payload :: "device_event_row \<Rightarrow> string" where
  "row_payload e = (case de_payload_base64 e of None \<Rightarrow> [] | Some payload \<Rightarrow> payload)"

definition projected :: "library \<Rightarrow> db \<Rightarrow> device_event_row \<Rightarrow> bool" where
  "projected L d e \<longleftrightarrow>
     (\<exists>row. select_row (\<lambda>p. pj_device_event_id p = de_id e) (db_projections d) = Some row \<and>
        pj_schema_version row = SchemaVersion \<and>
        pj_projection row = map_option stored_projection (Extract L (de_data_format e) (row_payload e)))"

definition projectable :: "library \<Rightarrow> device_event_row \<Rightarrow> bool" where
  "projectable L e = pg_null projection_columns_ok (Extract L (de_data_format e) (row_payload e))"

lemma project_row_Inr:
  "project_row L e d = Inr d' \<Longrightarrow>
     projected L d' e \<and> (\<forall>x. de_id x \<noteq> de_id e \<longrightarrow> projected L d' x = projected L d x)"
  by (auto simp: project_row_def row_payload_def [symmetric] projected_def select_put_projection dest!: insertProjection_Inr)

lemma project_row_succeeds: "projectable L e \<Longrightarrow> \<exists>d'. project_row L e d = Inr d'"
  by (auto simp: project_row_def row_payload_def [symmetric] projectable_def insertAccessEventProjection_def)

lemma project_rows_succeed: "list_all (projectable L) es \<Longrightarrow> \<exists>d'. foldE (project_row L) es d = Inr d'"
proof (induction es arbitrary: d)
  case (Cons e es)
  from Cons.prems have "projectable L e" by simp
  then obtain d1 where "project_row L e d = Inr d1" using project_row_succeeds by blast
  with Cons show ?case by simp
qed simp

lemma project_rows_projected:
  "foldE (project_row L) es d = Inr d' \<Longrightarrow> unique_key de_id rows \<Longrightarrow> set es \<subseteq> set rows \<Longrightarrow>
     \<forall>e \<in> set rows. e \<in> set es \<or> projected L d e \<longrightarrow> projected L d' e"
proof (induction es arbitrary: d)
  case (Cons x xs)
  then obtain d1 where 1: "project_row L x d = Inr d1" and rest: "foldE (project_row L) xs d1 = Inr d'"
    by (auto simp: bindE_eq_Inr)
  have "projected L d1 e" if "e \<in> set rows" "e = x \<or> projected L d e" for e
    using project_row_Inr [OF 1] that Cons.prems(2,3) by (cases "e = x") (auto dest: unique_keyD)
  with Cons.IH [OF rest] Cons.prems show ?case by auto
qed simp

lemma Backfill_succeeds:
  "unique_key de_id (db_device_events d) \<Longrightarrow> list_all (projectable L) (stale_events d) \<Longrightarrow>
     \<exists>n d'. BackfillAccessEventProjections L projected' d = ((n, None), d') \<and>
       (\<forall>e \<in> set (db_device_events d). stale_projection d e \<or> projected L d e \<longrightarrow> projected L d' e)"
proof (induction L projected' d rule: BackfillAccessEventProjections.induct)
  case (1 L n0 d)
  have "list_all (projectable L) (backfill_batch d)"
    using 1(3) set_backfill_batch [of d] by (auto simp: list_all_iff)
  then obtain d1 where f: "foldE (project_row L) (backfill_batch d) d = Inr d1" using project_rows_succeed by blast
  note after = stale_after_batch [OF f]
  show ?case
  proof (cases "backfill_batch d = []")
    case True
    then have "\<forall>e \<in> set (db_device_events d). \<not> stale_projection d e"
      by (auto simp: backfill_batch_empty stale_events_def filter_empty_conv)
    moreover have "BackfillAccessEventProjections L n0 d = ((n0, None), d)"
      using f True by (subst BackfillAccessEventProjections.simps) simp
    ultimately show ?thesis by blast
  next
    case False
    have "list_all (projectable L) (stale_events d1)" "unique_key de_id (db_device_events d1)"
      using 1(2,3) after by (auto simp: stale_events_def list_all_iff)
    with 1(1) [OF f False] obtain n d' where
      b: "BackfillAccessEventProjections L (n0 + int (length (backfill_batch d))) d1 = ((n, None), d')"
      "\<forall>e \<in> set (db_device_events d1). stale_projection d1 e \<or> projected L d1 e \<longrightarrow> projected L d' e" by blast
    have "projected L d' e" if e: "e \<in> set (db_device_events d)" "stale_projection d e \<or> projected L d e" for e
    proof -
      have batch: "set (backfill_batch d) \<subseteq> set (db_device_events d)"
        using set_backfill_batch [of d] by (auto simp: stale_events_def)
      have "stale_projection d1 e \<or> projected L d1 e"
        using e after project_rows_projected [OF f 1(2) batch] batch 1(2)
        by (cases "e \<in> set (backfill_batch d)") (auto dest: unique_keyD)
      with b(2) e(1) after show ?thesis by auto
    qed
    moreover have "BackfillAccessEventProjections L n0 d = ((n, None), d')"
      using f False b(1) by (subst BackfillAccessEventProjections.simps) simp
    ultimately show ?thesis by blast
  qed
qed

end
