(* ===== verification/Monitor.thy ===== *)
theory Monitor
  imports Database
begin

text \<open>
  The live monitor (\<open>internal/monitor/hub.go\<close>): every subscriber has a queue of at most 64
  committed activities; publishing never waits, so a subscriber whose queue is full misses the
  activity. A subscriber is named by a number that is never used again.
\<close>

record hub =
  hb_clients :: "(nat \<times> activity list) list"
  hb_next :: nat

definition NewHub :: hub where
  "NewHub = \<lparr> hb_clients = [], hb_next = 0 \<rparr>"

definition client_capacity :: nat where "client_capacity = 64"

definition offer :: "activity \<Rightarrow> nat \<times> activity list \<Rightarrow> nat \<times> activity list" where
  "offer event client =
     (let (name, queue) = client
      in if length queue < client_capacity then (name, queue @ [event]) else (name, queue))"

definition Publish :: "activity \<Rightarrow> hub \<Rightarrow> hub" where
  "Publish event h = h\<lparr>hb_clients := map (offer event) (hb_clients h)\<rparr>"

definition Subscribe :: "hub \<Rightarrow> nat \<times> hub" where
  "Subscribe h = (hb_next h, h\<lparr>hb_clients := hb_clients h @ [(hb_next h, [])], hb_next := hb_next h + 1\<rparr>)"

definition Unsubscribe :: "nat \<Rightarrow> hub \<Rightarrow> hub" where
  "Unsubscribe name h = h\<lparr>hb_clients := filter (\<lambda>c. fst c \<noteq> name) (hb_clients h)\<rparr>"

text \<open>The receive of the subscriber's event stream.\<close>

definition receive :: "nat \<Rightarrow> hub \<Rightarrow> activity option \<times> hub" where
  "receive name h =
     (case map_of (hb_clients h) name of
        Some (event # queue) \<Rightarrow>
          (Some event, h\<lparr>hb_clients := map (\<lambda>c. if fst c = name then (name, queue) else c) (hb_clients h)\<rparr>)
      | _ \<Rightarrow> (None, h))"

definition hub_ok :: "hub \<Rightarrow> bool" where
  "hub_ok h \<longleftrightarrow> distinct (map fst (hb_clients h)) \<and>
     (\<forall>(name, queue) \<in> set (hb_clients h). name < hb_next h \<and> length queue \<le> client_capacity)"

definition queue_of :: "hub \<Rightarrow> nat \<Rightarrow> activity list option" where
  "queue_of h name = map_of (hb_clients h) name"

lemma fst_offer [simp]: "fst (offer event c) = fst c"
  by (cases c) (auto simp: offer_def)

lemma offer_capacity: "length (snd c) \<le> client_capacity \<Longrightarrow> length (snd (offer event c)) \<le> client_capacity"
  by (cases c) (auto simp: offer_def)

lemma hub_ok_iff:
  "hub_ok h \<longleftrightarrow> distinct (map fst (hb_clients h)) \<and>
     (\<forall>c \<in> set (hb_clients h). fst c < hb_next h \<and> length (snd c) \<le> client_capacity)"
  by (auto simp: hub_ok_def)

lemma hub_ok_NewHub: "hub_ok NewHub"
  by (simp add: hub_ok_def NewHub_def)

lemma hub_ok_Publish: "hub_ok h \<Longrightarrow> hub_ok (Publish event h)"
  by (auto simp: hub_ok_iff Publish_def comp_def offer_capacity)

lemma hub_ok_Subscribe: "hub_ok h \<Longrightarrow> hub_ok (snd (Subscribe h))"
  by (auto simp: hub_ok_iff Subscribe_def)

lemma hub_ok_Unsubscribe: "hub_ok h \<Longrightarrow> hub_ok (Unsubscribe name h)"
  by (auto simp: hub_ok_iff Unsubscribe_def distinct_map_filter)

text \<open>
  Publishing reaches every subscriber with room, behind what waits in its queue, and changes
  nothing for a full one.
\<close>

lemma Publish_queue:
  "queue_of (Publish event h) name =
     map_option (\<lambda>q. if length q < client_capacity then q @ [event] else q) (queue_of h name)"
proof -
  have "map_of (map (offer event) cs) name =
    map_option (\<lambda>q. if length q < client_capacity then q @ [event] else q) (map_of cs name)" for cs
    by (induction cs) (auto simp: offer_def split: prod.splits)
  then show ?thesis by (simp add: queue_of_def Publish_def)
qed

lemma receive_queue:
  "queue_of h name = Some (event # queue) \<Longrightarrow>
     fst (receive name h) = Some event \<and> queue_of (snd (receive name h)) name = Some queue"
proof -
  assume *: "queue_of h name = Some (event # queue)"
  have "map_of cs name = Some q \<Longrightarrow>
     map_of (map (\<lambda>c. if fst c = name then (name, queue) else c) cs) name = Some queue" for cs q
    by (induction cs) (auto split: if_splits)
  with * show ?thesis by (simp add: receive_def queue_of_def)
qed

lemma Publish_all:
  "queue_of h name = Some q \<Longrightarrow> length q \<le> client_capacity \<Longrightarrow>
     queue_of (fold Publish events h) name = Some (take client_capacity (q @ events))"
proof (induction events arbitrary: h q)
  case (Cons e es)
  show ?case
  proof (cases "length q < client_capacity")
    case True
    then show ?thesis using Cons.IH [of "Publish e h" "q @ [e]"] Cons.prems by (simp add: Publish_queue)
  next
    case False
    then show ?thesis using Cons.IH [of "Publish e h" q] Cons.prems by (simp add: Publish_queue)
  qed
qed simp

lemma Subscribe_queue: "hub_ok h \<Longrightarrow> queue_of (snd (Subscribe h)) (fst (Subscribe h)) = Some []"
  by (auto simp: queue_of_def Subscribe_def hub_ok_iff map_add_def split: option.splits dest!: map_of_SomeD)

end
