(* ===== verification/World.thy ===== *)
theory World
  imports Session EventStore Monitor
begin

text \<open>
  The state of a gateway process and the sequencing of its handlers. A \<open>world\<close> holds the database,
  the sessions in memory, the monitor hub and the metrics (\<open>internal/pushsdk/metrics.go\<close>). A handler
  is a function from a world to an error or a value and the world it leaves, because what it
  changed in memory stays when it fails; a store call is one transaction that commits or leaves the
  database alone. What the process cannot choose is the argument \<open>E\<close>: the configuration, PBKDF2, the
  parsers of the library, and for each interaction (numbered by the world's tick) the two clocks,
  the random bytes and whether the database fails. Triples \<open>validS P m Q R\<close> carry the proofs that
  range over every path: from \<open>P\<close>, a value satisfies \<open>Q\<close> and an error \<open>R\<close>.
\<close>

section \<open>The world\<close>

record metrics =
  mt_Requests :: "string \<times> string \<Rightarrow> nat"
  mt_EventsReceived :: "string \<Rightarrow> nat"
  mt_EventsPersisted :: nat
  mt_EventsRejected :: nat
  mt_SessionsActive :: int

record world =
  w_db :: db
  w_entries :: sessions
  w_hub :: hub
  w_metrics :: metrics
  w_tick :: nat

record service_env =
  se_config :: Config
  se_pbkdf2 :: kdf
  se_library :: library
  se_host_clock :: "nat \<Rightarrow> instant"
  se_db_clock :: "nat \<Rightarrow> instant"
  se_db_fault :: "nat \<Rightarrow> bool"
  se_rand :: "nat \<Rightarrow> bytes"

type_synonym 'a svc = "world \<Rightarrow> 'a result \<times> world"

definition returnS :: "'a \<Rightarrow> 'a svc" where
  "returnS a w = (Inr a, w)"

definition failS :: "go_error \<Rightarrow> 'a svc" where
  "failS e w = (Inl e, w)"

definition bindS :: "'a svc \<Rightarrow> ('a \<Rightarrow> 'b svc) \<Rightarrow> 'b svc" where
  "bindS m f w = (case m w of (Inl e, w') \<Rightarrow> (Inl e, w') | (Inr a, w') \<Rightarrow> f a w')"

definition liftS :: "'a result \<Rightarrow> 'a svc" where
  "liftS r w = (r, w)"

text \<open>
  \<open>if err := m; err != nil { h; return err }\<close>, a call whose error is replaced, and a call whose
  error is only logged.
\<close>

definition on_errorS :: "'a svc \<Rightarrow> unit svc \<Rightarrow> 'a svc" where
  "on_errorS m h w = (case m w of (Inl e, w') \<Rightarrow> (Inl e, snd (h w')) | (Inr a, w') \<Rightarrow> (Inr a, w'))"

definition wrapS :: "go_error \<Rightarrow> 'a svc \<Rightarrow> 'a svc" where
  "wrapS e m w = (case m w of (Inl _, w') \<Rightarrow> (Inl e, w') | (Inr a, w') \<Rightarrow> (Inr a, w'))"

definition logS :: "unit svc \<Rightarrow> unit svc" where
  "logS m w = (Inr (), snd (m w))"

definition modifyS :: "(world \<Rightarrow> world) \<Rightarrow> unit svc" where
  "modifyS f w = (Inr (), f w)"

text \<open>One interaction with what is outside the process: the tick that names it.\<close>

definition tickS :: "nat svc" where
  "tickS w = (Inr (w_tick w), w\<lparr>w_tick := w_tick w + 1\<rparr>)"

definition tx_env_at :: "service_env \<Rightarrow> nat \<Rightarrow> tx_env" where
  "tx_env_at E n = \<lparr> tx_now = pg_timestamp (se_db_clock E n), tx_host = se_host_clock E n, tx_rand = se_rand E n \<rparr>"

definition run_tx :: "service_env \<Rightarrow> (tx_env \<Rightarrow> db \<Rightarrow> ('a \<times> db) result) \<Rightarrow> 'a svc" where
  "run_tx E f =
     bindS tickS (\<lambda>n w.
       if se_db_fault E n then (Inl ErrDatabase, w)
       else case f (tx_env_at E n) (w_db w) of
              Inl e \<Rightarrow> (Inl e, w)
            | Inr (a, d) \<Rightarrow> (Inr a, w\<lparr>w_db := d\<rparr>))"

definition run_exec :: "service_env \<Rightarrow> (tx_env \<Rightarrow> db \<Rightarrow> db result) \<Rightarrow> unit svc" where
  "run_exec E f = run_tx E (\<lambda>X d. bindE (f X d) (\<lambda>d'. Inr ((), d')))"

definition publishS :: "activity \<Rightarrow> unit svc" where
  "publishS event = modifyS (\<lambda>w. w\<lparr>w_hub := Publish event (w_hub w)\<rparr>)"

definition publish_allS :: "activity list \<Rightarrow> unit svc" where
  "publish_allS events = modifyS (\<lambda>w. w\<lparr>w_hub := fold Publish events (w_hub w)\<rparr>)"

definition sessions_active :: "int \<Rightarrow> unit svc" where
  "sessions_active change =
     modifyS (\<lambda>w. w\<lparr>w_metrics := (w_metrics w)\<lparr>mt_SessionsActive := mt_SessionsActive (w_metrics w) + change\<rparr>\<rparr>)"

text \<open>A change of the session behind a pointer, and of the table itself.\<close>

definition put_entry :: "string \<Rightarrow> Session option \<Rightarrow> unit svc" where
  "put_entry serial s = modifyS (\<lambda>w. w\<lparr>w_entries := (w_entries w)(serial := s)\<rparr>)"

section \<open>Triples\<close>

named_theorems valid_intro "rules of the triples"

definition validS :: "(world \<Rightarrow> bool) \<Rightarrow> 'a svc \<Rightarrow> ('a \<Rightarrow> world \<Rightarrow> bool) \<Rightarrow> (world \<Rightarrow> bool) \<Rightarrow> bool" where
  "validS P m Q R \<longleftrightarrow> (\<forall>w. P w \<longrightarrow> (case m w of (Inl e, w') \<Rightarrow> R w' | (Inr a, w') \<Rightarrow> Q a w'))"

lemma validS_Inr: "validS P m Q R \<Longrightarrow> P w \<Longrightarrow> m w = (Inr a, w') \<Longrightarrow> Q a w'"
  by (fastforce simp: validS_def)

lemma validS_Inl: "validS P m Q R \<Longrightarrow> P w \<Longrightarrow> m w = (Inl e, w') \<Longrightarrow> R w'"
  by (fastforce simp: validS_def)

lemma validS_snd: "validS P m (\<lambda>_. Q) Q \<Longrightarrow> P w \<Longrightarrow> Q (snd (m w))"
  by (cases "m w"; cases "fst (m w)") (auto dest: validS_Inr validS_Inl)

lemma validS_weaken:
  "validS P' m Q' R' \<Longrightarrow> (\<And>w. P w \<Longrightarrow> P' w) \<Longrightarrow> (\<And>a w. Q' a w \<Longrightarrow> Q a w) \<Longrightarrow> (\<And>w. R' w \<Longrightarrow> R w) \<Longrightarrow>
     validS P m Q R"
  unfolding validS_def [of P m Q R] by (auto split: prod.split sum.split) (metis validS_Inr validS_Inl)+

lemma valid_return [valid_intro]: "(\<And>w. P w \<Longrightarrow> Q a w) \<Longrightarrow> validS P (returnS a) Q R"
  by (simp add: validS_def returnS_def)

lemma valid_fail [valid_intro]: "(\<And>w. P w \<Longrightarrow> R w) \<Longrightarrow> validS P (failS e) Q R"
  by (simp add: validS_def failS_def)

lemma valid_lift [valid_intro]:
  "(\<And>a w. r = Inr a \<Longrightarrow> P w \<Longrightarrow> Q a w) \<Longrightarrow> (\<And>w. P w \<Longrightarrow> R w) \<Longrightarrow> validS P (liftS r) Q R"
  by (simp add: validS_def liftS_def split: sum.split)

lemma valid_modify [valid_intro]: "(\<And>w. P w \<Longrightarrow> Q () (f w)) \<Longrightarrow> validS P (modifyS f) Q R"
  by (simp add: validS_def modifyS_def)

lemma valid_bind:
  assumes "validS P m B R" "\<And>a. validS (B a) (f a) Q R"
  shows "validS P (bindS m f) Q R"
  unfolding validS_def
proof (intro allI impI)
  fix w assume "P w"
  obtain r w1 where m: "m w = (r, w1)" by (cases "m w")
  show "case bindS m f w of (Inl e, w') \<Rightarrow> R w' | (Inr a, w') \<Rightarrow> Q a w'"
  proof (cases r)
    case (Inl e)
    with m validS_Inl [OF assms(1) \<open>P w\<close>] show ?thesis by (simp add: bindS_def)
  next
    case (Inr a)
    with m validS_Inr [OF assms(1) \<open>P w\<close>] have "B a w1" by simp
    with assms(2) [of a] m Inr show ?thesis by (simp add: bindS_def validS_def)
  qed
qed

lemma valid_on_error:
  assumes "validS P m Q H" "validS H h (\<lambda>_. R) R"
  shows "validS P (on_errorS m h) Q R"
  unfolding validS_def
proof (intro allI impI)
  fix w assume "P w"
  obtain r w1 where m: "m w = (r, w1)" by (cases "m w")
  show "case on_errorS m h w of (Inl e, w') \<Rightarrow> R w' | (Inr a, w') \<Rightarrow> Q a w'"
  proof (cases r)
    case (Inl e)
    with m validS_Inl [OF assms(1) \<open>P w\<close>] have "H w1" by simp
    with validS_snd [OF assms(2)] m Inl show ?thesis by (simp add: on_errorS_def)
  next
    case (Inr a)
    with m validS_Inr [OF assms(1) \<open>P w\<close>] show ?thesis by (simp add: on_errorS_def)
  qed
qed

lemma valid_wrap: "validS P m Q R \<Longrightarrow> validS P (wrapS e m) Q R"
  by (simp add: validS_def wrapS_def split: prod.splits sum.splits) (metis)

lemma valid_log: "validS P m (\<lambda>_. Q ()) (Q ()) \<Longrightarrow> validS P (logS m) Q R"
  using validS_snd [of P m "Q ()"] by (simp add: validS_def [of P "logS m"] logS_def)

lemma valid_tick [valid_intro]: "(\<And>w. P w \<Longrightarrow> Q (w_tick w) (w\<lparr>w_tick := w_tick w + 1\<rparr>)) \<Longrightarrow> validS P tickS Q R"
  by (simp add: validS_def tickS_def)

text \<open>A transaction either commits or leaves all but the tick alone.\<close>

lemma run_tx_cases:
  "run_tx E f w =
     (if se_db_fault E (w_tick w) then (Inl ErrDatabase, w\<lparr>w_tick := w_tick w + 1\<rparr>)
      else case f (tx_env_at E (w_tick w)) (w_db w) of
             Inl e \<Rightarrow> (Inl e, w\<lparr>w_tick := w_tick w + 1\<rparr>)
           | Inr (a, d) \<Rightarrow> (Inr a, w\<lparr>w_tick := w_tick w + 1, w_db := d\<rparr>))"
  by (simp add: run_tx_def bindS_def tickS_def split: sum.split)

lemma run_tx_Inr:
  "run_tx E f w = (Inr a, w') \<longleftrightarrow>
     \<not> se_db_fault E (w_tick w) \<and>
     (\<exists>d. f (tx_env_at E (w_tick w)) (w_db w) = Inr (a, d) \<and> w' = w\<lparr>w_tick := w_tick w + 1, w_db := d\<rparr>)"
  by (auto simp: run_tx_cases split: sum.splits)

lemma run_tx_Inl:
  "run_tx E f w = (Inl e, w') \<Longrightarrow> w' = w\<lparr>w_tick := w_tick w + 1\<rparr>"
  by (auto simp: run_tx_cases split: sum.splits if_splits)

lemma run_exec_Inr:
  "run_exec E f w = (Inr u, w') \<longleftrightarrow>
     \<not> se_db_fault E (w_tick w) \<and>
     (\<exists>d. f (tx_env_at E (w_tick w)) (w_db w) = Inr d \<and> w' = w\<lparr>w_tick := w_tick w + 1, w_db := d\<rparr>)"
  by (auto simp: run_exec_def run_tx_Inr res_simps)

lemma valid_run_tx:
  assumes "\<And>w n. P w \<Longrightarrow> R (w\<lparr>w_tick := n\<rparr>)"
    and "\<And>w n X d a. P w \<Longrightarrow> f X (w_db w) = Inr (a, d) \<Longrightarrow> Q a (w\<lparr>w_tick := n, w_db := d\<rparr>)"
  shows "validS P (run_tx E f) Q R"
  unfolding validS_def using assms by (auto simp: run_tx_cases split: sum.split)

lemma valid_run_exec:
  assumes "\<And>w n. P w \<Longrightarrow> R (w\<lparr>w_tick := n\<rparr>)"
    and "\<And>w n X d. P w \<Longrightarrow> f X (w_db w) = Inr d \<Longrightarrow> Q () (w\<lparr>w_tick := n, w_db := d\<rparr>)"
  shows "validS P (run_exec E f) Q R"
  unfolding run_exec_def using assms by (auto intro!: valid_run_tx simp: res_simps)

section \<open>Successful paths\<close>

named_theorems svc_Inr "when a sequence of calls succeeds"

lemma bindS_Inr [svc_Inr]: "bindS m f w = (Inr b, w') \<longleftrightarrow> (\<exists>a w1. m w = (Inr a, w1) \<and> f a w1 = (Inr b, w'))"
  by (auto simp: bindS_def split: prod.splits sum.splits)

lemma returnS_Inr [svc_Inr]: "returnS a w = (Inr b, w') \<longleftrightarrow> b = a \<and> w' = w"
  by (auto simp: returnS_def)

lemma failS_Inr [svc_Inr]: "failS e w = (Inr b, w') \<longleftrightarrow> False"
  by (simp add: failS_def)

lemma liftS_Inr [svc_Inr]: "liftS r w = (Inr b, w') \<longleftrightarrow> r = Inr b \<and> w' = w"
  by (auto simp: liftS_def)

lemma modifyS_Inr [svc_Inr]: "modifyS f w = (Inr u, w') \<longleftrightarrow> w' = f w"
  by (auto simp: modifyS_def)

lemma tickS_Inr [svc_Inr]: "tickS w = (Inr n, w') \<longleftrightarrow> n = w_tick w \<and> w' = w\<lparr>w_tick := w_tick w + 1\<rparr>"
  by (auto simp: tickS_def)

lemma on_errorS_Inr [svc_Inr]: "on_errorS m h w = (Inr a, w') \<longleftrightarrow> m w = (Inr a, w')"
  by (auto simp: on_errorS_def split: prod.splits sum.splits)

lemma wrapS_Inr [svc_Inr]: "wrapS e m w = (Inr a, w') \<longleftrightarrow> m w = (Inr a, w')"
  by (auto simp: wrapS_def split: prod.splits sum.splits)

lemma put_entry_Inr [svc_Inr]: "put_entry serial s w = (Inr u, w') \<longleftrightarrow> w' = w\<lparr>w_entries := (w_entries w)(serial := s)\<rparr>"
  by (simp add: put_entry_def svc_Inr)

lemma publishS_Inr [svc_Inr]: "publishS event w = (Inr u, w') \<longleftrightarrow> w' = w\<lparr>w_hub := Publish event (w_hub w)\<rparr>"
  by (simp add: publishS_def svc_Inr)

lemma publish_allS_Inr [svc_Inr]:
  "publish_allS events w = (Inr u, w') \<longleftrightarrow> w' = w\<lparr>w_hub := fold Publish events (w_hub w)\<rparr>"
  by (simp add: publish_allS_def svc_Inr)

lemma sessions_active_Inr [svc_Inr]:
  "sessions_active c w = (Inr u, w') \<longleftrightarrow>
     w' = w\<lparr>w_metrics := (w_metrics w)\<lparr>mt_SessionsActive := mt_SessionsActive (w_metrics w) + c\<rparr>\<rparr>"
  by (simp add: sessions_active_def svc_Inr)

declare run_tx_Inr [svc_Inr] run_exec_Inr [svc_Inr]

end
