(* ===== verification/Service.thy ===== *)
theory Service
  imports World
begin

text \<open>
  The PushSDK protocol service (\<open>internal/pushsdk/service.go\<close>): routing, the AuthInfo and Login
  handshake, the authenticated requests with their rolling challenge, the responses, and the
  maintenance and restoration of sessions. The exchanges of one terminal hold its lock, so a
  request is one step of the world.
\<close>

section \<open>Requests and responses\<close>

record http_request =
  rq_Method :: string
  rq_Path :: string
  rq_RawQuery :: string
  rq_ContentType :: string
  rq_CustomAuth :: string
  rq_Body :: bytes

record http_response =
  rs_Status :: nat
  rs_ContentType :: string
  rs_Challenge :: "string option"
  rs_Body :: bytes

definition maxRequestBytes :: nat where "maxRequestBytes = 8 * 2 ^ 20"

definition parseRoute :: "string \<Rightarrow> (string \<times> string) option" where
  "parseRoute path =
     (let parts = split_on (CHR ''/'') path
      in if length parts \<noteq> 10 \<or> parts ! 1 \<noteq> ''iot'' \<or> parts ! 3 \<noteq> ''global'' \<or> parts ! 4 \<noteq> ''0-global'' \<or>
            parts ! 5 \<noteq> ''model'' \<or> parts ! 6 \<noteq> ''service'' \<or> parts ! 7 \<noteq> ''operate'' \<or> parts ! 8 \<noteq> ''PUSH'' then None
         else if parts ! 2 = [] \<or> parts ! 9 = [] then None
         else Some (parts ! 2, parts ! 9))"

record protocolResponse =
  rp_Body :: bytes
  rp_Challenge :: string
  rp_session :: "Session option"

definition success_members :: "nat \<Rightarrow> string \<Rightarrow> string \<Rightarrow> (string \<times> string) list" where
  "success_members status code message =
     [(''status'', itoa (int status)), (''code'', json_quote code), (''errorMsg'', json_quote message)]"

definition succeeded :: "(string \<times> string) list" where
  "succeeded = success_members 200 ''0x00000000'' ''Succeeded.''"

definition protocolError :: "go_error \<Rightarrow> nat \<times> string \<times> string" where
  "protocolError err =
     (case err of
        ProtocolError status code message reason \<Rightarrow> (status, if code = [] then ''0xFFFFFFFF'' else code, message)
      | _ \<Rightarrow> (500, ''0xFFFFFFFF'', ''internal gateway error''))"

definition respondErrorWithCode :: "nat \<Rightarrow> string \<Rightarrow> string \<Rightarrow> http_response" where
  "respondErrorWithCode status code message =
     \<lparr> rs_Status = status, rs_ContentType = ''application/json'', rs_Challenge = None,
       rs_Body = json_object (success_members status code message) @ [CHR 0x0A] \<rparr>"

definition respondError :: "nat \<Rightarrow> string \<Rightarrow> http_response" where
  "respondError status message = respondErrorWithCode status ''0xFFFFFFFF'' message"

definition not_found_response :: http_response where
  "not_found_response =
     \<lparr> rs_Status = 404, rs_ContentType = ''text/plain; charset=utf-8'', rs_Challenge = None,
       rs_Body = ''404 page not found'' @ [CHR 0x0A] \<rparr>"

definition requireContentType :: "http_request \<Rightarrow> string \<Rightarrow> unit result" where
  "requireContentType rq expected =
     guardE (case parse_media_type (rq_ContentType rq) of None \<Rightarrow> False | Some (ct, _) \<Rightarrow> ct = expected)
       (ProtocolError 415 [] (''Content-Type must be '' @ expected) [])"

definition encryptionFromRequest :: "http_request \<Rightarrow> int \<Rightarrow> EncryptionParameters result" where
  "encryptionFromRequest rq security =
     (let query = parse_query (rq_RawQuery rq)
      in bindE (guardE (length (query_keys query) = 3)
                  (ErrNew ''only security, iv, and random query parameters are allowed'')) (\<lambda>_.
         bindE (foldE (\<lambda>key u. guardE (length (query_values query key) = 1) (ErrNew (key @ '' must appear exactly once'')))
                  [''security'', ''iv'', ''random''] ()) (\<lambda>_.
           ParseEncryptionParameters (query_get query ''security'') (query_get query ''iv'') (query_get query ''random'') security)))"

text \<open>An error of a library call is replaced by a protocol error that quotes it.\<close>

definition wrapE :: "go_error \<Rightarrow> 'a result \<Rightarrow> 'a result" where
  "wrapE e r = (case r of Inl _ \<Rightarrow> Inl e | Inr a \<Rightarrow> Inr a)"

definition payloadForSession ::
    "kdf \<Rightarrow> http_request \<Rightarrow> Terminal \<Rightarrow> Session \<Rightarrow> string \<Rightarrow> bytes \<Rightarrow> bool \<Rightarrow>
       (bytes \<times> EncryptionParameters option) result" where
  "payloadForSession pbkdf2 rq terminal session action body required =
     (if IsEncrypted (ss_PayloadMode session) then
        bindE (wrapE (badRequest (action @ '' encryption parameters''))
                 (encryptionFromRequest rq (SecurityVersion terminal))) (\<lambda>params.
        bindE (guardE (\<not> (required \<and> body = [])) (badRequest (action @ '' body is required''))) (\<lambda>_.
        if body = [] then Inr (body, Some params)
        else bindE (requireContentType rq ''application/octet-stream'') (\<lambda>_.
             bindE (wrapE (badRequest (action @ '' decrypt''))
                      (decrypt pbkdf2 terminal (ss_Salt session) (ss_Iterations session) params body)) (\<lambda>plain.
               Inr (plain, Some params)))))
      else
        bindE (guardE (rq_RawQuery rq = [])
                 (badRequest (action @ '' does not permit query parameters without negotiated encryption''))) (\<lambda>_.
        bindE (if required then
                 bindE (requireContentType rq ''application/json'') (\<lambda>_.
                   guardE (body \<noteq> []) (badRequest (action @ '' body is required'')))
               else Inr ()) (\<lambda>_.
          Inr (body, None))))"

section \<open>Store calls\<close>

definition persistSession :: "service_env \<Rightarrow> Session \<Rightarrow> unit svc" where
  "persistSession E session = run_exec E (\<lambda>X. UpsertPushSDKSession (tx_now X) (PersistentState session))"

definition deleteCheckpoint :: "service_env \<Rightarrow> string \<Rightarrow> unit svc" where
  "deleteCheckpoint E serial = run_exec E (\<lambda>X d. Inr (DeletePushSDKSession serial d))"

definition removeSession :: "service_env \<Rightarrow> Terminal \<Rightarrow> unit svc" where
  "removeSession E terminal =
     bindS (deleteCheckpoint E (SerialNumber terminal)) (\<lambda>_.
       modifyS (\<lambda>w. w\<lparr>w_entries := Remove (PushSDKSerial terminal) (w_entries w)\<rparr>))"

definition restoreReplacedSession :: "service_env \<Rightarrow> Terminal \<Rightarrow> Session option \<Rightarrow> unit svc" where
  "restoreReplacedSession E terminal previous =
     (case previous of
        None \<Rightarrow>
          bindS (deleteCheckpoint E (SerialNumber terminal)) (\<lambda>_.
            modifyS (\<lambda>w. w\<lparr>w_entries := Replace (PushSDKSerial terminal) None (w_entries w)\<rparr>))
      | Some p \<Rightarrow>
          bindS (run_exec E (\<lambda>X. UpsertPushSDKSession (tx_now X) (PersistentState p))) (\<lambda>_.
            modifyS (\<lambda>w. w\<lparr>w_entries := Replace (PushSDKSerial terminal) (Some p) (w_entries w)\<rparr>)))"

definition transition :: "service_env \<Rightarrow> string \<Rightarrow> string \<Rightarrow> activity \<Rightarrow> activity svc" where
  "transition E serial status event = run_tx E (\<lambda>X. TransitionTerminalState (tx_now X) serial status None event)"

definition recordGatewayActivity :: "service_env \<Rightarrow> activity \<Rightarrow> unit svc" where
  "recordGatewayActivity E event = bindS (run_tx E (\<lambda>X. RecordGatewayActivity (tx_now X) event)) publishS"

definition expire_reason :: string where
  "expire_reason = ''PushSDK login challenge expired; waiting for device authentication''"

definition expireLoginChallenge :: "service_env \<Rightarrow> Terminal \<Rightarrow> unit svc" where
  "expireLoginChallenge E terminal =
     bindS (run_tx E (\<lambda>X. ExpirePushSDKLoginChallenge (tx_now X) (SerialNumber terminal) expire_reason)) (\<lambda>stored.
     bindS (modifyS (\<lambda>w. w\<lparr>w_entries := Remove (PushSDKSerial terminal) (w_entries w)\<rparr>)) (\<lambda>_.
       case stored of None \<Rightarrow> returnS () | Some event \<Rightarrow> publishS event))"

definition idle_message :: string where
  "idle_message = ''no authenticated PushSDK traffic for one minute; waiting for the terminal to resume''"

definition markSessionIdle :: "service_env \<Rightarrow> Terminal \<Rightarrow> Session \<Rightarrow> unit svc" where
  "markSessionIdle E terminal session =
     bindS (transition E (SerialNumber terminal) ''offline''
              (new_activity ''pushsdk.session_idle'' (SerialNumber terminal) idle_message [])) (\<lambda>stored.
     bindS (put_entry (PushSDKSerial terminal) (Some (session\<lparr>ss_Online := False\<rparr>))) (\<lambda>_.
     bindS (sessions_active (-1)) (\<lambda>_. publishS stored)))"

section \<open>AuthInfo\<close>

record authInfoRequest =
  ar_SecurityVersions :: "int list"

definition security_versions :: "int list \<Rightarrow> json \<Rightarrow> int list option" where
  "security_versions old v =
     (case v of JNull \<Rightarrow> Some [] | _ \<Rightarrow> json_slice (\<lambda>e x. json_val json_int x e) 0 old v)"

definition authInfoData_field :: "string \<Rightarrow> string \<Rightarrow> json \<Rightarrow> authInfoRequest \<Rightarrow> authInfoRequest option" where
  "authInfoData_field key raw v a =
     (if is_field ''securityVersion'' key then
        map_option (\<lambda>x. a\<lparr>ar_SecurityVersions := x\<rparr>) (security_versions (ar_SecurityVersions a) v)
      else None)"

definition authInfoRequest_field :: "string \<Rightarrow> string \<Rightarrow> json \<Rightarrow> authInfoRequest \<Rightarrow> authInfoRequest option" where
  "authInfoRequest_field key raw v a =
     (if is_field ''data'' key then json_struct authInfoData_field v a else None)"

fun offered_mode :: "Terminal \<Rightarrow> int list \<Rightarrow> string result" where
  "offered_mode terminal [] = Inl (unprocessable ''terminal does not offer configured security version'')"
| "offered_mode terminal (version # versions) =
     (if version \<noteq> 3 \<and> version \<noteq> 4 then Inl (badRequest ''AuthInfo securityVersion may contain only 3 or 4'')
      else if version = SecurityVersion terminal then Inr EncryptedPayload
      else offered_mode terminal versions)"

definition payloadModeForAuthInfo :: "Terminal \<Rightarrow> bytes \<Rightarrow> string result" where
  "payloadModeForAuthInfo terminal body =
     (if body = [] then Inr PlaintextPayload
      else bindE (someE (badRequest ''AuthInfo body'')
                    (decode_document (json_struct authInfoRequest_field) \<lparr> ar_SecurityVersions = [] \<rparr> body)) (\<lambda>payload.
           bindE (guardE (ar_SecurityVersions payload \<noteq> [])
                    (badRequest ''AuthInfo must declare securityVersion when it has a body'')) (\<lambda>_.
             offered_mode terminal (ar_SecurityVersions payload))))"

definition auth_info_body :: "Terminal \<Rightarrow> Session \<Rightarrow> string \<Rightarrow> bytes" where
  "auth_info_body terminal session mode =
     json_object [(''data'', json_object
       ([(''challenge'', json_quote (ss_LoginChallenge session)), (''salt'', json_quote (ss_Salt session)),
         (''iterations'', itoa (ss_Iterations session)), (''isDataEncrypt'', json_encode_bool (IsEncrypted mode))] @
        (if IsEncrypted mode then [(''securityVersion'', json_array [itoa (SecurityVersion terminal)])] else [])))]"

definition session_fields :: "string \<Rightarrow> Terminal \<Rightarrow> (string \<times> field_value) list" where
  "session_fields mode terminal = [(''payloadMode'', FStr mode), (''securityVersion'', FInt (SecurityVersion terminal))]"

definition startSession :: "service_env \<Rightarrow> Terminal \<Rightarrow> string \<Rightarrow> SessionStart svc" where
  "startSession E terminal mode =
     bindS tickS (\<lambda>n w.
       case Start (se_rand E n) (se_host_clock E n) terminal mode (w_entries w) of
         Inl e \<Rightarrow> (Inl e, w)
       | Inr (started, entries) \<Rightarrow> (Inr started, w\<lparr>w_entries := entries\<rparr>))"

definition authInfo :: "service_env \<Rightarrow> Terminal \<Rightarrow> bytes \<Rightarrow> protocolResponse svc" where
  "authInfo E terminal body =
     bindS (liftS (payloadModeForAuthInfo terminal body)) (\<lambda>mode.
     bindS (startSession E terminal mode) (\<lambda>started.
     let session = st_Session started in
     bindS (on_errorS (persistSession E session)
              (modifyS (\<lambda>w. w\<lparr>w_entries := Replace (PushSDKSerial terminal) (st_Previous started) (w_entries w)\<rparr>))) (\<lambda>_.
     bindS (on_errorS
              (transition E (SerialNumber terminal) ''authenticating''
                 (new_activity ''pushsdk.auth_info'' (SerialNumber terminal) ''terminal started authentication''
                    (session_fields mode terminal)))
              (logS (restoreReplacedSession E terminal (st_Previous started)))) (\<lambda>stored.
     bindS (if st_ReplacedOnlineSession started then sessions_active (-1) else returnS ()) (\<lambda>_.
     bindS (publishS stored) (\<lambda>_.
       returnS \<lparr> rp_Body = auth_info_body terminal session mode, rp_Challenge = [], rp_session = None \<rparr>))))))"

section \<open>Login\<close>

record loginRequest =
  lr_Username :: string
  lr_LoginPassword :: string

definition loginData_field :: "string \<Rightarrow> string \<Rightarrow> json \<Rightarrow> loginRequest \<Rightarrow> loginRequest option" where
  "loginData_field key raw v l =
     (if is_field ''username'' key then
        map_option (\<lambda>x. l\<lparr>lr_Username := x\<rparr>) (json_val json_string (lr_Username l) v)
      else if is_field ''loginPassword'' key then
        map_option (\<lambda>x. l\<lparr>lr_LoginPassword := x\<rparr>) (json_val json_string (lr_LoginPassword l) v)
      else None)"

definition loginRequest_field :: "string \<Rightarrow> string \<Rightarrow> json \<Rightarrow> loginRequest \<Rightarrow> loginRequest option" where
  "loginRequest_field key raw v l = (if is_field ''data'' key then json_struct loginData_field v l else None)"

definition decode_login :: "bytes \<Rightarrow> loginRequest option" where
  "decode_login body =
     decode_document (json_struct loginRequest_field) \<lparr> lr_Username = [], lr_LoginPassword = [] \<rparr> body"

text \<open>
  The password is only computed for the right username. A digest that validation would have
  refused makes the comparison panic; no request of a validated configuration meets it.
\<close>

definition credentials_ok :: "kdf \<Rightarrow> Terminal \<Rightarrow> Session \<Rightarrow> loginRequest \<Rightarrow> bool" where
  "credentials_ok pbkdf2 terminal session payload \<longleftrightarrow>
     lr_Username payload = Username terminal \<and>
     (case expectedLoginPassword pbkdf2 terminal (ss_Salt session) (ss_LoginChallenge session) (ss_Iterations session) of
        None \<Rightarrow> False
      | Some expected \<Rightarrow> constantTimeEqual (lr_LoginPassword payload) expected)"

definition issueS :: "service_env \<Rightarrow> string \<Rightarrow> Session \<Rightarrow> (string \<times> Session) svc" where
  "issueS E serial session =
     bindS tickS (\<lambda>n.
     bindS (liftS (IssueNextChallenge (se_rand E n) (se_host_clock E n) session)) (\<lambda>(next, issued).
     bindS (put_entry serial (Some issued)) (\<lambda>_. returnS (next, issued))))"

definition login_body :: "Terminal \<Rightarrow> bytes" where
  "login_body terminal =
     json_object (succeeded @ [(''data'', json_object
       [(''commandInterval'', itoa (CommandIntervalSeconds terminal)), (''errorDelay'', itoa (ErrorDelaySeconds terminal))])])"

text \<open>What a failed store call undoes: the challenge is the old one and the login is not complete.\<close>

definition undone :: "Session \<Rightarrow> Session \<Rightarrow> Session" where
  "undone session accepted =
     accepted\<lparr>ss_NextChallenge := ss_NextChallenge session, ss_NextChallengeAt := ss_NextChallengeAt session,
       ss_Authenticated := False\<rparr>"

definition login_accept ::
    "service_env \<Rightarrow> Terminal \<Rightarrow> Session \<Rightarrow> EncryptionParameters option \<Rightarrow> string \<times> Session \<Rightarrow>
       (protocolResponse \<times> EncryptionParameters option) svc" where
  "login_accept E terminal session params challenge =
     (let serial = PushSDKSerial terminal; (next, issued) = challenge;
          accepted = issued\<lparr>ss_Authenticated := True\<rparr>;
          online = accepted\<lparr>ss_Online := True\<rparr> in
     bindS (put_entry serial (Some accepted)) (\<lambda>_.
     bindS (on_errorS (persistSession E accepted) (put_entry serial (Some (undone session accepted)))) (\<lambda>_.
     bindS (on_errorS
              (transition E (SerialNumber terminal) ''online''
                 (new_activity ''pushsdk.login'' (SerialNumber terminal) ''terminal authenticated''
                    (session_fields (ss_PayloadMode session) terminal)))
              (bindS (put_entry serial (Some (undone session accepted)))
                 (\<lambda>_. logS (persistSession E (undone session accepted))))) (\<lambda>stored.
     bindS (put_entry serial (Some online)) (\<lambda>_.
     bindS (sessions_active 1) (\<lambda>_.
     bindS (publishS stored) (\<lambda>_.
       returnS (\<lparr> rp_Body = login_body terminal, rp_Challenge = next, rp_session = Some online \<rparr>, params))))))))"

definition login_commit ::
    "service_env \<Rightarrow> Terminal \<Rightarrow> Session \<Rightarrow> EncryptionParameters option \<Rightarrow> (protocolResponse \<times> EncryptionParameters option) svc" where
  "login_commit E terminal session params =
     bindS (issueS E (PushSDKSerial terminal) session) (login_accept E terminal session params)"

definition login ::
    "service_env \<Rightarrow> Terminal \<Rightarrow> http_request \<Rightarrow> bytes \<Rightarrow> (protocolResponse \<times> EncryptionParameters option) svc" where
  "login E terminal rq requestBody w =
     (case Get (w_entries w) (PushSDKSerial terminal) of
        None \<Rightarrow> failS (invalidSession ''missing_session'') w
      | Some session \<Rightarrow>
          if ss_Authenticated session then failS (invalidSession ''login_already_completed'') w
          else bindS tickS (\<lambda>n.
            if LoginChallengeExpired session (se_host_clock E n) then
              bindS (expireLoginChallenge E terminal) (\<lambda>_. failS (invalidSession ''login_challenge_expired''))
            else
              bindS (liftS (payloadForSession (se_pbkdf2 E) rq terminal session ''Login'' requestBody True)) (\<lambda>(body, params).
              bindS (liftS (someE (badRequest ''Login body'') (decode_login body))) (\<lambda>payload.
              bindS (liftS (guardE (credentials_ok (se_pbkdf2 E) terminal session payload)
                       (ProtocolError 401 [] ''Login credentials are invalid'' []))) (\<lambda>_.
                login_commit E terminal session params)))) w)"

section \<open>Authenticated requests\<close>

definition command_item :: "ISAPICommandDelivery \<Rightarrow> string" where
  "command_item c =
     json_object [(''UUID'', json_quote (cd_UUID c)), (''URL'', json_quote (cd_Method c @ '' '' @ cd_URL c)),
       (''dataFormat'', json_quote (cd_DataFormat c)), (''data'', json_quote (b64_encode (cd_Data c)))]"

definition command_request_body :: "ISAPICommandDelivery list \<Rightarrow> bytes" where
  "command_request_body deliveries =
     json_object (succeeded @ [(''commandNum'', itoa (int (length deliveries))),
                               (''commandList'', json_array (map command_item deliveries))])"

definition event_item_body :: "ParsedEvent \<Rightarrow> bytes" where
  "event_item_body event = json_object ((''UUID'', json_quote (pv_UUID event)) # succeeded)"

definition plain_response :: "bytes \<Rightarrow> protocolResponse" where
  "plain_response body = \<lparr> rp_Body = body, rp_Challenge = [], rp_session = None \<rparr>"

definition count_received :: "ParsedEvent list \<Rightarrow> metrics \<Rightarrow> metrics" where
  "count_received parsed m =
     m\<lparr>mt_EventsReceived := fold (\<lambda>e f. f(pv_Format e := f (pv_Format e) + 1)) parsed (mt_EventsReceived m)\<rparr>"

definition reject_events :: "unit svc" where
  "reject_events = modifyS (\<lambda>w. w\<lparr>w_metrics := (w_metrics w)\<lparr>mt_EventsRejected := mt_EventsRejected (w_metrics w) + 1\<rparr>\<rparr>)"

definition count_persisted :: "DeviceEventPersistence list \<Rightarrow> metrics \<Rightarrow> metrics" where
  "count_persisted persisted m =
     m\<lparr>mt_EventsPersisted := mt_EventsPersisted m + length (filter dp_Inserted persisted)\<rparr>"

definition events :: "service_env \<Rightarrow> Terminal \<Rightarrow> bytes \<Rightarrow> protocolResponse svc" where
  "events E terminal body =
     bindS (on_errorS (liftS (ParseEventBatch (SerialNumber terminal) body)) reject_events) (\<lambda>parsed.
     bindS (modifyS (\<lambda>w. w\<lparr>w_metrics := count_received parsed (w_metrics w)\<rparr>)) (\<lambda>_.
     bindS (on_errorS (run_tx E (\<lambda>X. InsertDeviceEventBatch (se_library E) (tx_now X) (map pv_Record parsed))) reject_events) (\<lambda>persisted.
     bindS (modifyS (\<lambda>w. w\<lparr>w_metrics := count_persisted persisted (w_metrics w)\<rparr>)) (\<lambda>_.
     bindS (publish_allS (map dp_Activity persisted)) (\<lambda>_.
       returnS (plain_response (json_array (map event_item_body parsed))))))))"

definition command_request :: "service_env \<Rightarrow> Terminal \<Rightarrow> bytes \<Rightarrow> protocolResponse svc" where
  "command_request E terminal body =
     bindS (liftS (guardE (body = []) (badRequest ''CommandRequest body must be empty''))) (\<lambda>_.
     bindS (run_tx E (\<lambda>X. ClaimISAPICommands (tx_now X) (SerialNumber terminal) 20)) (\<lambda>(deliveries, activities).
     bindS (publish_allS activities) (\<lambda>_.
       returnS (plain_response (command_request_body deliveries)))))"

definition command_result :: "service_env \<Rightarrow> Terminal \<Rightarrow> bytes \<Rightarrow> protocolResponse svc" where
  "command_result E terminal body =
     bindS (liftS (ParseCommandResultBatch body)) (\<lambda>results.
     bindS (wrapS (unprocessable ''CommandResult is invalid'')
              (run_tx E (\<lambda>X. CompleteISAPICommands (se_library E) X (SerialNumber terminal) results))) (\<lambda>(activities, pending).
     bindS (publish_allS activities) (\<lambda>_.
       returnS (plain_response (json_object (succeeded @ [(''isPendingCommand'', json_encode_bool pending)]))))))"

definition logout :: "service_env \<Rightarrow> Terminal \<Rightarrow> Session \<Rightarrow> bytes \<Rightarrow> protocolResponse svc" where
  "logout E terminal session body =
     bindS (liftS (guardE (body = []) (badRequest ''Logout body must be empty''))) (\<lambda>_.
     bindS (transition E (SerialNumber terminal) ''offline''
              (new_activity ''pushsdk.logout'' (SerialNumber terminal) ''terminal logged out'' [])) (\<lambda>stored.
     bindS (put_entry (PushSDKSerial terminal) (Some (session\<lparr>ss_Authenticated := False, ss_Online := False\<rparr>))) (\<lambda>_.
     bindS (sessions_active (-1)) (\<lambda>_.
     bindS (publishS stored) (\<lambda>_.
       returnS (plain_response (json_object succeeded)))))))"

text \<open>The action's own work on the session as it stands.\<close>

definition perform :: "service_env \<Rightarrow> Terminal \<Rightarrow> string \<Rightarrow> Session \<Rightarrow> bytes \<Rightarrow> protocolResponse svc" where
  "perform E terminal action session body =
     (if action = ''CommandRequest'' then command_request E terminal body
      else if action = ''CommandResult'' then command_result E terminal body
      else if action = ''Event'' then events E terminal body
      else if action = ''Logout'' then logout E terminal session body
      else returnS (plain_response ''null''))"

text \<open>A session that was silent is online again with its first authenticated request.\<close>

definition resume :: "service_env \<Rightarrow> Terminal \<Rightarrow> Session \<Rightarrow> Session svc" where
  "resume E terminal session =
     (if ss_Online session then returnS session
      else
        bindS (transition E (SerialNumber terminal) ''online''
                 (new_activity ''pushsdk.session_resumed'' (SerialNumber terminal)
                    ''terminal resumed its authenticated PushSDK session'' [])) (\<lambda>stored.
        let online = session\<lparr>ss_Online := True\<rparr> in
        bindS (put_entry (PushSDKSerial terminal) (Some online)) (\<lambda>_.
        bindS (sessions_active 1) (\<lambda>_.
        bindS (publishS stored) (\<lambda>_. returnS online)))))"

definition finish_exchange ::
    "service_env \<Rightarrow> Terminal \<Rightarrow> string \<Rightarrow> Session \<Rightarrow> protocolResponse \<Rightarrow> protocolResponse svc" where
  "finish_exchange E terminal action session result =
     (let serial = PushSDKSerial terminal in
      bindS (issueS E serial session) (\<lambda>(next, issued).
      bindS (if action = ''Logout'' then removeSession E terminal
             else on_errorS (persistSession E issued)
                    (put_entry serial (Some (issued\<lparr>ss_NextChallenge := ss_NextChallenge session,
                                                    ss_NextChallengeAt := ss_NextChallengeAt session\<rparr>)))) (\<lambda>_.
        returnS (result\<lparr>rp_Challenge := next, rp_session := Some issued\<rparr>))))"

text \<open>The exchange once the request has proved that it knows the current challenge.\<close>

definition exchange ::
    "service_env \<Rightarrow> Terminal \<Rightarrow> string \<Rightarrow> http_request \<Rightarrow> bytes \<Rightarrow> Session \<Rightarrow>
       (protocolResponse \<times> EncryptionParameters option) svc" where
  "exchange E terminal action rq requestBody session =
     bindS (resume E terminal session) (\<lambda>online.
     bindS (liftS (payloadForSession (se_pbkdf2 E) rq terminal online action requestBody
              (action = ''CommandResult'' \<or> action = ''Event''))) (\<lambda>(body, params).
     bindS (perform E terminal action online body) (\<lambda>result.
     bindS (finish_exchange E terminal action
              (if action = ''Logout'' then online\<lparr>ss_Authenticated := False, ss_Online := False\<rparr> else online)
              result) (\<lambda>response.
       returnS (response, params)))))"

definition authenticated ::
    "service_env \<Rightarrow> Terminal \<Rightarrow> string \<Rightarrow> http_request \<Rightarrow> bytes \<Rightarrow>
       (protocolResponse \<times> EncryptionParameters option) svc" where
  "authenticated E terminal action rq requestBody w =
     (case Get (w_entries w) (PushSDKSerial terminal) of
        None \<Rightarrow> failS (invalidSession ''missing_session'') w
      | Some session \<Rightarrow>
          if \<not> ss_Authenticated session then failS (invalidSession ''not_authenticated'') w
          else if \<not> constantTimeEqual (rq_CustomAuth rq)
                     (expectedCustomAuth terminal (ss_Salt session) (ss_NextChallenge session))
          then failS (invalidSession ''custom_auth_mismatch'') w
          else exchange E terminal action rq requestBody session w)"

section \<open>Serving a request\<close>

definition respond ::
    "service_env \<Rightarrow> Terminal \<Rightarrow> protocolResponse \<Rightarrow> EncryptionParameters option \<Rightarrow> http_response result" where
  "respond E terminal result params =
     bindE (case params of
              None \<Rightarrow> Inr (rp_Body result)
            | Some p \<Rightarrow>
                (case rp_session result of
                   None \<Rightarrow> Inl (ErrNew ''encrypted response has no request session'')
                 | Some s \<Rightarrow> encrypt (se_pbkdf2 E) terminal (ss_Salt s) (ss_Iterations s) p (rp_Body result))) (\<lambda>payload.
       Inr \<lparr> rs_Status = 200,
             rs_ContentType = (if params = None then ''application/json'' else ''application/octet-stream''),
             rs_Challenge = (if rp_Challenge result = [] then None else Some (rp_Challenge result)),
             rs_Body = payload \<rparr>)"

text \<open>A handler that returns without writing sends an empty 200 response.\<close>

definition empty_response :: http_response where
  "empty_response = \<lparr> rs_Status = 200, rs_ContentType = [], rs_Challenge = None, rs_Body = [] \<rparr>"

definition handle ::
    "service_env \<Rightarrow> Terminal \<Rightarrow> string \<Rightarrow> http_request \<Rightarrow> (protocolResponse \<times> EncryptionParameters option) svc" where
  "handle E terminal action rq =
     (if action = ''AuthInfo'' then
        bindS (liftS (if rq_RawQuery rq \<noteq> [] then Inl (badRequest ''AuthInfo does not permit query parameters'')
                      else if rq_Body rq \<noteq> [] \<or> rq_ContentType rq \<noteq> [] then requireContentType rq ''application/json''
                      else Inr ())) (\<lambda>_.
        bindS (authInfo E terminal (rq_Body rq)) (\<lambda>result. returnS (result, None)))
      else if action = ''Login'' then login E terminal rq (rq_Body rq)
      else if action = ''CommandRequest'' \<or> action = ''CommandResult'' \<or> action = ''Event'' \<or> action = ''Logout'' then
        authenticated E terminal action rq (rq_Body rq)
      else failS (ProtocolError 404 [] ''unsupported PushSDK action'' []))"

definition count_request :: "string \<Rightarrow> string \<Rightarrow> unit svc" where
  "count_request action outcome =
     modifyS (\<lambda>w. w\<lparr>w_metrics := (w_metrics w)\<lparr>mt_Requests :=
       (mt_Requests (w_metrics w))((action, outcome) := mt_Requests (w_metrics w) (action, outcome) + 1)\<rparr>\<rparr>)"

definition rejection_activity :: "Terminal \<Rightarrow> string \<Rightarrow> go_error \<Rightarrow> activity" where
  "rejection_activity terminal action err =
     (let (status, code, message) = protocolError err;
          reason = (case err of ProtocolError _ _ _ r \<Rightarrow> r | _ \<Rightarrow> [])
      in new_activity ''pushsdk.rejected'' (SerialNumber terminal) message
           ([(''action'', FStr action), (''status'', FInt (int status)), (''code'', FStr code)] @
            (if reason = [] then [] else [(''reason'', FStr reason)])))"

definition serve_terminal :: "service_env \<Rightarrow> Terminal \<Rightarrow> string \<Rightarrow> http_request \<Rightarrow> world \<Rightarrow> http_response \<times> world" where
  "serve_terminal E terminal action rq w =
     (case handle E terminal action rq w of
        (Inl err, w1) \<Rightarrow>
          let w2 = snd (count_request action ''rejected'' w1);
              w3 = snd (logS (recordGatewayActivity E (rejection_activity terminal action err)) w2);
              (status, code, message) = protocolError err
          in (respondErrorWithCode status code message, w3)
      | (Inr (result, params), w1) \<Rightarrow>
          let w2 = snd (count_request action ''accepted'' w1)
          in (case respond E terminal result params of Inl _ \<Rightarrow> empty_response | Inr response \<Rightarrow> response, w2))"

definition ServeHTTP :: "service_env \<Rightarrow> http_request \<Rightarrow> world \<Rightarrow> http_response \<times> world" where
  "ServeHTTP E rq w =
     (case parseRoute (rq_Path rq) of
        None \<Rightarrow> (not_found_response, w)
      | Some (serial, action) \<Rightarrow>
          if rq_Method rq \<noteq> ''POST'' then (respondError 405 ''method must be POST'', w)
          else case TerminalByPushSDKSerial (se_config E) serial of
                 None \<Rightarrow> (respondError 404 ''terminal is not registered'', w)
               | Some terminal \<Rightarrow>
                   if length (rq_Body rq) > maxRequestBytes then (respondError 413 ''request body is too large'', w)
                   else serve_terminal E terminal action rq w)"

section \<open>Maintenance\<close>

text \<open>The errors of a sweep are joined: each terminal is visited whatever happened to the others.\<close>

definition maintain_terminal :: "service_env \<Rightarrow> instant \<Rightarrow> Terminal \<Rightarrow> world \<Rightarrow> world" where
  "maintain_terminal E now terminal w =
     (case Get (w_entries w) (PushSDKSerial terminal) of
        None \<Rightarrow> w
      | Some session \<Rightarrow>
          if ss_Authenticated session \<and> ss_Online session \<and> IsIdle session now then
            snd (markSessionIdle E terminal session w)
          else if \<not> ss_Authenticated session \<and> LoginChallengeExpired session now then
            snd (expireLoginChallenge E terminal w)
          else w)"

definition MaintainSessions :: "service_env \<Rightarrow> instant \<Rightarrow> world \<Rightarrow> world" where
  "MaintainSessions E now w = fold (maintain_terminal E now) (Terminals (se_config E)) w"

definition ExpireISAPICommandDeadlines :: "service_env \<Rightarrow> unit svc" where
  "ExpireISAPICommandDeadlines E =
     bindS (run_tx E (\<lambda>X. ExpireOverdueISAPICommands (tx_now X))) publish_allS"

definition restore_one :: "service_env \<Rightarrow> instant \<Rightarrow> PushSDKSession \<Rightarrow> unit svc" where
  "restore_one E now stored =
     (case restore_decision (se_config E) now stored of
        None \<Rightarrow> deleteCheckpoint E (ps_TerminalSerialNumber stored)
      | Some session \<Rightarrow> put_entry (PushSDKSerial (ss_Terminal session)) (Some session))"

fun mapS :: "('a \<Rightarrow> unit svc) \<Rightarrow> 'a list \<Rightarrow> unit svc" where
  "mapS f [] = returnS ()"
| "mapS f (x # xs) = bindS (f x) (\<lambda>_. mapS f xs)"

definition RestoreSessions :: "service_env \<Rightarrow> unit svc" where
  "RestoreSessions E =
     bindS tickS (\<lambda>n.
     bindS (run_tx E (\<lambda>X d. Inr (PushSDKSessions d, d))) (\<lambda>stored.
     bindS (mapS (restore_one E (se_host_clock E n)) stored) (\<lambda>_.
       modifyS (\<lambda>w. w\<lparr>w_metrics := (w_metrics w)\<lparr>mt_SessionsActive := 0\<rparr>\<rparr>))))"

end
