(* ===== verification/Protocol.thy ===== *)
theory Protocol
  imports Service
begin

text \<open>
  What the protocol service guarantees. The first part describes successful exchanges: which proof
  of the password was accepted, which challenge the response carries, and that the checkpoint in
  the database is the session in memory. The second part ranges over every path of every request
  and of the maintenance, failed store calls included: the invariant of the sessions and of the
  gauge that counts the ones online, and what a failed exchange leaves behind.
\<close>

section \<open>Successful exchanges\<close>

lemma issueS_Inr [svc_Inr]:
  "issueS E serial s w = (Inr (nxt, issued), w') \<longleftrightarrow>
     32 \<le> length (se_rand E (w_tick w)) \<and> nxt = hex_encode (take 32 (se_rand E (w_tick w))) \<and>
     issued = s\<lparr>ss_NextChallenge := nxt, ss_NextChallengeAt := se_host_clock E (w_tick w)\<rparr> \<and>
     w' = w\<lparr>w_tick := w_tick w + 1, w_entries := (w_entries w)(serial := Some issued)\<rparr>"
  by (auto simp: issueS_def svc_Inr IssueNextChallenge_Inr)

lemma persistSession_Inr:
  assumes "persistSession E s w = (Inr u, w')"
  shows "checkpoint (w_db w') k =
      (if k = SerialNumber (ss_Terminal s) then Some (stored_session (PersistentState s)) else checkpoint (w_db w) k)"
    "w_entries w' = w_entries w" "w_metrics w' = w_metrics w" "w_hub w' = w_hub w" "w_tick w' = w_tick w + 1"
    "terminal_status (w_db w') = terminal_status (w_db w)"
proof -
  from assms obtain d now where d: "UpsertPushSDKSession now (PersistentState s) (w_db w) = Inr d"
    "w' = w\<lparr>w_tick := w_tick w + 1, w_db := d\<rparr>" by (auto simp: persistSession_def svc_Inr)
  have "ps_TerminalSerialNumber (PersistentState s) = SerialNumber (ss_Terminal s)" by (simp add: PersistentState_def)
  with d show "checkpoint (w_db w') k =
      (if k = SerialNumber (ss_Terminal s) then Some (stored_session (PersistentState s)) else checkpoint (w_db w) k)"
    by (simp add: Upsert_checkpoint)
  from d show "w_entries w' = w_entries w" "w_metrics w' = w_metrics w" "w_hub w' = w_hub w" "w_tick w' = w_tick w + 1"
    by simp_all
  show "terminal_status (w_db w') = terminal_status (w_db w)"
    using d by (auto simp: UpsertPushSDKSession_def res_simps Let_def terminal_status_def select_update_key
        option.map_comp comp_def intro!: ext split: if_splits)
qed

lemma transition_Inr:
  assumes "transition E serial status event w = (Inr stored, w')"
  shows "w_entries w' = w_entries w" "w_metrics w' = w_metrics w" "w_hub w' = w_hub w" "w_tick w' = w_tick w + 1"
    "checkpoint (w_db w') = checkpoint (w_db w)"
    "terminal_status (w_db w') serial = Some status"
proof -
  from assms obtain d now where d: "TransitionTerminalState now serial status None event (w_db w) = Inr (stored, d)"
    "w' = w\<lparr>w_tick := w_tick w + 1, w_db := d\<rparr>" by (auto simp: transition_def svc_Inr)
  note f = Transition_frame [OF d(1)]
  from d show "w_entries w' = w_entries w" "w_metrics w' = w_metrics w" "w_hub w' = w_hub w" "w_tick w' = w_tick w + 1"
    by simp_all
  show "checkpoint (w_db w') = checkpoint (w_db w)" using d(2) f by (auto simp: checkpoint_def)
  from d(1) have "rows_affected (\<lambda>r. tr_serial_number r = serial) (db_terminals (w_db w)) = 1"
    by (simp add: Transition_Inr)
  then have "filter (\<lambda>r. tr_serial_number r = serial) (db_terminals (w_db w)) \<noteq> []" by (auto simp: rows_affected_def)
  then have "select_row (\<lambda>r. tr_serial_number r = serial) (db_terminals (w_db w)) \<noteq> None"
    by (simp add: select_row_None filter_empty_conv)
  then have "terminal_status (w_db w) serial \<noteq> None" by (simp add: terminal_status_def)
  moreover have "terminal_status (w_db w') serial =
      terminal_status ((w_db w)\<lparr>db_terminals := set_terminal_state now serial status None (db_terminals (w_db w))\<rparr>) serial"
    using d(2) f by (simp add: terminal_status_def)
  ultimately show "terminal_status (w_db w') serial = Some status"
    by (auto simp: terminal_status_set)
qed

lemma resume_Inr:
  assumes "resume E t s w = (Inr online, w')" "w_entries w (PushSDKSerial t) = Some s"
  shows "online = s\<lparr>ss_Online := True\<rparr>" "w_entries w' = (w_entries w)(PushSDKSerial t := Some online)"
    "checkpoint (w_db w') = checkpoint (w_db w)"
proof -
  show "online = s\<lparr>ss_Online := True\<rparr>"
    using assms(1) by (auto simp: resume_def svc_Inr Let_def split: if_splits)
  show "w_entries w' = (w_entries w)(PushSDKSerial t := Some online)"
  proof (cases "ss_Online s")
    case True
    with assms show ?thesis by (auto simp: resume_def svc_Inr)
  next
    case False
    with assms(1) obtain stored w1 where "transition E (SerialNumber t) ''online''
        (new_activity ''pushsdk.session_resumed'' (SerialNumber t)
                    ''terminal resumed its authenticated PushSDK session'' []) w = (Inr stored, w1)"
      "w_entries w' = (w_entries w1)(PushSDKSerial t := Some online)"
      by (auto simp: resume_def svc_Inr Let_def)
    then show ?thesis by (simp add: transition_Inr(1))
  qed
  show "checkpoint (w_db w') = checkpoint (w_db w)"
    using assms(1) by (auto simp: resume_def svc_Inr Let_def transition_Inr(5) split: if_splits)
qed

lemma finish_Inr:
  assumes "finish_exchange E t action s result w = (Inr response, w')" "action \<noteq> ''Logout''" "ss_Terminal s = t"
  shows "\<exists>issued. issued = s\<lparr>ss_NextChallenge := rp_Challenge response, ss_NextChallengeAt := se_host_clock E (w_tick w)\<rparr> \<and>
     rp_Challenge response = hex_encode (take 32 (se_rand E (w_tick w))) \<and> 32 \<le> length (se_rand E (w_tick w)) \<and>
     rp_session response = Some issued \<and> rp_Body response = rp_Body result \<and>
     w_entries w' = (w_entries w)(PushSDKSerial t := Some issued) \<and>
     checkpoint (w_db w') (SerialNumber t) = Some (stored_session (PersistentState issued))"
proof -
  from assms obtain nxt issued w1 u where
    i: "issueS E (PushSDKSerial t) s w = (Inr (nxt, issued), w1)" and
    p: "persistSession E issued w1 = (Inr u, w')" and
    r: "response = result\<lparr>rp_Challenge := nxt, rp_session := Some issued\<rparr>"
    by (auto simp: finish_exchange_def svc_Inr Let_def)
  from i have i': "32 \<le> length (se_rand E (w_tick w))" "nxt = hex_encode (take 32 (se_rand E (w_tick w)))"
    "issued = s\<lparr>ss_NextChallenge := nxt, ss_NextChallengeAt := se_host_clock E (w_tick w)\<rparr>"
    "w_entries w1 = (w_entries w)(PushSDKSerial t := Some issued)" by (auto simp: svc_Inr)
  from i'(3) assms(3) have "ss_Terminal issued = t" by simp
  with persistSession_Inr(1,2) [OF p] i' r show ?thesis by (intro exI [of _ issued]) simp
qed

lemma finish_logout_Inr:
  assumes "finish_exchange E t ''Logout'' s result w = (Inr response, w')"
  shows "w_entries w' = (w_entries w)(PushSDKSerial t := None)" "checkpoint (w_db w') (SerialNumber t) = None"
    "terminal_status (w_db w') = terminal_status (w_db w)" "w_metrics w' = w_metrics w"
  using assms
  by (auto simp: finish_exchange_def svc_Inr Let_def removeSession_def deleteCheckpoint_def Delete_checkpoint Remove_def
      DeletePushSDKSession_def [abs_def] terminal_status_def intro!: ext)
    (simp_all add: checkpoint_def select_delete_key)


definition action_requires_proof :: "string \<Rightarrow> bool" where
  "action_requires_proof action \<longleftrightarrow>
     action = ''CommandRequest'' \<or> action = ''CommandResult'' \<or> action = ''Event'' \<or> action = ''Logout''"

lemma authenticated_Inr:
  assumes "authenticated E t action rq b w = (Inr (response, params), w')"
  obtains s online body result w1 w2 where
    "w_entries w (PushSDKSerial t) = Some s" "ss_Authenticated s"
    "rq_CustomAuth rq = expectedCustomAuth t (ss_Salt s) (ss_NextChallenge s)"
    "resume E t s w = (Inr online, w1)"
    "payloadForSession (se_pbkdf2 E) rq t online action b (action = ''CommandResult'' \<or> action = ''Event'') = Inr (body, params)"
    "perform E t action online body w1 = (Inr result, w2)"
    "finish_exchange E t action
       (if action = ''Logout'' then online\<lparr>ss_Authenticated := False, ss_Online := False\<rparr> else online) result w2 = (Inr response, w')"
proof -
  from assms obtain s where s: "w_entries w (PushSDKSerial t) = Some s" "ss_Authenticated s"
    "rq_CustomAuth rq = expectedCustomAuth t (ss_Salt s) (ss_NextChallenge s)"
    by (auto simp: authenticated_def Get_def constantTimeEqual_def svc_Inr split: option.splits if_splits)
  from assms show thesis
    unfolding authenticated_def exchange_def Get_def constantTimeEqual_def
    using s that [OF s] by (auto simp: svc_Inr)
qed

text \<open>Only Logout changes the sessions in the action's own work.\<close>

lemma perform_entries:
  assumes "perform E t action s body w = (Inr result, w')" "action \<noteq> ''Logout''"
  shows "w_entries w' = w_entries w"
  using assms
  by (auto simp: perform_def command_request_def command_result_def events_def svc_Inr
      split: if_splits prod.splits sum.splits)

lemma authenticated_success:
  assumes ok: "authenticated E t action rq b w = (Inr (response, params), w')"
    and act: "action \<noteq> ''Logout''"
    and trm: "\<And>s. w_entries w (PushSDKSerial t) = Some s \<Longrightarrow> ss_Terminal s = t"
  shows "\<exists>s s'. w_entries w (PushSDKSerial t) = Some s \<and> ss_Authenticated s \<and>
     rq_CustomAuth rq = expectedCustomAuth t (ss_Salt s) (ss_NextChallenge s) \<and>
     w_entries w' (PushSDKSerial t) = Some s' \<and> ss_Authenticated s' \<and> ss_Online s' \<and>
     ss_Salt s' = ss_Salt s \<and> rp_session response = Some s' \<and> rp_Challenge response = ss_NextChallenge s' \<and>
     (\<exists>n. ss_NextChallenge s' = hex_encode (take 32 (se_rand E n)) \<and> 32 \<le> length (se_rand E n) \<and>
          ss_NextChallengeAt s' = se_host_clock E n) \<and>
     checkpoint (w_db w') (SerialNumber t) = Some (stored_session (PersistentState s')) \<and>
     (\<forall>serial. serial \<noteq> PushSDKSerial t \<longrightarrow> w_entries w' serial = w_entries w serial)"
  using ok
proof (rule authenticated_Inr)
  fix s online body result w1 w2
  assume s: "w_entries w (PushSDKSerial t) = Some s" "ss_Authenticated s"
    "rq_CustomAuth rq = expectedCustomAuth t (ss_Salt s) (ss_NextChallenge s)"
    and res: "resume E t s w = (Inr online, w1)"
    and perf: "perform E t action online body w1 = (Inr result, w2)"
    and fin: "finish_exchange E t action
       (if action = ''Logout'' then online\<lparr>ss_Authenticated := False, ss_Online := False\<rparr> else online) result w2 = (Inr response, w')"
  note r = resume_Inr [OF res s(1)]
  have "ss_Terminal online = t" using r(1) trm [OF s(1)] by simp
  with finish_Inr [of E t action online result w2 response w'] fin act obtain issued where
    f: "issued = online\<lparr>ss_NextChallenge := rp_Challenge response, ss_NextChallengeAt := se_host_clock E (w_tick w2)\<rparr>"
     "rp_Challenge response = hex_encode (take 32 (se_rand E (w_tick w2)))" "32 \<le> length (se_rand E (w_tick w2))"
     "rp_session response = Some issued" "w_entries w' = (w_entries w2)(PushSDKSerial t := Some issued)"
     "checkpoint (w_db w') (SerialNumber t) = Some (stored_session (PersistentState issued))"
    by auto
  show ?thesis
    by (intro exI [of _ s] exI [of _ issued])
      (use s r f perform_entries [OF perf act] in auto)
qed

text \<open>Logging out: the session is gone from memory and from the database.\<close>

lemma logout_Inr:
  assumes "logout E t s body w = (Inr result, w')"
  shows "w_entries w' = (w_entries w)(PushSDKSerial t := Some (s\<lparr>ss_Authenticated := False, ss_Online := False\<rparr>))"
    "terminal_status (w_db w') (SerialNumber t) = Some ''offline''"
    "mt_SessionsActive (w_metrics w') = mt_SessionsActive (w_metrics w) - 1"
proof -
  from assms obtain stored w1 where tr: "transition E (SerialNumber t) ''offline''
      (new_activity ''pushsdk.logout'' (SerialNumber t) ''terminal logged out'' []) w = (Inr stored, w1)"
    and w': "w_entries w' = (w_entries w1)(PushSDKSerial t := Some (s\<lparr>ss_Authenticated := False, ss_Online := False\<rparr>))"
    "w_db w' = w_db w1" "mt_SessionsActive (w_metrics w') = mt_SessionsActive (w_metrics w1) - 1"
    by (auto simp: logout_def svc_Inr)
  with transition_Inr [OF tr]
  show "w_entries w' = (w_entries w)(PushSDKSerial t := Some (s\<lparr>ss_Authenticated := False, ss_Online := False\<rparr>))"
    "terminal_status (w_db w') (SerialNumber t) = Some ''offline''"
    "mt_SessionsActive (w_metrics w') = mt_SessionsActive (w_metrics w) - 1" by simp_all
qed

lemma logout_success:
  assumes ok: "authenticated E t ''Logout'' rq b w = (Inr (response, params), w')"
  shows "\<exists>s. w_entries w (PushSDKSerial t) = Some s \<and> ss_Authenticated s \<and>
     rq_CustomAuth rq = expectedCustomAuth t (ss_Salt s) (ss_NextChallenge s) \<and>
     w_entries w' = (w_entries w)(PushSDKSerial t := None) \<and> checkpoint (w_db w') (SerialNumber t) = None \<and>
     terminal_status (w_db w') (SerialNumber t) = Some ''offline''"
  using ok
proof (rule authenticated_Inr)
  fix s online body result w1 w2
  assume s: "w_entries w (PushSDKSerial t) = Some s" "ss_Authenticated s"
    "rq_CustomAuth rq = expectedCustomAuth t (ss_Salt s) (ss_NextChallenge s)"
    and res: "resume E t s w = (Inr online, w1)"
    and perf: "perform E t ''Logout'' online body w1 = (Inr result, w2)"
    and fin: "finish_exchange E t ''Logout''
       (if ''Logout'' = ''Logout'' then online\<lparr>ss_Authenticated := False, ss_Online := False\<rparr> else online) result w2 = (Inr response, w')"
  from perf have lo: "logout E t online body w1 = (Inr result, w2)" by (simp add: perform_def)
  from fin have fin': "finish_exchange E t ''Logout'' (online\<lparr>ss_Authenticated := False, ss_Online := False\<rparr>) result w2 = (Inr response, w')"
    by simp
  show ?thesis
    using s resume_Inr(2) [OF res s(1)] logout_Inr [OF lo] finish_logout_Inr [OF fin'] by auto
qed

section \<open>The handshake\<close>

lemma startSession_Inr:
  "startSession E t mode w = (Inr started, w') \<longleftrightarrow>
     (\<exists>entries. Start (se_rand E (w_tick w)) (se_host_clock E (w_tick w)) t mode (w_entries w) = Inr (started, entries) \<and>
        w' = w\<lparr>w_tick := w_tick w + 1, w_entries := entries\<rparr>)"
  by (auto simp: startSession_def svc_Inr split: sum.splits)

lemma authInfo_success:
  assumes "authInfo E t body w = (Inr response, w')"
  shows "\<exists>s mode n. payloadModeForAuthInfo t body = Inr mode \<and>
     w_entries w' = (w_entries w)(PushSDKSerial t := Some s) \<and> ss_Terminal s = t \<and> ss_PayloadMode s = mode \<and>
     \<not> ss_Authenticated s \<and> \<not> ss_Online s \<and> unissued s \<and> ss_CreatedAt s = se_host_clock E n \<and>
     alphaNumeric64 (ss_Salt s) \<and> alphaNumeric64 (ss_LoginChallenge s) \<and>
     rp_Body response = auth_info_body t s mode \<and> rp_Challenge response = [] \<and>
     checkpoint (w_db w') (SerialNumber t) = Some (stored_session (PersistentState s)) \<and>
     terminal_status (w_db w') (SerialNumber t) = Some ''authenticating''"
proof -
  from assms obtain mode started w1 u w2 stored w3 where
    m: "payloadModeForAuthInfo t body = Inr mode" and st: "startSession E t mode w = (Inr started, w1)" and
    p: "persistSession E (st_Session started) w1 = (Inr u, w2)" and
    tr: "transition E (SerialNumber t) ''authenticating''
          (new_activity ''pushsdk.auth_info'' (SerialNumber t) ''terminal started authentication''
             (session_fields mode t)) w2 = (Inr stored, w3)" and
    w': "w_entries w' = w_entries w3" "w_db w' = w_db w3"
      "response = \<lparr> rp_Body = auth_info_body t (st_Session started) mode, rp_Challenge = [], rp_session = None \<rparr>"
    by (auto simp: authInfo_def svc_Inr Let_def split: if_splits)
  from st obtain entries where S: "Start (se_rand E (w_tick w)) (se_host_clock E (w_tick w)) t mode (w_entries w) = Inr (started, entries)"
    "w_entries w1 = entries" by (auto simp: startSession_Inr)
  note facts = Start_Inr [OF S(1)]
  show ?thesis
    by (intro exI [of _ "st_Session started"] exI [of _ mode] exI [of _ "w_tick w"])
      (use m facts S w' persistSession_Inr [OF p] transition_Inr [OF tr] in simp)
qed

lemma login_commit_params: "login_commit E t s p w = (Inr (response, params), w') \<Longrightarrow> params = p"
  by (auto simp: login_commit_def login_accept_def svc_Inr Let_def)

lemma login_success:
  assumes ok: "login E t rq b w = (Inr (response, params), w')"
    and trm: "\<And>s. w_entries w (PushSDKSerial t) = Some s \<Longrightarrow> ss_Terminal s = t"
  shows "\<exists>s s' body payload. w_entries w (PushSDKSerial t) = Some s \<and> \<not> ss_Authenticated s \<and>
     \<not> LoginChallengeExpired s (se_host_clock E (w_tick w)) \<and>
     payloadForSession (se_pbkdf2 E) rq t s ''Login'' b True = Inr (body, params) \<and>
     decode_login body = Some payload \<and> credentials_ok (se_pbkdf2 E) t s payload \<and>
     w_entries w' = (w_entries w)(PushSDKSerial t := Some s') \<and>
     s' = s\<lparr>ss_NextChallenge := rp_Challenge response, ss_NextChallengeAt := ss_NextChallengeAt s',
            ss_Authenticated := True, ss_Online := True\<rparr> \<and>
     lowerHex64 (rp_Challenge response) \<and> rp_session response = Some s' \<and>
     checkpoint (w_db w') (SerialNumber t) = Some (stored_session (PersistentState s')) \<and>
     terminal_status (w_db w') (SerialNumber t) = Some ''online''"
proof -
  from ok obtain s where s: "w_entries w (PushSDKSerial t) = Some s" "\<not> ss_Authenticated s"
    by (auto simp: login_def Get_def svc_Inr split: option.splits if_splits)
  define w0 where "w0 = w\<lparr>w_tick := w_tick w + 1\<rparr>"
  from ok s have fresh: "\<not> LoginChallengeExpired s (se_host_clock E (w_tick w))"
    by (auto simp: login_def Get_def svc_Inr split: if_splits)
  with ok s have "bindS (liftS (payloadForSession (se_pbkdf2 E) rq t s ''Login'' b True)) (\<lambda>(body, params).
              bindS (liftS (someE (badRequest ''Login body'') (decode_login body))) (\<lambda>payload.
              bindS (liftS (guardE (credentials_ok (se_pbkdf2 E) t s payload)
                       (ProtocolError 401 [] ''Login credentials are invalid'' []))) (\<lambda>_.
                login_commit E t s params))) w0 = (Inr (response, params), w')"
    by (simp add: login_def Get_def bindS_def [of tickS] tickS_def w0_def)
  then obtain body p0 payload where
    pre0: "payloadForSession (se_pbkdf2 E) rq t s ''Login'' b True = Inr (body, p0)"
    "decode_login body = Some payload" "credentials_ok (se_pbkdf2 E) t s payload" and
    c: "login_commit E t s p0 w0 = (Inr (response, params), w')"
    by (auto simp: bindS_Inr liftS_Inr res_simps)
  have w0: "w_entries w0 = w_entries w" by (simp add: w0_def)
  note pre = pre0 [folded login_commit_params [OF c]]
  from c obtain nxt issued w1 u w2 stored w3 where
    i: "issueS E (PushSDKSerial t) s w0 = (Inr (nxt, issued), w1)" and
    p: "persistSession E (issued\<lparr>ss_Authenticated := True\<rparr>)
          (w1\<lparr>w_entries := (w_entries w1)(PushSDKSerial t := Some (issued\<lparr>ss_Authenticated := True\<rparr>))\<rparr>) = (Inr u, w2)" and
    tr: "transition E (SerialNumber t) ''online''
          (new_activity ''pushsdk.login'' (SerialNumber t) ''terminal authenticated''
             (session_fields (ss_PayloadMode s) t)) w2 = (Inr stored, w3)" and
    w': "w_entries w' = (w_entries w3)(PushSDKSerial t := Some (issued\<lparr>ss_Authenticated := True, ss_Online := True\<rparr>))"
      "w_db w' = w_db w3" "rp_Challenge response = nxt"
      "rp_session response = Some (issued\<lparr>ss_Authenticated := True, ss_Online := True\<rparr>)"
    by (auto simp: login_commit_def login_accept_def svc_Inr Let_def)
  have same: "PersistentState (issued\<lparr>ss_Authenticated := True, ss_Online := True\<rparr>) = PersistentState (issued\<lparr>ss_Authenticated := True\<rparr>)"
    by (simp add: PersistentState_def)
  from i have i': "nxt = hex_encode (take 32 (se_rand E (w_tick w0)))" "32 \<le> length (se_rand E (w_tick w0))"
    "issued = s\<lparr>ss_NextChallenge := nxt, ss_NextChallengeAt := se_host_clock E (w_tick w0)\<rparr>"
    "w_entries w1 = (w_entries w0)(PushSDKSerial t := Some issued)" by (auto simp: svc_Inr)
  have "ss_Terminal (issued\<lparr>ss_Authenticated := True\<rparr>) = t" using i'(3) trm [OF s(1)] by simp
  with persistSession_Inr(1) [OF p] transition_Inr(5) [OF tr] w'(2)
  have cp: "checkpoint (w_db w') (SerialNumber t) =
      Some (stored_session (PersistentState (issued\<lparr>ss_Authenticated := True, ss_Online := True\<rparr>)))"
    unfolding same by simp
  have st: "terminal_status (w_db w') (SerialNumber t) = Some ''online''" using transition_Inr(6) [OF tr] w'(2) by simp
  have en: "w_entries w' = (w_entries w)(PushSDKSerial t := Some (issued\<lparr>ss_Authenticated := True, ss_Online := True\<rparr>))"
    using w'(1) persistSession_Inr(2) [OF p] transition_Inr(1) [OF tr] i'(4) w0 by simp
  have eq: "issued\<lparr>ss_Authenticated := True, ss_Online := True\<rparr> =
      s\<lparr>ss_NextChallenge := rp_Challenge response,
        ss_NextChallengeAt := ss_NextChallengeAt (issued\<lparr>ss_Authenticated := True, ss_Online := True\<rparr>),
        ss_Authenticated := True, ss_Online := True\<rparr>" using i'(3) w'(3) by simp
  have fmt: "lowerHex64 (rp_Challenge response)" using challenge_format [OF i'(2)] i'(1) w'(3) by simp
  show ?thesis using s fresh pre en eq fmt w'(4) cp st by blast
qed


section \<open>The invariant of the sessions\<close>

text \<open>The part of the world the invariant is about: the sessions and the gauge.\<close>

definition live :: "world \<Rightarrow> sessions \<times> int" where
  "live w = (w_entries w, mt_SessionsActive (w_metrics w))"

definition online_serials :: "sessions \<Rightarrow> string set" where
  "online_serials entries = {serial. \<exists>s. entries serial = Some s \<and> ss_Online s}"

definition sessions_ok :: "Config \<Rightarrow> sessions \<times> int \<Rightarrow> bool" where
  "sessions_ok cfg lv \<longleftrightarrow>
     (\<forall>serial s. fst lv serial = Some s \<longrightarrow> session_ok cfg serial s) \<and>
     int (card (online_serials (fst lv))) \<le> snd lv"

definition service_inv :: "service_env \<Rightarrow> world \<Rightarrow> bool" where
  "service_inv E w \<longleftrightarrow> sessions_ok (se_config E) (live w)"

lemma TerminalByPushSDKSerial_Some:
  "TerminalByPushSDKSerial cfg serial = Some t \<Longrightarrow> t \<in> set (Terminals cfg) \<and> PushSDKSerial t = serial"
  by (auto simp: TerminalByPushSDKSerial_def find_Some_iff)

lemma session_ok_terminal:
  "session_ok cfg serial s \<Longrightarrow> TerminalByPushSDKSerial cfg serial = Some t \<Longrightarrow> ss_Terminal s = t"
  by (simp add: session_ok_def)

lemma finite_online:
  assumes "\<forall>serial s. entries serial = Some s \<longrightarrow> session_ok cfg serial s"
  shows "finite (online_serials entries)"
proof (rule finite_subset)
  show "online_serials entries \<subseteq> PushSDKSerial ` set (Terminals cfg)"
    using assms by (force simp: online_serials_def session_ok_def dest: TerminalByPushSDKSerial_Some)
qed simp

lemma online_serials_upd:
  "online_serials (entries(serial := x)) =
     (if \<exists>s. x = Some s \<and> ss_Online s then insert serial (online_serials entries) else online_serials entries - {serial})"
  by (auto simp: online_serials_def)

text \<open>How the invariant survives the five kinds of change.\<close>

lemma sessions_ok_offline:
  assumes "sessions_ok cfg (entries, g)" "\<And>s. x = Some s \<Longrightarrow> session_ok cfg serial s \<and> \<not> ss_Online s"
  shows "sessions_ok cfg (entries(serial := x), g)"
proof -
  have "card (online_serials entries - {serial}) \<le> card (online_serials entries)" by (rule card_Diff1_le)
  with assms show ?thesis by (auto simp: sessions_ok_def online_serials_upd)
qed

lemma sessions_ok_same:
  assumes "sessions_ok cfg (entries, g)" "entries serial = Some s" "ss_Online s' = ss_Online s" "session_ok cfg serial s'"
  shows "sessions_ok cfg (entries(serial := Some s'), g)"
proof (cases "ss_Online s")
  case True
  with assms(2) have "serial \<in> online_serials entries" by (auto simp: online_serials_def)
  then have "online_serials (entries(serial := Some s')) = online_serials entries"
    using True assms(3) by (auto simp: online_serials_upd)
  with assms show ?thesis by (auto simp: sessions_ok_def)
next
  case False
  with assms show ?thesis by (intro sessions_ok_offline) auto
qed

lemma sessions_ok_dec:
  assumes "sessions_ok cfg (entries, g)" "entries serial = Some s" "ss_Online s"
    "\<And>s'. x = Some s' \<Longrightarrow> session_ok cfg serial s' \<and> \<not> ss_Online s'"
  shows "sessions_ok cfg (entries(serial := x), g - 1)"
proof -
  have fin: "finite (online_serials entries)" using assms(1) by (intro finite_online [of entries cfg]) (simp add: sessions_ok_def)
  have "serial \<in> online_serials entries" using assms(2,3) by (auto simp: online_serials_def)
  with fin have "int (card (online_serials entries - {serial})) = int (card (online_serials entries)) - 1"
    by (metis card_Diff_singleton card_gt_0_iff empty_iff of_nat_1 of_nat_diff Suc_leI One_nat_def)
  with assms show ?thesis by (auto simp: sessions_ok_def online_serials_upd)
qed

lemma sessions_ok_inc:
  assumes "sessions_ok cfg (entries, g)" "session_ok cfg serial s"
  shows "sessions_ok cfg (entries(serial := Some s), g + 1)"
proof -
  have fin: "finite (online_serials entries)" using assms(1) by (intro finite_online [of entries cfg]) (simp add: sessions_ok_def)
  have "card (insert serial (online_serials entries)) \<le> card (online_serials entries) + 1"
    using fin by (simp add: card_insert_if)
  moreover have "card (online_serials entries - {serial}) \<le> card (online_serials entries)" by (rule card_Diff1_le)
  ultimately show ?thesis using assms by (auto simp: sessions_ok_def online_serials_upd)
qed

section \<open>Calls that leave the sessions alone\<close>

definition quiet :: "'a svc \<Rightarrow> bool" where
  "quiet m \<longleftrightarrow> (\<forall>w. live (snd (m w)) = live w)"

named_theorems quiet_intro "calls that leave the sessions and the gauge alone"

lemma quiet_simple [quiet_intro]:
  "quiet (returnS a)" "quiet (failS e)" "quiet (liftS r)" "quiet tickS"
  "quiet (publishS ev)" "quiet (publish_allS evs)" "quiet reject_events" "quiet (count_request action outcome)"
  by (simp_all add: quiet_def returnS_def failS_def liftS_def tickS_def publishS_def publish_allS_def modifyS_def
      reject_events_def count_request_def live_def)

lemma quiet_run_tx [quiet_intro]: "quiet (run_tx E f)" "quiet (run_exec E g)"
  by (auto simp: quiet_def run_exec_def run_tx_cases live_def split: sum.split)

lemma quiet_modify [quiet_intro]: "(\<And>w. live (f w) = live w) \<Longrightarrow> quiet (modifyS f)"
  by (simp add: quiet_def modifyS_def)

lemma quiet_bind [quiet_intro]: "quiet m \<Longrightarrow> (\<And>a. quiet (f a)) \<Longrightarrow> quiet (bindS m f)"
  unfolding quiet_def by (simp add: bindS_def split: prod.split sum.split) (metis snd_conv)

lemma quiet_on_error [quiet_intro]: "quiet m \<Longrightarrow> quiet h \<Longrightarrow> quiet (on_errorS m h)"
  unfolding quiet_def by (simp add: on_errorS_def split: prod.split sum.split) (metis snd_conv)

lemma quiet_wrap [quiet_intro]: "quiet m \<Longrightarrow> quiet (wrapS e m)"
  unfolding quiet_def by (simp add: wrapS_def split: prod.split sum.split) (metis snd_conv)

lemma quiet_log [quiet_intro]: "quiet m \<Longrightarrow> quiet (logS m)"
  by (simp add: quiet_def logS_def)

lemma quiet_case_prod [quiet_intro]: "(\<And>a b. quiet (f a b)) \<Longrightarrow> quiet (case p of (a, b) \<Rightarrow> f a b)"
  by (simp split: prod.split)

lemma quiet_calls [quiet_intro]:
  "quiet (persistSession E s)" "quiet (deleteCheckpoint E serial)" "quiet (transition E serial status ev)"
  "quiet (recordGatewayActivity E ev)" "quiet (command_request E t body)" "quiet (command_result E t body)"
  "quiet (events E t body)"
  unfolding persistSession_def deleteCheckpoint_def transition_def recordGatewayActivity_def command_request_def
    command_result_def events_def
  by (auto intro!: quiet_intro simp: live_def count_received_def count_persisted_def)

lemma quiet_perform: "action \<noteq> ''Logout'' \<Longrightarrow> quiet (perform E t action s body)"
  unfolding perform_def by (auto intro!: quiet_intro)

text \<open>A quiet call keeps every assertion about the sessions and the gauge.\<close>

lemma valid_quiet:
  assumes "quiet m" "\<And>w. P w \<Longrightarrow> p (live w)"
  shows "validS P m (\<lambda>_ w. p (live w)) (\<lambda>w. p (live w))"
  unfolding validS_def
proof (intro allI impI)
  fix w assume "P w"
  with assms have "p (live (snd (m w)))" by (simp add: quiet_def)
  then show "case m w of (Inl e, w') \<Rightarrow> p (live w') | (Inr a, w') \<Rightarrow> p (live w')"
    by (cases "m w"; cases "fst (m w)") auto
qed

lemma valid_bind_quiet:
  assumes "quiet m" "\<And>a. validS (\<lambda>w. p (live w)) (f a) Q R" "\<And>w. p (live w) \<Longrightarrow> R w"
  shows "validS (\<lambda>w. p (live w)) (bindS m f) Q R"
  by (rule valid_bind [where B = "\<lambda>_ w. p (live w)"])
    (use assms valid_quiet [OF assms(1), of "\<lambda>w. p (live w)" p] in \<open>auto intro: validS_weaken\<close>)


section \<open>Every path keeps the invariant\<close>

lemma live_simps [simp]:
  "live (w\<lparr>w_tick := n\<rparr>) = live w" "live (w\<lparr>w_db := d\<rparr>) = live w" "live (w\<lparr>w_hub := h\<rparr>) = live w"
  "live (w\<lparr>w_entries := e\<rparr>) = (e, snd (live w))" "live (w\<lparr>w_metrics := m\<rparr>) = (fst (live w), mt_SessionsActive m)"
  by (simp_all add: live_def)

lemma fst_live [simp]: "w_entries w = fst (live w)"
  by (simp add: live_def)

lemma valid_put_entry:
  "(\<And>w. P w \<Longrightarrow> p ((fst (live w))(serial := x), snd (live w))) \<Longrightarrow>
     validS P (put_entry serial x) (\<lambda>_ w. p (live w)) R"
  unfolding put_entry_def by (rule valid_modify) simp

lemma valid_sessions_active:
  "(\<And>w. P w \<Longrightarrow> p (fst (live w), snd (live w) + c)) \<Longrightarrow> validS P (sessions_active c) (\<lambda>_ w. p (live w)) R"
  unfolding sessions_active_def by (rule valid_modify) (simp add: live_def del: fst_live)

lemma inv_quiet: "quiet m \<Longrightarrow> validS (service_inv E) m (\<lambda>_. service_inv E) (service_inv E)"
  unfolding service_inv_def by (rule valid_quiet)

abbreviation known :: "service_env \<Rightarrow> Terminal \<Rightarrow> bool" where
  "known E t \<equiv> TerminalByPushSDKSerial (se_config E) (PushSDKSerial t) = Some t"

definition started_ok :: "service_env \<Rightarrow> Terminal \<Rightarrow> SessionStart \<Rightarrow> sessions \<times> int \<Rightarrow> bool" where
  "started_ok E t started lv \<longleftrightarrow>
     fst lv (PushSDKSerial t) = Some (st_Session started) \<and>
     sessions_ok (se_config E) ((fst lv)(PushSDKSerial t := st_Previous started), snd lv) \<and>
     session_ok (se_config E) (PushSDKSerial t) (st_Session started) \<and> \<not> ss_Online (st_Session started) \<and>
     (st_ReplacedOnlineSession started \<longleftrightarrow> (\<exists>p. st_Previous started = Some p \<and> ss_Online p))"

lemma started_drop:
  assumes "started_ok E t started (e, g)"
  shows "sessions_ok (se_config E) (e, g)"
proof -
  have "(e(PushSDKSerial t := st_Previous started))(PushSDKSerial t := Some (st_Session started)) = e"
    using assms by (auto simp: started_ok_def)
  with assms sessions_ok_offline [of "se_config E" "e(PushSDKSerial t := st_Previous started)" g
      "Some (st_Session started)" "PushSDKSerial t"]
  show ?thesis by (simp add: started_ok_def)
qed

lemma started_replaced:
  assumes "started_ok E t started (e, g)" "st_ReplacedOnlineSession started"
  shows "sessions_ok (se_config E) (e, g - 1)"
proof -
  have "(e(PushSDKSerial t := st_Previous started))(PushSDKSerial t := Some (st_Session started)) = e"
    using assms by (auto simp: started_ok_def)
  moreover from assms obtain p where "st_Previous started = Some p" "ss_Online p" by (auto simp: started_ok_def)
  ultimately show ?thesis
    using assms sessions_ok_dec [of "se_config E" "e(PushSDKSerial t := st_Previous started)" g
        "PushSDKSerial t" p "Some (st_Session started)"] by (simp add: started_ok_def)
qed

lemma inv_startSession:
  assumes "known E t" "mode = PlaintextPayload \<or> mode = EncryptedPayload"
  shows "validS (service_inv E) (startSession E t mode) (\<lambda>started w. started_ok E t started (live w)) (service_inv E)"
  unfolding validS_def
proof (intro allI impI)
  fix w assume inv: "service_inv E w"
  show "case startSession E t mode w of (Inl e, w') \<Rightarrow> service_inv E w' | (Inr a, w') \<Rightarrow> started_ok E t a (live w')"
  proof (cases "Start (se_rand E (w_tick w)) (se_host_clock E (w_tick w)) t mode (w_entries w)")
    case (Inl e)
    then show ?thesis using inv by (simp add: startSession_def bindS_def tickS_def service_inv_def)
  next
    case (Inr r)
    obtain started entries where r: "r = (started, entries)" by (cases r)
    with Inr have S: "Start (se_rand E (w_tick w)) (se_host_clock E (w_tick w)) t mode (w_entries w) = Inr (started, entries)" by simp
    have "(w_entries w)(PushSDKSerial t := w_entries w (PushSDKSerial t)) = w_entries w" by simp
    moreover have "live w = (w_entries w, snd (live w))" by simp
    ultimately have "started_ok E t started (entries, snd (live w))"
      using inv Start_Inr [OF S] Start_ok [OF S assms] unfolding started_ok_def service_inv_def by simp
    then show ?thesis using Inr r by (simp add: startSession_def bindS_def tickS_def)
  qed
qed

lemma inv_restoreReplaced:
  "validS (\<lambda>w. started_ok E t started (live w)) (restoreReplacedSession E t (st_Previous started))
     (\<lambda>_. service_inv E) (service_inv E)"
proof -
  have rep: "validS (\<lambda>w. started_ok E t started (live w))
     (modifyS (\<lambda>w. w\<lparr>w_entries := Replace (PushSDKSerial t) (st_Previous started) (w_entries w)\<rparr>)) (\<lambda>_. service_inv E) (service_inv E)"
    by (rule valid_modify) (simp add: service_inv_def started_ok_def Replace_def)
  have drop: "service_inv E w" if "started_ok E t started (live w)" for w
    using that started_drop [of E t started "fst (live w)" "snd (live w)"] by (simp add: service_inv_def)
  show ?thesis
    unfolding restoreReplacedSession_def
    by (cases "st_Previous started")
      (use rep in \<open>auto intro!: valid_bind_quiet quiet_intro drop\<close>)
qed

lemma mode_cases:
  "payloadModeForAuthInfo t body = Inr mode \<Longrightarrow> mode = PlaintextPayload \<or> mode = EncryptedPayload"
proof -
  have "offered_mode t vs = Inr mode \<Longrightarrow> mode = EncryptedPayload" for vs
    by (induction vs) (auto split: if_splits)
  then show "payloadModeForAuthInfo t body = Inr mode \<Longrightarrow> mode = PlaintextPayload \<or> mode = EncryptedPayload"
    by (auto simp: payloadModeForAuthInfo_def res_simps split: if_splits)
qed

lemma inv_authInfo:
  assumes t: "known E t"
  shows "validS (service_inv E) (authInfo E t body) (\<lambda>_. service_inv E) (service_inv E)"
proof -
  let ?S = "\<lambda>started w. started_ok E t started (live w)"
  have start: "validS (\<lambda>w. payloadModeForAuthInfo t body = Inr mode \<and> service_inv E w) (startSession E t mode) ?S (service_inv E)" for mode
    by (cases "payloadModeForAuthInfo t body = Inr mode")
      (use inv_startSession [OF t] mode_cases in \<open>auto simp: validS_def\<close>)
  have persist: "validS (?S started) (on_errorS (persistSession E (st_Session started))
      (modifyS (\<lambda>w. w\<lparr>w_entries := Replace (PushSDKSerial t) (st_Previous started) (w_entries w)\<rparr>))) (\<lambda>_. ?S started) (service_inv E)" for started
    by (rule valid_on_error [where H = "?S started"], rule valid_quiet)
      (auto intro!: quiet_intro valid_modify simp: service_inv_def started_ok_def Replace_def)
  have trans: "validS (?S started) (on_errorS (transition E serial status ev)
      (logS (restoreReplacedSession E t (st_Previous started)))) (\<lambda>_. ?S started) (service_inv E)" for started serial status ev
    by (rule valid_on_error [where H = "?S started"], rule valid_quiet)
      (auto intro!: quiet_intro valid_log inv_restoreReplaced)
  have gauge: "validS (?S started) (if st_ReplacedOnlineSession started then sessions_active (-1) else returnS ()) (\<lambda>_. service_inv E) (service_inv E)" for started
    unfolding service_inv_def
    using started_drop [of E t started] started_replaced [of E t started]
    by (auto intro!: valid_sessions_active valid_return) (metis prod.collapse)+
  show ?thesis
    unfolding authInfo_def Let_def
    by (rule valid_bind [OF valid_lift valid_bind [OF start valid_bind [OF persist valid_bind [OF trans valid_bind [OF gauge]]]]])
      (auto intro!: inv_quiet quiet_intro)
qed


text \<open>The gateway's clock reads a time after the Unix epoch.\<close>

definition clock_ok :: "service_env \<Rightarrow> bool" where
  "clock_ok E \<longleftrightarrow> (\<forall>n. 0 < se_host_clock E n)"

text \<open>The invariant, and that a terminal's session is the given one.\<close>

definition holds_session :: "service_env \<Rightarrow> string \<Rightarrow> Session \<Rightarrow> sessions \<times> int \<Rightarrow> bool" where
  "holds_session E serial s lv \<longleftrightarrow> sessions_ok (se_config E) lv \<and> fst lv serial = Some s"

lemma holds_inv: "holds_session E serial s (live w) \<Longrightarrow> service_inv E w"
  by (simp add: holds_session_def service_inv_def)

lemma holds_ok: "holds_session E serial s lv \<Longrightarrow> session_ok (se_config E) serial s"
  by (simp add: holds_session_def sessions_ok_def)

lemma holds_change:
  assumes "holds_session E serial s (e, g)" "session_ok (se_config E) serial s'" "ss_Online s' = ss_Online s"
  shows "holds_session E serial s' (e(serial := Some s'), g)"
  using assms sessions_ok_same [of "se_config E" e g serial s s'] by (simp add: holds_session_def)

lemma valid_put_session:
  assumes "\<And>w. P w \<Longrightarrow> holds_session E serial s (live w)"
    and "session_ok (se_config E) serial s \<Longrightarrow> session_ok (se_config E) serial s' \<and> ss_Online s' = ss_Online s"
  shows "validS P (put_entry serial (Some s')) (\<lambda>_ w. holds_session E serial s' (live w)) R"
proof (rule valid_put_entry)
  fix w assume "P w"
  then have h: "holds_session E serial s (fst (live w), snd (live w))" using assms(1) by simp
  with assms(2) holds_ok [OF h] show "holds_session E serial s' ((fst (live w))(serial := Some s'), snd (live w))"
    by (intro holds_change [OF h]) auto
qed

definition issued_from :: "Session \<Rightarrow> string \<Rightarrow> Session \<Rightarrow> bool" where
  "issued_from s nxt issued \<longleftrightarrow>
     (\<exists>at. issued = s\<lparr>ss_NextChallenge := nxt, ss_NextChallengeAt := at\<rparr> \<and> 0 < at \<and> lowerHex64 nxt)"

lemma session_ok_issued:
  assumes "session_ok cfg serial s" "lowerHex64 c" "0 < at"
  shows "session_ok cfg serial (s\<lparr>ss_NextChallenge := c, ss_NextChallengeAt := at\<rparr>)"
  using assms by (auto simp: session_ok_def zero_time_def second_def)

lemma valid_issue:
  assumes "clock_ok E"
  shows "validS (\<lambda>w. holds_session E serial s (live w)) (issueS E serial s)
    (\<lambda>(nxt, issued) w. holds_session E serial issued (live w) \<and> issued_from s nxt issued)
    (\<lambda>w. holds_session E serial s (live w))"
  unfolding validS_def
proof (intro allI impI)
  fix w assume h: "holds_session E serial s (live w)"
  have clk: "0 < se_host_clock E (w_tick w)" using assms by (simp add: clock_ok_def)
  obtain r w' where i: "issueS E serial s w = (r, w')" by (cases "issueS E serial s w")
  show "case issueS E serial s w of (Inl e, w') \<Rightarrow> holds_session E serial s (live w')
     | (Inr a, w') \<Rightarrow> (case a of (nxt, issued) \<Rightarrow> \<lambda>w. holds_session E serial issued (live w) \<and> issued_from s nxt issued) w'"
  proof (cases r)
    case (Inl e)
    with i have "live w' = live w"
      by (auto simp: issueS_def bindS_def tickS_def liftS_def put_entry_def modifyS_def returnS_def
          split: sum.splits prod.splits)
    with h i Inl show ?thesis by simp
  next
    case (Inr p)
    obtain nxt issued where p: "p = (nxt, issued)" by (cases p)
    with i Inr have x: "32 \<le> length (se_rand E (w_tick w))" "nxt = hex_encode (take 32 (se_rand E (w_tick w)))"
      "issued = s\<lparr>ss_NextChallenge := nxt, ss_NextChallengeAt := se_host_clock E (w_tick w)\<rparr>"
      "w' = w\<lparr>w_tick := w_tick w + 1, w_entries := (w_entries w)(serial := Some issued)\<rparr>" by (auto simp: svc_Inr)
    note fmt = challenge_format [OF x(1), folded x(2)]
    have ok: "session_ok (se_config E) serial issued"
      unfolding x(3) by (rule session_ok_issued [OF holds_ok [OF h] fmt clk])
    have "holds_session E serial issued ((fst (live w))(serial := Some issued), snd (live w))"
      by (rule holds_change [of _ _ s]) (use h ok x(3) in simp_all)
    with i Inr p x fmt clk show ?thesis by (auto simp: issued_from_def)
  qed
qed

text \<open>Marking a session online is balanced by the gauge that is raised next.\<close>

lemma valid_go_online:
  assumes ok: "session_ok (se_config E) serial s \<Longrightarrow> session_ok (se_config E) serial s'"
    and rest: "\<And>u. validS (\<lambda>w. holds_session E serial s' (live w)) (f u) Q R"
  shows "validS (\<lambda>w. holds_session E serial s (live w))
    (bindS (put_entry serial (Some s')) (\<lambda>_. bindS (sessions_active 1) f)) Q R"
proof -
  let ?p = "\<lambda>lv. sessions_ok (se_config E) (fst lv, snd lv + 1) \<and> fst lv serial = Some s'"
  have 1: "validS (\<lambda>w. holds_session E serial s (live w)) (put_entry serial (Some s')) (\<lambda>_ w. ?p (live w)) R"
  proof (rule valid_put_entry)
    fix w assume h: "holds_session E serial s (live w)"
    with ok [OF holds_ok [OF h]] sessions_ok_inc [of "se_config E" "fst (live w)" "snd (live w)" serial s']
    show "?p ((fst (live w))(serial := Some s'), snd (live w))" by (simp add: holds_session_def)
  qed
  have 2: "validS (\<lambda>w. ?p (live w)) (sessions_active 1) (\<lambda>_ w. holds_session E serial s' (live w)) R"
    by (rule valid_sessions_active) (simp add: holds_session_def)
  show ?thesis by (rule valid_bind [OF 1 valid_bind [OF 2 rest]])
qed

text \<open>A session that is online can be marked offline when the gauge is lowered next.\<close>

lemma valid_go_offline:
  assumes ok: "session_ok (se_config E) serial s \<Longrightarrow> session_ok (se_config E) serial s' \<and> \<not> ss_Online s'"
    and rest: "\<And>u. validS (\<lambda>w. holds_session E serial s' (live w)) (f u) Q R" and on: "ss_Online s"
  shows "validS (\<lambda>w. holds_session E serial s (live w))
    (bindS (put_entry serial (Some s')) (\<lambda>_. bindS (sessions_active (-1)) f)) Q R"
proof -
  let ?p = "\<lambda>lv. sessions_ok (se_config E) (fst lv, snd lv - 1) \<and> fst lv serial = Some s'"
  have 1: "validS (\<lambda>w. holds_session E serial s (live w)) (put_entry serial (Some s')) (\<lambda>_ w. ?p (live w)) R"
  proof (rule valid_put_entry)
    fix w assume h: "holds_session E serial s (live w)"
    with ok [OF holds_ok [OF h]] on sessions_ok_dec [of "se_config E" "fst (live w)" "snd (live w)" serial s "Some s'"]
    show "?p ((fst (live w))(serial := Some s'), snd (live w))" by (simp add: holds_session_def)
  qed
  have 2: "validS (\<lambda>w. ?p (live w)) (sessions_active (-1)) (\<lambda>_ w. holds_session E serial s' (live w)) R"
    by (rule valid_sessions_active) (simp add: holds_session_def)
  show ?thesis by (rule valid_bind [OF 1 valid_bind [OF 2 rest]])
qed

lemma holds_quiet:
  "quiet m \<Longrightarrow> validS (\<lambda>w. holds_session E serial s (live w)) m (\<lambda>_ w. holds_session E serial s (live w)) (\<lambda>w. holds_session E serial s (live w))"
  by (rule valid_quiet)

lemma holds_quiet_inv:
  "quiet m \<Longrightarrow> validS (\<lambda>w. holds_session E serial s (live w)) m (\<lambda>_ w. holds_session E serial s (live w)) (service_inv E)"
  by (rule validS_weaken [OF holds_quiet]) (auto intro: holds_inv)

section \<open>Login\<close>

lemma inv_put_undone:
  assumes "issued_from s nxt issued" "\<not> ss_Authenticated s" "\<not> ss_Online s"
  shows "validS (\<lambda>w. holds_session E serial (issued\<lparr>ss_Authenticated := True\<rparr>) (live w))
    (put_entry serial (Some (undone s (issued\<lparr>ss_Authenticated := True\<rparr>)))) (\<lambda>_. service_inv E) (service_inv E)"
  by (rule validS_weaken [OF valid_put_session [where P = "\<lambda>w. holds_session E serial (issued\<lparr>ss_Authenticated := True\<rparr>) (live w)"
          and s = "issued\<lparr>ss_Authenticated := True\<rparr>"]])
    (use assms in \<open>auto simp: undone_def issued_from_def session_ok_def intro: holds_inv\<close>)

lemma inv_login_accept:
  assumes i: "issued_from s nxt issued" and un: "\<not> ss_Authenticated s" "\<not> ss_Online s"
  shows "validS (\<lambda>w. holds_session E (PushSDKSerial t) issued (live w)) (login_accept E t s params (nxt, issued))
    (\<lambda>_. service_inv E) (service_inv E)"
proof -
  let ?acc = "issued\<lparr>ss_Authenticated := True\<rparr>"
  let ?H = "\<lambda>w. holds_session E (PushSDKSerial t) ?acc (live w)"
  have off: "\<not> ss_Online issued" using i un by (auto simp: issued_from_def)
  note undo = inv_put_undone [OF i un]
  have accept: "validS (\<lambda>w. holds_session E (PushSDKSerial t) issued (live w)) (put_entry (PushSDKSerial t) (Some ?acc)) (\<lambda>_. ?H) (service_inv E)"
    by (rule valid_put_session [where s = issued])
      (use i in \<open>auto simp: issued_from_def session_ok_def zero_time_def second_def\<close>)
  have persist: "validS ?H (on_errorS (persistSession E ?acc) (put_entry (PushSDKSerial t) (Some (undone s ?acc)))) (\<lambda>_. ?H) (service_inv E)"
    by (rule valid_on_error [OF holds_quiet undo]) (rule quiet_intro)
  have trans: "validS ?H (on_errorS (transition E a b c)
      (bindS (put_entry (PushSDKSerial t) (Some (undone s ?acc))) (\<lambda>_. logS (persistSession E (undone s ?acc))))) (\<lambda>_. ?H) (service_inv E)" for a b c
    by (rule valid_on_error [OF holds_quiet valid_bind [OF undo inv_quiet]]) (intro quiet_intro)+
  have online: "validS ?H
      (bindS (put_entry (PushSDKSerial t) (Some (issued\<lparr>ss_Authenticated := True, ss_Online := True\<rparr>))) (\<lambda>_.
       bindS (sessions_active 1) (\<lambda>_. bindS (publishS stored) (\<lambda>_. returnS y)))) (\<lambda>_. service_inv E) (service_inv E)" for stored and y :: "protocolResponse \<times> EncryptionParameters option"
    by (rule valid_go_online)
      (use off in \<open>auto simp: session_ok_def intro!: validS_weaken [OF inv_quiet] quiet_intro intro: holds_inv\<close>)
  show ?thesis unfolding login_accept_def Let_def prod.case
    by (intro valid_bind [OF accept] valid_bind [OF persist] valid_bind [OF trans] online)
qed

lemma inv_login_commit:
  assumes clk: "clock_ok E" and un: "\<not> ss_Authenticated s" "\<not> ss_Online s"
  shows "validS (\<lambda>w. holds_session E (PushSDKSerial t) s (live w)) (login_commit E t s params) (\<lambda>_. service_inv E) (service_inv E)"
proof -
  let ?B = "\<lambda>(nxt, issued) w. holds_session E (PushSDKSerial t) issued (live w) \<and> issued_from s nxt issued"
  have issue: "validS (\<lambda>w. holds_session E (PushSDKSerial t) s (live w)) (issueS E (PushSDKSerial t) s) ?B (service_inv E)"
    by (rule validS_weaken [OF valid_issue [OF clk]]) (auto intro: holds_inv)
  show ?thesis
    unfolding login_commit_def
  proof (rule valid_bind [OF issue])
    fix c :: "string \<times> Session"
    show "validS (?B c) (login_accept E t s params c) (\<lambda>_. service_inv E) (service_inv E)"
      using inv_login_accept [OF _ un, of "fst c" "snd c" E t params] by (auto simp: validS_def split: prod.splits)
  qed
qed


lemma inv_expire: "validS (service_inv E) (expireLoginChallenge E t) (\<lambda>_. service_inv E) (service_inv E)"
proof -
  have rm: "validS (service_inv E) (modifyS (\<lambda>w. w\<lparr>w_entries := Remove (PushSDKSerial t) (w_entries w)\<rparr>)) (\<lambda>_. service_inv E) (service_inv E)"
    unfolding service_inv_def
    by (rule valid_modify) (auto simp: Remove_def intro!: sessions_ok_offline)
  show ?thesis unfolding expireLoginChallenge_def
    by (intro valid_bind [OF inv_quiet] valid_bind [OF rm] inv_quiet) (auto intro!: quiet_intro split: option.split)
qed

lemma holds_here: "service_inv E w \<Longrightarrow> w_entries w serial = Some s \<Longrightarrow> holds_session E serial s (live w)"
  by (simp add: holds_session_def service_inv_def)

lemma inv_login:
  assumes "clock_ok E" "service_inv E w"
  shows "service_inv E (snd (login E t rq b w))"
proof (cases "w_entries w (PushSDKSerial t)")
  case None
  then show ?thesis using assms(2) by (simp add: login_def Get_def failS_def)
next
  case (Some s)
  note h = holds_here [OF assms(2) Some]
  let ?H = "\<lambda>w. holds_session E (PushSDKSerial t) s (live w)"
  show ?thesis
  proof (cases "ss_Authenticated s")
    case True
    with Some show ?thesis using assms(2) by (simp add: login_def Get_def failS_def)
  next
    case un: False
    with holds_ok [OF h] have off: "\<not> ss_Online s" by (auto simp: session_ok_def)
    have expired: "validS ?H (bindS (expireLoginChallenge E t) (\<lambda>_. failS e)) (\<lambda>_. service_inv E) (service_inv E)" for e
      by (intro valid_bind [OF validS_weaken [OF inv_expire]] valid_fail) (auto intro: holds_inv)
    have checks: "validS ?H (bindS (liftS r) (\<lambda>(body, params). bindS (liftS (r1 body)) (\<lambda>payload. bindS (liftS (r2 payload)) (\<lambda>_.
        login_commit E t s params)))) (\<lambda>_. service_inv E) (service_inv E)" for r r1 r2
      by (auto split: prod.split
          intro!: valid_bind [OF holds_quiet_inv] inv_login_commit [OF assms(1) un off] quiet_intro)
    have "validS ?H (bindS tickS (\<lambda>n. if LoginChallengeExpired s (se_host_clock E n) then
              bindS (expireLoginChallenge E t) (\<lambda>_. failS (invalidSession ''login_challenge_expired''))
            else
              bindS (liftS (payloadForSession (se_pbkdf2 E) rq t s ''Login'' b True)) (\<lambda>(body, params).
              bindS (liftS (someE (badRequest ''Login body'') (decode_login body))) (\<lambda>payload.
              bindS (liftS (guardE (credentials_ok (se_pbkdf2 E) t s payload)
                       (ProtocolError 401 [] ''Login credentials are invalid'' []))) (\<lambda>_.
                login_commit E t s params))))) (\<lambda>_. service_inv E) (service_inv E)"
      by (intro valid_bind [OF holds_quiet_inv]) (auto intro!: expired checks quiet_intro)
    from validS_snd [OF this h] Some un show ?thesis by (simp add: login_def Get_def)
  qed
qed

section \<open>Authenticated requests\<close>

lemma inv_resume:
  assumes "ss_Authenticated s"
  shows "validS (\<lambda>w. holds_session E (PushSDKSerial t) s (live w)) (resume E t s)
    (\<lambda>online w. holds_session E (PushSDKSerial t) online (live w) \<and> online = s\<lparr>ss_Online := True\<rparr>)
    (\<lambda>w. holds_session E (PushSDKSerial t) s (live w))"
proof (cases "ss_Online s")
  case True
  then show ?thesis unfolding resume_def by (auto intro!: valid_return)
next
  case False
  let ?on = "s\<lparr>ss_Online := True\<rparr>" and ?H = "\<lambda>x w. holds_session E (PushSDKSerial t) x (live w)"
  have last: "validS (?H ?on) (bindS (publishS stored) (\<lambda>_. returnS ?on)) (\<lambda>online w. ?H online w \<and> online = ?on) R" for stored R
    by (rule valid_bind [where B = "\<lambda>_. ?H ?on"]) (auto intro!: valid_return simp: publishS_def valid_modify)
  show ?thesis
    unfolding resume_def Let_def using False assms
    by (auto intro!: valid_bind [OF holds_quiet] quiet_intro valid_go_online last simp: session_ok_def)
qed

lemma inv_logout:
  assumes "ss_Authenticated s" "ss_Online s"
  shows "validS (\<lambda>w. holds_session E (PushSDKSerial t) s (live w)) (logout E t s body)
    (\<lambda>_ w. holds_session E (PushSDKSerial t) (s\<lparr>ss_Authenticated := False, ss_Online := False\<rparr>) (live w))
    (\<lambda>w. holds_session E (PushSDKSerial t) s (live w))"
proof -
  let ?off = "s\<lparr>ss_Authenticated := False, ss_Online := False\<rparr>" and ?H = "\<lambda>x w. holds_session E (PushSDKSerial t) x (live w)"
  have last: "validS (?H ?off) (bindS (publishS stored) (\<lambda>_. returnS y)) (\<lambda>_. ?H ?off) R" for stored y R
    by (rule valid_bind [where B = "\<lambda>_. ?H ?off"]) (auto intro!: valid_return simp: publishS_def valid_modify)
  show ?thesis
    unfolding logout_def
    by (intro valid_bind [OF holds_quiet [OF quiet_simple(3)]] valid_bind [OF holds_quiet [OF quiet_calls(3)]]
        valid_go_offline last) (use assms in \<open>auto simp: session_ok_def\<close>)
qed

definition after_action :: "string \<Rightarrow> Session \<Rightarrow> Session" where
  "after_action action s = (if action = ''Logout'' then s\<lparr>ss_Authenticated := False, ss_Online := False\<rparr> else s)"

lemma inv_perform:
  assumes "ss_Authenticated s" "ss_Online s"
  shows "validS (\<lambda>w. holds_session E (PushSDKSerial t) s (live w)) (perform E t action s body)
    (\<lambda>_ w. holds_session E (PushSDKSerial t) (after_action action s) (live w))
    (\<lambda>w. holds_session E (PushSDKSerial t) s (live w))"
proof (cases "action = ''Logout''")
  case True
  then show ?thesis using inv_logout [OF assms] by (simp add: perform_def after_action_def)
next
  case False
  then show ?thesis using holds_quiet [OF quiet_perform [OF False]] by (simp add: after_action_def)
qed

lemma validS_holds:
  "(session_ok (se_config E) serial s \<Longrightarrow> validS (\<lambda>w. holds_session E serial s (live w)) m Q R) \<Longrightarrow>
     validS (\<lambda>w. holds_session E serial s (live w)) m Q R"
  by (cases "session_ok (se_config E) serial s") (auto simp: validS_def [where P = "\<lambda>w. holds_session E serial s (live w)"] dest: holds_ok)

text \<open>The exchange ends with the new challenge, or with the one it began with.\<close>

lemma inv_finish:
  assumes clk: "clock_ok E"
  shows "validS (\<lambda>w. holds_session E (PushSDKSerial t) s (live w)) (finish_exchange E t action s result)
    (\<lambda>_. service_inv E)
    (\<lambda>w. service_inv E w \<and> (action \<noteq> ''Logout'' \<longrightarrow> holds_session E (PushSDKSerial t) s (live w)))"
proof (rule validS_holds)
  assume ok: "session_ok (se_config E) (PushSDKSerial t) s"
  let ?serial = "PushSDKSerial t" and ?H = "\<lambda>x w. holds_session E (PushSDKSerial t) x (live w)"
  let ?R = "\<lambda>w. service_inv E w \<and> (action \<noteq> ''Logout'' \<longrightarrow> ?H s w)"
  let ?B = "\<lambda>(nxt, issued) w. ?H issued w \<and> issued_from s nxt issued"
  have issue: "validS (?H s) (issueS E ?serial s) ?B ?R"
    by (rule validS_weaken [OF valid_issue [OF clk]]) (auto intro: holds_inv)
  have rem: "validS (?H x) (removeSession E t) (\<lambda>_. service_inv E) (service_inv E)" for x
    unfolding removeSession_def
    by (rule valid_bind [OF holds_quiet_inv valid_modify])
      (auto intro!: quiet_intro sessions_ok_offline simp: service_inv_def Remove_def holds_session_def)
  have persist: "validS (\<lambda>w. ?H issued w) (on_errorS (persistSession E issued) (put_entry ?serial (Some s))) (\<lambda>_. service_inv E) (?H s)"
    if i: "issued_from s nxt issued" for nxt issued
  proof (rule valid_on_error [where H = "?H issued"])
    show "validS (?H issued) (put_entry ?serial (Some s)) (\<lambda>_. ?H s) (?H s)"
      by (rule valid_put_session [where s = issued]) (use i ok in \<open>auto simp: issued_from_def\<close>)
    show "validS (?H issued) (persistSession E issued) (\<lambda>_. service_inv E) (?H issued)"
      by (rule validS_weaken [OF holds_quiet [OF quiet_calls(1)]]) (auto intro: holds_inv)
  qed
  have step: "validS (?B c) (bindS (if action = ''Logout'' then removeSession E t
             else on_errorS (persistSession E (snd c))
                    (put_entry ?serial (Some ((snd c)\<lparr>ss_NextChallenge := ss_NextChallenge s,
                                                    ss_NextChallengeAt := ss_NextChallengeAt s\<rparr>)))) (\<lambda>_. returnS y))
      (\<lambda>_. service_inv E) ?R" for c y
  proof (cases "issued_from s (fst c) (snd c)")
    case True
    then have undo: "(snd c)\<lparr>ss_NextChallenge := ss_NextChallenge s, ss_NextChallengeAt := ss_NextChallengeAt s\<rparr> = s"
      by (auto simp: issued_from_def)
    have "validS (?B c) (if action = ''Logout'' then removeSession E t
        else on_errorS (persistSession E (snd c)) (put_entry ?serial (Some s))) (\<lambda>_. service_inv E) ?R"
    proof (cases "action = ''Logout''")
      case True
      then show ?thesis using validS_weaken [OF rem [of "snd c"], of "?B c" "\<lambda>_. service_inv E" ?R]
        by (simp split: prod.splits)
    next
      case False
      then show ?thesis
        using validS_weaken [OF persist [OF \<open>issued_from s (fst c) (snd c)\<close>], of "?B c" "\<lambda>_. service_inv E" ?R]
        by (simp add: holds_inv split: prod.splits)
    qed
    then show ?thesis unfolding undo by (rule valid_bind) (rule valid_return)
  next
    case False
    then show ?thesis by (auto simp: validS_def split: prod.splits)
  qed
  show ?thesis
    unfolding finish_exchange_def Let_def
    by (rule valid_bind [OF issue]) (unfold case_prod_beta, rule step [unfolded case_prod_beta])
qed


text \<open>
  An authenticated exchange keeps the invariant; when it fails, and it is not a Logout, the
  terminal's session still expects the same proof.
\<close>

lemma inv_exchange:
  assumes clk: "clock_ok E" and auth: "ss_Authenticated s"
  shows "validS (\<lambda>w. holds_session E (PushSDKSerial t) s (live w)) (exchange E t action rq b s)
    (\<lambda>_. service_inv E)
    (\<lambda>w. service_inv E w \<and> (action \<noteq> ''Logout'' \<longrightarrow>
       (\<exists>s'. holds_session E (PushSDKSerial t) s' (live w) \<and> s' = s\<lparr>ss_Online := ss_Online s'\<rparr>)))"
proof -
  let ?H = "\<lambda>x w. holds_session E (PushSDKSerial t) x (live w)" and ?on = "s\<lparr>ss_Online := True\<rparr>"
  let ?R = "\<lambda>w. service_inv E w \<and> (action \<noteq> ''Logout'' \<longrightarrow> (\<exists>s'. ?H s' w \<and> s' = s\<lparr>ss_Online := ss_Online s'\<rparr>))"
  have keep: "?R w" if "?H s w \<or> ?H ?on w" for w
    using that by (auto intro: holds_inv exI [of _ s] exI [of _ ?on])
  have res: "validS (?H s) (resume E t s) (\<lambda>online w. ?H online w \<and> online = ?on) ?R"
    by (rule validS_weaken [OF inv_resume [OF auth]]) (use keep in auto)
  have perf: "validS (?H ?on) (perform E t action ?on body) (\<lambda>_. ?H (after_action action ?on)) ?R" for body
    by (rule validS_weaken [OF inv_perform]) (use auth keep in auto)
  have fin: "validS (?H (after_action action ?on)) (finish_exchange E t action (after_action action ?on) result) (\<lambda>_. service_inv E) ?R" for result
    by (rule validS_weaken [OF inv_finish [OF clk]])
      (use keep in \<open>auto simp: after_action_def split: if_splits\<close>)
  have lift: "validS (?H ?on) (liftS x) (\<lambda>_. ?H ?on) ?R" for x :: "(bytes \<times> EncryptionParameters option) result"
    by (rule validS_weaken [OF holds_quiet [OF quiet_simple(3)]]) (use keep in auto)
  have rest: "validS (?H ?on) (bindS (liftS x) (\<lambda>p.
     bindS (perform E t action ?on (fst p)) (\<lambda>result.
     bindS (finish_exchange E t action (after_action action ?on) result) (\<lambda>response.
       returnS (response, snd p))))) (\<lambda>_. service_inv E) ?R" for x :: "(bytes \<times> EncryptionParameters option) result"
    by (intro valid_bind [OF lift] valid_bind [OF perf] valid_bind [OF fin] valid_return)
  show ?thesis
    unfolding exchange_def after_action_def [symmetric] case_prod_beta
  proof (rule valid_bind [OF res])
    fix online
    show "validS (\<lambda>w. ?H online w \<and> online = ?on)
      (bindS (liftS (payloadForSession (se_pbkdf2 E) rq t online action b (action = ''CommandResult'' \<or> action = ''Event''))) (\<lambda>p.
       bindS (perform E t action online (fst p)) (\<lambda>result.
       bindS (finish_exchange E t action (after_action action online) result) (\<lambda>response.
         returnS (response, snd p))))) (\<lambda>_. service_inv E) ?R"
      using rest [of "payloadForSession (se_pbkdf2 E) rq t ?on action b (action = ''CommandResult'' \<or> action = ''Event'')"]
      by (cases "online = ?on") (simp_all add: validS_def [where P = "\<lambda>_. False"])
  qed
qed

lemma inv_authenticated:
  assumes "clock_ok E" "service_inv E w"
  shows "service_inv E (snd (authenticated E t action rq b w))"
proof (cases "\<exists>s. w_entries w (PushSDKSerial t) = Some s \<and> ss_Authenticated s \<and>
    constantTimeEqual (rq_CustomAuth rq) (expectedCustomAuth t (ss_Salt s) (ss_NextChallenge s))")
  case True
  then obtain s where s: "w_entries w (PushSDKSerial t) = Some s" "ss_Authenticated s"
    "constantTimeEqual (rq_CustomAuth rq) (expectedCustomAuth t (ss_Salt s) (ss_NextChallenge s))" by blast
  have "validS (\<lambda>w. holds_session E (PushSDKSerial t) s (live w)) (exchange E t action rq b s) (\<lambda>_. service_inv E) (service_inv E)"
    by (rule validS_weaken [OF inv_exchange [OF assms(1) s(2)]]) auto
  from validS_snd [OF this holds_here [OF assms(2) s(1)]] s show ?thesis
    unfolding authenticated_def Get_def by simp
next
  case False
  then show ?thesis using assms(2) unfolding authenticated_def Get_def by (auto simp: failS_def split: option.split)
qed


section \<open>Requests, maintenance and restoration\<close>

lemma inv_handle:
  assumes "clock_ok E" "known E t" "service_inv E w"
  shows "service_inv E (snd (handle E t action rq w))"
proof (cases "action = ''AuthInfo''")
  case True
  have "validS (service_inv E) (bindS (liftS r) (\<lambda>_. bindS (authInfo E t b) (\<lambda>result. returnS (result, None :: EncryptionParameters option))))
      (\<lambda>_. service_inv E) (service_inv E)" for r :: "unit result" and b
    by (intro valid_bind [OF inv_quiet [OF quiet_simple(3)]] valid_bind [OF inv_authInfo [OF assms(2)]] valid_return)
  from validS_snd [OF this assms(3)] True show ?thesis by (simp add: handle_def)
next
  case False
  then show ?thesis
    using inv_login [OF assms(1,3)] inv_authenticated [OF assms(1,3)] assms(3)
    by (simp add: handle_def failS_def)
qed

lemma quiet_snd: "quiet m \<Longrightarrow> service_inv E w \<Longrightarrow> service_inv E (snd (m w))"
  by (simp add: quiet_def service_inv_def)

lemma inv_ServeHTTP:
  assumes "clock_ok E" "service_inv E w"
  shows "service_inv E (snd (ServeHTTP E rq w))"
proof -
  have serve: "service_inv E (snd (serve_terminal E t action rq w))" if t: "known E t" for t action
  proof (cases "handle E t action rq w")
    case (Pair r w1)
    then have "service_inv E w1" using inv_handle [OF assms(1) t assms(2), of action rq] by simp
    then show ?thesis unfolding serve_terminal_def Pair
      by (auto simp: Let_def split: sum.split prod.split intro!: quiet_snd quiet_intro)
  qed
  show ?thesis
    unfolding ServeHTTP_def
    using assms(2) TerminalByPushSDKSerial_Some by (auto split: option.split intro!: serve)
qed

lemma inv_markSessionIdle:
  assumes "ss_Online s"
  shows "validS (\<lambda>w. holds_session E (PushSDKSerial t) s (live w)) (markSessionIdle E t s) (\<lambda>_. service_inv E) (service_inv E)"
proof -
  have last: "validS (\<lambda>w. holds_session E (PushSDKSerial t) s' (live w)) (publishS stored) (\<lambda>_. service_inv E) (service_inv E)" for s' stored
    by (rule validS_weaken [OF inv_quiet [OF quiet_simple(5)]]) (auto intro: holds_inv)
  show ?thesis
    unfolding markSessionIdle_def
    by (intro valid_bind [OF holds_quiet_inv [OF quiet_calls(3)]] valid_go_offline last)
      (use assms in \<open>auto simp: session_ok_def\<close>)
qed

lemma inv_maintain:
  assumes "service_inv E w"
  shows "service_inv E (maintain_terminal E now t w)"
proof (cases "w_entries w (PushSDKSerial t)")
  case None
  then show ?thesis using assms by (simp add: maintain_terminal_def Get_def)
next
  case (Some s)
  show ?thesis
    using assms Some validS_snd [OF inv_markSessionIdle holds_here [OF assms Some]] validS_snd [OF inv_expire assms]
    by (simp add: maintain_terminal_def Get_def)
qed

lemma inv_MaintainSessions:
  assumes "service_inv E w"
  shows "service_inv E (MaintainSessions E now w)"
proof -
  have "service_inv E (fold (maintain_terminal E now) ts w)" for ts
    using assms by (induction ts arbitrary: w) (simp_all add: inv_maintain)
  then show ?thesis by (simp add: MaintainSessions_def)
qed

text \<open>Checkpoints written by the gateway never hold the zero time.\<close>

definition stored_times_ok :: "db \<Rightarrow> bool" where
  "stored_times_ok d \<longleftrightarrow> (\<forall>s \<in> set (db_sessions d). ps_NextChallengeAt s \<noteq> Some zero_time)"

definition all_offline :: "service_env \<Rightarrow> sessions \<times> int \<Rightarrow> bool" where
  "all_offline E lv \<longleftrightarrow> (\<forall>serial s. fst lv serial = Some s \<longrightarrow> session_ok (se_config E) serial s \<and> \<not> ss_Online s)"

lemma restored_ok:
  assumes "config_ok cfg" "restore_decision cfg now stored = Some s" "ps_NextChallengeAt stored \<noteq> Some zero_time"
  shows "session_ok cfg (PushSDKSerial (ss_Terminal s)) s"
proof -
  note r = restore_decision_Some [OF assms(2)]
  have t: "TerminalByPushSDKSerial cfg (PushSDKSerial (ss_Terminal s)) = Some (ss_Terminal s)"
    using r(1) terminal_by_serial [OF assms(1)] terminal_by_push_serial [OF assms(1)] by simp
  have "ss_PayloadMode s = ps_PayloadMode stored" "ss_Salt s = ps_Salt stored" "ss_LoginChallenge s = ps_LoginChallenge stored"
    "ss_Iterations s = ps_Iterations stored" "ss_NextChallenge s = ps_NextChallenge stored"
    "ss_Authenticated s = ps_Authenticated stored"
    "ss_NextChallengeAt s = (case ps_NextChallengeAt stored of None \<Rightarrow> zero_time | Some t \<Rightarrow> t)"
    by (subst r(4), simp add: restored_session_def)+
  with t r(3,5) assms(3) show ?thesis
    by (auto simp: session_ok_def validStoredSession_def split: if_splits option.splits)
qed

lemma valid_restore_one:
  assumes "config_ok (se_config E)" "ps_NextChallengeAt stored \<noteq> Some zero_time"
  shows "validS (\<lambda>w. all_offline E (live w)) (restore_one E now stored) (\<lambda>_ w. all_offline E (live w)) (\<lambda>w. all_offline E (live w))"
proof (cases "restore_decision (se_config E) now stored")
  case None
  then show ?thesis unfolding restore_one_def by (simp add: valid_quiet [OF quiet_calls(2)])
next
  case (Some s)
  then show ?thesis
    unfolding restore_one_def using restored_ok [OF assms(1) Some assms(2)] restore_decision_Some(5) [OF Some]
    by (auto simp: all_offline_def intro!: valid_put_entry split: if_splits)
qed

lemma valid_restore_all:
  "config_ok (se_config E) \<Longrightarrow> \<forall>s \<in> set stored. ps_NextChallengeAt s \<noteq> Some zero_time \<Longrightarrow>
     validS (\<lambda>w. all_offline E (live w)) (mapS (restore_one E now) stored) (\<lambda>_ w. all_offline E (live w)) (\<lambda>w. all_offline E (live w))"
  by (induction stored) (auto intro!: valid_return valid_bind [OF valid_restore_one])

lemma inv_RestoreSessions:
  assumes "config_ok (se_config E)" "w_entries w = NewSessions" "stored_times_ok (w_db w)"
    and ok: "RestoreSessions E w = (Inr u, w')"
  shows "service_inv E w'"
proof -
  define stored where "stored = PushSDKSessions (w_db w)"
  define w1 where "w1 = w\<lparr>w_tick := Suc (Suc (w_tick w))\<rparr>"
  from ok obtain w2 where m: "mapS (restore_one E (se_host_clock E (w_tick w))) stored w1 = (Inr (), w2)"
    and w': "w' = w2\<lparr>w_metrics := (w_metrics w2)\<lparr>mt_SessionsActive := 0\<rparr>\<rparr>"
    by (auto simp: RestoreSessions_def svc_Inr stored_def w1_def)
  have w1: "w_entries w1 = NewSessions" "set stored = set (db_sessions (w_db w))"
    using assms(2) by (simp_all add: stored_def w1_def PushSDKSessions_def)
  have "all_offline E (live w1)" using w1(1) by (simp add: all_offline_def NewSessions_def)
  then have "all_offline E (live w2)"
    using validS_Inr [OF valid_restore_all _ m] assms(1,3) w1(2) by (simp add: stored_times_ok_def)
  moreover from this have "online_serials (fst (live w2)) = {}" by (auto simp: all_offline_def online_serials_def)
  moreover have "live w' = (fst (live w2), 0)" by (simp add: w' live_def del: fst_live)
  ultimately show ?thesis by (auto simp: service_inv_def sessions_ok_def all_offline_def)
qed

section \<open>Reachable worlds\<close>

text \<open>
  A gateway process restores its sessions and then serves requests, sweeps its sessions and its
  command deadlines, while the administrator's API and the delivery workers change the database.
\<close>

inductive gateway_step :: "service_env \<Rightarrow> world \<Rightarrow> world \<Rightarrow> bool" for E where
  request: "gateway_step E w (snd (ServeHTTP E rq w))"
| sweep: "gateway_step E w (MaintainSessions E now w)"
| deadlines: "gateway_step E w (snd (ExpireISAPICommandDeadlines E w))"
| others: "gateway_step E w (w\<lparr>w_db := d, w_hub := h, w_tick := n\<rparr>)"

inductive reachable :: "service_env \<Rightarrow> world \<Rightarrow> bool" for E where
  boot: "w_entries w = NewSessions \<Longrightarrow> stored_times_ok (w_db w) \<Longrightarrow> RestoreSessions E w = (Inr (), w') \<Longrightarrow> reachable E w'"
| step: "reachable E w \<Longrightarrow> gateway_step E w w' \<Longrightarrow> reachable E w'"

inductive_cases gateway_stepE: "gateway_step E w w'"

lemma step_inv: "gateway_step E w w' \<Longrightarrow> clock_ok E \<Longrightarrow> service_inv E w \<Longrightarrow> service_inv E w'"
  by (induction rule: gateway_step.induct)
    (auto simp: inv_ServeHTTP inv_MaintainSessions ExpireISAPICommandDeadlines_def service_inv_def [of _ "w_tick_update _ _"]
      intro!: quiet_snd quiet_intro, simp_all add: service_inv_def)

lemma reachable_inv:
  "reachable E w \<Longrightarrow> config_ok (se_config E) \<Longrightarrow> clock_ok E \<Longrightarrow> service_inv E w"
  by (induction rule: reachable.induct) (auto intro: inv_RestoreSessions step_inv)


section \<open>Refused requests\<close>

text \<open>The session a request without proof of the current challenge meets.\<close>

definition proof_ok :: "Terminal \<Rightarrow> http_request \<Rightarrow> world \<Rightarrow> bool" where
  "proof_ok t rq w \<longleftrightarrow>
     (\<exists>s. w_entries w (PushSDKSerial t) = Some s \<and> ss_Authenticated s \<and>
        rq_CustomAuth rq = expectedCustomAuth t (ss_Salt s) (ss_NextChallenge s))"

lemma authenticated_refuses:
  assumes "\<not> proof_ok t rq w"
  shows "\<exists>reason. authenticated E t action rq b w = (Inl (invalidSession reason), w)"
  using assms
  by (auto simp: authenticated_def Get_def proof_ok_def failS_def constantTimeEqual_def split: option.split)

text \<open>Refusing a request records an activity, if the database takes it, and nothing else.\<close>

lemma record_rejection:
  "\<exists>acts. w_db (snd (logS (recordGatewayActivity E ev) w)) = (w_db w)\<lparr>db_activities := db_activities (w_db w) @ acts\<rparr> \<and>
     length acts \<le> 1"
proof (cases "run_tx E (\<lambda>X. RecordGatewayActivity (tx_now X) ev) w")
  case (Pair r w1)
  show ?thesis
  proof (cases r)
    case (Inl e)
    with Pair run_tx_Inl [of E _ w] have "w_db w1 = w_db w" by fastforce
    with Pair Inl show ?thesis
      by (intro exI [of _ "[]"]) (simp add: logS_def recordGatewayActivity_def bindS_def)
  next
    case (Inr stored)
    with Pair obtain now d where "insertGatewayActivity now ev (w_db w) = Inr (stored, d)" "w_db w1 = d"
      by (auto simp: run_tx_Inr RecordGatewayActivity_def)
    with Pair Inr show ?thesis
      by (intro exI [of _ "[stored]"])
        (auto simp: logS_def recordGatewayActivity_def bindS_def publishS_def modifyS_def dest!: insertGatewayActivity_append)
  qed
qed

lemma serve_refuses:
  assumes "action_requires_proof action" "\<not> proof_ok t rq w"
  shows "fst (serve_terminal E t action rq w) = respondErrorWithCode 401 invalidSessionCode invalidSessionMessage"
    "live (snd (serve_terminal E t action rq w)) = live w"
    "\<exists>acts. w_db (snd (serve_terminal E t action rq w)) = (w_db w)\<lparr>db_activities := db_activities (w_db w) @ acts\<rparr> \<and> length acts \<le> 1"
proof -
  from authenticated_refuses [OF assms(2)] obtain reason where
    "authenticated E t action rq (rq_Body rq) w = (Inl (invalidSession reason), w)" by blast
  with assms(1) have h: "handle E t action rq w = (Inl (invalidSession reason), w)"
    by (auto simp: handle_def action_requires_proof_def)
  have q: "quiet (logS (recordGatewayActivity E ev))" "quiet (count_request a b)" for ev a b by (intro quiet_intro)+
  have d: "w_db (snd (count_request a b w)) = w_db w" for a b by (simp add: count_request_def modifyS_def)
  show "fst (serve_terminal E t action rq w) = respondErrorWithCode 401 invalidSessionCode invalidSessionMessage"
    by (simp add: serve_terminal_def h Let_def protocolError_def invalidSession_def invalidSessionCode_def)
  show "live (snd (serve_terminal E t action rq w)) = live w"
    using q by (simp add: serve_terminal_def h Let_def quiet_def split: prod.split)
  show "\<exists>acts. w_db (snd (serve_terminal E t action rq w)) = (w_db w)\<lparr>db_activities := db_activities (w_db w) @ acts\<rparr> \<and> length acts \<le> 1"
    using record_rejection [of E "rejection_activity t action (invalidSession reason)" "snd (count_request action ''rejected'' w)"]
    by (simp add: serve_terminal_def h Let_def d split: prod.split)
qed

section \<open>Failed exchanges\<close>

lemma exchange_failed:
  assumes "clock_ok E" "service_inv E w" "authenticated E t action rq b w = (Inl e, w')" "action \<noteq> ''Logout''" "proof_ok t rq w"
  shows "proof_ok t rq w'"
proof -
  from assms(5) obtain s where s: "w_entries w (PushSDKSerial t) = Some s" "ss_Authenticated s"
    "rq_CustomAuth rq = expectedCustomAuth t (ss_Salt s) (ss_NextChallenge s)" by (auto simp: proof_ok_def)
  with assms(3) have "exchange E t action rq b s w = (Inl e, w')"
    by (simp add: authenticated_def Get_def constantTimeEqual_def)
  from validS_Inl [OF inv_exchange [OF assms(1) s(2)] holds_here [OF assms(2) s(1)] this] assms(4)
  obtain s' where s': "holds_session E (PushSDKSerial t) s' (live w')" "s' = s\<lparr>ss_Online := ss_Online s'\<rparr>" by auto
  have "ss_Authenticated s'" "ss_Salt s' = ss_Salt s" "ss_NextChallenge s' = ss_NextChallenge s"
    using s(2) arg_cong [OF s'(2), of ss_Authenticated] arg_cong [OF s'(2), of ss_Salt]
      arg_cong [OF s'(2), of ss_NextChallenge] by simp_all
  with s s'(1) show ?thesis by (auto simp: proof_ok_def holds_session_def)
qed

section \<open>Maintenance keeps authentication\<close>

definition kept :: "string \<Rightarrow> world \<Rightarrow> world \<Rightarrow> bool" where
  "kept serial w w' \<longleftrightarrow>
     (\<forall>s. w_entries w serial = Some s \<and> ss_Authenticated s \<longrightarrow>
        (\<exists>s'. w_entries w' serial = Some s' \<and> (s' = s \<or> s' = s\<lparr>ss_Online := False\<rparr>)))"

lemma kept_refl: "kept serial w w"
  by (auto simp: kept_def)

lemma kept_trans:
  assumes "kept serial w w1" "kept serial w1 w2"
  shows "kept serial w w2"
  unfolding kept_def
proof (intro allI impI)
  fix s assume s: "w_entries w serial = Some s \<and> ss_Authenticated s"
  with assms(1) obtain s1 where 1: "w_entries w1 serial = Some s1" "s1 = s \<or> s1 = s\<lparr>ss_Online := False\<rparr>"
    unfolding kept_def by blast
  with s have "ss_Authenticated s1" by auto
  with assms(2) 1(1) obtain s2 where 2: "w_entries w2 serial = Some s2" "s2 = s1 \<or> s2 = s1\<lparr>ss_Online := False\<rparr>"
    unfolding kept_def by blast
  with 1(2) show "\<exists>s'. w_entries w2 serial = Some s' \<and> (s' = s \<or> s' = s\<lparr>ss_Online := False\<rparr>)" by auto
qed

lemma expire_entries:
  "w_entries (snd (expireLoginChallenge E t w)) = w_entries w \<or>
   w_entries (snd (expireLoginChallenge E t w)) = (w_entries w)(PushSDKSerial t := None)"
proof (cases "run_tx E (\<lambda>X. ExpirePushSDKLoginChallenge (tx_now X) (SerialNumber t) expire_reason) w")
  case (Pair r w1)
  then have "live w1 = live w" using quiet_run_tx(1) [of E] unfolding quiet_def by (metis snd_conv)
  with Pair show ?thesis
    by (cases r) (auto simp: expireLoginChallenge_def bindS_def modifyS_def Remove_def returnS_def publishS_def split: option.split)
qed

lemma idle_effect:
  "(w_entries (snd (markSessionIdle E t s w)) = w_entries w \<or>
    w_entries (snd (markSessionIdle E t s w)) = (w_entries w)(PushSDKSerial t := Some (s\<lparr>ss_Online := False\<rparr>)))"
proof (cases "transition E (SerialNumber t) ''offline'' (new_activity ''pushsdk.session_idle'' (SerialNumber t) idle_message []) w")
  case (Pair r w1)
  then have "live w1 = live w" using quiet_calls(3) [of E] unfolding quiet_def by (metis snd_conv)
  with Pair show ?thesis
    by (cases r) (auto simp: markSessionIdle_def bindS_def modifyS_def put_entry_def sessions_active_def publishS_def)
qed

lemma kept_maintain: "kept serial w (maintain_terminal E now t w)"
proof (cases "w_entries w (PushSDKSerial t)")
  case None
  then show ?thesis by (simp add: maintain_terminal_def Get_def kept_refl)
next
  case (Some s)
  show ?thesis
    using Some expire_entries [of E t w] idle_effect [of E t s w]
    by (auto simp: maintain_terminal_def Get_def kept_def)
qed

lemma kept_MaintainSessions: "kept serial w (MaintainSessions E now w)"
proof -
  have "kept serial w (fold (maintain_terminal E now) ts w)" for ts
    by (induction ts arbitrary: w) (auto intro: kept_refl kept_trans [OF kept_maintain])
  then show ?thesis by (simp add: MaintainSessions_def)
qed


lemma run_tx_db: "w_db (snd (run_tx E f w)) = w_db w \<or> (\<exists>X a d. f X (w_db w) = Inr (a, d) \<and> w_db (snd (run_tx E f w)) = d)"
  by (auto simp: run_tx_cases split: sum.split)

lemma expire_checkpoint:
  assumes "k \<noteq> SerialNumber t"
  shows "checkpoint (w_db (snd (expireLoginChallenge E t w))) k = checkpoint (w_db w) k"
proof -
  let ?f = "\<lambda>X. ExpirePushSDKLoginChallenge (tx_now X) (SerialNumber t) expire_reason"
  have f: "checkpoint d k = checkpoint d0 k" if "?f X d0 = Inr (a, d)" for X a d d0
    using that assms
    by (auto simp: ExpirePushSDKLoginChallenge_def Let_def res_simps checkpoint_def select_delete_key insertGatewayActivity_Inr
        split: if_splits)
  have "w_db (snd (expireLoginChallenge E t w)) = w_db (snd (run_tx E ?f w))"
    unfolding expireLoginChallenge_def
    by (cases "run_tx E ?f w"; cases "fst (run_tx E ?f w)")
      (auto simp: bindS_def modifyS_def returnS_def publishS_def split: option.split)
  with run_tx_db [of E ?f w] f show ?thesis by metis
qed

lemma idle_checkpoint: "checkpoint (w_db (snd (markSessionIdle E t s w))) k = checkpoint (w_db w) k"
proof (cases "transition E (SerialNumber t) ''offline'' (new_activity ''pushsdk.session_idle'' (SerialNumber t) idle_message []) w")
  case (Pair r w1)
  have "checkpoint (w_db w1) = checkpoint (w_db w)"
  proof (cases r)
    case (Inl e)
    with Pair have "w1 = w\<lparr>w_tick := w_tick w + 1\<rparr>" unfolding transition_def by (blast dest: run_tx_Inl)
    then show ?thesis by simp
  next
    case (Inr a)
    with Pair transition_Inr(5) show ?thesis by blast
  qed
  with Pair show ?thesis
    by (cases r) (auto simp: markSessionIdle_def bindS_def modifyS_def put_entry_def sessions_active_def publishS_def)
qed

lemma maintain_checkpoint:
  assumes cfg: "config_ok (se_config E)" and inv: "service_inv E w" and t: "t \<in> set (Terminals (se_config E))"
    and s: "w_entries w serial = Some s" "ss_Authenticated s"
  shows "checkpoint (w_db (maintain_terminal E now t w)) (SerialNumber (ss_Terminal s)) =
    checkpoint (w_db w) (SerialNumber (ss_Terminal s))"
proof (cases "PushSDKSerial t = serial")
  case True
  with s show ?thesis by (simp add: maintain_terminal_def Get_def idle_checkpoint)
next
  case False
  have "session_ok (se_config E) serial s" using inv s by (simp add: service_inv_def sessions_ok_def)
  then have "PushSDKSerial (ss_Terminal s) = serial" "ss_Terminal s \<in> set (Terminals (se_config E))"
    by (auto simp: session_ok_def dest: TerminalByPushSDKSerial_Some)
  with False t cfg have "SerialNumber (ss_Terminal s) \<noteq> SerialNumber t"
    by (auto simp: config_ok_def distinct_map inj_on_def)
  then show ?thesis
    by (auto simp: maintain_terminal_def Get_def idle_checkpoint expire_checkpoint split: option.split)
qed

lemma sweep_checkpoint:
  assumes cfg: "config_ok (se_config E)" and inv: "service_inv E w" and s: "w_entries w serial = Some s" "ss_Authenticated s"
  shows "checkpoint (w_db (MaintainSessions E now w)) (SerialNumber (ss_Terminal s)) =
    checkpoint (w_db w) (SerialNumber (ss_Terminal s))"
proof -
  have "checkpoint (w_db (fold (maintain_terminal E now) ts w)) (SerialNumber (ss_Terminal s)) =
      checkpoint (w_db w) (SerialNumber (ss_Terminal s))" if "set ts \<subseteq> set (Terminals (se_config E))" for ts
    using that inv s
  proof (induction ts arbitrary: w s)
    case (Cons t ts)
    from kept_maintain [of serial w E now t] Cons.prems(3,4) obtain s' where
      s': "w_entries (maintain_terminal E now t w) serial = Some s'" "s' = s \<or> s' = s\<lparr>ss_Online := False\<rparr>"
      by (auto simp: kept_def)
    then have "ss_Authenticated s'" "ss_Terminal s' = ss_Terminal s" using Cons.prems(4) by auto
    with Cons.IH [OF _ inv_maintain [OF Cons.prems(2)] s'(1)] Cons.prems
      maintain_checkpoint [OF cfg Cons.prems(2) _ Cons.prems(3,4), of t now] show ?case by simp
  qed simp
  then show ?thesis by (simp add: MaintainSessions_def)
qed

section \<open>Restarting the gateway\<close>

text \<open>The checkpoint of an authenticated session is restored to this session, offline.\<close>

lemma restored_proof:
  assumes ok: "session_ok cfg (PushSDKSerial t) s" and auth: "ss_Authenticated s" and cfg: "config_ok cfg"
  shows "\<exists>r. restore_decision cfg now (stored_session (PersistentState s)) = Some r \<and> r = offline_copy s \<and>
     ss_NextChallenge r = ss_NextChallenge s \<and> ss_Salt r = ss_Salt s \<and> ss_Authenticated r \<and> \<not> ss_Online r"
proof -
  have "ss_Terminal s \<in> set (Terminals cfg)" using ok by (auto simp: session_ok_def dest: TerminalByPushSDKSerial_Some)
  then have "TerminalBySerialNumber cfg (SerialNumber (ss_Terminal s)) = Some (ss_Terminal s)"
    using terminal_by_serial [OF cfg] by simp
  from restore_persisted [OF ok _ this, of now] auth show ?thesis by (simp add: offline_copy_def)
qed

text \<open>Each checkpoint is installed under the PushSDK serial of its terminal; distinct terminals do not meet.\<close>

lemma restore_one_entries:
  "restore_one E now x w = (Inr (), w') \<Longrightarrow> w_entries w' =
     (case restore_decision (se_config E) now x of None \<Rightarrow> w_entries w
      | Some s \<Rightarrow> (w_entries w)(PushSDKSerial (ss_Terminal s) := Some s))"
  by (auto simp: restore_one_def deleteCheckpoint_def run_exec_Inr svc_Inr split: option.splits)

lemma restored_apart:
  assumes "config_ok cfg" "restore_decision cfg now x = Some s" "restore_decision cfg now' y = Some s'"
    and "ps_TerminalSerialNumber x \<noteq> ps_TerminalSerialNumber y"
  shows "PushSDKSerial (ss_Terminal s) \<noteq> PushSDKSerial (ss_Terminal s')"
proof -
  have "ss_Terminal s \<in> set (Terminals cfg)" "ss_Terminal s' \<in> set (Terminals cfg)"
    "SerialNumber (ss_Terminal s) \<noteq> SerialNumber (ss_Terminal s')"
    using restore_decision_Some(1) [OF assms(2)] restore_decision_Some(1) [OF assms(3)] assms(4)
      terminal_by_serial [OF assms(1)] by auto
  then show ?thesis using assms(1) by (auto simp: config_ok_def distinct_map inj_on_def)
qed

lemma restore_all_entry:
  assumes cfg: "config_ok (se_config E)" and dec: "restore_decision (se_config E) now x = Some s"
    and run: "mapS (restore_one E now) stored w = (Inr (), w')" and uniq: "unique_key ps_TerminalSerialNumber stored"
    and x: "x \<in> set stored \<or> w_entries w (PushSDKSerial (ss_Terminal s)) = Some s \<and>
      (\<forall>y \<in> set stored. ps_TerminalSerialNumber y \<noteq> ps_TerminalSerialNumber x)"
  shows "w_entries w' (PushSDKSerial (ss_Terminal s)) = Some s"
  using run uniq x
proof (induction stored arbitrary: w)
  case Nil
  then show ?case by (simp add: svc_Inr)
next
  case (Cons y ys)
  from Cons.prems(1) obtain w1 where 1: "restore_one E now y w = (Inr (), w1)"
    and rest: "mapS (restore_one E now) ys w1 = (Inr (), w')" by (auto simp: svc_Inr)
  note e = restore_one_entries [OF 1]
  have u: "unique_key ps_TerminalSerialNumber ys" "\<forall>z \<in> set ys. ps_TerminalSerialNumber z \<noteq> ps_TerminalSerialNumber y"
    using Cons.prems(2) by (simp_all add: unique_key_def) (metis imageI)
  show ?case
  proof (cases "y = x")
    case True
    with e dec u(2) show ?thesis by (intro Cons.IH [OF rest u(1)]) simp
  next
    case False
    with Cons.prems(3) u(2) have ne: "ps_TerminalSerialNumber y \<noteq> ps_TerminalSerialNumber x" by fastforce
    then have "w_entries w1 (PushSDKSerial (ss_Terminal s)) = w_entries w (PushSDKSerial (ss_Terminal s))"
      using e restored_apart [OF cfg _ dec ne, of now] by (cases "restore_decision (se_config E) now y") fastforce+
    with False Cons.prems(3) show ?thesis by (intro Cons.IH [OF rest u(1)]) auto
  qed
qed

text \<open>A new process holds, offline, every authenticated session whose checkpoint it finds.\<close>

lemma RestoreSessions_session:
  assumes cfg: "config_ok (se_config E)" and t: "t \<in> set (Terminals (se_config E))"
    and ok: "session_ok (se_config E) (PushSDKSerial t) s" and auth: "ss_Authenticated s"
    and cp: "checkpoint (w_db w) (SerialNumber t) = Some (stored_session (PersistentState s))"
    and uniq: "unique_key ps_TerminalSerialNumber (db_sessions (w_db w))"
    and run: "RestoreSessions E w = (Inr (), w')"
  shows "w_entries w' (PushSDKSerial t) = Some (offline_copy s)"
proof -
  have "TerminalByPushSDKSerial (se_config E) (PushSDKSerial t) = Some t" using terminal_by_push_serial [OF cfg] t by simp
  with ok have st: "ss_Terminal s = t" by (simp add: session_ok_def)
  from run obtain w1 w2 where m: "mapS (restore_one E (se_host_clock E (w_tick w))) (PushSDKSessions (w_db w)) w1 = (Inr (), w2)"
    "w_entries w' = w_entries w2" by (auto simp: RestoreSessions_def svc_Inr)
  have "stored_session (PersistentState s) \<in> set (PushSDKSessions (w_db w))"
    using cp by (auto simp: checkpoint_def PushSDKSessions_def dest: select_row_Some)
  moreover have "restore_decision (se_config E) (se_host_clock E (w_tick w)) (stored_session (PersistentState s)) = Some (offline_copy s)"
    using restored_proof [OF ok auth cfg] by blast
  ultimately have "w_entries w2 (PushSDKSerial (ss_Terminal (offline_copy s))) = Some (offline_copy s)"
    using uniq by (intro restore_all_entry [OF cfg _ m(1)]) (auto simp: PushSDKSessions_def unique_key_sort)
  with m(2) st show ?thesis by (simp add: offline_copy_def)
qed

lemma RestoreSessions_succeeds:
  assumes "\<forall>n. \<not> se_db_fault E n"
  shows "\<exists>w'. RestoreSessions E w = (Inr (), w')"
proof -
  have "\<exists>w'. restore_one E now x w = (Inr (), w')" for now x w
    using assms by (auto simp: restore_one_def deleteCheckpoint_def run_exec_Inr svc_Inr split: option.splits)
  then have "\<exists>w'. mapS (restore_one E now) stored w = (Inr (), w')" for now stored w
    by (induction stored arbitrary: w) (auto simp: svc_Inr, meson)
  then show ?thesis using assms by (auto simp: RestoreSessions_def svc_Inr run_tx_Inr)
qed

text \<open>A request of an authenticated session is performed exactly when it proves the challenge.\<close>

lemma handle_session:
  assumes "action_requires_proof action" "w_entries w (PushSDKSerial t) = Some s" "ss_Authenticated s"
  shows "handle E t action rq w =
    (if rq_CustomAuth rq = expectedCustomAuth t (ss_Salt s) (ss_NextChallenge s)
     then exchange E t action rq (rq_Body rq) s w else (Inl (invalidSession ''custom_auth_mismatch''), w))"
  using assms by (auto simp: handle_def action_requires_proof_def authenticated_def Get_def constantTimeEqual_def failS_def)

section \<open>Routes\<close>


lemma split_on_parts: "p \<in> set (split_on c s) \<Longrightarrow> c \<notin> set p"
  by (induction s arbitrary: p) (auto split: if_splits list.splits)

definition route_parts :: "string \<Rightarrow> string \<Rightarrow> string \<Rightarrow> string list" where
  "route_parts pre serial action =
     [pre, ''iot'', serial, ''global'', ''0-global'', ''model'', ''service'', ''operate'', ''PUSH'', action]"

lemma parseRoute_exact:
  "parseRoute path = Some (serial, action) \<longleftrightarrow>
     serial \<noteq> [] \<and> action \<noteq> [] \<and> CHR ''/'' \<notin> set serial \<and> CHR ''/'' \<notin> set action \<and>
     (\<exists>pre. CHR ''/'' \<notin> set pre \<and> path = join_with (CHR ''/'') (route_parts pre serial action))"
proof
  assume r: "parseRoute path = Some (serial, action)"
  let ?ps = "split_on (CHR ''/'') path"
  from r have len: "length ?ps = 10" by (auto simp: parseRoute_def Let_def split: if_splits)
  then obtain p0 p1 p2 p3 p4 p5 p6 p7 p8 p9 where e: "?ps = [p0, p1, p2, p3, p4, p5, p6, p7, p8, p9]"
    by (auto simp: numeral_eq_Suc length_Suc_conv)
  with r have ps: "?ps = route_parts (?ps ! 0) serial action" and ne: "serial \<noteq> []" "action \<noteq> []"
    by (auto simp: parseRoute_def Let_def route_parts_def split: if_splits)
  from ps have "path = join_with (CHR ''/'') (route_parts (?ps ! 0) serial action)" using join_split by metis
  moreover have "CHR ''/'' \<notin> set p" if "p \<in> set (route_parts (?ps ! 0) serial action)" for p
    using that ps split_on_parts by metis
  ultimately show "serial \<noteq> [] \<and> action \<noteq> [] \<and> CHR ''/'' \<notin> set serial \<and> CHR ''/'' \<notin> set action \<and>
     (\<exists>pre. CHR ''/'' \<notin> set pre \<and> path = join_with (CHR ''/'') (route_parts pre serial action))"
    using ne by (auto simp: route_parts_def)
next
  assume "serial \<noteq> [] \<and> action \<noteq> [] \<and> CHR ''/'' \<notin> set serial \<and> CHR ''/'' \<notin> set action \<and>
     (\<exists>pre. CHR ''/'' \<notin> set pre \<and> path = join_with (CHR ''/'') (route_parts pre serial action))"
  then obtain pre where ne: "serial \<noteq> []" "action \<noteq> []"
    and ns: "\<forall>p \<in> set (route_parts pre serial action). CHR ''/'' \<notin> set p"
    and path: "path = join_with (CHR ''/'') (route_parts pre serial action)"
    by (auto simp: route_parts_def)
  have "split_on (CHR ''/'') path = route_parts pre serial action"
    unfolding path by (rule split_join [OF _ ns]) (simp add: route_parts_def)
  with ne show "parseRoute path = Some (serial, action)"
    by (simp add: parseRoute_def Let_def route_parts_def)
qed


declare fst_live [simp del]

end
