(* ===== verification/Migrations.thy ===== *)
theory Migrations
  imports GoCrypto Database
begin

text \<open>
  Bringing the database to the program's schema (\<open>internal/store/store.go\<close>, \<open>Migrate\<close>): an empty database gets the
  canonical schema at once, one with a history the scripts it has not seen, and a script that changed
  after it was applied stops the start. What a script does is a parameter; the registry of applied scripts
  is modelled as it is kept, without the time column nothing reads.
\<close>

section \<open>Files\<close>

record migrationFile =
  mf_name :: string
  mf_contents :: bytes
  mf_checksum :: string

datatype mig_dir = Legacy | Forward

text \<open>
  The files below the migrations directory, what executing a script does to the tables, whether the
  terminals table exists, and where the database fails: at the registry, during the check of the
  canonical schema, or with a script of the given name.
\<close>

record 's mig_env =
  me_schema :: "bytes option"
  me_ReadDir :: "mig_dir \<Rightarrow> (string \<times> bool) list option"
  me_ReadFile :: "mig_dir \<Rightarrow> string \<Rightarrow> bytes option"
  me_Exec :: "bytes \<Rightarrow> 's \<Rightarrow> 's option"
  me_terminals :: "'s \<Rightarrow> bool"
  me_registry_fault :: bool
  me_baseline_fault :: bool
  me_fault :: "string \<Rightarrow> bool"

record 's mig_state =
  mg_registry :: "(string \<times> string) list"
  mg_tables :: 's

definition schemaBaselineMigration :: string where
  "schemaBaselineMigration = ''schema-baseline-2026-09-02''"

definition migrationFiles :: "(string \<times> bool) list \<Rightarrow> string list" where
  "migrationFiles entries = sort (map fst (filter (\<lambda>(name, isDir). \<not> isDir \<and> has_suffix ''.sql'' name) entries))"

definition script_checksum :: "bytes \<Rightarrow> string" where
  "script_checksum contents = hex_encode (sha256 contents)"

definition load_file :: "'s mig_env \<Rightarrow> mig_dir \<Rightarrow> string \<Rightarrow> migrationFile list \<Rightarrow> migrationFile list result" where
  "load_file V dir name files =
     bindE (someE (ErrNew ''read migration'') (me_ReadFile V dir name)) (\<lambda>contents.
       Inr (files @ [\<lparr> mf_name = name, mf_contents = contents, mf_checksum = script_checksum contents \<rparr>]))"

definition loadMigrationFiles :: "'s mig_env \<Rightarrow> mig_dir \<Rightarrow> migrationFile list result" where
  "loadMigrationFiles V dir =
     bindE (someE (ErrNew ''read migrations directory'') (me_ReadDir V dir)) (\<lambda>entries.
       foldE (load_file V dir) (migrationFiles entries) [])"

section \<open>Applying them\<close>

text \<open>\<open>INSERT INTO schema_migrations\<close>: the name is the key.\<close>

definition record_migration :: "string \<times> string \<Rightarrow> (string \<times> string) list \<Rightarrow> (string \<times> string) list result" where
  "record_migration entry registry =
     bindE (guardE (fst entry \<notin> set (map fst registry)) (ErrConstraint ''schema_migrations'')) (\<lambda>_. Inr (registry @ [entry]))"

definition canonical_schema :: "'s mig_env \<Rightarrow> bytes \<Rightarrow> migrationFile list \<Rightarrow> 's mig_state \<Rightarrow> 's mig_state result" where
  "canonical_schema V schema forwardFiles s =
     bindE (someE (ErrNew ''create canonical schema'') (me_Exec V schema (mg_tables s))) (\<lambda>tables.
     bindE (foldE record_migration
              ((schemaBaselineMigration, script_checksum schema) # map (\<lambda>m. (mf_name m, mf_checksum m)) forwardFiles)
              (mg_registry s)) (\<lambda>registry.
       Inr \<lparr> mg_registry = registry, mg_tables = tables \<rparr>))"

definition ensureCanonicalSchema ::
    "'s mig_env \<Rightarrow> bytes \<Rightarrow> migrationFile list \<Rightarrow> 's mig_state \<Rightarrow> (bool \<times> 's mig_state) result" where
  "ensureCanonicalSchema V schema forwardFiles s =
     bindE (guardE (\<not> me_baseline_fault V) ErrDatabase) (\<lambda>_.
     if map_of (mg_registry s) schemaBaselineMigration \<noteq> None then Inr (True, s)
     else if mg_registry s \<noteq> [] then Inr (False, s)
     else bindE (guardE (\<not> me_terminals V (mg_tables s))
                   (ErrNew ''database has terminal tables but no recorded migration history'')) (\<lambda>_.
          bindE (canonical_schema V schema forwardFiles s) (\<lambda>s1. Inr (True, s1))))"

text \<open>Each script and its record are one transaction; those before a failure stay.\<close>

fun applyMigrationFiles :: "'s mig_env \<Rightarrow> migrationFile list \<Rightarrow> 's mig_state \<Rightarrow> unit result \<times> 's mig_state" where
  "applyMigrationFiles V [] s = (Inr (), s)"
| "applyMigrationFiles V (m # files) s =
     (if me_fault V (mf_name m) then (Inl ErrDatabase, s)
      else case map_of (mg_registry s) (mf_name m) of
             Some recorded \<Rightarrow>
               if recorded \<noteq> mf_checksum m then (Inl (ErrNew ''migration has changed after application''), s)
               else applyMigrationFiles V files s
           | None \<Rightarrow>
               (case me_Exec V (mf_contents m) (mg_tables s) of
                  None \<Rightarrow> (Inl (ErrNew ''apply migration''), s)
                | Some tables \<Rightarrow>
                    applyMigrationFiles V files
                      (s\<lparr>mg_tables := tables, mg_registry := mg_registry s @ [(mf_name m, mf_checksum m)]\<rparr>)))"

definition Migrate :: "'s mig_env \<Rightarrow> 's mig_state \<Rightarrow> unit result \<times> 's mig_state" where
  "Migrate V s =
     (case bindE (someE (ErrNew ''read canonical schema'') (me_schema V)) (\<lambda>schema.
           bindE (loadMigrationFiles V Legacy) (\<lambda>legacyFiles.
           bindE (loadMigrationFiles V Forward) (\<lambda>forwardFiles.
           bindE (guardE (\<not> me_registry_fault V) ErrDatabase) (\<lambda>_.
           bindE (ensureCanonicalSchema V schema forwardFiles s) (\<lambda>(baselineApplied, s1).
             Inr (if baselineApplied then [] else legacyFiles, forwardFiles, s1)))))) of
        Inl e \<Rightarrow> (Inl e, s)
      | Inr (legacyFiles, forwardFiles, s1) \<Rightarrow>
          (case applyMigrationFiles V legacyFiles s1 of
             (Inl e, s2) \<Rightarrow> (Inl e, s2)
           | (Inr _, s2) \<Rightarrow> applyMigrationFiles V forwardFiles s2))"

section \<open>What has been applied\<close>

definition recorded :: "'s mig_state \<Rightarrow> migrationFile \<Rightarrow> bool" where
  "recorded s m \<longleftrightarrow> map_of (mg_registry s) (mf_name m) = Some (mf_checksum m)"

fun run_scripts :: "'s mig_env \<Rightarrow> bytes list \<Rightarrow> 's \<Rightarrow> 's option" where
  "run_scripts V [] t = Some t"
| "run_scripts V (x # xs) t = Option.bind (me_Exec V x t) (run_scripts V xs)"

definition unseen :: "'s mig_state \<Rightarrow> migrationFile list \<Rightarrow> bytes list" where
  "unseen s files = map mf_contents (filter (\<lambda>m. map_of (mg_registry s) (mf_name m) = None) files)"

lemma registry_grows: "applyMigrationFiles V files s = (r, s') \<Longrightarrow> \<exists>added. mg_registry s' = mg_registry s @ added"
  by (induction V files s arbitrary: s' rule: applyMigrationFiles.induct) (auto split: if_splits option.splits)

lemma recorded_append: "recorded s m \<Longrightarrow> mg_registry s' = mg_registry s @ added \<Longrightarrow> recorded s' m"
  by (auto simp: recorded_def map_add_def)

lemma recorded_kept: "applyMigrationFiles V files s = (r, s') \<Longrightarrow> recorded s m \<Longrightarrow> recorded s' m"
  using registry_grows recorded_append by metis

lemma apply_Cons:
  assumes "applyMigrationFiles V (m # files) s = (Inr u, s')"
  obtains s1 where "applyMigrationFiles V files s1 = (Inr u, s')" "recorded s1 m"
    "if map_of (mg_registry s) (mf_name m) = None
     then \<exists>t. me_Exec V (mf_contents m) (mg_tables s) = Some t \<and>
       s1 = s\<lparr>mg_tables := t, mg_registry := mg_registry s @ [(mf_name m, mf_checksum m)]\<rparr>
     else s1 = s"
  using assms by (auto simp: recorded_def map_add_def split: if_splits option.splits)

lemma apply_recorded: "applyMigrationFiles V files s = (Inr u, s') \<Longrightarrow> list_all (recorded s') files"
  by (induction files arbitrary: s) (auto elim!: apply_Cons dest: recorded_kept simp del: applyMigrationFiles.simps(2))

lemma apply_again:
  "list_all (recorded s) files \<Longrightarrow> list_all (\<lambda>m. \<not> me_fault V (mf_name m)) files \<Longrightarrow> applyMigrationFiles V files s = (Inr (), s)"
  by (induction files) (auto simp: recorded_def)

lemma apply_append: "applyMigrationFiles V files s = (Inr u, s1) \<Longrightarrow> applyMigrationFiles V (files @ rest) s = applyMigrationFiles V rest s1"
  by (induction files arbitrary: s) (auto split: if_splits option.splits)

lemma apply_unfaulted: "applyMigrationFiles V files s = (Inr u, s') \<Longrightarrow> list_all (\<lambda>m. \<not> me_fault V (mf_name m)) files"
  by (induction V files s arbitrary: s' rule: applyMigrationFiles.induct) (auto split: if_splits option.splits)

lemma unseen_recorded: "map_of (mg_registry s) (mf_name m) \<noteq> None \<Longrightarrow> unseen s (m # files) = unseen s files"
  by (simp add: unseen_def)

lemma unseen_other:
  "mf_name m \<notin> set (map mf_name files) \<Longrightarrow> unseen (s\<lparr>mg_tables := t, mg_registry := mg_registry s @ [(mf_name m, c)]\<rparr>) files = unseen s files"
  unfolding unseen_def by (intro arg_cong [where f = "map mf_contents"] filter_cong) (force simp: map_add_def split: option.splits)+

lemma apply_runs:
  "applyMigrationFiles V files s = (Inr u, s') \<Longrightarrow> distinct (map mf_name files) \<Longrightarrow>
     run_scripts V (unseen s files) (mg_tables s) = Some (mg_tables s')"
proof (induction files arbitrary: s)
  case (Cons m files)
  from Cons.prems(1) obtain s1 where 1: "applyMigrationFiles V files s1 = (Inr u, s')"
    "if map_of (mg_registry s) (mf_name m) = None
     then \<exists>t. me_Exec V (mf_contents m) (mg_tables s) = Some t \<and>
       s1 = s\<lparr>mg_tables := t, mg_registry := mg_registry s @ [(mf_name m, mf_checksum m)]\<rparr>
     else s1 = s" by (rule apply_Cons)
  from Cons.prems(2) have new: "mf_name m \<notin> set (map mf_name files)" by simp
  from Cons 1(1) have IH: "run_scripts V (unseen s1 files) (mg_tables s1) = Some (mg_tables s')" by simp
  show ?case
  proof (cases "map_of (mg_registry s) (mf_name m)")
    case None
    then have u: "unseen s (m # files) = mf_contents m # unseen s files" by (simp add: unseen_def)
    from None 1(2) obtain t where t: "me_Exec V (mf_contents m) (mg_tables s) = Some t"
      "s1 = s\<lparr>mg_tables := t, mg_registry := mg_registry s @ [(mf_name m, mf_checksum m)]\<rparr>" by auto
    with IH unseen_other [OF new, where s = s and t = t and c = "mf_checksum m"] show ?thesis by (simp add: u)
  next
    case (Some c)
    with 1(2) IH unseen_recorded [of s m files] show ?thesis by simp
  qed
qed (simp add: unseen_def)

lemma run_scripts_append: "run_scripts V (xs @ ys) t = Option.bind (run_scripts V xs t) (run_scripts V ys)"
  by (induction xs arbitrary: t) (auto split: Option.bind_split)

text \<open>The canonical schema records itself and every script it contains.\<close>

lemma record_all:
  "foldE record_migration es registry = Inr registry' \<Longrightarrow> registry' = registry @ es \<and> (distinct (map fst registry) \<longrightarrow> distinct (map fst registry'))"
proof (induction es arbitrary: registry)
  case (Cons e es)
  from Cons.prems obtain r where "record_migration e registry = Inr r" "foldE record_migration es r = Inr registry'" by (auto simp: bindE_eq_Inr)
  then have "fst e \<notin> set (map fst registry)" "foldE record_migration es (registry @ [e]) = Inr registry'"
    by (auto simp: record_migration_def [of e registry] res_simps)
  moreover from calculation(1) have "distinct (map fst registry) \<Longrightarrow> distinct (map fst (registry @ [e]))" by simp
  ultimately show ?case using Cons.IH [of "registry @ [e]"] by (metis append.assoc append_Cons append_Nil)
qed simp

lemma canonical_recorded:
  assumes "canonical_schema V schema files s = Inr s1" "mg_registry s = []"
  shows "me_Exec V schema (mg_tables s) = Some (mg_tables s1) \<and> map_of (mg_registry s1) schemaBaselineMigration \<noteq> None \<and>
    list_all (recorded s1) files"
proof -
  let ?es = "(schemaBaselineMigration, script_checksum schema) # map (\<lambda>m. (mf_name m, mf_checksum m)) files"
  from assms obtain registry where f: "foldE record_migration ?es [] = Inr registry" and s1: "mg_registry s1 = registry"
    and x: "me_Exec V schema (mg_tables s) = Some (mg_tables s1)"
    by (auto simp: canonical_schema_def res_simps simp del: foldE.simps)
  from record_all [OF f] have r: "registry = ?es" "distinct (map fst registry)" by auto
  then have "map_of registry (mf_name m) = Some (mf_checksum m)" if "m \<in> set files" for m
    using that by (intro map_of_is_SomeI) auto
  with x s1 r(1) show ?thesis by (auto simp: list_all_iff recorded_def)
qed

definition baseline :: "'s mig_state \<Rightarrow> bool" where
  "baseline s \<longleftrightarrow> map_of (mg_registry s) schemaBaselineMigration \<noteq> None"

text \<open>The scripts a start has to run.\<close>

definition due_scripts :: "bytes \<Rightarrow> migrationFile list \<Rightarrow> migrationFile list \<Rightarrow> 's mig_state \<Rightarrow> bytes list" where
  "due_scripts schema legacyFiles forwardFiles s =
     (if baseline s then unseen s forwardFiles
      else if mg_registry s = [] then [schema]
      else unseen s (legacyFiles @ forwardFiles))"

lemma Migrate_Inr:
  assumes "Migrate V s = (Inr u, s')"
  obtains schema legacyFiles forwardFiles s1 s2 where "me_schema V = Some schema"
    "loadMigrationFiles V Legacy = Inr legacyFiles" "loadMigrationFiles V Forward = Inr forwardFiles" "\<not> me_registry_fault V" "\<not> me_baseline_fault V"
    "if baseline s then s1 = s else if mg_registry s \<noteq> [] then s1 = s
     else \<not> me_terminals V (mg_tables s) \<and> canonical_schema V schema forwardFiles s = Inr s1"
    "applyMigrationFiles V (if baseline s \<or> mg_registry s = [] then [] else legacyFiles) s1 = (Inr (), s2)"
    "applyMigrationFiles V forwardFiles s2 = (Inr (), s')"
  using assms by (auto simp: Migrate_def ensureCanonicalSchema_def baseline_def res_simps split: sum.splits prod.splits if_splits)

lemma migrate_scripts:
  assumes "Migrate V s = (Inr u, s')" "me_schema V = Some schema" "loadMigrationFiles V Legacy = Inr legacyFiles"
    "loadMigrationFiles V Forward = Inr forwardFiles" "distinct (map mf_name (legacyFiles @ forwardFiles))"
  shows "run_scripts V (due_scripts schema legacyFiles forwardFiles s) (mg_tables s) = Some (mg_tables s')"
proof -
  from assms(1) obtain s1 s2 where
    1: "if baseline s then s1 = s else if mg_registry s \<noteq> [] then s1 = s
        else \<not> me_terminals V (mg_tables s) \<and> canonical_schema V schema forwardFiles s = Inr s1"
    and a: "applyMigrationFiles V (if baseline s \<or> mg_registry s = [] then [] else legacyFiles) s1 = (Inr (), s2)"
    and f: "applyMigrationFiles V forwardFiles s2 = (Inr (), s')"
    by (rule Migrate_Inr) (use assms(2-4) in auto)
  from assms(5) have d: "distinct (map mf_name legacyFiles)" "distinct (map mf_name forwardFiles)" by simp_all
  note run = apply_runs [OF f d(2)]
  consider (base) "baseline s" | (empty) "\<not> baseline s" "mg_registry s = []" | (history) "\<not> baseline s" "mg_registry s \<noteq> []" by blast
  then show ?thesis
  proof cases
    case base
    with 1 a run show ?thesis by (simp add: due_scripts_def)
  next
    case empty
    with 1 a have s2: "canonical_schema V schema forwardFiles s = Inr s2" by simp
    note c = canonical_recorded [OF s2 empty(2)]
    then have "unseen s2 forwardFiles = []" by (auto simp: unseen_def list_all_iff recorded_def)
    with run c empty show ?thesis by (simp add: due_scripts_def)
  next
    case history
    with 1 a have l: "applyMigrationFiles V legacyFiles s = (Inr (), s2)" by simp
    have "applyMigrationFiles V (legacyFiles @ forwardFiles) s = (Inr (), s')" using apply_append [OF l] f by simp
    from apply_runs [OF this assms(5)] history show ?thesis by (simp add: due_scripts_def)
  qed
qed

lemma migrate_again:
  assumes "Migrate V s = (Inr u, s')"
  shows "Migrate V s' = (Inr (), s')"
proof -
  from assms obtain schema legacyFiles forwardFiles s1 s2 where ld: "me_schema V = Some schema"
    "loadMigrationFiles V Legacy = Inr legacyFiles" "loadMigrationFiles V Forward = Inr forwardFiles" "\<not> me_registry_fault V" "\<not> me_baseline_fault V"
    and 1: "if baseline s then s1 = s else if mg_registry s \<noteq> [] then s1 = s
        else \<not> me_terminals V (mg_tables s) \<and> canonical_schema V schema forwardFiles s = Inr s1"
    and a: "applyMigrationFiles V (if baseline s \<or> mg_registry s = [] then [] else legacyFiles) s1 = (Inr (), s2)"
    and f: "applyMigrationFiles V forwardFiles s2 = (Inr (), s')" by (rule Migrate_Inr)
  let ?legacy = "if baseline s' then [] else legacyFiles"
  note unf = apply_unfaulted [OF f]
  have grows: "\<exists>added. mg_registry s' = mg_registry s1 @ added"
    using registry_grows [OF a] registry_grows [OF f] by auto
  have some: "baseline s' \<or> mg_registry s' \<noteq> [] \<and> \<not> baseline s \<and> mg_registry s \<noteq> []"
  proof (cases "baseline s1")
    case True
    with grows show ?thesis by (auto simp: baseline_def map_add_def split: option.splits)
  next
    case False
    with 1 canonical_recorded [of V schema forwardFiles s s1] have "s1 = s" "mg_registry s \<noteq> []" by (auto simp: baseline_def split: if_splits)
    with False grows show ?thesis by auto
  qed
  have e: "ensureCanonicalSchema V schema forwardFiles s' = Inr (baseline s', s')"
    using ld some by (auto simp: ensureCanonicalSchema_def baseline_def)
  have "applyMigrationFiles V ?legacy s' = (Inr (), s')"
  proof (cases "baseline s'")
    case False
    with some a have l: "applyMigrationFiles V legacyFiles s1 = (Inr (), s2)" by simp
    from recorded_kept [OF f] apply_recorded [OF l] have "list_all (recorded s') legacyFiles" by (auto simp: list_all_iff)
    from apply_again [OF this apply_unfaulted [OF l]] False show ?thesis by simp
  qed simp
  moreover have "applyMigrationFiles V forwardFiles s' = (Inr (), s')" by (rule apply_again [OF apply_recorded [OF f] unf])
  ultimately show ?thesis using ld e by (simp add: Migrate_def)
qed

lemma migrate_recorded:
  assumes "Migrate V s = (Inr u, s')" "me_schema V = Some schema" "loadMigrationFiles V Legacy = Inr legacyFiles"
    "loadMigrationFiles V Forward = Inr forwardFiles"
  shows "list_all (recorded s') forwardFiles \<and> (baseline s' \<or> list_all (recorded s') legacyFiles) \<and>
    (\<forall>m \<in> set forwardFiles. map_of (mg_registry s) (mf_name m) \<in> {None, Some (mf_checksum m)})"
proof -
  from assms(1) obtain s1 s2 where
    1: "if baseline s then s1 = s else if mg_registry s \<noteq> [] then s1 = s
        else \<not> me_terminals V (mg_tables s) \<and> canonical_schema V schema forwardFiles s = Inr s1"
    and a: "applyMigrationFiles V (if baseline s \<or> mg_registry s = [] then [] else legacyFiles) s1 = (Inr (), s2)"
    and f: "applyMigrationFiles V forwardFiles s2 = (Inr (), s')"
    by (rule Migrate_Inr) (use assms(2-4) in auto)
  have fw: "list_all (recorded s') forwardFiles" by (rule apply_recorded [OF f])
  obtain added where g: "mg_registry s' = mg_registry s1 @ added"
    using registry_grows [OF a] registry_grows [OF f] by auto
  have "baseline s' \<or> list_all (recorded s') legacyFiles"
  proof (cases "baseline s1")
    case True
    with g show ?thesis by (auto simp: baseline_def map_add_def split: option.splits)
  next
    case False
    with 1 canonical_recorded [of V schema forwardFiles s s1] have "\<not> baseline s" "mg_registry s \<noteq> []" by (auto simp: baseline_def split: if_splits)
    with a have "list_all (recorded s2) legacyFiles" by (auto dest: apply_recorded)
    with recorded_kept [OF f] show ?thesis by (auto simp: list_all_iff)
  qed
  moreover have "map_of (mg_registry s) (mf_name m) \<in> {None, Some (mf_checksum m)}" if m: "m \<in> set forwardFiles" for m
  proof (cases "mg_registry s = []")
    case False
    with 1 have "s1 = s" by (auto split: if_splits)
    with g fw m show ?thesis
      by (cases "map_of (mg_registry s) (mf_name m)") (auto simp: list_all_iff recorded_def map_add_def)
  qed simp
  ultimately show ?thesis using fw by blast
qed

section \<open>The property\<close>

text \<open>
  C39. A successful migration leaves every current script recorded with its checksum and, without the
  canonical baseline, every older one too; it ran exactly the scripts the database had not seen, in order, on an empty
  database only the canonical schema; no script it had seen before has changed since; and
  migrating again succeeds and does nothing.
\<close>

theorem migrate_once:
  assumes "Migrate V s = (Inr u, s')" "me_schema V = Some schema" "loadMigrationFiles V Legacy = Inr legacyFiles"
    "loadMigrationFiles V Forward = Inr forwardFiles" "distinct (map mf_name (legacyFiles @ forwardFiles))"
  shows "list_all (recorded s') forwardFiles \<and> (baseline s' \<or> list_all (recorded s') legacyFiles) \<and>
    run_scripts V (due_scripts schema legacyFiles forwardFiles s) (mg_tables s) = Some (mg_tables s') \<and>
    (\<forall>m \<in> set forwardFiles. map_of (mg_registry s) (mf_name m) \<in> {None, Some (mf_checksum m)}) \<and>
    Migrate V s' = (Inr (), s')"
  using migrate_recorded [OF assms(1-4)] migrate_scripts [OF assms] migrate_again [OF assms(1)] by blast

definition sample_migrations :: "bytes list mig_env" where
  "sample_migrations = \<lparr> me_schema = Some ''create'',
     me_ReadDir = (\<lambda>dir. Some (case dir of Legacy \<Rightarrow> [(''001.sql'', False)] | Forward \<Rightarrow> [(''README.md'', False), (''012.sql'', False), (''011.sql'', False)])),
     me_ReadFile = (\<lambda>dir name. Some name), me_Exec = (\<lambda>x t. Some (t @ [x])),
     me_terminals = (\<lambda>t. t \<noteq> []), me_registry_fault = False, me_baseline_fault = False, me_fault = (\<lambda>_. False) \<rparr>"

definition sample_file :: "string \<Rightarrow> migrationFile" where
  "sample_file name = \<lparr> mf_name = name, mf_contents = name, mf_checksum = script_checksum name \<rparr>"

text \<open>A database that has the older script and the first of the current ones.\<close>

definition old_state :: "bytes list mig_state" where
  "old_state = \<lparr> mg_registry = [(''001.sql'', script_checksum ''001.sql''), (''011.sql'', script_checksum ''011.sql'')], mg_tables = [''001.sql'', ''011.sql''] \<rparr>"

lemma sample_names:
  "migrationFiles [(''001.sql'', False)] = [''001.sql'']"
  "migrationFiles [(''README.md'', False), (''012.sql'', False), (''011.sql'', False)] = [''011.sql'', ''012.sql'']"
  by code_simp+

lemma sample_files:
  "loadMigrationFiles sample_migrations Legacy = Inr [sample_file ''001.sql'']"
  "loadMigrationFiles sample_migrations Forward = Inr [sample_file ''011.sql'', sample_file ''012.sql'']"
  by (simp_all add: loadMigrationFiles_def sample_migrations_def sample_names load_file_def sample_file_def)

lemma sample_migrated: "\<exists>s'. Migrate sample_migrations old_state = (Inr (), s')"
  by (simp add: Migrate_def sample_files ensureCanonicalSchema_def schemaBaselineMigration_def)
    (simp add: sample_migrations_def old_state_def sample_file_def)

theorem migrate_once_witness:
  "\<exists>s'. Migrate sample_migrations old_state = (Inr (), s') \<and> Migrate sample_migrations s' = (Inr (), s') \<and>
     mg_tables s' = [''001.sql'', ''011.sql'', ''012.sql'']"
proof -
  obtain s' where m: "Migrate sample_migrations old_state = (Inr (), s')" using sample_migrated by blast
  have "me_schema sample_migrations = Some ''create''" by (simp add: sample_migrations_def)
  from migrate_once [OF m this sample_files] have
    "run_scripts sample_migrations (due_scripts ''create'' [sample_file ''001.sql''] [sample_file ''011.sql'', sample_file ''012.sql''] old_state)
       (mg_tables old_state) = Some (mg_tables s')" "Migrate sample_migrations s' = (Inr (), s')"
    by (simp_all add: sample_file_def)
  with m show ?thesis
    by (auto simp: due_scripts_def unseen_def baseline_def old_state_def sample_file_def schemaBaselineMigration_def)
      (simp add: sample_migrations_def)
qed

end
