(* ===== verification/Deliveries.thy ===== *)
theory Deliveries
  imports EventStore
begin

text \<open>
  The delivery outbox (\<open>internal/store/event_deliveries.go\<close>, \<open>event_attachments.go\<close>): the routes
  of the terminals, the two leased queues of deliveries and attachment receipts the workers draw
  from, and the administrator's retries. Each operation is one transaction at the database time
  \<open>now\<close>. The URL functions of \<open>net/url\<close> are arguments.
\<close>

section \<open>Routes\<close>

record DeliveryRoute =
  rt_TerminalSerialNumber :: string
  rt_EndpointURL :: string
  rt_SigningKeyID :: string
  rt_Enabled :: bool

definition ErrDeliveryRouteBusy :: go_error where
  "ErrDeliveryRouteBusy = ErrNew ''pending deliveries must finish before changing the endpoint or key''"

definition ErrDeliveryRouteUnfinished :: go_error where
  "ErrDeliveryRouteUnfinished = ErrNew ''finish or resolve unfinished deliveries before removing this destination''"

definition activityForRoute :: "string \<Rightarrow> int \<Rightarrow> activity" where
  "activityForRoute serial actor =
     new_activity ''admin.event_delivery_route_saved'' serial ''event delivery configuration saved''
       [(''adminUserId'', FInt actor)]"

definition activityForRetry :: "string \<Rightarrow> int \<Rightarrow> int \<Rightarrow> activity" where
  "activityForRetry serial i actor =
     new_activity ''admin.event_delivery_retried'' serial ''failed event delivery queued for retry''
       [(''deliveryId'', FInt i), (''adminUserId'', FInt actor)]"

definition in_progress :: "string \<Rightarrow> bool" where
  "in_progress status \<longleftrightarrow> status = ''pending'' \<or> status = ''sending''"

text \<open>A delivery or its attachment receipt is in progress.\<close>

definition delivery_in_progress :: "db \<Rightarrow> delivery_row \<Rightarrow> bool" where
  "delivery_in_progress d r \<longleftrightarrow>
     in_progress (dl_status r) \<or>
     exists_row (\<lambda>a. ad_event_delivery_id a = dl_id r \<and> in_progress (ad_status a)) (db_attachments d)"

definition route_blocked :: "db \<Rightarrow> DeliveryRoute \<Rightarrow> bool" where
  "route_blocked d route \<longleftrightarrow>
     exists_row (\<lambda>r. dr_terminal_serial_number r = rt_TerminalSerialNumber route \<and>
         (dr_endpoint_url r \<noteq> rt_EndpointURL route \<or> dr_signing_key_id r \<noteq> rt_SigningKeyID route)) (db_routes d) \<and>
     exists_row (\<lambda>x. dl_terminal_serial_number x = rt_TerminalSerialNumber route \<and> delivery_in_progress d x) (db_deliveries d)"

definition put_route :: "route_row \<Rightarrow> route_row list \<Rightarrow> route_row list" where
  "put_route r rows =
     (if exists_row (\<lambda>x. dr_terminal_serial_number x = dr_terminal_serial_number r) rows
      then update_where (\<lambda>x. dr_terminal_serial_number x = dr_terminal_serial_number r) (\<lambda>_. r) rows
      else rows @ [r])"

definition SaveDeliveryRoute :: "instant \<Rightarrow> DeliveryRoute \<Rightarrow> int \<Rightarrow> db \<Rightarrow> db result" where
  "SaveDeliveryRoute now route actor d =
     bindE (guardE (registered d (rt_TerminalSerialNumber route)) ErrNoRows) (\<lambda>_.
     bindE (guardE (\<not> route_blocked d route) ErrDeliveryRouteBusy) (\<lambda>_.
     bindE (guardE (pg_text (rt_EndpointURL route) \<and> pg_text (rt_SigningKeyID route) \<and>
                    exists_row (\<lambda>u. au_id u = actor) (db_admin_users d))
              (ErrConstraint ''event_delivery_routes'')) (\<lambda>_.
     bindE (insertGatewayActivity now (activityForRoute (rt_TerminalSerialNumber route) actor)
              (d\<lparr>db_routes := put_route
                 \<lparr> dr_terminal_serial_number = rt_TerminalSerialNumber route, dr_endpoint_url = rt_EndpointURL route,
                   dr_signing_key_id = rt_SigningKeyID route, dr_enabled = rt_Enabled route,
                   dr_updated_at = now, dr_updated_by = actor \<rparr> (db_routes d)\<rparr>))
       (\<lambda>(stored, d1). Inr d1))))"

definition DeliveryRoutes :: "db \<Rightarrow> DeliveryRoute list" where
  "DeliveryRoutes d =
     map (\<lambda>r. \<lparr> rt_TerminalSerialNumber = dr_terminal_serial_number r, rt_EndpointURL = dr_endpoint_url r,
                rt_SigningKeyID = dr_signing_key_id r, rt_Enabled = dr_enabled r \<rparr>)
       (sort_key dr_terminal_serial_number (db_routes d))"

text \<open>A delivery or its attachment receipt still has to be delivered.\<close>

definition delivery_unfinished :: "db \<Rightarrow> delivery_row \<Rightarrow> bool" where
  "delivery_unfinished d r \<longleftrightarrow>
     dl_status r \<noteq> ''delivered'' \<or>
     exists_row (\<lambda>a. ad_event_delivery_id a = dl_id r \<and> ad_status a \<noteq> ''delivered'') (db_attachments d)"

definition DeleteDeliveryRoute :: "instant \<Rightarrow> string \<Rightarrow> int \<Rightarrow> db \<Rightarrow> db result" where
  "DeleteDeliveryRoute now serial actor d =
     bindE (guardE (registered d serial) ErrNoRows) (\<lambda>_.
     bindE (guardE (exists_row (\<lambda>r. dr_terminal_serial_number r = serial) (db_routes d)) ErrNoRows) (\<lambda>_.
     bindE (guardE (\<not> exists_row (\<lambda>x. dl_terminal_serial_number x = serial \<and> delivery_unfinished d x) (db_deliveries d))
              ErrDeliveryRouteUnfinished) (\<lambda>_.
     bindE (insertGatewayActivity now
              (new_activity ''admin.event_delivery_route_removed'' serial ''event delivery destination removed''
                 [(''adminUserId'', FInt actor)])
              (d\<lparr>db_routes := delete_where (\<lambda>r. dr_terminal_serial_number r = serial) (db_routes d)\<rparr>))
       (\<lambda>(stored, d1). Inr d1))))"

definition route_enabled :: "db \<Rightarrow> string \<Rightarrow> bool" where
  "route_enabled d serial = exists_row (\<lambda>r. dr_terminal_serial_number r = serial \<and> dr_enabled r) (db_routes d)"

section \<open>The delivery queue\<close>

record EventDelivery =
  ev_Attachment :: bool
  ev_ID :: int
  ev_DeviceEventID :: "int option"
  ev_RetainedEventID :: "int option"
  ev_BackfillID :: "int option"
  ev_TerminalSerialNumber :: string
  ev_EndpointURL :: string
  ev_SigningKeyID :: string
  ev_Status :: string
  ev_Attempts :: int
  ev_NextAttemptAt :: instant
  ev_LastHTTPStatus :: "int option"
  ev_LastError :: "string option"
  ev_CreatedAt :: instant
  ev_DeliveredAt :: "instant option"
  ev_Body :: bytes

definition zero_delivery :: EventDelivery where
  "zero_delivery = \<lparr> ev_Attachment = False, ev_ID = 0, ev_DeviceEventID = None, ev_RetainedEventID = None,
     ev_BackfillID = None, ev_TerminalSerialNumber = [], ev_EndpointURL = [], ev_SigningKeyID = [],
     ev_Status = [], ev_Attempts = 0, ev_NextAttemptAt = zero_time, ev_LastHTTPStatus = None,
     ev_LastError = None, ev_CreatedAt = zero_time, ev_DeliveredAt = None, ev_Body = [] \<rparr>"

definition delivery_item :: "delivery_row \<Rightarrow> EventDelivery" where
  "delivery_item r = zero_delivery\<lparr>ev_ID := dl_id r, ev_DeviceEventID := dl_device_event_id r,
     ev_RetainedEventID := dl_retained_event_id r, ev_BackfillID := dl_backfill_id r,
     ev_TerminalSerialNumber := dl_terminal_serial_number r, ev_EndpointURL := dl_endpoint_url r,
     ev_SigningKeyID := dl_signing_key_id r, ev_Attempts := dl_attempts r + 1, ev_Body := dl_request_body r\<rparr>"

text \<open>\<open>ORDER BY id DESC LIMIT limit OFFSET offset\<close>, with the number of all rows.\<close>

definition page_of :: "('r \<Rightarrow> int) \<Rightarrow> int \<Rightarrow> int \<Rightarrow> 'r list \<Rightarrow> 'r list" where
  "page_of k limit offset rows = take (nat limit) (drop (nat offset) (rev (sort_key k rows)))"

definition EventDeliveries :: "int \<Rightarrow> int \<Rightarrow> db \<Rightarrow> EventDelivery list \<times> int" where
  "EventDeliveries limit offset d =
     (map (\<lambda>r. (delivery_item r)\<lparr>ev_Status := dl_status r, ev_Attempts := dl_attempts r,
                 ev_NextAttemptAt := dl_next_attempt_at r, ev_LastHTTPStatus := dl_last_http_status r,
                 ev_LastError := dl_last_error r, ev_CreatedAt := dl_created_at r,
                 ev_DeliveredAt := dl_delivered_at r, ev_Body := []\<rparr>)
        (page_of dl_id limit offset (db_deliveries d)),
      int (length (db_deliveries d)))"

text \<open>A row is due: waiting and its time has come, or in flight and its lease has run out.\<close>

definition due :: "instant \<Rightarrow> string \<Rightarrow> instant \<Rightarrow> instant option \<Rightarrow> bool" where
  "due now status next_at lease \<longleftrightarrow>
     (status = ''pending'' \<and> next_at \<le> now) \<or>
     (status = ''sending'' \<and> (case lease of None \<Rightarrow> False | Some l \<Rightarrow> l \<le> now))"

definition delivery_due :: "instant \<Rightarrow> db \<Rightarrow> delivery_row \<Rightarrow> bool" where
  "delivery_due now d r \<longleftrightarrow>
     route_enabled d (dl_terminal_serial_number r) \<and>
     due now (dl_status r) (dl_next_attempt_at r) (dl_lease_until r)"

definition lease_time :: int where "lease_time = 60 * second"

definition first_by :: "('r \<Rightarrow> int) \<Rightarrow> ('r \<Rightarrow> bool) \<Rightarrow> 'r list \<Rightarrow> 'r option" where
  "first_by k p rows = select_row (\<lambda>_. True) (sort_key k (filter p rows))"

definition ClaimEventDelivery :: "instant \<Rightarrow> db \<Rightarrow> (EventDelivery option \<times> db) result" where
  "ClaimEventDelivery now d =
     (case first_by dl_id (delivery_due now d) (db_deliveries d) of
        None \<Rightarrow> Inr (None, d)
      | Some r \<Rightarrow>
          bindE (guardE (pg_integer (dl_attempts r + 1)) (ErrConstraint ''event_deliveries'')) (\<lambda>_.
            Inr (Some (delivery_item r),
                 d\<lparr>db_deliveries := update_where (\<lambda>x. dl_id x = dl_id r)
                     (\<lambda>x. x\<lparr>dl_status := ''sending'', dl_attempts := dl_attempts x + 1,
                            dl_lease_until := Some (now + lease_time)\<rparr>) (db_deliveries d)\<rparr>)))"

definition delivery_status_ok :: "string \<Rightarrow> bool" where
  "delivery_status_ok s \<longleftrightarrow> s \<in> set [''pending'', ''sending'', ''delivered'', ''failed'']"

definition null_if :: "'a \<Rightarrow> 'a \<Rightarrow> 'a option" where
  "null_if x y = (if x = y then None else Some x)"

definition result_ok :: "string \<Rightarrow> int \<Rightarrow> string \<Rightarrow> bool" where
  "result_ok status code failure \<longleftrightarrow> delivery_status_ok status \<and> pg_integer code \<and> pg_text failure"

definition FinishEventDelivery ::
    "instant \<Rightarrow> EventDelivery \<Rightarrow> string \<Rightarrow> int \<Rightarrow> string \<Rightarrow> instant \<Rightarrow> db \<Rightarrow> db result" where
  "FinishEventDelivery now x status code failure next_at d =
     (let owned = (\<lambda>r. dl_id r = ev_ID x \<and> dl_attempts r = ev_Attempts x \<and> dl_status r = ''sending'')
      in bindE (guardE (rows_affected owned (db_deliveries d) = 0 \<or> result_ok status code failure)
                  (ErrConstraint ''event_deliveries'')) (\<lambda>_.
         bindE (guardE (rows_affected owned (db_deliveries d) = 1)
                  (ErrNew ''event delivery lease is no longer owned'')) (\<lambda>_.
           Inr (d\<lparr>db_deliveries := update_where owned
             (\<lambda>r. r\<lparr>dl_status := status, dl_last_http_status := null_if code 0, dl_last_error := null_if failure [],
                    dl_next_attempt_at := pg_timestamp next_at, dl_lease_until := None,
                    dl_delivered_at := if status = ''delivered'' then Some now else None\<rparr>) (db_deliveries d)\<rparr>))))"

definition RetryEventDelivery :: "instant \<Rightarrow> int \<Rightarrow> int \<Rightarrow> db \<Rightarrow> db result" where
  "RetryEventDelivery now i actor d =
     bindE (someE ErrNoRows (select_row (\<lambda>r. dl_id r = i) (db_deliveries d))) (\<lambda>_.
     bindE (someE ErrNoRows (select_row (\<lambda>r. dl_id r = i \<and> dl_status r = ''failed'') (db_deliveries d))) (\<lambda>row.
     bindE (insertGatewayActivity now (activityForRetry (dl_terminal_serial_number row) i actor)
              (d\<lparr>db_deliveries := update_where (\<lambda>r. dl_id r = i \<and> dl_status r = ''failed'')
                 (\<lambda>r. r\<lparr>dl_status := ''pending'', dl_next_attempt_at := now, dl_last_error := None\<rparr>)
                 (db_deliveries d)\<rparr>))
       (\<lambda>(stored, d1). Inr d1)))"

section \<open>The attachment queue\<close>

text \<open>\<open>net/url\<close>: parsing, the path fields that the queue extends, and printing.\<close>

record 'u url_library =
  ul_Parse :: "string \<Rightarrow> 'u option"
  ul_Path :: "'u \<Rightarrow> string"
  ul_RawPath :: "'u \<Rightarrow> string"
  ul_with_path :: "string \<Rightarrow> string \<Rightarrow> 'u \<Rightarrow> 'u"
  ul_String :: "'u \<Rightarrow> string"

definition attachment_endpoint :: "'u url_library \<Rightarrow> string \<Rightarrow> string option" where
  "attachment_endpoint U url =
     map_option (\<lambda>u. ul_String U (ul_with_path U (ul_Path U u @ ''/attachments'')
         (if ul_RawPath U u \<noteq> [] then ul_RawPath U u @ ''/attachments'' else ul_RawPath U u) u)) (ul_Parse U url)"

text \<open>
  \<open>json.Unmarshal\<close> of an \<open>EventMessage\<close>; a time is its quoted RFC 3339 text, in the strict form: an
  hour of two digits, a fraction after a period and an offset within a day.
\<close>

definition strict_rfc3339 :: "string \<Rightarrow> bool" where
  "strict_rfc3339 s \<longleftrightarrow>
     take 1 (drop 12 s) \<noteq> '':'' \<and> take 1 (drop 19 s) \<noteq> '','' \<and>
     (has_suffix ''Z'' s \<or> take 2 (drop (length s - 5) s) \<noteq> ''24'' \<and> drop (length s - 2) s \<noteq> ''60'')"

definition json_time_value :: "string \<Rightarrow> json \<Rightarrow> go_time option option" where
  "json_time_value raw v =
     (if v = JNull then Some None
      else if 2 \<le> length raw \<and> hd raw = CHR 0x22 \<and> last raw = CHR 0x22
      then map_option Some (if strict_rfc3339 (butlast (tl raw)) then parse_rfc3339 (butlast (tl raw)) else None)
      else None)"

definition zero_EventMessage :: EventMessage where
  "zero_EventMessage = \<lparr> em_SchemaVersion = 0, em_Source = [], em_EventID = [], em_TerminalSerialNumber = [],
     em_PushSDKSerial = [], em_MajorEventType = 0, em_SubEventType = 0, em_EventState = None, em_OccurredAt = None,
     em_EmployeeNumber = None, em_EmployeeName = None, em_EventSerialNumber = None \<rparr>"

definition EventMessage_field :: "string \<Rightarrow> string \<Rightarrow> json \<Rightarrow> EventMessage \<Rightarrow> EventMessage option" where
  "EventMessage_field key raw v m =
     (if is_field ''schemaVersion'' key then map_option (\<lambda>x. m\<lparr>em_SchemaVersion := x\<rparr>) (json_val json_int (em_SchemaVersion m) v)
      else if is_field ''source'' key then map_option (\<lambda>x. m\<lparr>em_Source := x\<rparr>) (json_val json_string (em_Source m) v)
      else if is_field ''eventId'' key then map_option (\<lambda>x. m\<lparr>em_EventID := x\<rparr>) (json_val json_string (em_EventID m) v)
      else if is_field ''terminalSerialNumber'' key
        then map_option (\<lambda>x. m\<lparr>em_TerminalSerialNumber := x\<rparr>) (json_val json_string (em_TerminalSerialNumber m) v)
      else if is_field ''pushSdkSerial'' key then map_option (\<lambda>x. m\<lparr>em_PushSDKSerial := x\<rparr>) (json_val json_string (em_PushSDKSerial m) v)
      else if is_field ''majorEventType'' key then map_option (\<lambda>x. m\<lparr>em_MajorEventType := x\<rparr>) (json_val json_int (em_MajorEventType m) v)
      else if is_field ''subEventType'' key then map_option (\<lambda>x. m\<lparr>em_SubEventType := x\<rparr>) (json_val json_int (em_SubEventType m) v)
      else if is_field ''eventState'' key then map_option (\<lambda>x. m\<lparr>em_EventState := x\<rparr>) (json_ptr json_string v)
      else if is_field ''occurredAt'' key then map_option (\<lambda>x. m\<lparr>em_OccurredAt := x\<rparr>) (json_time_value raw v)
      else if is_field ''employeeNoString'' key then map_option (\<lambda>x. m\<lparr>em_EmployeeNumber := x\<rparr>) (json_ptr json_string v)
      else if is_field ''employeeName'' key then map_option (\<lambda>x. m\<lparr>em_EmployeeName := x\<rparr>) (json_ptr json_string v)
      else if is_field ''eventSerialNumber'' key then map_option (\<lambda>x. m\<lparr>em_EventSerialNumber := x\<rparr>) (json_ptr json_int v)
      else Some m)"

definition decode_event_message :: "bytes \<Rightarrow> EventMessage option" where
  "decode_event_message body = decode_document (json_struct EventMessage_field) zero_EventMessage body"

record AttachmentMessage =
  am_SchemaVersion :: int
  am_Kind :: string
  am_Source :: string
  am_EventID :: string
  am_TerminalSerialNumber :: string
  am_PushSDKSerial :: string
  am_AttachmentID :: string
  am_Availability :: string
  am_Reason :: "string option"
  am_Attachment :: "Attachment option"

definition encode_attachment :: "Attachment \<Rightarrow> string" where
  "encode_attachment a =
     json_object [(''contentType'', json_quote (at_ContentType a)), (''byteSize'', itoa (at_ByteSize a)),
       (''sha256'', json_quote (at_SHA256 a)), (''dataBase64'', json_quote (at_DataBase64 a))]"

definition encode_attachment_message :: "AttachmentMessage \<Rightarrow> bytes" where
  "encode_attachment_message m =
     json_object [(''schemaVersion'', itoa (am_SchemaVersion m)), (''kind'', json_quote (am_Kind m)),
       (''source'', json_quote (am_Source m)), (''eventId'', json_quote (am_EventID m)),
       (''terminalSerialNumber'', json_quote (am_TerminalSerialNumber m)),
       (''pushSdkSerial'', json_quote (am_PushSDKSerial m)), (''attachmentId'', json_quote (am_AttachmentID m)),
       (''availability'', json_quote (am_Availability m)), (''reason'', json_null_or json_quote (am_Reason m)),
       (''attachment'', json_null_or encode_attachment (am_Attachment m))]"

definition with_picture :: "picture \<Rightarrow> AttachmentMessage \<Rightarrow> AttachmentMessage" where
  "with_picture p m =
     (case p of
        Available a \<Rightarrow> m\<lparr>am_Attachment := Some a, am_Availability := ''available'', am_Reason := None\<rparr>
      | NotProvided \<Rightarrow> m\<lparr>am_Attachment := None, am_Availability := ''not_provided'', am_Reason := None\<rparr>
      | Unavailable reason \<Rightarrow> m\<lparr>am_Attachment := None, am_Availability := ''unavailable'', am_Reason := Some reason\<rparr>)"

definition attachment_base :: "EventMessage \<Rightarrow> AttachmentMessage" where
  "attachment_base event =
     \<lparr> am_SchemaVersion = 1, am_Kind = ''event_attachment'',
       am_Source = (if em_SchemaVersion event = 1 then ''pushsdk'' else em_Source event),
       am_EventID = em_EventID event, am_TerminalSerialNumber = em_TerminalSerialNumber event,
       am_PushSDKSerial = em_PushSDKSerial event, am_AttachmentID = ''Picture'',
       am_Availability = ''not_provided'', am_Reason = None, am_Attachment = None \<rparr>"

text \<open>The message of a receipt, from the parent's event and, for a live event, its archived payload.\<close>

definition attachment_message :: "library \<Rightarrow> delivery_row \<Rightarrow> db \<Rightarrow> AttachmentMessage result" where
  "attachment_message L parent d =
     bindE (someE (ErrNew ''json: cannot unmarshal event message'') (decode_event_message (dl_request_body parent))) (\<lambda>event.
     let message = attachment_base event
     in if am_Source message = ''pushsdk'' then
          bindE (someE ErrNoRows (select_row (\<lambda>e. dl_device_event_id parent = Some (de_id e)) (db_device_events d))) (\<lambda>e.
          bindE (someE (ErrNew ''cannot scan NULL into *string'') (de_payload_base64 e)) (\<lambda>payload.
            Inr (with_picture (DeliveryPicture L (de_data_format e) payload) message)))
        else Inr message)"

definition parent_of :: "db \<Rightarrow> attachment_row \<Rightarrow> delivery_row option" where
  "parent_of d a = select_row (\<lambda>r. dl_id r = ad_event_delivery_id a) (db_deliveries d)"

definition attachment_due :: "instant \<Rightarrow> db \<Rightarrow> attachment_row \<Rightarrow> bool" where
  "attachment_due now d a \<longleftrightarrow>
     (case parent_of d a of
        None \<Rightarrow> False
      | Some r \<Rightarrow> route_enabled d (dl_terminal_serial_number r) \<and> dl_status r = ''delivered'') \<and>
     due now (ad_status a) (ad_next_attempt_at a) (ad_lease_until a)"

definition materialize :: "library \<Rightarrow> delivery_row \<Rightarrow> attachment_row \<Rightarrow> db \<Rightarrow> attachment_row result" where
  "materialize L parent a d =
     (case ad_request_body a of
        Some body \<Rightarrow> Inr a
      | None \<Rightarrow>
          bindE (attachment_message L parent d) (\<lambda>m.
            Inr (a\<lparr>ad_request_body := Some (encode_attachment_message m), ad_availability := Some (am_Availability m),
                   ad_reason := am_Reason m\<rparr>)))"

definition AttachmentQueue_ClaimEventDelivery ::
    "library \<Rightarrow> 'u url_library \<Rightarrow> instant \<Rightarrow> db \<Rightarrow> (EventDelivery option \<times> db) result" where
  "AttachmentQueue_ClaimEventDelivery L U now d =
     (case first_by ad_id (attachment_due now d) (db_attachments d) of
        None \<Rightarrow> Inr (None, d)
      | Some a \<Rightarrow>
          bindE (someE ErrNoRows (parent_of d a)) (\<lambda>parent.
          bindE (someE (ErrNew ''parse endpoint'') (attachment_endpoint U (dl_endpoint_url parent))) (\<lambda>endpoint.
          bindE (materialize L parent a d) (\<lambda>a1.
          bindE (guardE (pg_integer (ad_attempts a + 1)) (ErrConstraint ''event_attachment_deliveries'')) (\<lambda>_.
            Inr (Some (zero_delivery\<lparr>ev_Attachment := True, ev_ID := ad_id a,
                     ev_TerminalSerialNumber := dl_terminal_serial_number parent, ev_EndpointURL := endpoint,
                     ev_SigningKeyID := dl_signing_key_id parent, ev_Attempts := ad_attempts a + 1,
                     ev_Body := (case ad_request_body a1 of Some body \<Rightarrow> body | None \<Rightarrow> [])\<rparr>),
                 d\<lparr>db_attachments := update_where (\<lambda>x. ad_id x = ad_id a)
                     (\<lambda>x. x\<lparr>ad_request_body := ad_request_body a1, ad_availability := ad_availability a1,
                            ad_reason := ad_reason a1, ad_status := ''sending'', ad_attempts := ad_attempts a + 1,
                            ad_lease_until := Some (now + lease_time)\<rparr>) (db_attachments d)\<rparr>))))))"

definition AttachmentQueue_FinishEventDelivery ::
    "instant \<Rightarrow> EventDelivery \<Rightarrow> string \<Rightarrow> int \<Rightarrow> string \<Rightarrow> instant \<Rightarrow> db \<Rightarrow> db result" where
  "AttachmentQueue_FinishEventDelivery now x status code failure next_at d =
     (let owned = (\<lambda>a. ad_id a = ev_ID x \<and> ad_attempts a = ev_Attempts x \<and> ad_status a = ''sending'')
      in bindE (guardE (rows_affected owned (db_attachments d) = 0 \<or> result_ok status code failure)
                  (ErrConstraint ''event_attachment_deliveries'')) (\<lambda>_.
         bindE (guardE (rows_affected owned (db_attachments d) = 1)
                  (ErrNew ''attachment delivery lease is no longer owned'')) (\<lambda>_.
           Inr (d\<lparr>db_attachments := update_where owned
             (\<lambda>a. a\<lparr>ad_status := status, ad_last_http_status := null_if code 0, ad_last_error := null_if failure [],
                    ad_next_attempt_at := pg_timestamp next_at, ad_lease_until := None,
                    ad_delivered_at := if status = ''delivered'' then Some now else None\<rparr>) (db_attachments d)\<rparr>))))"

record AttachmentDelivery = EventDelivery +
  ax_EventDeliveryID :: int
  ax_Availability :: "string option"
  ax_Reason :: "string option"

definition AttachmentDeliveries :: "int \<Rightarrow> int \<Rightarrow> db \<Rightarrow> AttachmentDelivery list \<times> int" where
  "AttachmentDeliveries limit offset d =
     (map (\<lambda>(a, parent). EventDelivery.extend
             (zero_delivery\<lparr>ev_ID := ad_id a, ev_TerminalSerialNumber := dl_terminal_serial_number parent,
                ev_EndpointURL := dl_endpoint_url parent, ev_Status := ad_status a, ev_Attempts := ad_attempts a,
                ev_NextAttemptAt := ad_next_attempt_at a, ev_LastHTTPStatus := ad_last_http_status a,
                ev_LastError := ad_last_error a, ev_CreatedAt := ad_created_at a, ev_DeliveredAt := ad_delivered_at a\<rparr>)
             (AttachmentDelivery.fields (ad_event_delivery_id a) (ad_availability a) (ad_reason a)))
        (page_of (\<lambda>(a, parent). ad_id a) limit offset
           (List.map_filter (\<lambda>a. map_option (Pair a) (parent_of d a)) (db_attachments d))),
      int (length (db_attachments d)))"

definition RetryAttachmentDelivery :: "instant \<Rightarrow> int \<Rightarrow> int \<Rightarrow> db \<Rightarrow> db result" where
  "RetryAttachmentDelivery now i actor d =
     bindE (someE ErrNoRows (obind (select_row (\<lambda>a. ad_id a = i) (db_attachments d)) (\<lambda>a.
        obind (parent_of d a) (\<lambda>r.
          if registered d (dl_terminal_serial_number r) then Some (dl_terminal_serial_number r) else None)))) (\<lambda>serial.
     bindE (guardE (exists_row (\<lambda>a. ad_id a = i \<and> ad_status a = ''failed'') (db_attachments d)) ErrNoRows) (\<lambda>_.
     bindE (insertGatewayActivity now
              (new_activity ''admin.attachment_delivery_retried'' serial ''failed attachment queued for retry''
                 [(''attachmentDeliveryId'', FInt i), (''adminUserId'', FInt actor)])
              (d\<lparr>db_attachments := update_where (\<lambda>a. ad_id a = i \<and> ad_status a = ''failed'')
                 (\<lambda>a. a\<lparr>ad_status := ''pending'', ad_next_attempt_at := now, ad_last_error := None\<rparr>)
                 (db_attachments d)\<rparr>))
       (\<lambda>(stored, d1). Inr d1)))"

end
