(* ===== verification/StoreReads.thy ===== *)
theory StoreReads
  imports Deliveries "HOL-Library.Multiset"
begin

text \<open>
  What the administration API reads from the store (\<open>internal/store/store.go\<close>,
  \<open>isapi_commands.go\<close>, \<open>access_event_sync.go\<close>): terminals with their latest synchronisation, the
  union of the live and the retained event archive with its filters and pages, payloads, commands
  and activities. A read is a function of the database. Where an \<open>ORDER BY\<close> leaves ties, the model
  fixes one of the orders the query may return.
\<close>

section \<open>Newest first\<close>

text \<open>\<open>ORDER BY k1 DESC, k2 DESC\<close> and a page of the result.\<close>

definition newest_first :: "('r \<Rightarrow> instant) \<Rightarrow> ('r \<Rightarrow> 'k :: linorder) \<Rightarrow> 'r list \<Rightarrow> 'r list" where
  "newest_first at k rows = rev (sort_key at (sort_key k rows))"

definition page_rows :: "int \<Rightarrow> int \<Rightarrow> 'r list \<Rightarrow> 'r list" where
  "page_rows limit offset rows = take (nat limit) (drop (nat offset) rows)"

section \<open>Synchronisation runs and terminals\<close>

record AccessEventSyncRun =
  sy_UUID :: string
  sy_TerminalSerialNumber :: string
  sy_CreatedByUsername :: string
  sy_Status :: string
  sy_SearchStartedAt :: "instant option"
  sy_SearchEndedAt :: "instant option"
  sy_TotalMatches :: "int option"
  sy_PagesCompleted :: int
  sy_RecordsImported :: int
  sy_RecordsDuplicate :: int
  sy_Failure :: "string option"
  sy_CreatedAt :: instant
  sy_CompletedAt :: "instant option"

definition run_view :: "sync_run_row \<Rightarrow> AccessEventSyncRun" where
  "run_view r =
     \<lparr> sy_UUID = sr_uuid r, sy_TerminalSerialNumber = sr_terminal_serial_number r,
       sy_CreatedByUsername = sr_created_by_username r, sy_Status = sr_status r,
       sy_SearchStartedAt = sr_search_started_at r, sy_SearchEndedAt = sr_search_ended_at r,
       sy_TotalMatches = sr_total_matches r, sy_PagesCompleted = sr_pages_completed r,
       sy_RecordsImported = sr_records_imported r, sy_RecordsDuplicate = sr_records_duplicate r,
       sy_Failure = sr_failure r, sy_CreatedAt = sr_created_at r, sy_CompletedAt = sr_completed_at r \<rparr>"

definition Store_AccessEventSyncRun :: "string \<Rightarrow> db \<Rightarrow> AccessEventSyncRun option" where
  "Store_AccessEventSyncRun uuid d = map_option run_view (select_row (\<lambda>r. sr_uuid r = uuid) (db_sync_runs d))"

record TerminalState =
  ts_SerialNumber :: string
  ts_PushSDKSerial :: string
  ts_Status :: string
  ts_LastSeenAt :: "instant option"
  ts_LastError :: "string option"
  ts_LatestAccessEventSync :: "AccessEventSyncRun option"

definition latest_run :: "db \<Rightarrow> string \<Rightarrow> sync_run_row option" where
  "latest_run d serial =
     (case newest_first sr_created_at sr_uuid (filter (\<lambda>r. sr_terminal_serial_number r = serial) (db_sync_runs d)) of
        [] \<Rightarrow> None
      | r # _ \<Rightarrow> Some r)"

definition terminal_state :: "db \<Rightarrow> terminal_row \<Rightarrow> TerminalState" where
  "terminal_state d t =
     \<lparr> ts_SerialNumber = tr_serial_number t, ts_PushSDKSerial = tr_pushsdk_serial t,
       ts_Status = tr_connection_status t, ts_LastSeenAt = tr_last_seen_at t, ts_LastError = tr_last_error t,
       ts_LatestAccessEventSync = map_option run_view (latest_run d (tr_serial_number t)) \<rparr>"

definition TerminalStates :: "db \<Rightarrow> TerminalState list" where
  "TerminalStates d = map (terminal_state d) (sort_key tr_serial_number (db_terminals d))"

record Overview =
  ov_DeviceEventTotal :: int
  ov_Terminals :: "TerminalState list"

definition Store_Overview :: "db \<Rightarrow> Overview" where
  "Store_Overview d =
     \<lparr> ov_DeviceEventTotal = int (length (db_device_events d)) + int (length (db_retained d)),
       ov_Terminals = TerminalStates d \<rparr>"

section \<open>The event archive\<close>

text \<open>
  A row of the common table expression: the source, the identity in its table, and the columns of
  the projection, all null for an event that has none.
\<close>

record archive_event =
  av_source :: string
  av_id :: int
  av_terminal_serial_number :: string
  av_source_record_id :: string
  av_data_format :: string
  av_payload_available :: bool
  av_received_at :: instant
  av_projection :: "Projection option"

definition live_event :: "db \<Rightarrow> device_event_row \<Rightarrow> archive_event" where
  "live_event d e =
     \<lparr> av_source = ''pushsdk'', av_id = de_id e, av_terminal_serial_number = de_terminal_serial_number e,
       av_source_record_id = de_vendor_event_id e, av_data_format = de_data_format e,
       av_payload_available = (de_payload_base64 e \<noteq> None), av_received_at = de_received_at e,
       av_projection = obind (select_row (\<lambda>p. pj_device_event_id p = de_id e) (db_projections d)) pj_projection \<rparr>"

text \<open>The columns a retained record does not have are null.\<close>

definition retained_columns :: "Projection \<Rightarrow> Projection" where
  "retained_columns p = p\<lparr>pr_EventDescription := None, pr_EventState := None, pr_SourceMACAddress := None,
     pr_ChannelID := None, pr_ActivePostCount := None, pr_ShortSerialNumber := None, pr_DeviceName := None,
     pr_FrontSerialNumber := None, pr_CurrentEvent := None, pr_PicturesNumber := None,
     pr_PurePwdVerifyEnable := None, pr_SourceIPAddress := None\<rparr>"

definition retained_event :: "retained_row \<Rightarrow> archive_event" where
  "retained_event r =
     \<lparr> av_source = ''isapi'', av_id = ra_id r, av_terminal_serial_number = ra_terminal_serial_number r,
       av_source_record_id = hex_encode (ra_source_sha256 r), av_data_format = ''jsonData'',
       av_payload_available = True, av_received_at = ra_imported_at r,
       av_projection = Some (retained_columns (stored_projection (ra_projection r))) \<rparr>"

definition archive_events :: "db \<Rightarrow> archive_event list" where
  "archive_events d = map (live_event d) (db_device_events d) @ map retained_event (db_retained d)"

record DeviceEventQuery =
  qy_Limit :: int
  qy_Offset :: int
  qy_MajorEventType :: "int option"
  qy_SubEventType :: "int option"
  qy_Terminal :: string
  qy_Source :: string

text \<open>A comparison with a null column is not true.\<close>

definition column_is :: "('p \<Rightarrow> int) \<Rightarrow> 'p option \<Rightarrow> int option \<Rightarrow> bool" where
  "column_is f p wanted = (case wanted of None \<Rightarrow> True | Some v \<Rightarrow> (case p of None \<Rightarrow> False | Some x \<Rightarrow> f x = v))"

definition archiveEventClauses :: "DeviceEventQuery \<Rightarrow> archive_event \<Rightarrow> bool" where
  "archiveEventClauses q e \<longleftrightarrow>
     column_is pr_MajorEventType (av_projection e) (qy_MajorEventType q) \<and>
     column_is pr_SubEventType (av_projection e) (qy_SubEventType q) \<and>
     (qy_Terminal q = [] \<or> av_terminal_serial_number e = qy_Terminal q) \<and>
     (qy_Source q = [] \<or> av_source e = qy_Source q)"

record AccessEvent =
  ae_Category :: string
  ae_SubtypeLabel :: string
  ae_Columns :: Projection

record DeviceEvent =
  dv_ID :: int
  dv_Source :: string
  dv_TerminalSerialNumber :: string
  dv_SourceRecordID :: string
  dv_DataFormat :: string
  dv_PayloadAvailable :: bool
  dv_ReceivedAt :: instant
  dv_AccessEvent :: "AccessEvent option"

definition or_empty :: "string option \<Rightarrow> string" where
  "or_empty m = (case m of None \<Rightarrow> [] | Some s \<Rightarrow> s)"

text \<open>The face rectangle is left out when all its columns are null.\<close>

definition shown_rect :: "FaceRect option \<Rightarrow> FaceRect option" where
  "shown_rect m =
     (case m of
        None \<Rightarrow> None
      | Some f \<Rightarrow> if fr_Height f \<noteq> None \<or> fr_Width f \<noteq> None \<or> fr_X f \<noteq> None \<or> fr_Y f \<noteq> None then Some f else None)"

definition access_event :: "Projection \<Rightarrow> AccessEvent" where
  "access_event p =
     \<lparr> ae_Category = or_empty (CategoryForMajorEventType (pr_MajorEventType p)),
       ae_SubtypeLabel = or_empty (SubtypeLabel (pr_MajorEventType p) (pr_SubEventType p)),
       ae_Columns = p\<lparr>pr_FaceRect := shown_rect (pr_FaceRect p)\<rparr> \<rparr>"

definition device_event :: "archive_event \<Rightarrow> DeviceEvent" where
  "device_event e =
     \<lparr> dv_ID = av_id e, dv_Source = av_source e, dv_TerminalSerialNumber = av_terminal_serial_number e,
       dv_SourceRecordID = av_source_record_id e, dv_DataFormat = av_data_format e,
       dv_PayloadAvailable = av_payload_available e, dv_ReceivedAt = av_received_at e,
       dv_AccessEvent = map_option access_event (av_projection e) \<rparr>"

record AccessEventSubtype =
  sb_Code :: int
  sb_Label :: "string option"

text \<open>\<open>GROUP BY sub_event_type ORDER BY sub_event_type\<close> over the same filters without the subtype.\<close>

definition accessEventSubtypes :: "DeviceEventQuery \<Rightarrow> db \<Rightarrow> AccessEventSubtype list" where
  "accessEventSubtypes q d =
     (case qy_MajorEventType q of
        None \<Rightarrow> []
      | Some major \<Rightarrow>
          map (\<lambda>code. \<lparr> sb_Code = code, sb_Label = SubtypeLabel major code \<rparr>)
            (sort (remdups (List.map_filter (\<lambda>e. map_option pr_SubEventType (av_projection e))
               (filter (archiveEventClauses (q\<lparr>qy_SubEventType := None\<rparr>)) (archive_events d))))))"

record DeviceEventPage =
  dg_Events :: "DeviceEvent list"
  dg_Total :: int
  dg_Subtypes :: "AccessEventSubtype list"

definition matching_events :: "DeviceEventQuery \<Rightarrow> db \<Rightarrow> archive_event list" where
  "matching_events q d = newest_first av_received_at av_id (filter (archiveEventClauses q) (archive_events d))"

definition QueryDeviceEvents :: "DeviceEventQuery \<Rightarrow> db \<Rightarrow> DeviceEventPage" where
  "QueryDeviceEvents q d =
     \<lparr> dg_Events = map device_event (page_rows (qy_Limit q) (qy_Offset q) (matching_events q d)),
       dg_Total = int (length (filter (archiveEventClauses q) (archive_events d))),
       dg_Subtypes = accessEventSubtypes q d \<rparr>"

section \<open>Payloads\<close>

record DeviceEventPayload =
  dp_ID :: int
  dp_Source :: string
  dp_SourceRecordID :: string
  dp_DataFormat :: string
  dp_PayloadBase64 :: "string option"

text \<open>\<open>encode(..., 'base64')\<close> of PostgreSQL: a line break after every 76 characters but the last.\<close>

function break_lines :: "string \<Rightarrow> string" where
  "break_lines s = (if length s \<le> 76 then s else take 76 s @ [CHR 0x0A] @ break_lines (drop 76 s))"
  by pat_completeness auto
termination by (relation "measure length") auto

declare break_lines.simps [simp del]

definition ErrUnknownArchiveEventSource :: go_error where
  "ErrUnknownArchiveEventSource = ErrNew ''unknown event archive source''"

definition ArchiveEventPayload :: "string \<Rightarrow> int \<Rightarrow> db \<Rightarrow> DeviceEventPayload option result" where
  "ArchiveEventPayload source i d =
     (if source = ''pushsdk'' then
        Inr (map_option (\<lambda>e. \<lparr> dp_ID = de_id e, dp_Source = ''pushsdk'', dp_SourceRecordID = de_vendor_event_id e,
                dp_DataFormat = de_data_format e, dp_PayloadBase64 = de_payload_base64 e \<rparr>)
              (select_row (\<lambda>e. de_id e = i) (db_device_events d)))
      else if source = ''isapi'' then
        Inr (map_option (\<lambda>r. \<lparr> dp_ID = ra_id r, dp_Source = ''isapi'', dp_SourceRecordID = hex_encode (ra_source_sha256 r),
                dp_DataFormat = ''jsonData'', dp_PayloadBase64 = Some (break_lines (b64_encode (ra_source_record r))) \<rparr>)
              (select_row (\<lambda>r. ra_id r = i) (db_retained d)))
      else Inl ErrUnknownArchiveEventSource)"

definition Store_DeviceEventPayload :: "int \<Rightarrow> db \<Rightarrow> DeviceEventPayload option result" where
  "Store_DeviceEventPayload i d = ArchiveEventPayload ''pushsdk'' i d"

section \<open>Commands and activities\<close>

record ISAPICommand =
  ic_UUID :: string
  ic_TerminalSerialNumber :: string
  ic_CreatedByUsername :: string
  ic_Method :: string
  ic_URL :: string
  ic_DataFormat :: string
  ic_Status :: string
  ic_CreatedAt :: instant
  ic_ExpiresAt :: instant
  ic_SentAt :: "instant option"
  ic_CompletedAt :: "instant option"
  ic_ResponseDataFormat :: "string option"
  ic_ResponseDataFormatDeclared :: "bool option"
  ic_ResponseDataAvailable :: bool

definition scanISAPICommand :: "command_row \<Rightarrow> ISAPICommand" where
  "scanISAPICommand c =
     \<lparr> ic_UUID = cmd_uuid c, ic_TerminalSerialNumber = cmd_terminal_serial_number c,
       ic_CreatedByUsername = cmd_created_by_username c, ic_Method = cmd_method c, ic_URL = cmd_url c,
       ic_DataFormat = cmd_data_format c, ic_Status = cmd_status c, ic_CreatedAt = cmd_created_at c,
       ic_ExpiresAt = cmd_expires_at c, ic_SentAt = cmd_sent_at c, ic_CompletedAt = cmd_completed_at c,
       ic_ResponseDataFormat = cmd_response_data_format c,
       ic_ResponseDataFormatDeclared = cmd_response_data_format_declared c,
       ic_ResponseDataAvailable = (cmd_response_data_base64 c \<noteq> None) \<rparr>"

record ISAPICommandPage =
  cp_Commands :: "ISAPICommand list"
  cp_Total :: int

definition QueryISAPICommands :: "string \<Rightarrow> int \<Rightarrow> int \<Rightarrow> db \<Rightarrow> ISAPICommandPage" where
  "QueryISAPICommands terminal limit offset d =
     (let rows = (if terminal = [] then db_commands d
                  else filter (\<lambda>c. cmd_terminal_serial_number c = terminal) (db_commands d))
      in \<lparr> cp_Commands = map scanISAPICommand (page_rows limit offset (newest_first cmd_created_at cmd_uuid rows)),
           cp_Total = int (length rows) \<rparr>)"

record ISAPICommandPayload = ISAPICommand +
  ic_RequestDataBase64 :: string
  ic_ResponseDataBase64 :: "string option"

definition command_payload :: "command_row \<Rightarrow> ISAPICommandPayload" where
  "command_payload c = ISAPICommand.extend (scanISAPICommand c)
     (ISAPICommandPayload.fields (b64_encode (cmd_request_data c)) (cmd_response_data_base64 c))"

definition Store_ISAPICommandPayload :: "string \<Rightarrow> db \<Rightarrow> ISAPICommandPayload option" where
  "Store_ISAPICommandPayload uuid d = map_option command_payload (select_row (\<lambda>c. cmd_uuid c = uuid) (db_commands d))"

record GatewayActivityPage =
  gp_Activities :: "activity list"
  gp_Total :: int

definition GatewayActivities :: "int \<Rightarrow> int \<Rightarrow> db \<Rightarrow> GatewayActivityPage" where
  "GatewayActivities limit offset d =
     \<lparr> gp_Activities = page_rows limit offset (newest_first act_At act_ID (db_activities d)),
       gp_Total = int (length (db_activities d)) \<rparr>"

section \<open>Pages\<close>

lemma mset_newest_first [simp]: "mset (newest_first at k rows) = mset rows"
  by (simp add: newest_first_def)

lemma set_newest_first [simp]: "set (newest_first at k rows) = set rows"
  by (simp add: newest_first_def)

lemma length_newest_first [simp]: "length (newest_first at k rows) = length rows"
  by (simp add: newest_first_def)

lemma newest_first_order:
  "sorted_wrt (\<lambda>a b. at b < at a \<or> at b = at a \<and> k b \<le> k a) (newest_first at k rows)"
proof -
  have "sorted_wrt (\<lambda>a b. at a < at b \<or> at a = at b \<and> k a \<le> k b) (sort_key at ys)" if "sorted (map k ys)" for ys
    using that
  proof (induction ys)
    case (Cons y ys)
    then have IH: "sorted_wrt (\<lambda>a b. at a < at b \<or> at a = at b \<and> k a \<le> k b) (sort_key at ys)"
      and y: "\<forall>x \<in> set ys. k y \<le> k x" by auto
    have "sorted_wrt (\<lambda>a b. at a < at b \<or> at a = at b \<and> k a \<le> k b) (insort_key at y xs)"
      if "sorted_wrt (\<lambda>a b. at a < at b \<or> at a = at b \<and> k a \<le> k b) xs" "\<forall>x \<in> set xs. k y \<le> k x" for xs
      using that by (induction xs) (auto simp: set_insort_key)
    from this [OF IH] y show ?case by simp
  qed simp
  from this [of "sort_key k rows"] show ?thesis
    by (simp add: newest_first_def sorted_wrt_rev)
qed

lemma pages_concat:
  assumes "0 < limit"
  shows "concat (map (\<lambda>i. page_rows limit (int i * limit) rows) [0..<n]) = take (n * nat limit) rows"
proof (induction n)
  case (Suc n)
  have "nat (int n * limit) = n * nat limit" using assms by (simp add: nat_mult_distrib)
  with Suc show ?case by (simp add: page_rows_def take_add [symmetric] add.commute)
qed (simp add: page_rows_def)

end
