(* ===== verification/Backfills.thy ===== *)
theory Backfills
  imports Deliveries
begin

text \<open>
  The historical back-fills (\<open>internal/store/event_backfills.go\<close>, the second half of
  \<open>event_attachments.go\<close>): the preview of what a back-fill would queue, with the token that binds an
  approval to it, and the operation that recomputes the preview under the terminal's lock and queues
  exactly what it lists.
\<close>

section \<open>Attachment receipts\<close>

definition ErrBackfillPreviewChanged :: go_error where
  "ErrBackfillPreviewChanged = ErrNew ''the archive or destination changed; preview the backfill again''"
definition ErrBackfillRouteDisabled :: go_error where
  "ErrBackfillRouteDisabled = ErrNew ''an enabled destination is required for backfill''"
definition ErrBackfillTooLarge :: go_error where
  "ErrBackfillTooLarge = ErrNew ''select a smaller range; a backfill can contain at most 10000 source records''"
definition ErrBackfillEmpty :: go_error where
  "ErrBackfillEmpty = ErrNew ''no undelivered eligible events in this preview''"

record AttachmentBackfillPreview =
  ab_ThroughDeliveryID :: int
  ab_Eligible :: int
  ab_Token :: string
  ab_IDs :: "int list"

definition receipt_missing :: "db \<Rightarrow> string \<Rightarrow> int \<Rightarrow> delivery_row \<Rightarrow> bool" where
  "receipt_missing d serial through r \<longleftrightarrow>
     dl_terminal_serial_number r = serial \<and> dl_id r \<le> through \<and> dl_status r = ''delivered'' \<and>
     \<not> exists_row (\<lambda>a. ad_event_delivery_id a = dl_id r) (db_attachments d)"

definition newline :: string where "newline = [CHR 0x0A]"

text \<open>The values \<open>json.Encoder\<close> writes into the digest, each on a line of its own.\<close>

definition attachment_manifest :: "string \<Rightarrow> int \<Rightarrow> delivery_row list \<Rightarrow> bytes" where
  "attachment_manifest serial through rows =
     json_quote serial @ newline @ itoa through @ newline @
     concat (map (\<lambda>r. json_array [itoa (dl_id r), json_quote (dl_endpoint_url r), json_quote (dl_signing_key_id r)] @ newline) rows)"

text \<open>\<open>SELECT coalesce(max(id),0)\<close> when no bound is given.\<close>

definition attachment_bound :: "string \<Rightarrow> int \<Rightarrow> db \<Rightarrow> int" where
  "attachment_bound serial through d =
     (if through = 0
      then foldr max (map dl_id (filter (\<lambda>r. dl_terminal_serial_number r = serial) (db_deliveries d))) 0
      else through)"

definition missing_receipts :: "string \<Rightarrow> int \<Rightarrow> db \<Rightarrow> delivery_row list" where
  "missing_receipts serial bound d = sort_key dl_id (filter (receipt_missing d serial bound) (db_deliveries d))"

definition previewAttachments :: "string \<Rightarrow> int \<Rightarrow> db \<Rightarrow> AttachmentBackfillPreview result" where
  "previewAttachments serial through d =
     bindE (someE ErrNoRows (select_row (\<lambda>r. dr_terminal_serial_number r = serial) (db_routes d))) (\<lambda>route.
     bindE (guardE (dr_enabled route) ErrBackfillRouteDisabled) (\<lambda>_.
     let bound = attachment_bound serial through d;
         rows = take 5001 (missing_receipts serial bound d)
     in bindE (guardE (length rows \<le> 5000) ErrBackfillTooLarge) (\<lambda>_.
          Inr \<lparr> ab_ThroughDeliveryID = bound, ab_Eligible = int (length rows),
                ab_Token = hex_encode (sha256 (attachment_manifest serial bound rows)), ab_IDs = map dl_id rows \<rparr>)))"

lemma previewAttachments_Inr:
  assumes "previewAttachments serial through d = Inr p"
  shows "exists_row (\<lambda>r. dr_terminal_serial_number r = serial \<and> dr_enabled r) (db_routes d)"
    "ab_IDs p = map dl_id (missing_receipts serial (attachment_bound serial through d) d)"
    "ab_Eligible p = int (length (ab_IDs p))" "ab_Eligible p \<le> 5000"
proof -
  define rows where "rows = missing_receipts serial (attachment_bound serial through d) d"
  from assms obtain route where r: "select_row (\<lambda>r. dr_terminal_serial_number r = serial) (db_routes d) = Some route" "dr_enabled route"
    and len: "length (take 5001 rows) \<le> 5000"
    and p: "ab_IDs p = map dl_id (take 5001 rows)" "ab_Eligible p = int (length (take 5001 rows))"
    by (auto simp: previewAttachments_def res_simps Let_def rows_def [symmetric])
  from r show "exists_row (\<lambda>r. dr_terminal_serial_number r = serial \<and> dr_enabled r) (db_routes d)"
    by (auto simp: row_simps dest!: select_row_Some)
  from len have "take 5001 rows = rows" by simp
  with p len show "ab_IDs p = map dl_id (missing_receipts serial (attachment_bound serial through d) d)"
    "ab_Eligible p = int (length (ab_IDs p))" "ab_Eligible p \<le> 5000" by (simp_all add: rows_def)
qed

lemma set_missing_receipts: "set (missing_receipts serial bound d) = {r \<in> set (db_deliveries d). receipt_missing d serial bound r}"
  by (auto simp: missing_receipts_def)

definition PreviewAttachmentBackfill :: "string \<Rightarrow> int \<Rightarrow> db \<Rightarrow> AttachmentBackfillPreview result" where
  "PreviewAttachmentBackfill serial through d = previewAttachments serial through d"

definition QueueAttachmentBackfill :: "instant \<Rightarrow> string \<Rightarrow> int \<Rightarrow> string \<Rightarrow> int \<Rightarrow> db \<Rightarrow> (int \<times> db) result" where
  "QueueAttachmentBackfill now serial through token actor d =
     bindE (guardE (registered d serial) ErrNoRows) (\<lambda>_.
     bindE (previewAttachments serial through d) (\<lambda>p.
     bindE (guardE (ab_Token p = token) ErrBackfillPreviewChanged) (\<lambda>_.
     bindE (guardE (ab_Eligible p \<noteq> 0) ErrBackfillEmpty) (\<lambda>_.
     bindE (foldE (enqueueAttachment now) (ab_IDs p) d) (\<lambda>d1.
     bindE (insertGatewayActivity now
              (new_activity ''admin.attachment_backfill_queued'' serial
                 ''historical attachment receipts queued without attendance replay''
                 [(''queuedCount'', FInt (ab_Eligible p)), (''throughDeliveryId'', FInt through),
                  (''previewToken'', FStr token), (''adminUserId'', FInt actor)]) d1)
       (\<lambda>(stored, d2). Inr (ab_Eligible p, d2)))))))"

section \<open>Events\<close>

record BackfillIdentity =
  bi_EmployeeNumber :: string
  bi_Names :: "string list"
  bi_Events :: int
  bi_FirstScan :: go_time
  bi_LastScan :: go_time

record backfillCandidate =
  bc_Source :: string
  bc_ID :: int
  bc_Body :: bytes

record BackfillPreview =
  bp_Token :: string
  bp_Route :: DeliveryRoute
  bp_StartsAt :: go_time
  bp_EndsAt :: go_time
  bp_Eligible :: int
  bp_AlreadyQueued :: int
  bp_DuplicateSources :: int
  bp_Invalid :: int
  bp_PushSDKEvents :: int
  bp_ISAPIEvents :: int
  bp_Identities :: "BackfillIdentity list"
  bp_candidates :: "backfillCandidate list"

text \<open>\<open>^[A-Za-z0-9._:-]{1,64}$\<close>\<close>

definition eventIdentifier :: "string \<Rightarrow> bool" where
  "eventIdentifier s = matches_class (\<lambda>c. is_alnum c \<or> c \<in> set ''._:-'') 1 64 s"

text \<open>\<open>unicode.IsSpace\<close> on the UTF-8 sequence of one rune.\<close>

definition space_rune :: "string \<Rightarrow> bool" where
  "space_rune r =
     (case map byte_val r of
        [a] \<Rightarrow> (9 \<le> a \<and> a \<le> 13) \<or> a = 32
      | [a, b] \<Rightarrow> a = 0xC2 \<and> (b = 0x85 \<or> b = 0xA0)
      | [a, b, c] \<Rightarrow>
          (a = 0xE1 \<and> b = 0x9A \<and> c = 0x80) \<or>
          (a = 0xE2 \<and> b = 0x80 \<and> ((0x80 \<le> c \<and> c \<le> 0x8A) \<or> c = 0xA8 \<or> c = 0xA9 \<or> c = 0xAF)) \<or>
          (a = 0xE2 \<and> b = 0x81 \<and> c = 0x9F) \<or> (a = 0xE3 \<and> b = 0x80 \<and> c = 0x80)
      | _ \<Rightarrow> False)"

function runes :: "string \<Rightarrow> string list" where
  "runes s =
     (if s = [] then []
      else let w = max 1 (utf8_width s) in take w s # runes (drop w s))"
  by pat_completeness auto
termination by (relation "measure length") (auto simp: neq_Nil_conv Let_def)

declare runes.simps [simp del]

definition validBackfillMessage :: "EventMessage \<Rightarrow> bool" where
  "validBackfillMessage m \<longleftrightarrow>
     eventIdentifier (em_EventID m) \<and> em_OccurredAt m \<noteq> None \<and>
     (case em_EmployeeNumber m of
        None \<Rightarrow> False
      | Some n \<Rightarrow> utf8_valid n \<and> length (runes n) \<noteq> 0 \<and> length (runes n) \<le> 32 \<and> \<not> list_ex space_rune (runes n)) \<and>
     (case em_EmployeeName m of None \<Rightarrow> True | Some n \<Rightarrow> utf8_valid n \<and> length (runes n) \<le> 100) \<and>
     (case em_EventSerialNumber m of None \<Rightarrow> True | Some i \<Rightarrow> i \<ge> 0)"

text \<open>
  The rows of both archives in the range: an event message with the row's identity and whether a
  delivery exists for it. Live rows come first, each archive in the order of its identity.
\<close>

record source_row =
  so_message :: EventMessage
  so_id :: int
  so_queued :: bool

definition in_range :: "go_time \<Rightarrow> go_time \<Rightarrow> go_time option \<Rightarrow> bool" where
  "in_range from until t \<longleftrightarrow>
     (case t of None \<Rightarrow> False
      | Some u \<Rightarrow> pg_timestamp (gt_instant from) \<le> gt_instant u \<and> gt_instant u < pg_timestamp (gt_instant until))"

definition source_message :: "string \<Rightarrow> string \<Rightarrow> string \<Rightarrow> string \<Rightarrow> string option \<Rightarrow> go_time option \<Rightarrow> Projection \<Rightarrow> EventMessage" where
  "source_message source eventID serial push state occurredAt p =
     \<lparr> em_SchemaVersion = 2, em_Source = source, em_EventID = eventID, em_TerminalSerialNumber = serial,
       em_PushSDKSerial = push, em_MajorEventType = 5, em_SubEventType = 75, em_EventState = state,
       em_OccurredAt = occurredAt, em_EmployeeNumber = pr_EmployeeNumber p, em_EmployeeName = pr_EmployeeName p,
       em_EventSerialNumber = pr_EventSerialNumber p \<rparr>"

definition live_source :: "db \<Rightarrow> string \<Rightarrow> go_time \<Rightarrow> go_time \<Rightarrow> string \<Rightarrow> device_event_row \<Rightarrow> source_row option" where
  "live_source d serial from until push e =
     obind (select_row (\<lambda>p. pj_device_event_id p = de_id e) (db_projections d)) (\<lambda>row.
     obind (pj_projection row) (\<lambda>p.
       if de_terminal_serial_number e = serial \<and> attendance_event p \<and> in_range from until (pr_OccurredAt p)
       then Some \<lparr> so_message = source_message ''pushsdk'' (de_vendor_event_id e) serial push (pr_EventState p) (pr_OccurredAt p) p,
                   so_id = de_id e,
                   so_queued = exists_row (\<lambda>x. dl_device_event_id x = Some (de_id e)) (db_deliveries d) \<rparr>
       else None))"

definition retained_source :: "db \<Rightarrow> string \<Rightarrow> go_time \<Rightarrow> go_time \<Rightarrow> string \<Rightarrow> retained_row \<Rightarrow> source_row option" where
  "retained_source d serial from until push r =
     (let p = stored_projection (ra_projection r)
      in if ra_terminal_serial_number r = serial \<and> pr_MajorEventType p = 5 \<and> pr_SubEventType p = 75 \<and>
            in_range from until (pr_OccurredAt p)
         then Some \<lparr> so_message = source_message ''isapi'' (hex_encode (ra_source_sha256 r)) serial push None (pr_OccurredAt p) p,
                     so_id = ra_id r,
                     so_queued = exists_row (\<lambda>x. dl_retained_event_id x = Some (ra_id r)) (db_deliveries d) \<rparr>
         else None)"

definition source_rows :: "db \<Rightarrow> string \<Rightarrow> go_time \<Rightarrow> go_time \<Rightarrow> source_row list" where
  "source_rows d serial from until =
     (case select_row (\<lambda>t. tr_serial_number t = serial) (db_terminals d) of
        None \<Rightarrow> []
      | Some t \<Rightarrow>
          List.map_filter (live_source d serial from until (tr_pushsdk_serial t)) (sort_key de_id (db_device_events d)) @
          List.map_filter (retained_source d serial from until (tr_pushsdk_serial t)) (sort_key ra_id (db_retained d)))"

text \<open>The tuple that identifies one scan in both archives.\<close>

type_synonym sharedIdentity = "string \<times> string \<times> string \<times> bool \<times> int"

definition format_rfc3339_nano :: "go_time \<Rightarrow> string" where
  "format_rfc3339_nano t =
     (let secs = gt_instant t div second + gt_offset t;
          (y, mo, d) = civil_of_days (secs div 86400);
          r = secs mod 86400
      in pad4 y @ ''-'' @ pad2 mo @ ''-'' @ pad2 d @ ''T'' @ pad2 (r div 3600) @ '':'' @
         pad2 (r div 60 mod 60) @ '':'' @ pad2 (r mod 60) @ fraction_text (gt_instant t mod second) @ format_zone (gt_offset t))"

definition shared_identity :: "EventMessage \<Rightarrow> sharedIdentity option" where
  "shared_identity m =
     obind (em_EventSerialNumber m) (\<lambda>serial.
     obind (em_OccurredAt m) (\<lambda>t.
     obind (em_EmployeeNumber m) (\<lambda>person.
       Some (format_rfc3339_nano (t\<lparr>gt_offset := 0\<rparr>), person,
             (case em_EmployeeName m of None \<Rightarrow> [] | Some n \<Rightarrow> n), em_EmployeeName m \<noteq> None, serial))))"

definition add_scan :: "EventMessage \<Rightarrow> go_time \<Rightarrow> BackfillIdentity \<Rightarrow> BackfillIdentity" where
  "add_scan m t i =
     i\<lparr>bi_Events := bi_Events i + 1,
       bi_FirstScan := (if gt_instant t < gt_instant (bi_FirstScan i) then t else bi_FirstScan i),
       bi_LastScan := (if gt_instant t > gt_instant (bi_LastScan i) then t else bi_LastScan i),
       bi_Names := (case em_EmployeeName m of
          None \<Rightarrow> bi_Names i
        | Some n \<Rightarrow> if n \<in> set (bi_Names i) then bi_Names i else bi_Names i @ [n])\<rparr>"

fun count_identity :: "EventMessage \<Rightarrow> string \<Rightarrow> go_time \<Rightarrow> BackfillIdentity list \<Rightarrow> BackfillIdentity list" where
  "count_identity m person t [] =
     [add_scan m t \<lparr> bi_EmployeeNumber = person, bi_Names = [], bi_Events = 0, bi_FirstScan = t, bi_LastScan = t \<rparr>]"
| "count_identity m person t (i # is) =
     (if bi_EmployeeNumber i = person then add_scan m t i # is else i # count_identity m person t is)"

text \<open>One row of the loop; the state also holds the identities of the live rows seen.\<close>

definition preview_row :: "source_row \<Rightarrow> sharedIdentity list \<times> BackfillPreview \<Rightarrow> (sharedIdentity list \<times> BackfillPreview) result" where
  "preview_row row s =
     (let (pushSDK, p) = s; m = so_message row; shared = shared_identity m
      in if \<not> validBackfillMessage m then Inr (pushSDK, p\<lparr>bp_Invalid := bp_Invalid p + 1\<rparr>)
         else if em_Source m = ''isapi'' \<and> (case shared of None \<Rightarrow> False | Some x \<Rightarrow> x \<in> set pushSDK)
           then Inr (pushSDK, p\<lparr>bp_DuplicateSources := bp_DuplicateSources p + 1\<rparr>)
         else
           let pushSDK' = (case shared of None \<Rightarrow> pushSDK | Some x \<Rightarrow> if em_Source m = ''pushsdk'' then x # pushSDK else pushSDK)
           in if so_queued row then Inr (pushSDK', p\<lparr>bp_AlreadyQueued := bp_AlreadyQueued p + 1\<rparr>)
              else
                bindE (someE (ErrNew ''json: year outside of range [0,9999]'') (encode_event_message m)) (\<lambda>body.
                  Inr (pushSDK', p\<lparr>bp_candidates := bp_candidates p @ [\<lparr> bc_Source = em_Source m, bc_ID = so_id row, bc_Body = body \<rparr>],
                         bp_Eligible := bp_Eligible p + 1,
                         bp_PushSDKEvents := bp_PushSDKEvents p + (if em_Source m = ''pushsdk'' then 1 else 0),
                         bp_ISAPIEvents := bp_ISAPIEvents p + (if em_Source m = ''pushsdk'' then 0 else 1),
                         bp_Identities := (case (em_EmployeeNumber m, em_OccurredAt m) of
                            (Some person, Some t) \<Rightarrow> count_identity m person t (bp_Identities p)
                          | _ \<Rightarrow> bp_Identities p)\<rparr>)))"

text \<open>The manifest the token binds: the preview, still without its token, and every candidate.\<close>

definition encode_route :: "DeliveryRoute \<Rightarrow> string" where
  "encode_route r =
     json_object [(''terminalSerialNumber'', json_quote (rt_TerminalSerialNumber r)), (''endpointUrl'', json_quote (rt_EndpointURL r)),
       (''signingKeyId'', json_quote (rt_SigningKeyID r)), (''enabled'', json_encode_bool (rt_Enabled r))]"

definition encode_identity :: "BackfillIdentity \<Rightarrow> string option" where
  "encode_identity i =
     obind (json_time (bi_FirstScan i)) (\<lambda>first.
     obind (json_time (bi_LastScan i)) (\<lambda>latest.
       Some (json_object [(''employeeNumber'', json_quote (bi_EmployeeNumber i)),
         (''names'', json_array (map json_quote (bi_Names i))), (''events'', itoa (bi_Events i)),
         (''firstScan'', first), (''lastScan'', latest)])))"

definition encode_candidate :: "backfillCandidate \<Rightarrow> string" where
  "encode_candidate c =
     json_object [(''source'', json_quote (bc_Source c)), (''id'', itoa (bc_ID c)), (''body'', json_quote (b64_encode (bc_Body c)))]"

definition encode_preview :: "BackfillPreview \<Rightarrow> string option" where
  "encode_preview p =
     obind (json_time (bp_StartsAt p)) (\<lambda>starts.
     obind (json_time (bp_EndsAt p)) (\<lambda>ends.
     obind (foldO (\<lambda>i es. map_option (\<lambda>e. es @ [e]) (encode_identity i)) (bp_Identities p) []) (\<lambda>identities.
       Some (json_object [(''token'', json_quote (bp_Token p)), (''route'', encode_route (bp_Route p)),
         (''startsAt'', starts), (''endsAt'', ends), (''eligible'', itoa (bp_Eligible p)),
         (''alreadyQueued'', itoa (bp_AlreadyQueued p)), (''duplicateSources'', itoa (bp_DuplicateSources p)),
         (''invalid'', itoa (bp_Invalid p)), (''pushSdkEvents'', itoa (bp_PushSDKEvents p)),
         (''isapiEvents'', itoa (bp_ISAPIEvents p)), (''identities'', json_array identities)]))))"

definition preview_manifest :: "BackfillPreview \<Rightarrow> bytes option" where
  "preview_manifest p =
     map_option (\<lambda>preview. json_object [(''Preview'', preview), (''Candidates'', json_array (map encode_candidate (bp_candidates p)))])
       (encode_preview p)"

definition empty_preview :: "DeliveryRoute \<Rightarrow> go_time \<Rightarrow> go_time \<Rightarrow> BackfillPreview" where
  "empty_preview route from until =
     \<lparr> bp_Token = [], bp_Route = route, bp_StartsAt = from, bp_EndsAt = until, bp_Eligible = 0, bp_AlreadyQueued = 0,
       bp_DuplicateSources = 0, bp_Invalid = 0, bp_PushSDKEvents = 0, bp_ISAPIEvents = 0, bp_Identities = [],
       bp_candidates = [] \<rparr>"

definition sort_identities :: "BackfillIdentity list \<Rightarrow> BackfillIdentity list" where
  "sort_identities is = sort_key bi_EmployeeNumber (map (\<lambda>i. i\<lparr>bi_Names := sort (bi_Names i)\<rparr>) is)"

definition route_of :: "route_row \<Rightarrow> DeliveryRoute" where
  "route_of r = \<lparr> rt_TerminalSerialNumber = dr_terminal_serial_number r, rt_EndpointURL = dr_endpoint_url r,
     rt_SigningKeyID = dr_signing_key_id r, rt_Enabled = dr_enabled r \<rparr>"

definition previewEventBackfill :: "string \<Rightarrow> go_time \<Rightarrow> go_time \<Rightarrow> db \<Rightarrow> BackfillPreview result" where
  "previewEventBackfill serial from until d =
     bindE (someE ErrNoRows (select_row (\<lambda>r. dr_terminal_serial_number r = serial) (db_routes d))) (\<lambda>route.
     bindE (guardE (dr_enabled route) ErrBackfillRouteDisabled) (\<lambda>_.
     let rows = source_rows d serial from until
     in bindE (foldE preview_row (take 10000 rows) ([], empty_preview (route_of route) from until)) (\<lambda>(pushSDK, p).
        bindE (guardE (length rows \<le> 10000) ErrBackfillTooLarge) (\<lambda>_.
        let sorted_preview = p\<lparr>bp_Identities := sort_identities (bp_Identities p)\<rparr>
        in bindE (someE (ErrNew ''json: year outside of range [0,9999]'') (preview_manifest sorted_preview)) (\<lambda>manifest.
             Inr (sorted_preview\<lparr>bp_Token := hex_encode (sha256 manifest)\<rparr>))))))"

definition PreviewEventBackfill :: "string \<Rightarrow> go_time \<Rightarrow> go_time \<Rightarrow> db \<Rightarrow> BackfillPreview result" where
  "PreviewEventBackfill serial from until d = previewEventBackfill serial from until d"

definition backfill_row_ok :: "db \<Rightarrow> backfill_row \<Rightarrow> bool" where
  "backfill_row_ok d b \<longleftrightarrow>
     bf_ends_at b > bf_starts_at b \<and> bf_queued_count b > 0 \<and> exists_row (\<lambda>u. au_id u = bf_created_by b) (db_admin_users d)"

definition queue_candidate :: "instant \<Rightarrow> int \<Rightarrow> route_row \<Rightarrow> backfillCandidate \<Rightarrow> db \<Rightarrow> db result" where
  "queue_candidate now batch route c d =
     (let live = (if bc_Source c = ''pushsdk'' then Some (bc_ID c) else None);
          retained = (if bc_Source c = ''pushsdk'' then None else Some (bc_ID c));
          row = new_delivery now (next_id dl_id (db_deliveries d)) live retained (Some batch) route (bc_Body c)
      in bindE (guardE (\<not> exists_row (\<lambda>x. (live \<noteq> None \<and> dl_device_event_id x = live) \<or>
                            (retained \<noteq> None \<and> dl_retained_event_id x = retained)) (db_deliveries d))
                  (ErrConstraint ''event_deliveries'')) (\<lambda>_.
           enqueueAttachment now (dl_id row) (d\<lparr>db_deliveries := db_deliveries d @ [row]\<rparr>)))"

definition backfill_entry :: "instant \<Rightarrow> string \<Rightarrow> go_time \<Rightarrow> go_time \<Rightarrow> int \<Rightarrow> BackfillPreview \<Rightarrow> db \<Rightarrow> backfill_row" where
  "backfill_entry now serial from until actor p d =
     \<lparr> bf_id = next_id bf_id (db_backfills d), bf_terminal_serial_number = serial,
       bf_starts_at = pg_timestamp (gt_instant from), bf_ends_at = pg_timestamp (gt_instant until),
       bf_preview_sha256 = bp_Token p, bf_queued_count = bp_Eligible p, bf_created_by = actor, bf_created_at = now \<rparr>"

text \<open>The destination of the preview, which the deliveries copy.\<close>

definition backfill_route :: "instant \<Rightarrow> string \<Rightarrow> int \<Rightarrow> BackfillPreview \<Rightarrow> route_row" where
  "backfill_route now serial actor p =
     \<lparr> dr_terminal_serial_number = serial, dr_endpoint_url = rt_EndpointURL (bp_Route p),
       dr_signing_key_id = rt_SigningKeyID (bp_Route p), dr_enabled = True, dr_updated_at = now, dr_updated_by = actor \<rparr>"

definition QueueEventBackfill ::
    "instant \<Rightarrow> string \<Rightarrow> go_time \<Rightarrow> go_time \<Rightarrow> string \<Rightarrow> int \<Rightarrow> db \<Rightarrow> ((int \<times> int) \<times> db) result" where
  "QueueEventBackfill now serial from until token actor d =
     bindE (guardE (registered d serial) ErrNoRows) (\<lambda>_.
     bindE (previewEventBackfill serial from until d) (\<lambda>p.
     bindE (guardE (bp_Token p = token) ErrBackfillPreviewChanged) (\<lambda>_.
     bindE (guardE (bp_Eligible p \<noteq> 0) ErrBackfillEmpty) (\<lambda>_.
     let entry = backfill_entry now serial from until actor p d
     in bindE (guardE (backfill_row_ok d entry) (ErrConstraint ''event_delivery_backfills'')) (\<lambda>_.
        bindE (foldE (queue_candidate now (bf_id entry) (backfill_route now serial actor p)) (bp_candidates p)
                 (d\<lparr>db_backfills := db_backfills d @ [entry]\<rparr>)) (\<lambda>d1.
        bindE (insertGatewayActivity now
                 (new_activity ''admin.event_backfill_queued'' serial ''previewed historical events queued for delivery''
                    [(''backfillId'', FInt (bf_id entry)), (''queuedCount'', FInt (bp_Eligible p)),
                     (''startsAt'', FStr (format_rfc3339_nano from)), (''endsAt'', FStr (format_rfc3339_nano until)),
                     (''adminUserId'', FInt actor)]) d1)
          (\<lambda>(stored, d2). Inr ((bf_id entry, bp_Eligible p), d2))))))))"

lemma QueueEventBackfill_Inr:
  assumes "QueueEventBackfill now serial from until token actor d = Inr ((batch, n), d')"
  obtains p d1 stored where "previewEventBackfill serial from until d = Inr p" "bp_Token p = token" "bp_Eligible p \<noteq> 0"
    "n = bp_Eligible p" "batch = next_id bf_id (db_backfills d)"
    "foldE (queue_candidate now batch (backfill_route now serial actor p)) (bp_candidates p)
       (d\<lparr>db_backfills := db_backfills d @ [backfill_entry now serial from until actor p d]\<rparr>) = Inr d1"
    "d' = d1\<lparr>db_activities := db_activities d1 @ [stored]\<rparr>"
  using assms
  by (auto simp: QueueEventBackfill_def res_simps Let_def backfill_entry_def dest!: insertGatewayActivity_append)

lemma QueueAttachmentBackfill_Inr:
  assumes "QueueAttachmentBackfill now serial through token actor d = Inr (n, d')"
  obtains p d1 stored where "previewAttachments serial through d = Inr p" "ab_Token p = token" "ab_Eligible p \<noteq> 0" "n = ab_Eligible p"
    "foldE (enqueueAttachment now) (ab_IDs p) d = Inr d1" "d' = d1\<lparr>db_activities := db_activities d1 @ [stored]\<rparr>"
  using assms by (auto simp: QueueAttachmentBackfill_def res_simps dest!: insertGatewayActivity_append)

section \<open>A back-fill queues what it previews, once\<close>

definition queued_from :: "int \<Rightarrow> route_row \<Rightarrow> delivery_row \<Rightarrow> backfillCandidate \<Rightarrow> bool" where
  "queued_from batch route r c \<longleftrightarrow>
     dl_device_event_id r = (if bc_Source c = ''pushsdk'' then Some (bc_ID c) else None) \<and>
     dl_retained_event_id r = (if bc_Source c = ''pushsdk'' then None else Some (bc_ID c)) \<and>
     dl_backfill_id r = Some batch \<and> dl_terminal_serial_number r = dr_terminal_serial_number route \<and>
     dl_endpoint_url r = dr_endpoint_url route \<and> dl_signing_key_id r = dr_signing_key_id route \<and>
     dl_request_body r = bc_Body c \<and> dl_status r = ''pending''"

lemma queue_candidate_Inr:
  assumes "queue_candidate now batch route c d = Inr d'"
  obtains r a where "d' = d\<lparr>db_deliveries := db_deliveries d @ [r], db_attachments := db_attachments d @ [a]\<rparr>"
    "queued_from batch route r c" "ad_event_delivery_id a = dl_id r"
  using assms
  by (auto simp: queue_candidate_def res_simps Let_def queued_from_def new_delivery_def dest!: enqueueAttachment_Inr)

lemma queue_candidates_Inr:
  "foldE (queue_candidate now batch route) cs d = Inr d' \<Longrightarrow>
     \<exists>new atts. d' = d\<lparr>db_deliveries := db_deliveries d @ new, db_attachments := db_attachments d @ atts\<rparr> \<and>
       list_all2 (queued_from batch route) new cs \<and> map ad_event_delivery_id atts = map dl_id new"
proof (induction cs arbitrary: d)
  case (Cons c cs)
  then obtain d1 where 1: "queue_candidate now batch route c d = Inr d1" and rest: "foldE (queue_candidate now batch route) cs d1 = Inr d'"
    by (auto simp: bindE_eq_Inr)
  from 1 obtain r a where s: "d1 = d\<lparr>db_deliveries := db_deliveries d @ [r], db_attachments := db_attachments d @ [a]\<rparr>"
    "queued_from batch route r c" "ad_event_delivery_id a = dl_id r" by (rule queue_candidate_Inr)
  from Cons.IH [OF rest] obtain new atts where
    "d' = d1\<lparr>db_deliveries := db_deliveries d1 @ new, db_attachments := db_attachments d1 @ atts\<rparr>"
    "list_all2 (queued_from batch route) new cs" "map ad_event_delivery_id atts = map dl_id new" by blast
  with s show ?case by (intro exI [of _ "r # new"] exI [of _ "a # atts"]) simp
qed (auto intro!: exI [of _ "[]"])

definition candidate_key :: "backfillCandidate \<Rightarrow> string \<times> int" where
  "candidate_key c = (bc_Source c, bc_ID c)"

lemma preview_row_Inr:
  assumes "preview_row row (S, p) = Inr (S', p')"
  shows "(\<exists>more. bp_candidates p' = bp_candidates p @ more \<and> bp_Eligible p' = bp_Eligible p + int (length more) \<and>
      (\<forall>c \<in> set more. candidate_key c = (em_Source (so_message row), so_id row)))"
  using assms by (auto simp: preview_row_def Let_def res_simps candidate_key_def split: if_splits)

lemma preview_rows_Inr:
  "foldE preview_row rows (S, p) = Inr (S', p') \<Longrightarrow>
     (\<exists>more. bp_candidates p' = bp_candidates p @ more \<and> bp_Eligible p' = bp_Eligible p + int (length more))"
proof (induction rows arbitrary: S p)
  case (Cons row rows)
  then obtain S1 p1 where 1: "preview_row row (S, p) = Inr (S1, p1)" and rest: "foldE preview_row rows (S1, p1) = Inr (S', p')"
    by (auto simp: bindE_eq_Inr)
  from preview_row_Inr [OF 1] obtain m1 where "bp_candidates p1 = bp_candidates p @ m1" "bp_Eligible p1 = bp_Eligible p + int (length m1)" by blast
  moreover from Cons.IH [OF rest] obtain m2 where "bp_candidates p' = bp_candidates p1 @ m2" "bp_Eligible p' = bp_Eligible p1 + int (length m2)" by blast
  ultimately show ?case by (intro exI [of _ "m1 @ m2"]) simp
qed auto

text \<open>The same rows after some of them were queued.\<close>

definition requeued :: "(string \<times> int) set \<Rightarrow> source_row \<Rightarrow> source_row \<Rightarrow> bool" where
  "requeued K r r2 \<longleftrightarrow> so_message r2 = so_message r \<and> so_id r2 = so_id r \<and>
     (so_queued r \<or> (em_Source (so_message r), so_id r) \<in> K \<longrightarrow> so_queued r2)"

lemma preview_row_again:
  assumes "preview_row row (S, p) = Inr (S1, p1)" "requeued K row row2" "candidate_key ` set (bp_candidates p1) \<subseteq> K"
  shows "\<exists>q1. preview_row row2 (S, q) = Inr (S1, q1) \<and> bp_candidates q1 = bp_candidates q \<and> bp_Eligible q1 = bp_Eligible q"
proof (cases "so_queued row2")
  case True
  with assms(1,2) show ?thesis
    by (auto simp: preview_row_def Let_def res_simps requeued_def split: if_splits)
next
  case False
  with assms(2) have nq: "\<not> so_queued row" "(em_Source (so_message row), so_id row) \<notin> K" by (auto simp: requeued_def)
  with assms(1,3) show ?thesis using assms(2)
    by (auto simp: preview_row_def Let_def res_simps requeued_def candidate_key_def split: if_splits)
qed

lemma preview_rows_again:
  "foldE preview_row rows (S, p) = Inr (S', p') \<Longrightarrow> list_all2 (requeued K) rows rows2 \<Longrightarrow>
     candidate_key ` set (bp_candidates p') \<subseteq> K \<Longrightarrow>
     \<exists>q'. foldE preview_row rows2 (S, q) = Inr (S', q') \<and> bp_candidates q' = bp_candidates q \<and> bp_Eligible q' = bp_Eligible q"
proof (induction rows arbitrary: S p q rows2)
  case (Cons row rows)
  from Cons.prems(2) obtain row2 rs2 where r2: "rows2 = row2 # rs2" "requeued K row row2" "list_all2 (requeued K) rows rs2"
    by (auto simp: list_all2_Cons1)
  from Cons.prems(1) obtain S1 p1 where 1: "preview_row row (S, p) = Inr (S1, p1)" and rest: "foldE preview_row rows (S1, p1) = Inr (S', p')"
    by (auto simp: bindE_eq_Inr)
  from preview_rows_Inr [OF rest] Cons.prems(3) have "candidate_key ` set (bp_candidates p1) \<subseteq> K" by auto
  from preview_row_again [OF 1 r2(2) this] obtain q1 where q1: "preview_row row2 (S, q) = Inr (S1, q1)"
    "bp_candidates q1 = bp_candidates q" "bp_Eligible q1 = bp_Eligible q" by blast
  from Cons.IH [OF rest r2(3) Cons.prems(3), of q1] q1 r2(1) show ?case by auto
qed simp

lemma preview_Inr:
  assumes "previewEventBackfill serial from until d = Inr p"
  obtains S p0 route where "foldE preview_row (take 10000 (source_rows d serial from until)) ([], empty_preview (route_of route) from until) = Inr (S, p0)"
    "bp_candidates p = bp_candidates p0" "bp_Eligible p = bp_Eligible p0" "length (source_rows d serial from until) \<le> 10000"
    "bp_Route p = bp_Route p0" "route \<in> set (db_routes d)" "dr_terminal_serial_number route = serial" "dr_enabled route"
  using assms by (auto simp: previewEventBackfill_def res_simps Let_def dest!: select_row_Some)

lemma preview_eligible:
  assumes "previewEventBackfill serial from until d = Inr p"
  shows "bp_Eligible p = int (length (bp_candidates p))"
  using assms
proof (rule preview_Inr)
  fix S p0 route
  assume f: "foldE preview_row (take 10000 (source_rows d serial from until)) ([], empty_preview (route_of route) from until) = Inr (S, p0)"
    and "bp_candidates p = bp_candidates p0" "bp_Eligible p = bp_Eligible p0"
  with preview_rows_Inr [OF f] show ?thesis by (auto simp: empty_preview_def)
qed

lemma list_all2_map_filter:
  assumes "\<And>x. x \<in> set xs \<Longrightarrow> rel_option R (f x) (g x)"
  shows "list_all2 R (List.map_filter f xs) (List.map_filter g xs)"
  using assms
proof (induction xs)
  case (Cons x xs)
  then have "rel_option R (f x) (g x)" "list_all2 R (List.map_filter f xs) (List.map_filter g xs)" by simp_all
  then show ?case by (auto simp: List.map_filter_simps rel_option_iff split: option.splits)
qed (simp add: List.map_filter_simps)

lemma source_rows_requeued:
  assumes "db_deliveries d' = db_deliveries d @ new" "list_all2 (queued_from batch route) new cs"
    and "db_terminals d' = db_terminals d" "db_device_events d' = db_device_events d" "db_projections d' = db_projections d"
      "db_retained d' = db_retained d"
  shows "list_all2 (requeued (candidate_key ` set cs)) (source_rows d serial from until) (source_rows d' serial from until)"
proof -
  have new: "\<exists>r \<in> set new. queued_from batch route r c" if "c \<in> set cs" for c
    using assms(2) that by (metis in_set_conv_nth list_all2_conv_all_nth)
  define K where "K = candidate_key ` set cs"
  have pushed: "exists_row (\<lambda>x. dl_device_event_id x = Some i) new" if "(''pushsdk'', i) \<in> K" for i
    using that unfolding K_def by (auto simp: candidate_key_def row_simps queued_from_def dest!: new)
  have read: "exists_row (\<lambda>x. dl_retained_event_id x = Some i) new" if "(''isapi'', i) \<in> K" for i
  proof -
    from that obtain c where c: "c \<in> set cs" "bc_Source c = ''isapi''" "bc_ID c = i"
      unfolding K_def by (auto simp: candidate_key_def)
    from new [OF c(1)] obtain r where "r \<in> set new" "queued_from batch route r c" by blast
    with c(2,3) show ?thesis by (auto simp: row_simps queued_from_def)
  qed
  have ex: "exists_row P (db_deliveries d') \<longleftrightarrow> exists_row P (db_deliveries d) \<or> exists_row P new" for P
    by (auto simp: assms(1) row_simps)
  have live: "rel_option (requeued K) (live_source d serial from until push e) (live_source d' serial from until push e)" for push e
    unfolding live_source_def obind_def assms(5) ex
    by (simp add: requeued_def source_message_def split: option.split) (simp add: pushed)
  have retained: "rel_option (requeued K) (retained_source d serial from until push r) (retained_source d' serial from until push r)" for push r
    unfolding retained_source_def Let_def ex
    by (simp add: requeued_def source_message_def) (simp add: read)
  show ?thesis
    unfolding K_def [symmetric] using assms(3-6) live retained
    by (auto simp: source_rows_def split: option.splits intro!: list_all2_appendI list_all2_map_filter)
qed

lemma backfill_queued:
  assumes "QueueEventBackfill now serial from until token actor d = Inr ((batch, n), d')"
  obtains p new atts where "previewEventBackfill serial from until d = Inr p" "bp_Token p = token" "n = int (length (bp_candidates p))" "n \<noteq> 0"
    "db_deliveries d' = db_deliveries d @ new" "list_all2 (queued_from batch (backfill_route now serial actor p)) new (bp_candidates p)"
    "db_attachments d' = db_attachments d @ atts" "map ad_event_delivery_id atts = map dl_id new"
    "db_terminals d' = db_terminals d" "db_device_events d' = db_device_events d" "db_projections d' = db_projections d" "db_retained d' = db_retained d"
  using assms
proof (rule QueueEventBackfill_Inr)
  fix p d1 stored
  assume p: "previewEventBackfill serial from until d = Inr p" "bp_Token p = token" "bp_Eligible p \<noteq> 0" "n = bp_Eligible p"
    and f: "foldE (queue_candidate now batch (backfill_route now serial actor p)) (bp_candidates p)
       (d\<lparr>db_backfills := db_backfills d @ [backfill_entry now serial from until actor p d]\<rparr>) = Inr d1"
    and d': "d' = d1\<lparr>db_activities := db_activities d1 @ [stored]\<rparr>"
  from queue_candidates_Inr [OF f] obtain new atts where
    "d1 = d\<lparr>db_backfills := db_backfills d @ [backfill_entry now serial from until actor p d],
       db_deliveries := db_deliveries d @ new, db_attachments := db_attachments d @ atts\<rparr>"
    "list_all2 (queued_from batch (backfill_route now serial actor p)) new (bp_candidates p)" "map ad_event_delivery_id atts = map dl_id new" by auto
  with p preview_eligible [OF p(1)] d' show thesis by (intro that [of p new atts]) simp_all
qed

lemma backfill_repeated:
  assumes "QueueEventBackfill now serial from until token actor d = Inr ((batch, n), d')"
  shows "QueueEventBackfill now' serial from until token' actor' d' \<noteq> Inr r"
proof
  assume again: "QueueEventBackfill now' serial from until token' actor' d' = Inr r"
  obtain batch' n' d'' where r: "r = ((batch', n'), d'')" by (metis prod.exhaust)
  from assms obtain p new atts where p: "previewEventBackfill serial from until d = Inr p"
    and q: "db_deliveries d' = db_deliveries d @ new" "list_all2 (queued_from batch (backfill_route now serial actor p)) new (bp_candidates p)"
      "db_terminals d' = db_terminals d" "db_device_events d' = db_device_events d" "db_projections d' = db_projections d" "db_retained d' = db_retained d"
    by (rule backfill_queued)
  from again [unfolded r] obtain p' where p': "previewEventBackfill serial from until d' = Inr p'" "n' = int (length (bp_candidates p'))" "n' \<noteq> 0"
    by (rule backfill_queued)
  from p obtain S p0 route where f: "foldE preview_row (take 10000 (source_rows d serial from until)) ([], empty_preview (route_of route) from until) = Inr (S, p0)"
    "bp_candidates p = bp_candidates p0" by (rule preview_Inr)
  from p'(1) obtain S' p0' route' where f': "foldE preview_row (take 10000 (source_rows d' serial from until)) ([], empty_preview (route_of route') from until) = Inr (S', p0')"
    "bp_candidates p' = bp_candidates p0'" by (rule preview_Inr)
  have "list_all2 (requeued (candidate_key ` set (bp_candidates p))) (take 10000 (source_rows d serial from until)) (take 10000 (source_rows d' serial from until))"
    by (rule list_all2_takeI [OF source_rows_requeued [OF q]])
  from preview_rows_again [OF f(1) this, of "empty_preview (route_of route') from until"] f(2) f' have "bp_candidates p' = []"
    by (auto simp: empty_preview_def)
  with p'(2,3) show False by simp
qed

end
