(* ===== verification/HttpApi.thy ===== *)
theory HttpApi
  imports StoreReads Backfills World
begin

text \<open>
  The administration API (\<open>internal/httpapi\<close>): the checks of a request, the session cookie, and one
  handler per route over the world of the gateway. A handler answers with a status and the value it
  hands to the JSON encoder. The matching of routes (\<open>http.ServeMux\<close>), the parsing of cookies, URLs
  and network addresses, and bcrypt are outside: the request carries its path values and cookies,
  and the parsers are arguments.
\<close>

section \<open>Requests and answers\<close>

record api_request =
  ar_RawQuery :: string
  ar_ContentType :: string
  ar_ContentLength :: int
  ar_Body :: bytes
  ar_Cookies :: "(string \<times> string) list"
  ar_PathValue :: "string \<Rightarrow> string"
  ar_Origin :: string
  ar_ForwardedProto :: string
  ar_TLS :: bool
  ar_Host :: string
  ar_RemoteAddr :: string

datatype api_value =
    ErrorValue string
  | StatusValue string
  | MetricsValue
  | OverviewValue Overview
  | EventsValue DeviceEventPage
  | PayloadValue DeviceEventPayload "Picture option"
  | ActivitiesValue GatewayActivityPage
  | CommandValue ISAPICommand
  | CommandsValue ISAPICommandPage
  | CommandPayloadValue ISAPICommandPayload
  | SyncRunValue AccessEventSyncRun
  | ConfigurationValue "DeliveryRoute list" "string list"
  | RouteValue DeliveryRoute
  | RemovedValue string
  | DeliveriesValue "EventDelivery list" int
  | AttachmentsValue "AttachmentDelivery list" int
  | RetriedValue int
  | PreviewValue BackfillPreview
  | BackfillValue int int
  | AttachmentPreviewValue AttachmentBackfillPreview
  | AttachmentBackfillValue int
  | SocketValue nat "activity list"

record session_cookie =
  ck_Name :: string
  ck_Value :: string
  ck_Path :: string
  ck_HttpOnly :: bool
  ck_Secure :: bool
  ck_SameSiteStrict :: bool
  ck_MaxAge :: int

record api_response =
  ap_Status :: nat
  ap_Value :: api_value
  ap_Cookie :: "session_cookie option"

type_synonym api = "world \<Rightarrow> api_response \<times> world"

definition writeJSON :: "nat \<Rightarrow> api_value \<Rightarrow> api" where
  "writeJSON status v w = (\<lparr> ap_Status = status, ap_Value = v, ap_Cookie = None \<rparr>, w)"

definition writeError :: "nat \<Rightarrow> string \<Rightarrow> api" where
  "writeError status message = writeJSON status (ErrorValue message)"

definition internalError :: api where
  "internalError = writeError 500 ''internal server error''"

text \<open>\<open>err.Error()\<close> of the errors a handler shows.\<close>

definition error_text :: "go_error \<Rightarrow> string" where
  "error_text e =
     (case e of
        ErrNew m \<Rightarrow> m
      | ErrNoRows \<Rightarrow> ''no rows in result set''
      | ErrConstraint m \<Rightarrow> m
      | ErrDatabase \<Rightarrow> ''database error''
      | ProtocolError s c m r \<Rightarrow> m)"

text \<open>A call, its error branch and its continuation.\<close>

definition callA :: "'a svc \<Rightarrow> (go_error \<Rightarrow> api) \<Rightarrow> ('a \<Rightarrow> api) \<Rightarrow> api" where
  "callA m f g w = (case m w of (Inl e, w1) \<Rightarrow> f e w1 | (Inr a, w1) \<Rightarrow> g a w1)"

definition checkA :: "'a result \<Rightarrow> nat \<Rightarrow> ('a \<Rightarrow> api) \<Rightarrow> api" where
  "checkA r status g = (case r of Inl e \<Rightarrow> writeError status (error_text e) | Inr a \<Rightarrow> g a)"

definition readA :: "service_env \<Rightarrow> (instant \<Rightarrow> db \<Rightarrow> 'a) \<Rightarrow> 'a svc" where
  "readA E f = run_tx E (\<lambda>X d. Inr (f (tx_now X) d, d))"

section \<open>The parts of a request\<close>

definition sessionCookie :: string where "sessionCookie = ''pushsdk_admin_session''"

definition sessionToken :: "api_request \<Rightarrow> string result" where
  "sessionToken rq =
     (case map_of (ar_Cookies rq) sessionCookie of
        Some v \<Rightarrow> if v = [] then Inl (ErrNew ''session cookie is missing'') else Inr v
      | None \<Rightarrow> Inl (ErrNew ''session cookie is missing''))"

text \<open>\<open>base64.RawURLEncoding\<close>.\<close>

definition raw_url_base64 :: "bytes \<Rightarrow> string" where
  "raw_url_base64 bs =
     map (\<lambda>c. if c = CHR ''+'' then CHR ''-'' else if c = CHR ''/'' then CHR ''_'' else c)
       (filter (\<lambda>c. c \<noteq> b64_pad) (b64_encode bs))"

definition randomToken :: "bytes \<Rightarrow> string result" where
  "randomToken rand = bindE (read_full 32 rand) (\<lambda>(value, rest). Inr (raw_url_base64 value))"

text \<open>
  The strict decoder: one document of the declared fields only, and nothing after it, in the part
  of the body that is read.
\<close>

definition decode_strict :: "nat \<Rightarrow> (string \<Rightarrow> string \<Rightarrow> json \<Rightarrow> 's \<Rightarrow> 's option) \<Rightarrow> 's \<Rightarrow> api_request \<Rightarrow> 's result" where
  "decode_strict bound field zero rq =
     bindE (guardE (case parse_media_type (ar_ContentType rq) of None \<Rightarrow> False | Some (t, _) \<Rightarrow> t = ''application/json'')
              (ErrNew ''Content-Type must be application/json'')) (\<lambda>_.
     bindE (someE (ErrNew ''invalid JSON request'') (json_first (take bound (ar_Body rq)))) (\<lambda>(v, rest).
     bindE (someE (ErrNew ''invalid JSON request'') (json_struct field v zero)) (\<lambda>x.
     bindE (guardE (json_eof rest) (ErrNew ''request contains a trailing JSON value'')) (\<lambda>_.
       Inr x))))"

definition decodeJSON :: "(string \<Rightarrow> string \<Rightarrow> json \<Rightarrow> 's \<Rightarrow> 's option) \<Rightarrow> 's \<Rightarrow> api_request \<Rightarrow> 's result" where
  "decodeJSON field zero rq = decode_strict 4097 field zero rq"

definition pagination :: "api_request \<Rightarrow> (int \<times> int) result" where
  "pagination rq =
     (let q = parse_query (ar_RawQuery rq); rawLimit = query_get q ''limit''; rawOffset = query_get q ''offset''
      in bindE (if rawLimit = [] then Inr 50
                else case parse_int rawLimit of
                       None \<Rightarrow> Inl (ErrNew ''limit must be an integer from 1 to 200'')
                     | Some v \<Rightarrow> if v < 1 \<or> v > 200 then Inl (ErrNew ''limit must be an integer from 1 to 200'') else Inr v)
           (\<lambda>limit.
         bindE (if rawOffset = [] then Inr 0
                else case parse_int rawOffset of
                       None \<Rightarrow> Inl (ErrNew ''offset must be a non-negative integer'')
                     | Some v \<Rightarrow> if v < 0 then Inl (ErrNew ''offset must be a non-negative integer'') else Inr v)
           (\<lambda>offset. Inr (limit, offset))))"

text \<open>
  The loop over the parameters: each is known and occurs once. The message names the offending
  parameter that the iteration meets first, which the model leaves out.
\<close>

definition known_once :: "string list \<Rightarrow> (string \<times> string) list \<Rightarrow> unit result" where
  "known_once known q =
     bindE (guardE (list_all (\<lambda>k. k \<in> set known) (query_keys q)) (ErrNew ''unsupported query parameter'')) (\<lambda>_.
       guardE (list_all (\<lambda>k. length (query_values q k) = 1) (query_keys q)) (ErrNew ''parameter must appear at most once''))"

definition query_present :: "(string \<times> string) list \<Rightarrow> string \<Rightarrow> string option" where
  "query_present q k = (case query_values q k of [] \<Rightarrow> None | v # _ \<Rightarrow> Some v)"

definition deviceEventQuery :: "api_request \<Rightarrow> int \<Rightarrow> int \<Rightarrow> DeviceEventQuery result" where
  "deviceEventQuery rq limit offset =
     (let q = parse_query (ar_RawQuery rq)
      in bindE (known_once [''limit'', ''offset'', ''category'', ''subtype'', ''terminal'', ''source''] q) (\<lambda>_.
         bindE (case query_present q ''category'' of
                  None \<Rightarrow> Inr None
                | Some c \<Rightarrow>
                    if c = ''all'' then Inr None
                    else bindE (someE (ErrNew ''category must be one of all, alarm, exception, operation, or event'')
                                 (MajorEventTypeForCategory c)) (\<lambda>m. Inr (Some m))) (\<lambda>major.
         bindE (case query_present q ''subtype'' of
                  None \<Rightarrow> Inr None
                | Some s \<Rightarrow>
                    if major = None then Inl (ErrNew ''subtype requires a category'')
                    else (case parse_int s of
                            None \<Rightarrow> Inl (ErrNew ''subtype must be a non-negative integer'')
                          | Some v \<Rightarrow> if v < 0 then Inl (ErrNew ''subtype must be a non-negative integer'') else Inr (Some v)))
           (\<lambda>subtype.
         bindE (case query_present q ''terminal'' of
                  None \<Rightarrow> Inr []
                | Some t \<Rightarrow> if t = [] then Inl (ErrNew ''terminal must not be empty'') else Inr t) (\<lambda>terminal.
         bindE (case query_present q ''source'' of
                  None \<Rightarrow> Inr []
                | Some s \<Rightarrow>
                    if s = ''all'' then Inr []
                    else if s \<noteq> ''pushsdk'' \<and> s \<noteq> ''isapi'' then Inl (ErrNew ''source must be one of all, pushsdk, or isapi'')
                    else Inr s) (\<lambda>source.
           Inr \<lparr> qy_Limit = limit, qy_Offset = offset, qy_MajorEventType = major, qy_SubEventType = subtype,
                 qy_Terminal = terminal, qy_Source = source \<rparr>))))))"

definition isapiCommandTerminalFilter :: "api_request \<Rightarrow> string result" where
  "isapiCommandTerminalFilter rq =
     (let q = parse_query (ar_RawQuery rq)
      in bindE (known_once [''limit'', ''offset'', ''terminal''] q) (\<lambda>_.
           case query_present q ''terminal'' of
             None \<Rightarrow> Inr []
           | Some t \<Rightarrow> if t = [] then Inl (ErrNew ''terminal must not be empty'') else Inr t))"

definition sameOrigin :: "api_request \<Rightarrow> bool" where
  "sameOrigin rq \<longleftrightarrow>
     ar_Origin rq \<noteq> [] \<and>
     ar_Origin rq = (if ar_ForwardedProto rq \<noteq> [] then ar_ForwardedProto rq else if ar_TLS rq then ''https'' else ''http'') @
       ''://'' @ ar_Host rq"

section \<open>ISAPI commands\<close>

definition visible_ascii :: "char \<Rightarrow> bool" where
  "visible_ascii c \<longleftrightarrow> byte_val c > 0x20 \<and> byte_val c < 0x7f"

definition validateISAPIURL :: "string \<Rightarrow> unit result" where
  "validateISAPIURL raw =
     bindE (guardE (8 \<le> length raw \<and> length raw \<le> 4096 \<and> has_prefix ''/ISAPI/'' raw)
              (ErrNew ''url must be an absolute /ISAPI/ path from 8 to 4096 bytes'')) (\<lambda>_.
     bindE (guardE (count_list raw (CHR ''?'') \<le> 1 \<and> CHR ''#'' \<notin> set raw)
              (ErrNew ''url must not contain an ambiguous query or fragment'')) (\<lambda>_.
     bindE (guardE (list_all visible_ascii raw) (ErrNew ''url must contain only visible ASCII bytes'')) (\<lambda>_.
     let path = takeWhile (\<lambda>c. c \<noteq> CHR ''?'') raw
     in guardE (list_all (\<lambda>s. s \<noteq> [] \<and> s \<noteq> ''.'' \<and> s \<noteq> ''..'')
                  (split_on (CHR ''/'') (if has_prefix ''/ISAPI/'' path then drop 7 path else path)))
          (ErrNew ''url path must contain explicit non-relative segments''))))"

record isapiCommandInput =
  ii_Method :: string
  ii_URL :: string
  ii_DataFormat :: string
  ii_TextData :: "string option"
  ii_DataBase64 :: "string option"
  ii_ExpiresInSeconds :: "int option"

definition zero_isapiCommandInput :: isapiCommandInput where
  "zero_isapiCommandInput = \<lparr> ii_Method = [], ii_URL = [], ii_DataFormat = [], ii_TextData = None, ii_DataBase64 = None,
     ii_ExpiresInSeconds = None \<rparr>"

definition isapiCommandInput_field :: "string \<Rightarrow> string \<Rightarrow> json \<Rightarrow> isapiCommandInput \<Rightarrow> isapiCommandInput option" where
  "isapiCommandInput_field key raw v x =
     (if is_field ''method'' key then map_option (\<lambda>s. x\<lparr>ii_Method := s\<rparr>) (json_val json_string (ii_Method x) v)
      else if is_field ''url'' key then map_option (\<lambda>s. x\<lparr>ii_URL := s\<rparr>) (json_val json_string (ii_URL x) v)
      else if is_field ''dataFormat'' key then map_option (\<lambda>s. x\<lparr>ii_DataFormat := s\<rparr>) (json_val json_string (ii_DataFormat x) v)
      else if is_field ''textData'' key then map_option (\<lambda>s. x\<lparr>ii_TextData := s\<rparr>) (json_ptr json_string v)
      else if is_field ''dataBase64'' key then map_option (\<lambda>s. x\<lparr>ii_DataBase64 := s\<rparr>) (json_ptr json_string v)
      else if is_field ''expiresInSeconds'' key then map_option (\<lambda>s. x\<lparr>ii_ExpiresInSeconds := s\<rparr>) (json_ptr json_int v)
      else None)"

definition maxISAPICommandBytes :: nat where "maxISAPICommandBytes = 8 * 2 ^ 20"

definition max_command_json :: nat where "max_command_json = (maxISAPICommandBytes + 2) div 3 * 4 + 8192"

definition decodeISAPICommandJSON :: "api_request \<Rightarrow> isapiCommandInput result" where
  "decodeISAPICommandJSON rq =
     bindE (guardE (case parse_media_type (ar_ContentType rq) of None \<Rightarrow> False | Some (t, _) \<Rightarrow> t = ''application/json'')
              (ErrNew ''Content-Type must be application/json'')) (\<lambda>_.
     bindE (guardE (ar_ContentLength rq \<le> int max_command_json)
              (ErrNew ''ISAPI command request must not exceed the 8 MiB command-data limit'')) (\<lambda>_.
       decode_strict (max_command_json + 1) isapiCommandInput_field zero_isapiCommandInput rq))"

record parsedISAPICommandInput =
  pi_Method :: string
  pi_URL :: string
  pi_DataFormat :: string
  pi_Data :: bytes
  pi_ExpiresInSeconds :: int

text \<open>The payload of a command: exactly the representation that its format declares.\<close>

definition command_data :: "isapiCommandInput \<Rightarrow> bytes result" where
  "command_data x =
     (if ii_DataFormat x = ''noData'' then
        if ii_TextData x \<noteq> None \<or> ii_DataBase64 x \<noteq> None
        then Inl (ErrNew ''noData commands must not include textData or dataBase64'') else Inr []
      else if ii_DataFormat x = ''jsonData'' \<or> ii_DataFormat x = ''xmlData'' then
        (case (ii_TextData x, ii_DataBase64 x) of
           (Some t, None) \<Rightarrow> if t = []
             then Inl (ErrNew (ii_DataFormat x @ '' commands require non-empty textData and must not include dataBase64'')) else Inr t
         | _ \<Rightarrow> Inl (ErrNew (ii_DataFormat x @ '' commands require non-empty textData and must not include dataBase64'')))
      else if ii_DataFormat x = ''boundaryData'' then
        (case (ii_TextData x, ii_DataBase64 x) of
           (None, Some b) \<Rightarrow>
             if b = [] then Inl (ErrNew ''boundaryData commands require non-empty dataBase64 and must not include textData'')
             else (case b64_decode b of
                     None \<Rightarrow> Inl (ErrNew ''boundaryData dataBase64 must be canonical standard base64'')
                   | Some bs \<Rightarrow> if b64_encode bs \<noteq> b
                       then Inl (ErrNew ''boundaryData dataBase64 must be canonical standard base64'') else Inr bs)
         | _ \<Rightarrow> Inl (ErrNew ''boundaryData commands require non-empty dataBase64 and must not include textData''))
      else Inl (ErrNew ''dataFormat must be jsonData, xmlData, boundaryData, or noData''))"

definition parseISAPICommandInput :: "api_request \<Rightarrow> parsedISAPICommandInput result" where
  "parseISAPICommandInput rq =
     bindE (decodeISAPICommandJSON rq) (\<lambda>x.
     bindE (case ii_ExpiresInSeconds x of
              Some n \<Rightarrow> if n < 1 \<or> n > 3600 then Inl (ErrNew ''expiresInSeconds must be an integer from 1 to 3600'') else Inr n
            | None \<Rightarrow> Inl (ErrNew ''expiresInSeconds must be an integer from 1 to 3600'')) (\<lambda>seconds.
     bindE (guardE (ii_Method x \<in> {''GET'', ''POST'', ''PUT'', ''DELETE''})
              (ErrNew ''method must be GET, POST, PUT, or DELETE'')) (\<lambda>_.
     bindE (validateISAPIURL (ii_URL x)) (\<lambda>_.
     bindE (command_data x) (\<lambda>payload.
     bindE (guardE (length payload \<le> maxISAPICommandBytes) (ErrNew ''ISAPI command data must not exceed 8 MiB'')) (\<lambda>_.
       Inr \<lparr> pi_Method = ii_Method x, pi_URL = ii_URL x, pi_DataFormat = ii_DataFormat x, pi_Data = payload,
             pi_ExpiresInSeconds = seconds \<rparr>))))))"

end
