(* ===== verification/HttpHandlers.thy ===== *)
theory HttpHandlers
  imports HttpApi
begin

text \<open>
  The handlers of the administration API (\<open>internal/httpapi/server.go\<close>, \<open>delivery.go\<close>,
  \<open>attachments.go\<close>): sign-in and sign-out, the guard every other route stands behind, the reads, the
  queueing of commands, synchronisations and back-fills, and the delivery routes. Each store call is
  one interaction of the world and may fail.
\<close>

section \<open>What a server holds\<close>

text \<open>\<open>net/url\<close> as the check of a destination uses it.\<close>

record 'u endpoint_library =
  el_Parse :: "string \<Rightarrow> 'u option"
  el_Scheme :: "'u \<Rightarrow> string"
  el_Hostname :: "'u \<Rightarrow> string"
  el_has_user :: "'u \<Rightarrow> bool"
  el_Fragment :: "'u \<Rightarrow> string"
  el_Opaque :: "'u \<Rightarrow> string"

text \<open>\<open>net\<close> and \<open>net/netip\<close>.\<close>

record ('a, 'p) net_library =
  nl_SplitHostPort :: "string \<Rightarrow> string option"
  nl_ParseAddr :: "string \<Rightarrow> 'a option"
  nl_ParsePrefix :: "string \<Rightarrow> 'p option"
  nl_Contains :: "'p \<Rightarrow> 'a \<Rightarrow> bool"

record ('u, 'a, 'p) api_env =
  ax_service :: service_env
  ax_bcrypt :: "string \<Rightarrow> string \<Rightarrow> bool"
  ax_url :: "'u endpoint_library"
  ax_net :: "('a, 'p) net_library"
  ax_metricsNets :: "'p list"

abbreviation api_config :: "('u, 'a, 'p) api_env \<Rightarrow> Config" where
  "api_config A \<equiv> se_config (ax_service A)"

text \<open>\<open>New\<close>: the networks that may read the metrics.\<close>

definition New :: "('a, 'p) net_library \<Rightarrow> Config \<Rightarrow> 'p list option" where
  "New N cfg = foldO (\<lambda>cidr ps. map_option (\<lambda>p. ps @ [p]) (nl_ParsePrefix N cidr)) (MetricsCIDRs cfg) []"

section \<open>Sessions\<close>

record loginInput =
  li_Username :: string
  li_Password :: string

definition loginInput_field :: "string \<Rightarrow> string \<Rightarrow> json \<Rightarrow> loginInput \<Rightarrow> loginInput option" where
  "loginInput_field key raw v x =
     (if is_field ''username'' key then map_option (\<lambda>s. x\<lparr>li_Username := s\<rparr>) (json_val json_string (li_Username x) v)
      else if is_field ''password'' key then map_option (\<lambda>s. x\<lparr>li_Password := s\<rparr>) (json_val json_string (li_Password x) v)
      else None)"

definition session_cookie_of :: "Config \<Rightarrow> string \<Rightarrow> int \<Rightarrow> session_cookie" where
  "session_cookie_of cfg value age =
     \<lparr> ck_Name = sessionCookie, ck_Value = value, ck_Path = ''/'', ck_HttpOnly = True, ck_Secure = CookieSecure cfg,
       ck_SameSiteStrict = True, ck_MaxAge = age \<rparr>"

definition with_cookie :: "session_cookie \<Rightarrow> api \<Rightarrow> api" where
  "with_cookie c h w = (case h w of (r, w1) \<Rightarrow> (r\<lparr>ap_Cookie := Some c\<rparr>, w1))"

text \<open>\<open>time.Now()\<close> and \<open>rand.Read\<close> are interactions of their own.\<close>

definition host_timeS :: "service_env \<Rightarrow> instant svc" where
  "host_timeS E = bindS tickS (\<lambda>n. returnS (se_host_clock E n))"

definition randomTokenS :: "service_env \<Rightarrow> string svc" where
  "randomTokenS E = bindS tickS (\<lambda>n. liftS (randomToken (se_rand E n)))"

definition open_session :: "('u, 'a, 'p) api_env \<Rightarrow> int \<Rightarrow> api" where
  "open_session A userID =
     (let E = ax_service A; cfg = api_config A
      in callA (randomTokenS E) (\<lambda>_. internalError) (\<lambda>rawToken.
         callA (host_timeS E) (\<lambda>_. internalError) (\<lambda>now.
         callA (run_tx E (\<lambda>X. CreateSessionWithActivity (tx_now X) userID (sha256 rawToken) (now + SessionTTL cfg)
                  (new_activity ''admin.login'' [] ''administrator session opened'' []))) (\<lambda>_. internalError) (\<lambda>stored.
         callA (publishS stored) (\<lambda>_. internalError) (\<lambda>_.
           with_cookie (session_cookie_of cfg rawToken (SessionTTL cfg div second)) (writeJSON 200 (StatusValue ''authenticated'')))))))"

definition login_handler :: "('u, 'a, 'p) api_env \<Rightarrow> api_request \<Rightarrow> api" where
  "login_handler A rq =
     checkA (decodeJSON loginInput_field \<lparr> li_Username = [], li_Password = [] \<rparr> rq) 400 (\<lambda>input.
       if li_Username input = [] \<or> li_Password input = [] then writeError 400 ''username and password are required''
       else callA (readA (ax_service A) (\<lambda>_. VerifyAdmin (ax_bcrypt A) (li_Username input) (li_Password input)))
              (\<lambda>_. internalError) (\<lambda>user.
              case user of
                None \<Rightarrow> writeError 401 ''invalid credentials''
              | Some userID \<Rightarrow> open_session A userID))"

type_synonym ('u, 'a, 'p) handler = "('u, 'a, 'p) api_env \<Rightarrow> AdminIdentity option \<Rightarrow> api_request \<Rightarrow> api"

definition logout_handler :: "('u, 'a, 'p) handler" where
  "logout_handler A identity rq =
     (case sessionToken rq of
        Inl e \<Rightarrow> writeError 401 ''authentication required''
      | Inr token \<Rightarrow>
          callA (run_tx (ax_service A) (\<lambda>X. DeleteSessionWithActivity (tx_now X) (sha256 token)
                   (new_activity ''admin.logout'' [] ''administrator session closed'' []))) (\<lambda>_. internalError) (\<lambda>stored.
          callA (publishS stored) (\<lambda>_. internalError) (\<lambda>_.
            with_cookie (session_cookie_of (api_config A) [] (- 1)) (writeJSON 200 (StatusValue ''signed_out'')))))"

definition withSession :: "('u, 'a, 'p) handler \<Rightarrow> ('u, 'a, 'p) api_env \<Rightarrow> api_request \<Rightarrow> api" where
  "withSession handler A rq =
     (case sessionToken rq of
        Inl e \<Rightarrow> writeError 401 ''authentication required''
      | Inr token \<Rightarrow>
          callA (readA (ax_service A) (\<lambda>now. AdminIdentityForSession now (sha256 token))) (\<lambda>_. internalError) (\<lambda>found.
            case found of
              None \<Rightarrow> writeError 401 ''authentication required''
            | Some identity \<Rightarrow> handler A (Some identity) rq))"

section \<open>Reads\<close>

definition health :: api where
  "health = writeJSON 200 (StatusValue ''ok'')"

definition ready :: "('u, 'a, 'p) api_env \<Rightarrow> api" where
  "ready A = callA (readA (ax_service A) (\<lambda>_. Store_Overview)) (\<lambda>_. writeError 503 ''database is unavailable'')
     (\<lambda>_. writeJSON 200 (StatusValue ''ready''))"

definition overview :: "('u, 'a, 'p) handler" where
  "overview A identity rq =
     callA (readA (ax_service A) (\<lambda>_. Store_Overview)) (\<lambda>_. internalError) (\<lambda>v. writeJSON 200 (OverviewValue v))"

definition deviceEvents :: "('u, 'a, 'p) handler" where
  "deviceEvents A identity rq =
     checkA (pagination rq) 400 (\<lambda>(limit, offset).
     checkA (deviceEventQuery rq limit offset) 400 (\<lambda>query.
     callA (readA (ax_service A) (\<lambda>_. QueryDeviceEvents query)) (\<lambda>_. internalError) (\<lambda>v. writeJSON 200 (EventsValue v))))"

definition show_payload :: "library \<Rightarrow> DeviceEventPayload option \<Rightarrow> api" where
  "show_payload L found =
     (case found of
        None \<Rightarrow> writeError 404 ''device event not found''
      | Some p \<Rightarrow> writeJSON 200 (PayloadValue p (obind (dp_PayloadBase64 p) (ExtractPicture L (dp_DataFormat p)))))"

definition positive_id :: "string \<Rightarrow> int option" where
  "positive_id s = (case parse_int s of None \<Rightarrow> None | Some i \<Rightarrow> if i < 1 then None else Some i)"

definition deviceEventPayload :: "('u, 'a, 'p) handler" where
  "deviceEventPayload A identity rq =
     (case positive_id (ar_PathValue rq ''id'') of
        None \<Rightarrow> writeError 400 ''event id must be a positive integer''
      | Some i \<Rightarrow>
          callA (bindS (readA (ax_service A) (\<lambda>_. Store_DeviceEventPayload i)) liftS) (\<lambda>_. internalError)
            (show_payload (se_library (ax_service A))))"

definition archiveEventPayload :: "('u, 'a, 'p) handler" where
  "archiveEventPayload A identity rq =
     (case positive_id (ar_PathValue rq ''id'') of
        None \<Rightarrow> writeError 400 ''event id must be a positive integer''
      | Some i \<Rightarrow>
          callA (bindS (readA (ax_service A) (\<lambda>_. ArchiveEventPayload (ar_PathValue rq ''source'') i)) liftS)
            (\<lambda>e. if e = ErrUnknownArchiveEventSource then writeError 400 (error_text e) else internalError)
            (show_payload (se_library (ax_service A))))"

definition gatewayActivity :: "('u, 'a, 'p) handler" where
  "gatewayActivity A identity rq =
     checkA (pagination rq) 400 (\<lambda>(limit, offset).
     callA (readA (ax_service A) (\<lambda>_. GatewayActivities limit offset)) (\<lambda>_. internalError) (\<lambda>v. writeJSON 200 (ActivitiesValue v)))"

definition isapiCommands :: "('u, 'a, 'p) handler" where
  "isapiCommands A identity rq =
     checkA (pagination rq) 400 (\<lambda>(limit, offset).
     checkA (isapiCommandTerminalFilter rq) 400 (\<lambda>terminal.
     callA (readA (ax_service A) (\<lambda>_. QueryISAPICommands terminal limit offset)) (\<lambda>_. internalError)
       (\<lambda>v. writeJSON 200 (CommandsValue v))))"

definition isapiCommandPayload :: "('u, 'a, 'p) handler" where
  "isapiCommandPayload A identity rq =
     callA (readA (ax_service A) (\<lambda>_. Store_ISAPICommandPayload (ar_PathValue rq ''uuid''))) (\<lambda>_. internalError) (\<lambda>found.
       case found of
         None \<Rightarrow> writeError 404 ''ISAPI command not found''
       | Some v \<Rightarrow> writeJSON 200 (CommandPayloadValue v))"

definition accessEventSyncRun :: "('u, 'a, 'p) handler" where
  "accessEventSyncRun A identity rq =
     callA (readA (ax_service A) (\<lambda>_. Store_AccessEventSyncRun (ar_PathValue rq ''uuid''))) (\<lambda>_. internalError) (\<lambda>found.
       case found of
         None \<Rightarrow> writeError 404 ''retained event sync not found''
       | Some v \<Rightarrow> writeJSON 200 (SyncRunValue v))"

definition deliveryConfiguration :: "('u, 'a, 'p) handler" where
  "deliveryConfiguration A identity rq =
     callA (readA (ax_service A) (\<lambda>_. DeliveryRoutes)) (\<lambda>_. internalError) (\<lambda>routes.
       writeJSON 200 (ConfigurationValue routes (sort (map fst (DeliverySigningKeys (api_config A))))))"

definition eventDeliveries :: "('u, 'a, 'p) handler" where
  "eventDeliveries A identity rq =
     checkA (pagination rq) 400 (\<lambda>(limit, offset).
     callA (readA (ax_service A) (\<lambda>_. EventDeliveries limit offset)) (\<lambda>_. internalError)
       (\<lambda>(rows, total). writeJSON 200 (DeliveriesValue rows total)))"

definition attachmentDeliveries :: "('u, 'a, 'p) handler" where
  "attachmentDeliveries A identity rq =
     checkA (pagination rq) 400 (\<lambda>(limit, offset).
     callA (readA (ax_service A) (\<lambda>_. AttachmentDeliveries limit offset)) (\<lambda>_. internalError)
       (\<lambda>(rows, total). writeJSON 200 (AttachmentsValue rows total)))"

definition privateMetrics :: "('u, 'a, 'p) api_env \<Rightarrow> api_request \<Rightarrow> api" where
  "privateMetrics A rq =
     (case obind (nl_SplitHostPort (ax_net A) (ar_RemoteAddr rq)) (nl_ParseAddr (ax_net A)) of
        None \<Rightarrow> writeError 403 ''metrics access denied''
      | Some address \<Rightarrow>
          if list_ex (\<lambda>p. nl_Contains (ax_net A) p address) (ax_metricsNets A) then writeJSON 200 MetricsValue
          else writeError 403 ''metrics access denied'')"

section \<open>Commands and synchronisations\<close>

definition new_command :: "string \<Rightarrow> AdminIdentity \<Rightarrow> parsedISAPICommandInput \<Rightarrow> instant \<Rightarrow> NewISAPICommand" where
  "new_command serial identity input now =
     \<lparr> nc_TerminalSerialNumber = serial, nc_CreatedBy = identity, nc_Method = pi_Method input, nc_URL = pi_URL input,
       nc_DataFormat = pi_DataFormat input, nc_Data = pi_Data input, nc_ExpiresAt = now + pi_ExpiresInSeconds input * second \<rparr>"

definition queueISAPICommand :: "('u, 'a, 'p) handler" where
  "queueISAPICommand A found rq =
     (case found of
        None \<Rightarrow> internalError
      | Some identity \<Rightarrow>
          checkA (parseISAPICommandInput rq) 400 (\<lambda>input.
          callA (host_timeS (ax_service A)) (\<lambda>_. internalError) (\<lambda>now.
          callA (run_tx (ax_service A) (\<lambda>X. QueueISAPICommand X (new_command (ar_PathValue rq ''serial'') identity input now)))
            (\<lambda>e. if e = ErrISAPICommandTerminalNotFound then writeError 404 (error_text e)
                 else if e = ErrISAPICommandTerminalOffline then writeError 409 (error_text e) else internalError)
            (\<lambda>(command, stored).
          callA (publishS stored) (\<lambda>_. internalError) (\<lambda>_. writeJSON 201 (CommandValue (scanISAPICommand command)))))))"

definition queueAccessEventSync :: "('u, 'a, 'p) handler" where
  "queueAccessEventSync A found rq =
     (if ar_RawQuery rq \<noteq> [] then writeError 400 ''retained event sync does not accept query parameters''
      else if length (ar_Body rq) > 1 then writeError 413 ''retained event sync request must not have a body''
      else if ar_Body rq \<noteq> [] then writeError 400 ''retained event sync request must not have a body''
      else (case found of
              None \<Rightarrow> internalError
            | Some identity \<Rightarrow>
                callA (run_tx (ax_service A) (\<lambda>X. QueueAccessEventSync X (ar_PathValue rq ''serial'') identity))
                  (\<lambda>e. if e = ErrAccessEventSyncTerminalNotFound then writeError 404 (error_text e)
                       else if e = ErrAccessEventSyncTerminalOffline \<or> e = ErrAccessEventSyncInProgress
                       then writeError 409 (error_text e) else internalError)
                  (\<lambda>(run, activities).
                callA (publish_allS activities) (\<lambda>_. internalError) (\<lambda>_. writeJSON 201 (SyncRunValue (run_view run))))))"

section \<open>Delivery routes\<close>

definition validDeliveryEndpoint :: "'u endpoint_library \<Rightarrow> string \<Rightarrow> bool" where
  "validDeliveryEndpoint U value \<longleftrightarrow>
     (case el_Parse U value of
        None \<Rightarrow> False
      | Some u \<Rightarrow> el_Scheme U u = ''https'' \<and> el_Hostname U u \<noteq> [] \<and> \<not> el_has_user U u \<and> el_Fragment U u = [] \<and>
          el_Opaque U u = [] \<and> length value \<le> 2048)"

record route_input =
  ri_EndpointURL :: string
  ri_SigningKeyID :: string
  ri_Enabled :: "bool option"

definition route_input_field :: "string \<Rightarrow> string \<Rightarrow> json \<Rightarrow> route_input \<Rightarrow> route_input option" where
  "route_input_field key raw v x =
     (if is_field ''endpointUrl'' key then map_option (\<lambda>s. x\<lparr>ri_EndpointURL := s\<rparr>) (json_val json_string (ri_EndpointURL x) v)
      else if is_field ''signingKeyId'' key then map_option (\<lambda>s. x\<lparr>ri_SigningKeyID := s\<rparr>) (json_val json_string (ri_SigningKeyID x) v)
      else if is_field ''enabled'' key then map_option (\<lambda>s. x\<lparr>ri_Enabled := s\<rparr>) (json_ptr json_bool v)
      else None)"

text \<open>The administrator and the configured terminal that the delivery handlers start from.\<close>

definition for_terminal :: "('u, 'a, 'p) api_env \<Rightarrow> AdminIdentity option \<Rightarrow> api_request \<Rightarrow> (AdminIdentity \<Rightarrow> Terminal \<Rightarrow> api) \<Rightarrow> api" where
  "for_terminal A found rq h =
     (case found of
        None \<Rightarrow> writeError 401 ''administrator required''
      | Some identity \<Rightarrow>
          (case TerminalBySerialNumber (api_config A) (ar_PathValue rq ''serial'') of
             None \<Rightarrow> writeError 404 ''unknown terminal''
           | Some terminal \<Rightarrow> h identity terminal))"

definition saveDeliveryRoute :: "('u, 'a, 'p) handler" where
  "saveDeliveryRoute A found rq =
     for_terminal A found rq (\<lambda>identity terminal.
     checkA (decodeJSON route_input_field \<lparr> ri_EndpointURL = [], ri_SigningKeyID = [], ri_Enabled = None \<rparr> rq) 400 (\<lambda>input.
       case ri_Enabled input of
         None \<Rightarrow> writeError 422 ''endpointUrl must be an absolute HTTPS URL without credentials or fragments; enabled must be a boolean''
       | Some enabled \<Rightarrow>
           if \<not> validDeliveryEndpoint (ax_url A) (ri_EndpointURL input)
           then writeError 422 ''endpointUrl must be an absolute HTTPS URL without credentials or fragments; enabled must be a boolean''
           else if map_of (DeliverySigningKeys (api_config A)) (ri_SigningKeyID input) = None
           then writeError 422 ''signingKeyId is not configured on the gateway''
           else let route = \<lparr> rt_TerminalSerialNumber = SerialNumber terminal, rt_EndpointURL = ri_EndpointURL input,
                      rt_SigningKeyID = ri_SigningKeyID input, rt_Enabled = enabled \<rparr>
                in callA (run_exec (ax_service A) (\<lambda>X. SaveDeliveryRoute (tx_now X) route (ai_ID identity)))
                     (\<lambda>e. if e = ErrDeliveryRouteBusy then writeError 409 (error_text e) else internalError)
                     (\<lambda>_. writeJSON 200 (RouteValue route))))"

definition deleteDeliveryRoute :: "('u, 'a, 'p) handler" where
  "deleteDeliveryRoute A found rq =
     for_terminal A found rq (\<lambda>identity terminal.
     callA (run_exec (ax_service A) (\<lambda>X. DeleteDeliveryRoute (tx_now X) (SerialNumber terminal) (ai_ID identity)))
       (\<lambda>e. if e = ErrNoRows then writeError 404 ''destination not configured''
            else if e = ErrDeliveryRouteUnfinished then writeError 409 (error_text e) else internalError)
       (\<lambda>_. writeJSON 200 (RemovedValue (SerialNumber terminal))))"

definition retryEventDelivery :: "('u, 'a, 'p) handler" where
  "retryEventDelivery A found rq =
     (case found of
        None \<Rightarrow> writeError 401 ''administrator required''
      | Some identity \<Rightarrow>
          (case positive_id (ar_PathValue rq ''id'') of
             None \<Rightarrow> writeError 400 ''invalid delivery id''
           | Some i \<Rightarrow>
               callA (run_exec (ax_service A) (\<lambda>X. RetryEventDelivery (tx_now X) i (ai_ID identity)))
                 (\<lambda>e. if e = ErrNoRows then writeError 409 ''only failed deliveries can be retried'' else internalError)
                 (\<lambda>_. writeJSON 200 (RetriedValue i))))"

definition retryAttachment :: "('u, 'a, 'p) handler" where
  "retryAttachment A found rq =
     (case found of
        None \<Rightarrow> writeError 401 ''administrator required''
      | Some identity \<Rightarrow>
          (case positive_id (ar_PathValue rq ''id'') of
             None \<Rightarrow> writeError 400 ''invalid attachment delivery id''
           | Some i \<Rightarrow>
               callA (run_exec (ax_service A) (\<lambda>X. RetryAttachmentDelivery (tx_now X) i (ai_ID identity)))
                 (\<lambda>e. if e = ErrNoRows then writeError 409 ''only failed attachment deliveries can be retried'' else internalError)
                 (\<lambda>_. writeJSON 200 (RetriedValue i))))"

section \<open>Back-fills\<close>

text \<open>The errors a back-fill answers with.\<close>

definition backfill_refusal :: "string \<Rightarrow> go_error \<Rightarrow> api" where
  "backfill_refusal too_large e =
     (if e = ErrNoRows \<or> e = ErrBackfillRouteDisabled \<or> e = ErrBackfillPreviewChanged \<or> e = ErrBackfillEmpty
      then writeError 409 (error_text e)
      else if e = ErrBackfillTooLarge then writeError 422 too_large
      else internalError)"

record backfill_input =
  bk_StartsAt :: string
  bk_EndsAt :: string
  bk_PreviewToken :: string

definition backfill_input_field :: "string \<Rightarrow> string \<Rightarrow> json \<Rightarrow> backfill_input \<Rightarrow> backfill_input option" where
  "backfill_input_field key raw v x =
     (if is_field ''startsAt'' key then map_option (\<lambda>s. x\<lparr>bk_StartsAt := s\<rparr>) (json_val json_string (bk_StartsAt x) v)
      else if is_field ''endsAt'' key then map_option (\<lambda>s. x\<lparr>bk_EndsAt := s\<rparr>) (json_val json_string (bk_EndsAt x) v)
      else if is_field ''previewToken'' key then map_option (\<lambda>s. x\<lparr>bk_PreviewToken := s\<rparr>) (json_val json_string (bk_PreviewToken x) v)
      else None)"

text \<open>A past range of at most 31 days, with offsets that are known.\<close>

definition backfill_range :: "instant \<Rightarrow> backfill_input \<Rightarrow> (go_time \<times> go_time) option" where
  "backfill_range now x =
     (if has_suffix ''-00:00'' (bk_StartsAt x) \<or> has_suffix ''-00:00'' (bk_EndsAt x) then None
      else (case (parse_rfc3339 (bk_StartsAt x), parse_rfc3339 (bk_EndsAt x)) of
              (Some from, Some until) \<Rightarrow>
                if gt_instant until \<le> gt_instant from \<or> gt_instant until - gt_instant from > 31 * 24 * 3600 * second \<or>
                   gt_instant until > now then None
                else Some (from, until)
            | _ \<Rightarrow> None))"

definition eventBackfill :: "('u, 'a, 'p) handler" where
  "eventBackfill A found rq =
     for_terminal A found rq (\<lambda>identity terminal.
     checkA (decodeJSON backfill_input_field \<lparr> bk_StartsAt = [], bk_EndsAt = [], bk_PreviewToken = [] \<rparr> rq) 400 (\<lambda>input.
     callA (host_timeS (ax_service A)) (\<lambda>_. internalError) (\<lambda>now.
       case backfill_range now input of
         None \<Rightarrow> writeError 422 ''select a past range of at most 31 days using RFC3339 timestamps with offsets; the end is exclusive''
       | Some (from, until) \<Rightarrow>
           if ar_PathValue rq ''action'' = ''preview'' then
             if bk_PreviewToken input \<noteq> [] then writeError 422 ''previewToken is only used when queuing a preview''
             else callA (bindS (readA (ax_service A) (\<lambda>_. PreviewEventBackfill (SerialNumber terminal) from until)) liftS)
                    (\<lambda>e. backfill_refusal (error_text e) e) (\<lambda>p. writeJSON 200 (PreviewValue p))
           else if ar_PathValue rq ''action'' = ''queue'' then
             if length (bk_PreviewToken input) \<noteq> 64 then writeError 422 ''previewToken is required; preview the backfill first''
             else callA (run_tx (ax_service A) (\<lambda>X. QueueEventBackfill (tx_now X) (SerialNumber terminal) from until
                           (bk_PreviewToken input) (ai_ID identity)))
                    (\<lambda>e. backfill_refusal (error_text e) e) (\<lambda>(batch, n). writeJSON 200 (BackfillValue batch n))
           else writeError 404 ''unknown backfill action'')))"

record attachment_input =
  at_ThroughDeliveryID :: int
  at_PreviewToken :: string

definition attachment_input_field :: "string \<Rightarrow> string \<Rightarrow> json \<Rightarrow> attachment_input \<Rightarrow> attachment_input option" where
  "attachment_input_field key raw v x =
     (if is_field ''throughDeliveryId'' key
        then map_option (\<lambda>i. x\<lparr>at_ThroughDeliveryID := i\<rparr>) (json_val json_int (at_ThroughDeliveryID x) v)
      else if is_field ''previewToken'' key then map_option (\<lambda>s. x\<lparr>at_PreviewToken := s\<rparr>) (json_val json_string (at_PreviewToken x) v)
      else None)"

definition attachmentBackfill :: "('u, 'a, 'p) handler" where
  "attachmentBackfill A found rq =
     for_terminal A found rq (\<lambda>identity terminal.
     checkA (decodeJSON attachment_input_field \<lparr> at_ThroughDeliveryID = 0, at_PreviewToken = [] \<rparr> rq) 400 (\<lambda>input.
       let refusal = backfill_refusal ''At most 5000 event receipts per photo backfill. Select a smaller throughDeliveryId.''
       in if at_ThroughDeliveryID input < 0 then writeError 422 ''invalid delivery bound''
          else if ar_PathValue rq ''action'' = ''preview'' then
            if at_PreviewToken input \<noteq> [] then writeError 422 ''previewToken is only used for queuing''
            else callA (bindS (readA (ax_service A) (\<lambda>_. PreviewAttachmentBackfill (SerialNumber terminal) (at_ThroughDeliveryID input))) liftS)
                   refusal (\<lambda>p. writeJSON 200 (AttachmentPreviewValue p))
          else if ar_PathValue rq ''action'' = ''queue'' then
            if length (at_PreviewToken input) \<noteq> 64 \<or> at_ThroughDeliveryID input \<le> 0
            then writeError 422 ''previewToken and throughDeliveryId are required''
            else callA (run_tx (ax_service A) (\<lambda>X. QueueAttachmentBackfill (tx_now X) (SerialNumber terminal)
                          (at_ThroughDeliveryID input) (at_PreviewToken input) (ai_ID identity)))
                   refusal (\<lambda>n. writeJSON 200 (AttachmentBackfillValue n))
          else writeError 404 ''unknown backfill action''))"

section \<open>The monitor socket\<close>

definition monitorHistoryLimit :: int where "monitorHistoryLimit = 100"

text \<open>
  The opening of a connection: a foreign origin is refused by the upgrade; a subscriber is added
  first and then sent the retained activities, oldest first. A failed read closes the connection and
  ends the subscription.
\<close>

definition monitorSocket :: "('u, 'a, 'p) handler" where
  "monitorSocket A identity rq w =
     (if \<not> sameOrigin rq then writeError 403 ''Forbidden'' w
      else let (client, h) = Subscribe (w_hub w); w1 = w\<lparr>w_hub := h\<rparr>
           in callA (readA (ax_service A) (\<lambda>_. GatewayActivities monitorHistoryLimit 0))
                (\<lambda>_ w2. writeJSON 101 (SocketValue client []) (w2\<lparr>w_hub := Unsubscribe client (w_hub w2)\<rparr>))
                (\<lambda>page. writeJSON 101 (SocketValue client (rev (gp_Activities page)))) w1)"

section \<open>The routes\<close>

datatype admin_route =
    Logout | OverviewR | DeviceEvents | ArchiveEventPayloadR | DeviceEventPayloadR | ISAPICommands | ISAPICommandPayloadR
  | QueueCommand | QueueSync | SyncRun | GatewayActivityR | DeliveryConfiguration | SaveRoute | DeleteRoute | EventBackfill
  | EventDeliveriesR | RetryDelivery | AttachmentDeliveriesR | RetryAttachmentR | AttachmentBackfillR | MonitorSocket

fun admin_handler :: "admin_route \<Rightarrow> ('u, 'a, 'p) handler" where
  "admin_handler Logout = logout_handler"
| "admin_handler OverviewR = overview"
| "admin_handler DeviceEvents = deviceEvents"
| "admin_handler ArchiveEventPayloadR = archiveEventPayload"
| "admin_handler DeviceEventPayloadR = deviceEventPayload"
| "admin_handler ISAPICommands = isapiCommands"
| "admin_handler ISAPICommandPayloadR = isapiCommandPayload"
| "admin_handler QueueCommand = queueISAPICommand"
| "admin_handler QueueSync = queueAccessEventSync"
| "admin_handler SyncRun = accessEventSyncRun"
| "admin_handler GatewayActivityR = gatewayActivity"
| "admin_handler DeliveryConfiguration = deliveryConfiguration"
| "admin_handler SaveRoute = saveDeliveryRoute"
| "admin_handler DeleteRoute = deleteDeliveryRoute"
| "admin_handler EventBackfill = eventBackfill"
| "admin_handler EventDeliveriesR = eventDeliveries"
| "admin_handler RetryDelivery = retryEventDelivery"
| "admin_handler AttachmentDeliveriesR = attachmentDeliveries"
| "admin_handler RetryAttachmentR = retryAttachment"
| "admin_handler AttachmentBackfillR = attachmentBackfill"
| "admin_handler MonitorSocket = monitorSocket"

datatype route = Health | Ready | Metrics | Login | Admin admin_route

definition Register :: "('u, 'a, 'p) api_env \<Rightarrow> route \<Rightarrow> api_request \<Rightarrow> api" where
  "Register A r rq =
     (case r of
        Health \<Rightarrow> health
      | Ready \<Rightarrow> ready A
      | Metrics \<Rightarrow> privateMetrics A rq
      | Login \<Rightarrow> login_handler A rq
      | Admin a \<Rightarrow> withSession (admin_handler a) A rq)"

end
