(* ===== verification/Startup.thy ===== *)
theory Startup
  imports Protocol Migrations HttpHandlers
begin

text \<open>
  Starting the gateway (\<open>cmd/gateway/main.go\<close>, \<open>run\<close>): configuration, migrations, the back-fill of
  projections, the configured terminals and administrator, expired sessions, the restored PushSDK
  sessions and the command deadlines, in this order; any error ends the start before a request is served.
\<close>

section \<open>The start\<close>

definition NewMetrics :: metrics where
  "NewMetrics = \<lparr> mt_Requests = (\<lambda>_. 0), mt_EventsReceived = (\<lambda>_. 0), mt_EventsPersisted = 0, mt_EventsRejected = 0,
     mt_SessionsActive = 0 \<rparr>"

text \<open>The process before its first call of the store: a new hub, new metrics, no session.\<close>

definition boot_world :: "db \<Rightarrow> world" where
  "boot_world d = \<lparr> w_db = d, w_entries = NewSessions, w_hub = NewHub, w_metrics = NewMetrics, w_tick = 1 \<rparr>"

text \<open>The back-fill is a sequence of transactions: what it committed before an error stays.\<close>

definition backfillS :: "service_env \<Rightarrow> unit svc" where
  "backfillS E =
     bindS tickS (\<lambda>n w.
       if se_db_fault E n then (Inl ErrDatabase, w)
       else case BackfillAccessEventProjections (se_library E) 0 (w_db w) of
              ((backfilled, Some e), d) \<Rightarrow> (Inl e, w\<lparr>w_db := d\<rparr>)
            | ((backfilled, None), d) \<Rightarrow> (Inr (), w\<lparr>w_db := d\<rparr>))"

definition prepare :: "(string \<Rightarrow> string result) \<Rightarrow> (string \<Rightarrow> string \<Rightarrow> bool) \<Rightarrow> service_env \<Rightarrow> unit svc" where
  "prepare generate matches E =
     (let cfg = se_config E
      in bindS (backfillS E) (\<lambda>_.
         bindS (run_exec E (\<lambda>X. SeedConfiguredTerminals (tx_now X) (Terminals cfg))) (\<lambda>_.
         bindS (run_exec E (\<lambda>X. ReconcileConfiguredAdministrator generate matches (tx_now X) (AdminUsername cfg) (AdminPassword cfg))) (\<lambda>_.
         bindS (run_exec E (\<lambda>X d. Inr (PurgeExpiredSessions (tx_now X) d))) (\<lambda>_.
         bindS (RestoreSessions E) (\<lambda>_.
           ExpireISAPICommandDeadlines E))))))"

text \<open>What the process reads from its host: durations, environment variables, files.\<close>

record host =
  ho_ParseDuration :: "string \<Rightarrow> int option"
  ho_env :: "string \<Rightarrow> string option"
  ho_ReadFile :: "string \<Rightarrow> bytes option"

definition run ::
    "host \<Rightarrow> 's mig_env \<Rightarrow> ('s \<Rightarrow> db) \<Rightarrow> (string \<Rightarrow> string result) \<Rightarrow> (string \<Rightarrow> string \<Rightarrow> bool) \<Rightarrow> ('a, 'p) net_library \<Rightarrow>
       service_env \<Rightarrow> 's mig_state \<Rightarrow> (service_env \<times> 'p list \<times> world) result" where
  "run H V tables generate matches N E s =
     bindE (Load (ho_ParseDuration H) (ho_env H) (ho_ReadFile H)) (\<lambda>cfg.
     bindE (guardE (\<not> se_db_fault E 0) ErrDatabase) (\<lambda>_.
     let E' = E\<lparr>se_config := cfg\<rparr>; (migrated, s1) = Migrate V s
     in bindE migrated (\<lambda>_.
        let (prepared, w) = prepare generate matches E' (boot_world (tables (mg_tables s1)))
        in bindE prepared (\<lambda>_.
           bindE (someE (ErrNew ''METRICS_ALLOW_CIDRS'') (New N cfg)) (\<lambda>nets.
             Inr (E', nets, w))))))"

section \<open>What each step keeps\<close>

lemma project_rows_frame: "foldE (project_row L) es d = Inr d' \<Longrightarrow> \<exists>ps. d' = d\<lparr>db_projections := ps\<rparr>"
proof (induction es arbitrary: d)
  case (Cons e es)
  then obtain d1 where 1: "project_row L e d = Inr d1" and rest: "foldE (project_row L) es d1 = Inr d'" by (auto simp: bindE_eq_Inr)
  from 1 obtain ps where "d1 = d\<lparr>db_projections := ps\<rparr>" by (auto simp: project_row_def dest!: insertProjection_Inr)
  with Cons.IH [OF rest] show ?case by auto
qed (use db.surjective in \<open>auto intro: exI [of _ "db_projections d'"]\<close>)

lemma backfill_frame: "BackfillAccessEventProjections L n d = (r, d') \<Longrightarrow> \<exists>ps. d' = d\<lparr>db_projections := ps\<rparr>"
proof (induction L n d rule: BackfillAccessEventProjections.induct)
  case (1 L n d)
  have same: "\<exists>ps. d = d\<lparr>db_projections := ps\<rparr>" by (rule exI [of _ "db_projections d"]) simp
  show ?case
  proof (cases "foldE (project_row L) (backfill_batch d) d")
    case (Inl e)
    with 1(2) same show ?thesis by (subst (asm) BackfillAccessEventProjections.simps) auto
  next
    case (Inr d1)
    from project_rows_frame [OF this] obtain ps where d1: "d1 = d\<lparr>db_projections := ps\<rparr>" by blast
    show ?thesis
    proof (cases "backfill_batch d = []")
      case True
      with 1(2) Inr d1 show ?thesis by (subst (asm) BackfillAccessEventProjections.simps) auto
    next
      case False
      with 1(2) Inr have "BackfillAccessEventProjections L (n + int (length (backfill_batch d))) d1 = (r, d')"
        by (subst (asm) BackfillAccessEventProjections.simps) simp
      from 1(1) [OF Inr False this] d1 show ?thesis by auto
    qed
  qed
qed

lemma seed_Inr:
  assumes "seed_terminal now t d = Inr d'"
  shows "(\<exists>rows. d' = d\<lparr>db_terminals := rows\<rparr>) \<and>
    (\<forall>serial. terminal_status d' serial = (if serial = SerialNumber t then Some ''offline'' else terminal_status d serial))"
proof (cases "registered d (SerialNumber t)")
  case True
  then obtain r where r: "select_row (\<lambda>r. tr_serial_number r = SerialNumber t) (db_terminals d) = Some r"
    by (cases "select_row (\<lambda>r. tr_serial_number r = SerialNumber t) (db_terminals d)") (auto simp: registered_def select_row_None row_simps)
  from assms True obtain f where d': "d' = d\<lparr>db_terminals := update_where (\<lambda>r. tr_serial_number r = SerialNumber t) f (db_terminals d)\<rparr>"
    and f: "\<And>r. tr_serial_number (f r) = tr_serial_number r" "\<And>r. tr_connection_status (f r) = ''offline''"
    by (auto simp: seed_terminal_def res_simps)
  have "select_row (\<lambda>r. tr_serial_number r = serial) (update_where (\<lambda>r. tr_serial_number r = SerialNumber t) f (db_terminals d)) =
      (if serial = SerialNumber t then map_option f else id) (select_row (\<lambda>r. tr_serial_number r = serial) (db_terminals d))" for serial
    using select_update_key [of tr_serial_number f serial "SerialNumber t" "db_terminals d"] f(1) by auto
  with r d' f(2) show ?thesis by (auto simp: terminal_status_def)
next
  case False
  then have "select_row (\<lambda>r. tr_serial_number r = SerialNumber t) (db_terminals d) = None"
    by (auto simp: registered_def select_row_None row_simps)
  with assms False show ?thesis
    by (auto simp: seed_terminal_def res_simps terminal_status_def select_row_append select_row_def [of _ "[_]"] split: option.splits)
qed

lemma seeds_Inr:
  "foldE (seed_terminal now) ts d = Inr d' \<Longrightarrow> (\<exists>rows. d' = d\<lparr>db_terminals := rows\<rparr>) \<and>
     (\<forall>serial. terminal_status d' serial = (if serial \<in> SerialNumber ` set ts then Some ''offline'' else terminal_status d serial))"
proof (induction ts arbitrary: d)
  case Nil
  then show ?case by (auto intro: exI [of _ "db_terminals d"])
next
  case (Cons t ts)
  then obtain d1 where 1: "seed_terminal now t d = Inr d1" and rest: "foldE (seed_terminal now) ts d1 = Inr d'" by (auto simp: bindE_eq_Inr)
  from seed_Inr [OF 1] obtain rows where d1: "d1 = d\<lparr>db_terminals := rows\<rparr>" by blast
  with Cons.IH [OF rest] seed_Inr [OF 1] show ?case by auto
qed

lemma reconcile_frame:
  assumes "ReconcileConfiguredAdministrator generate matches now username password d = Inr d'"
  shows "db_terminals d' = db_terminals d \<and> db_device_events d' = db_device_events d \<and> db_projections d' = db_projections d \<and>
    db_sessions d' = db_sessions d"
  using assms by (auto simp: ReconcileConfiguredAdministrator_def delete_admins_def res_simps Let_def split: option.splits if_splits)

lemma restore_one_frame: "restore_one E now stored w = (Inr (), w') \<Longrightarrow> \<exists>ss. w_db w' = (w_db w)\<lparr>db_sessions := ss\<rparr>"
  by (auto simp: restore_one_def deleteCheckpoint_def run_exec_Inr DeletePushSDKSession_def put_entry_def modifyS_def split: option.splits
      intro: exI [of _ "db_sessions (w_db w)"])

lemma restore_all_frame: "mapS (restore_one E now) stored w = (Inr (), w') \<Longrightarrow> \<exists>ss. w_db w' = (w_db w)\<lparr>db_sessions := ss\<rparr>"
proof (induction stored arbitrary: w)
  case Nil
  then show ?case by (auto simp: returnS_def intro: exI [of _ "db_sessions (w_db w)"])
next
  case (Cons x stored)
  then obtain w1 where 1: "restore_one E now x w = (Inr (), w1)" and rest: "mapS (restore_one E now) stored w1 = (Inr (), w')" by (auto simp: svc_Inr)
  from restore_one_frame [OF 1] Cons.IH [OF rest] show ?case by auto
qed

lemma RestoreSessions_frame: "RestoreSessions E w = (Inr (), w') \<Longrightarrow> \<exists>ss. w_db w' = (w_db w)\<lparr>db_sessions := ss\<rparr>"
  by (auto simp: RestoreSessions_def svc_Inr dest!: restore_all_frame)

lemma deadlines_Inr:
  assumes "ExpireISAPICommandDeadlines E w = (Inr (), w')"
  shows "(\<exists>cmds acts runs. w_db w' = (w_db w)\<lparr>db_commands := cmds, db_activities := acts, db_sync_runs := runs\<rparr>) \<and>
    (\<forall>c \<in> set (db_commands (w_db w')). \<not> overdue (tx_now (tx_env_at E (w_tick w' - 1))) None c)"
proof -
  let ?now = "tx_now (tx_env_at E (w_tick w))"
  from assms obtain acts d where e: "expireOverdueISAPICommandsTx ?now None (w_db w) = Inr (acts, d)" and w': "w_db w' = d" "w_tick w' = w_tick w + 1"
    by (auto simp: ExpireISAPICommandDeadlines_def svc_Inr publish_allS_def modifyS_def ExpireOverdueISAPICommands_def)
  from e obtain runs where d: "d = (w_db w)\<lparr>db_commands := update_where (overdue ?now None) (expire_command ?now) (db_commands (w_db w)),
      db_activities := db_activities (w_db w) @ acts, db_sync_runs := runs\<rparr>" by (rule expireOverdue_Inr)
  then have "\<forall>c \<in> set (db_commands d). \<not> overdue ?now None c"
    by (auto simp: set_update_where overdue_def expire_command_def split: if_splits)
  with d w' show ?thesis by auto
qed

section \<open>A started gateway\<close>

text \<open>What the start relies on of the tables it finds: their keys, and that no stored challenge time is zero.\<close>

definition tables_ok :: "db \<Rightarrow> bool" where
  "tables_ok d \<longleftrightarrow> unique_key de_id (db_device_events d) \<and> unique_key au_username (db_admin_users d) \<and> stored_times_ok d"

lemma prepare_Inr:
  assumes "prepare generate matches E (boot_world d) = (Inr (), w)" "tables_ok d" "bcrypt_contract generate matches"
  shows "reachable E w" "stale_events (w_db w) = []"
    "\<forall>t \<in> set (Terminals (se_config E)). terminal_status (w_db w) (SerialNumber t) = Some ''offline''"
    "map au_username (db_admin_users (w_db w)) = [AdminUsername (se_config E)]"
    "VerifyAdmin matches (AdminUsername (se_config E)) (AdminPassword (se_config E)) (w_db w) \<noteq> None"
    "\<forall>c \<in> set (db_commands (w_db w)). \<not> overdue (tx_now (tx_env_at E (w_tick w - 1))) None c"
proof -
  let ?cfg = "se_config E"
  let ?now = "\<lambda>k. tx_now (tx_env_at E k)"
  from assms(1) obtain n d1 d2 d3 w5 where
    b: "BackfillAccessEventProjections (se_library E) 0 d = ((n, None), d1)" and
    sd: "foldE (seed_terminal (?now (Suc (Suc 0)))) (Terminals ?cfg) d1 = Inr d2" and
    rc: "ReconcileConfiguredAdministrator generate matches (?now (Suc (Suc (Suc 0)))) (AdminUsername ?cfg) (AdminPassword ?cfg) d2 = Inr d3" and
    rs': "RestoreSessions E ((boot_world (PurgeExpiredSessions (?now (Suc (Suc (Suc (Suc 0))))) d3))\<lparr>w_tick := Suc (Suc (Suc (Suc (Suc 0))))\<rparr>) = (Inr (), w5)" and
    dl: "ExpireISAPICommandDeadlines E w5 = (Inr (), w)"
    by (auto simp: prepare_def Let_def svc_Inr backfillS_def run_exec_Inr tickS_def boot_world_def SeedConfiguredTerminals_def
        split: if_splits prod.splits option.splits)
  define now4 where "now4 = ?now (Suc (Suc (Suc (Suc 0))))"
  define w4 where "w4 = (boot_world (PurgeExpiredSessions now4 d3))\<lparr>w_tick := Suc (Suc (Suc (Suc (Suc 0))))\<rparr>"
  have rs: "RestoreSessions E w4 = (Inr (), w5)" using rs' by (simp add: w4_def now4_def)
  have w4: "w_db w4 = PurgeExpiredSessions now4 d3" "w_entries w4 = NewSessions" by (simp_all add: w4_def boot_world_def)
  note ok = assms(2) [unfolded tables_ok_def]
  obtain ps where d1: "d1 = d\<lparr>db_projections := ps\<rparr>" using backfill_frame [OF b] by blast
  obtain rows where d2: "d2 = d1\<lparr>db_terminals := rows\<rparr>" using seeds_Inr [OF sd] by blast
  note r = reconcile_frame [OF rc]
  obtain ss where w5: "w_db w5 = (w_db w4)\<lparr>db_sessions := ss\<rparr>" using RestoreSessions_frame [OF rs] by blast
  obtain cmds acts runs where w: "w_db w = (w_db w5)\<lparr>db_commands := cmds, db_activities := acts, db_sync_runs := runs\<rparr>"
    using deadlines_Inr [OF dl] by blast
  have db: "db_terminals (w_db w) = db_terminals d2" "db_device_events (w_db w) = db_device_events d1" "db_projections (w_db w) = db_projections d1"
    "db_admin_users (w_db w) = db_admin_users d3" "db_sessions (w_db w4) = db_sessions d"
    using r by (simp_all add: w w5 w4 PurgeExpiredSessions_def d2 d1)
  have "stored_times_ok (w_db w4)" using ok db(5) by (simp add: stored_times_ok_def)
  from reachable.boot [OF w4(2) this rs] have "reachable E w5" .
  moreover have "gateway_step E w5 w" using gateway_step.deadlines [of E w5] dl by simp
  ultimately show "reachable E w" by (rule reachable.step)
  have "stale_events d1 = []" using Backfill_complete [OF b] ok by blast
  moreover have "stale_projection (w_db w) = stale_projection d1" by (simp add: stale_projection_def db fun_eq_iff)
  ultimately show "stale_events (w_db w) = []" by (simp add: stale_events_def db)
  show "\<forall>t \<in> set (Terminals ?cfg). terminal_status (w_db w) (SerialNumber t) = Some ''offline''"
    using seeds_Inr [OF sd] by (auto simp: terminal_status_def db)
  have "unique_key au_username (db_admin_users d2)" using ok by (simp add: d2 d1)
  from Reconcile_Inr(1) [OF rc assms(3) this] obtain u where u: "db_admin_users d3 = [u]" "au_username u = AdminUsername ?cfg"
    "matches (au_password_hash u) (AdminPassword ?cfg)" by blast
  then show "map au_username (db_admin_users (w_db w)) = [AdminUsername ?cfg]" by (simp add: db)
  show "VerifyAdmin matches (AdminUsername ?cfg) (AdminPassword ?cfg) (w_db w) \<noteq> None" using u by (simp add: VerifyAdmin_def db select_row_def)
  show "\<forall>c \<in> set (db_commands (w_db w)). \<not> overdue (tx_now (tx_env_at E (w_tick w - 1))) None c" using deadlines_Inr [OF dl] by blast
qed

section \<open>Running\<close>

text \<open>
  The maintenance loop at the ticks it gets before the process is stopped; an error of a turn is only logged.
\<close>

definition deadline_turn :: "service_env \<Rightarrow> instant \<Rightarrow> world \<Rightarrow> world" where
  "deadline_turn E now w = snd (ExpireISAPICommandDeadlines E (MaintainSessions E now w))"

definition MaintainISAPICommandDeadlines :: "service_env \<Rightarrow> instant list \<Rightarrow> world \<Rightarrow> world" where
  "MaintainISAPICommandDeadlines E ticks w = fold (deadline_turn E) ticks w"

lemma turn_reachable: "reachable E w \<Longrightarrow> reachable E (deadline_turn E now w)"
  unfolding deadline_turn_def by (rule reachable.step [OF reachable.step [OF _ gateway_step.sweep] gateway_step.deadlines])

lemma maintained_reachable: "reachable E w \<Longrightarrow> reachable E (MaintainISAPICommandDeadlines E ticks w)"
  unfolding MaintainISAPICommandDeadlines_def by (induction ticks arbitrary: w) (auto intro: turn_reachable)

end
