(* ===== verification/Gateway.thy ===== *)
theory Gateway
  imports Startup "HOL-Library.Sublist"
begin

text \<open>
  The gateway as its clients see it (\<open>cmd/gateway/main.go\<close> and \<open>Register\<close> of
  \<open>internal/httpapi/server.go\<close>): the patterns of the request multiplexer, the administration console's files,
  the terminals' interface below \<open>/iot/\<close>, and the headers every answer carries. A request is given
  with the segments of its path as \<open>net/http\<close> splits and decodes a clean path; others are redirected
  to their clean form before any handler runs.
\<close>

section \<open>Patterns\<close>

datatype segment = Lit string | Var string

fun match_segments :: "segment list \<Rightarrow> string list \<Rightarrow> (string \<times> string) list option" where
  "match_segments [] [] = Some []"
| "match_segments (Lit l # ps) (x # xs) = (if x = l then match_segments ps xs else None)"
| "match_segments (Var v # ps) (x # xs) = (if x = [] then None else map_option (\<lambda>values. (v, x) # values) (match_segments ps xs))"
| "match_segments _ _ = None"

text \<open>A pattern for GET also takes HEAD.\<close>

definition method_matches :: "string \<Rightarrow> string \<Rightarrow> bool" where
  "method_matches wanted method \<longleftrightarrow> method = wanted \<or> wanted = ''GET'' \<and> method = ''HEAD''"

abbreviation "api_path ps \<equiv> Lit ''api'' # Lit ''v1'' # ps"
abbreviation "admin_path ps \<equiv> api_path (Lit ''admin'' # ps)"
abbreviation "terminal_path ps \<equiv> admin_path (Lit ''terminals'' # Var ''serial'' # ps)"

definition patterns :: "(string \<times> segment list \<times> route) list" where
  "patterns =
     [(''GET'', [Lit ''healthz''], Health),
      (''GET'', [Lit ''readyz''], Ready),
      (''GET'', [Lit ''metrics''], Metrics),
      (''POST'', api_path [Lit ''auth'', Lit ''login''], Login),
      (''POST'', api_path [Lit ''auth'', Lit ''logout''], Admin Logout),
      (''GET'', admin_path [Lit ''overview''], Admin OverviewR),
      (''GET'', admin_path [Lit ''events''], Admin DeviceEvents),
      (''GET'', admin_path [Lit ''events'', Var ''source'', Var ''id'', Lit ''payload''], Admin ArchiveEventPayloadR),
      (''GET'', admin_path [Lit ''events'', Var ''id'', Lit ''payload''], Admin DeviceEventPayloadR),
      (''GET'', admin_path [Lit ''isapi-commands''], Admin ISAPICommands),
      (''GET'', admin_path [Lit ''isapi-commands'', Var ''uuid''], Admin ISAPICommandPayloadR),
      (''POST'', terminal_path [Lit ''isapi-commands''], Admin QueueCommand),
      (''POST'', terminal_path [Lit ''retained-event-syncs''], Admin QueueSync),
      (''GET'', admin_path [Lit ''retained-event-syncs'', Var ''uuid''], Admin SyncRun),
      (''GET'', admin_path [Lit ''activity''], Admin GatewayActivityR),
      (''GET'', admin_path [Lit ''delivery-configuration''], Admin DeliveryConfiguration),
      (''PUT'', terminal_path [Lit ''delivery''], Admin SaveRoute),
      (''DELETE'', terminal_path [Lit ''delivery''], Admin DeleteRoute),
      (''POST'', terminal_path [Lit ''backfill'', Var ''action''], Admin EventBackfill),
      (''GET'', admin_path [Lit ''event-deliveries''], Admin EventDeliveriesR),
      (''POST'', admin_path [Lit ''event-deliveries'', Var ''id'', Lit ''retry''], Admin RetryDelivery),
      (''GET'', admin_path [Lit ''attachment-deliveries''], Admin AttachmentDeliveriesR),
      (''POST'', admin_path [Lit ''attachment-deliveries'', Var ''id'', Lit ''retry''], Admin RetryAttachmentR),
      (''POST'', terminal_path [Lit ''attachment-backfill'', Var ''action''], Admin AttachmentBackfillR),
      (''GET'', [Lit ''ws'', Lit ''v1'', Lit ''monitor''], Admin MonitorSocket)]"

datatype target = ToAPI route "(string \<times> string) list" | ToPush | ToApp | AddSlash | ToRoot

text \<open>
  At most one of the exact patterns takes a request; then come the two subtrees, whose missing final
  slash is added, and \<open>/\<close>, which takes the rest with any method.
\<close>

fun find_route :: "string \<Rightarrow> string list \<Rightarrow> (string \<times> segment list \<times> route) list \<Rightarrow> target option" where
  "find_route method segs [] = None"
| "find_route method segs ((wanted, ps, r) # rest) =
     (case match_segments ps segs of
        None \<Rightarrow> find_route method segs rest
      | Some values \<Rightarrow> if method_matches wanted method then Some (ToAPI r values) else find_route method segs rest)"

definition dispatch :: "string \<Rightarrow> string list \<Rightarrow> target" where
  "dispatch method segs =
     (case find_route method segs patterns of
        Some t \<Rightarrow> t
      | None \<Rightarrow>
          if segs = [''iot''] then AddSlash
          else if take 1 segs = [''iot''] then ToPush
          else if segs = [''app''] \<and> method_matches ''GET'' method then AddSlash
          else if take 1 segs = [''app''] \<and> method_matches ''GET'' method then ToApp
          else ToRoot)"

section \<open>The console\<close>

datatype page = NotFound | MethodNotAllowed string | PermanentRedirect string

definition redirectRoot :: "string \<Rightarrow> string \<Rightarrow> page" where
  "redirectRoot method path =
     (if path \<noteq> ''/'' then NotFound
      else if method \<noteq> ''GET'' then MethodNotAllowed ''GET''
      else PermanentRedirect ''/app/'')"

text \<open>\<open>path.Ext\<close>: the suffix from the last dot of the last element.\<close>

definition path_ext :: "string \<Rightarrow> string" where
  "path_ext p =
     (let base = takeWhile (\<lambda>c. c \<noteq> CHR ''/'') (rev p)
      in if CHR ''.'' \<in> set base then CHR ''.'' # rev (takeWhile (\<lambda>c. c \<noteq> CHR ''.'') base) else [])"

datatype web_file = Index | Asset string

definition webApp :: "string \<Rightarrow> web_file" where
  "webApp path =
     (let relativePath = (if has_prefix ''/app/'' path then drop 5 path else path)
      in if relativePath = [] \<or> path_ext relativePath = [] then Index else Asset relativePath)"

section \<open>Serving\<close>

record gateway_request =
  gq_Segments :: "string list"
  gq_push :: http_request
  gq_api :: api_request

datatype answer = Pushed http_response | Answered api_response | Page page | File web_file | Moved

record served =
  sv_headers :: "(string \<times> string) list"
  sv_answer :: answer

definition securityHeaders :: "answer \<Rightarrow> served" where
  "securityHeaders a =
     \<lparr> sv_headers = [(''X-Content-Type-Options'', ''nosniff''), (''Referrer-Policy'', ''same-origin''), (''X-Frame-Options'', ''DENY'')],
       sv_answer = a \<rparr>"

definition path_value :: "(string \<times> string) list \<Rightarrow> string \<Rightarrow> string" where
  "path_value values name = (case map_of values name of None \<Rightarrow> [] | Some v \<Rightarrow> v)"

definition serve :: "('u, 'a, 'p) api_env \<Rightarrow> gateway_request \<Rightarrow> world \<Rightarrow> served \<times> world" where
  "serve A rq w =
     (let method = rq_Method (gq_push rq); path = rq_Path (gq_push rq);
          (a, w') =
            (case dispatch method (gq_Segments rq) of
               ToAPI r values \<Rightarrow> map_prod Answered id (Register A r ((gq_api rq)\<lparr>ar_PathValue := path_value values\<rparr>) w)
             | ToPush \<Rightarrow> map_prod Pushed id (ServeHTTP (ax_service A) (gq_push rq) w)
             | ToApp \<Rightarrow> (File (webApp path), w)
             | AddSlash \<Rightarrow> (Moved, w)
             | ToRoot \<Rightarrow> (Page (redirectRoot method path), w))
      in (securityHeaders a, w'))"

section \<open>Which requests reach what\<close>

lemma find_route_Some:
  "find_route method segs ps = Some t \<Longrightarrow>
     \<exists>wanted p r values. (wanted, p, r) \<in> set ps \<and> match_segments p segs = Some values \<and> method_matches wanted method \<and> t = ToAPI r values"
  by (induction ps rule: find_route.induct) (auto split: option.splits if_splits)

lemma dispatch_API:
  "dispatch method segs = ToAPI r values \<Longrightarrow>
     \<exists>wanted p. (wanted, p, r) \<in> set patterns \<and> match_segments p segs = Some values \<and> method_matches wanted method"
  by (auto simp: dispatch_def split: option.splits if_splits dest!: find_route_Some)

lemma match_literals: "match_segments (map Lit ls) segs = Some vs \<longleftrightarrow> segs = ls \<and> vs = []"
  by (induction ls arbitrary: segs) (case_tac segs; auto)+

lemma dispatch_Login: "dispatch method segs = ToAPI Login vs \<Longrightarrow> method = ''POST'' \<and> segs = [''api'', ''v1'', ''auth'', ''login'']"
  using match_literals [of "[''api'', ''v1'', ''auth'', ''login'']" segs vs]
  by (auto simp: patterns_def method_matches_def dest!: dispatch_API)

lemma dispatch_Push: "dispatch method segs = ToPush \<Longrightarrow> take 1 segs = [''iot'']"
  by (auto simp: dispatch_def split: option.splits if_splits dest!: find_route_Some)

section \<open>The life of a monitor connection\<close>

text \<open>
  A connection first subscribes, then reads the retained activities and writes them oldest first, and
  then waits for the next message of its subscription, the next ping or the end of the request; a
  write that fails ends it. In between the gateway publishes. What a connection meets is a list of
  these, with the outcome of each write. The ticker is made, and the end of the request looked at,
  only after the retained activities have been written.
\<close>

datatype socket_input = Published activity | Message bool | PingDue bool | Cancelled

fun socket_loop :: "nat \<Rightarrow> socket_input list \<Rightarrow> hub \<Rightarrow> activity list \<times> hub" where
  "socket_loop client [] h = ([], h)"
| "socket_loop client (Published event # rest) h = socket_loop client rest (Publish event h)"
| "socket_loop client (Message written # rest) h =
     (case receive client h of
        (None, _) \<Rightarrow> socket_loop client rest h
      | (Some message, h1) \<Rightarrow>
          if written then map_prod (Cons message) id (socket_loop client rest h1) else ([], Unsubscribe client h1))"
| "socket_loop client (PingDue written # rest) h =
     (if written then socket_loop client rest h else ([], Unsubscribe client h))"
| "socket_loop client (Cancelled # rest) h = ([], Unsubscribe client h)"

fun connection :: "nat \<Rightarrow> activity list \<Rightarrow> socket_input list \<Rightarrow> hub \<Rightarrow> activity list \<times> hub" where
  "connection client pending [] h = ([], h)"
| "connection client pending (Published event # rest) h = connection client pending rest (Publish event h)"
| "connection client (a # pending) (Message written # rest) h =
     (if written then map_prod (Cons a) id (connection client pending rest h) else ([], Unsubscribe client h))"
| "connection client (a # pending) (_ # rest) h = connection client (a # pending) rest h"
| "connection client [] inputs h = socket_loop client inputs h"

text \<open>
  The retained activities a connection starts with, and the whole connection: \<open>early\<close> is published
  between the subscription and the read, which finds the database or fails.
\<close>

definition replay :: "db \<Rightarrow> activity list" where
  "replay d = rev (gp_Activities (GatewayActivities monitorHistoryLimit 0 d))"

definition monitor_connection :: "activity list \<Rightarrow> db option \<Rightarrow> socket_input list \<Rightarrow> hub \<Rightarrow> activity list \<times> hub" where
  "monitor_connection early found inputs h =
     (let (client, h1) = Subscribe h; h2 = fold Publish early h1
      in case found of
           None \<Rightarrow> ([], Unsubscribe client h2)
         | Some d \<Rightarrow> connection client (replay d) inputs h2)"

fun published :: "socket_input list \<Rightarrow> activity list" where
  "published [] = []"
| "published (Published event # rest) = event # published rest"
| "published (_ # rest) = published rest"

definition lively :: "socket_input \<Rightarrow> bool" where
  "lively i \<longleftrightarrow> i \<noteq> Message False \<and> i \<noteq> PingDue False \<and> i \<noteq> Cancelled"

lemma receive_cases:
  assumes "queue_of h client = Some q"
  obtains "q = []" "receive client h = (None, h)"
  | e q' h1 where "q = e # q'" "receive client h = (Some e, h1)" "queue_of h1 client = Some q'"
proof (cases q)
  case Nil
  with assms that(1) show ?thesis by (simp add: receive_def queue_of_def)
next
  case (Cons e q')
  with receive_queue [of h client e q'] assms that(2) show ?thesis by (cases "receive client h") auto
qed

lemma loop_subseq:
  "queue_of h client = Some q \<Longrightarrow> subseq (fst (socket_loop client inputs h)) (q @ published inputs)"
proof (induction client inputs h arbitrary: q rule: socket_loop.induct)
  case (2 client event rest h)
  from Publish_queue [of event h client] 2(2) have "queue_of (Publish event h) client = Some (if length q < client_capacity then q @ [event] else q)" by simp
  from 2(1) [OF this] have "subseq (fst (socket_loop client rest (Publish event h))) ((if length q < client_capacity then q @ [event] else q) @ published rest)" .
  moreover have "subseq ((if length q < client_capacity then q @ [event] else q) @ published rest) (q @ event # published rest)"
    by (auto intro!: list_emb_append_mono list_emb_Cons)
  ultimately show ?case by (auto intro: subseq_order.order_trans)
next
  case (3 client written rest h)
  from 3(3) show ?case
  proof (cases rule: receive_cases)
    case 1
    with 3(1) [OF 1(2) [symmetric] refl 3(3)] show ?thesis by simp
  next
    case (2 e q' h1)
    with 3(2) [OF 2(2) [symmetric] refl _ 2(3)] show ?thesis by auto
  qed
qed auto

lemma loop_complete:
  "queue_of h client = Some q \<Longrightarrow> list_all lively inputs \<Longrightarrow> length q + length (published inputs) \<le> client_capacity \<Longrightarrow>
     \<exists>waiting. queue_of (snd (socket_loop client inputs h)) client = Some waiting \<and>
       fst (socket_loop client inputs h) @ waiting = q @ published inputs"
proof (induction client inputs h arbitrary: q rule: socket_loop.induct)
  case (2 client event rest h)
  from Publish_queue [of event h client] 2(2,4) have "queue_of (Publish event h) client = Some (q @ [event])" by simp
  from 2(1) [OF this] 2(3,4) show ?case by simp
next
  case (3 client written rest h)
  have w: written using 3(4) by (cases written) (auto simp: lively_def)
  from 3(3) show ?case
  proof (cases rule: receive_cases)
    case 1
    with 3(1) [OF 1(2) [symmetric] refl 3(3)] 3(4,5) show ?thesis by simp
  next
    case (2 e q' h1)
    with 3(2) [OF 2(2) [symmetric] refl w 2(3)] 3(4,5) show ?thesis by (auto simp: w)
  qed
qed (auto simp: lively_def)

lemma connection_live [simp]: "connection client [] inputs h = socket_loop client inputs h"
proof (induction inputs arbitrary: h)
  case (Cons i inputs)
  then show ?case by (cases i) simp_all
qed simp

lemma connection_order:
  "queue_of h client = Some q \<Longrightarrow>
     prefix (fst (connection client pending inputs h)) pending \<or>
     (\<exists>live. fst (connection client pending inputs h) = pending @ live \<and> subseq live (q @ published inputs))"
proof (induction inputs arbitrary: pending h q)
  case (Cons i inputs)
  show ?case
  proof (cases pending)
    case Nil
    with loop_subseq [OF Cons.prems, of "i # inputs"] show ?thesis by (simp del: socket_loop.simps published.simps)
  next
    case (Cons a rest)
    show ?thesis
    proof (cases i)
      case (Published event)
      let ?q = "if length q < client_capacity then q @ [event] else q"
      have "queue_of (Publish event h) client = Some ?q" using Publish_queue [of event h client] Cons.prems by simp
      from Cons.IH [OF this, of pending] have "prefix (fst (connection client pending inputs (Publish event h))) pending \<or>
          (\<exists>live. fst (connection client pending inputs (Publish event h)) = pending @ live \<and> subseq live (?q @ published inputs))" .
      moreover have "subseq (?q @ published inputs) (q @ event # published inputs)"
        by (auto intro!: list_emb_append_mono list_emb_Cons)
      ultimately show ?thesis using Published by (auto intro: subseq_order.order_trans)
    next
      case (Message written)
      with Cons Cons.IH [OF Cons.prems, of rest] show ?thesis by (cases written) auto
    qed (use Cons Cons.IH [OF Cons.prems, of pending] in simp_all)
  qed
qed simp

lemma connection_complete:
  "queue_of h client = Some q \<Longrightarrow> list_all lively inputs \<Longrightarrow> length q + length (published inputs) \<le> client_capacity \<Longrightarrow>
     \<exists>waiting. queue_of (snd (connection client pending inputs h)) client = Some waiting \<and>
       fst (connection client pending inputs h) @ drop (length (fst (connection client pending inputs h))) pending @ waiting =
         pending @ q @ published inputs"
proof (induction inputs arbitrary: pending h q)
  case (Cons i inputs)
  show ?case
  proof (cases pending)
    case Nil
    with loop_complete [OF Cons.prems] show ?thesis by (simp del: socket_loop.simps published.simps)
  next
    case (Cons a rest)
    show ?thesis
    proof (cases i)
      case (Published event)
      have "queue_of (Publish event h) client = Some (q @ [event])"
        using Publish_queue [of event h client] Cons.prems(1,3) Published by simp
      from Cons.IH [OF this, of pending] Cons.prems(2,3) Published show ?thesis by simp
    next
      case (Message written)
      with Cons.prems(2) have written by (cases written) (auto simp: lively_def)
      with Message Cons Cons.IH [OF Cons.prems(1), of rest] Cons.prems(2,3) show ?thesis by simp
    qed (use Cons Cons.IH [OF Cons.prems(1), of pending] Cons.prems(2,3) in \<open>simp_all add: lively_def\<close>)
  qed
qed simp

lemma replay_newest:
  "replay d = drop (length (db_activities d) - 100) (rev (newest_first act_At act_ID (db_activities d)))"
  by (simp add: replay_def GatewayActivities_def page_rows_def monitorHistoryLimit_def rev_take)

lemma replay_order: "sorted_wrt (\<lambda>a b. act_At a < act_At b \<or> act_At a = act_At b \<and> act_ID a \<le> act_ID b) (replay d)"
  unfolding replay_newest using newest_first_order [of act_At act_ID "db_activities d"] by (simp add: sorted_wrt_rev sorted_wrt_drop)

lemma replay_all: "length (db_activities d) \<le> 100 \<Longrightarrow> mset (replay d) = mset (db_activities d)"
  by (simp add: replay_newest)

lemma replay_distinct: "distinct (db_activities d) \<Longrightarrow> distinct (replay d)"
  unfolding replay_newest by (simp add: newest_first_def distinct_drop)

lemma count_list_distinct: "distinct xs \<Longrightarrow> count_list xs a = of_bool (a \<in> set xs)"
  by (induction xs) auto

lemma subseq_distinct: "subseq xs ys \<Longrightarrow> set xs \<subseteq> set ys \<and> (distinct ys \<longrightarrow> distinct xs)"
  by (induction rule: list_emb.induct) auto

lemma count_order:
  assumes "prefix sent history \<or> (\<exists>live. sent = history @ live \<and> subseq live news)" "distinct history" "distinct news"
  shows "count_list sent a \<le> of_bool (a \<in> set history) + of_bool (a \<in> set news)"
  using assms(1)
proof
  assume "prefix sent history"
  with assms(2) have "distinct sent" "set sent \<subseteq> set history" by (auto simp: prefix_def)
  then show ?thesis by (auto simp: count_list_distinct)
next
  assume "\<exists>live. sent = history @ live \<and> subseq live news"
  then obtain live where l: "sent = history @ live" "subseq live news" by blast
  from subseq_distinct [OF l(2)] assms(2,3) show ?thesis by (auto simp: l(1) count_list_distinct)
qed

end
