(* ===== verification/DeliveryWorker.thy ===== *)
theory DeliveryWorker
  imports Backfills
begin

text \<open>
  The delivery worker (\<open>internal/delivery/worker.go\<close>): the signature, the retry schedule, the check
  of a receipt, one attempt and one turn of the worker's loop. The queue the worker draws from is an
  argument, as in the code, with its contract as the locale \<open>delivery_queue\<close>; the event and the
  attachment queue of the store are its two instances. The HTTP exchange is an argument: what a
  request is answered with, or that it failed.
\<close>

section \<open>One attempt\<close>

definition Signature :: "string \<Rightarrow> string \<Rightarrow> bytes \<Rightarrow> string" where
  "Signature key timestamp body = hex_encode (hmac_sha256 key (timestamp @ newline @ body))"

text \<open>The loop doubles the delay once per earlier attempt until it reaches the cap.\<close>

function retry_loop :: "int \<Rightarrow> int \<Rightarrow> int \<Rightarrow> int" where
  "retry_loop attempts i delay =
     (if i < attempts \<and> delay < 300 * second then retry_loop attempts (i + 1) (delay * 2) else delay)"
  by pat_completeness auto
termination by (relation "measure (\<lambda>(attempts, i, delay). nat (attempts - i))") auto

declare retry_loop.simps [simp del]

definition RetryDelay :: "int \<Rightarrow> int" where
  "RetryDelay attempts =
     (let delay = retry_loop attempts 1 (5 * second) in if delay > 300 * second then 300 * second else delay)"

text \<open>
  The receipt: an object whose names are known, occur once and have the expected values, all of them
  present, and nothing after it. The decoder's token stream accepts exactly the documents of the
  JSON parser here, because every branch that meets a malformed text refuses the receipt.
\<close>

definition receipt_member :: "string \<Rightarrow> int \<Rightarrow> string \<Rightarrow> string \<times> string \<times> json \<Rightarrow> bool" where
  "receipt_member eventID schemaVersion attachmentID m =
     (case m of (name, raw, v) \<Rightarrow>
        if name = ''attachmentId'' then attachmentID \<noteq> [] \<and> json_val json_string [] v = Some attachmentID
        else if name = ''schemaVersion'' then json_val json_int 0 v = Some schemaVersion
        else if name = ''eventId'' then json_val json_string [] v = Some eventID
        else if name = ''receipt'' then json_val json_string [] v = Some ''stored''
        else False)"

definition validReceipt :: "bytes \<Rightarrow> string \<Rightarrow> int \<Rightarrow> string \<Rightarrow> bool" where
  "validReceipt body eventID schemaVersion attachmentID =
     (case json_document body of
        Some (JObj ms) \<Rightarrow>
          distinct (map fst ms) \<and> list_all (receipt_member eventID schemaVersion attachmentID) ms \<and>
          length ms = (if attachmentID \<noteq> [] then 4 else 3)
      | _ \<Rightarrow> False)"

record outgoing =
  og_url :: string
  og_headers :: "(string \<times> string) list"
  og_body :: bytes

record http_reply =
  hr_status :: int
  hr_body :: bytes
  hr_read_error :: bool

definition outgoing_request :: "string \<Rightarrow> int \<Rightarrow> EventDelivery \<Rightarrow> outgoing" where
  "outgoing_request key unix x =
     \<lparr> og_url = ev_EndpointURL x,
       og_headers = [(''Content-Type'', ''application/json''), (''Accept'', ''application/json''),
         (''X-PushSDK-Key-Id'', ev_SigningKeyID x), (''X-PushSDK-Timestamp'', itoa unix),
         (''X-PushSDK-Signature'', Signature key (itoa unix) (ev_Body x))],
       og_body = ev_Body x \<rparr>"

definition judge_reply :: "EventDelivery \<Rightarrow> http_reply \<Rightarrow> string \<times> int \<times> string" where
  "judge_reply x reply =
     (let code = hr_status reply; body = take 4097 (hr_body reply)
      in if code = 408 \<or> code = 429 \<or> code \<ge> 500 then (''pending'', code, ''receiver_unavailable'')
         else if code \<noteq> 200 then (''failed'', code, ''receiver_rejected'')
         else if hr_read_error reply \<or> length body > 4096 then (''failed'', code, ''invalid_receipt'')
         else (case decode_event_message (ev_Body x) of
                 None \<Rightarrow> (''failed'', code, ''invalid_receipt'')
               | Some source \<Rightarrow>
                   if validReceipt body (em_EventID source) (em_SchemaVersion source) (if ev_Attachment x then ''Picture'' else [])
                   then (''delivered'', code, []) else (''failed'', code, ''invalid_receipt'')))"

definition send ::
    "(string \<times> string) list \<Rightarrow> 'u url_library \<Rightarrow> int \<Rightarrow> (outgoing \<Rightarrow> http_reply option) \<Rightarrow> EventDelivery \<Rightarrow> string \<times> int \<times> string" where
  "send keys U unix exchange_http x =
     (case map_of keys (ev_SigningKeyID x) of
        None \<Rightarrow> (''failed'', 0, ''signing_key_unavailable'')
      | Some key \<Rightarrow>
          if ul_Parse U (ev_EndpointURL x) = None then (''failed'', 0, ''invalid_destination'')
          else (case exchange_http (outgoing_request key unix x) of
                  None \<Rightarrow> (''pending'', 0, ''network_error'')
                | Some reply \<Rightarrow> judge_reply x reply))"

section \<open>The loop\<close>

text \<open>
  What the loop meets at each of its steps: the database and host clocks, the peer, whether the
  database fails and whether the process is asked to stop.
\<close>

record worker_env =
  we_claim_time :: "nat \<Rightarrow> instant"
  we_finish_time :: "nat \<Rightarrow> instant"
  we_host_time :: "nat \<Rightarrow> instant"
  we_peer :: "nat \<Rightarrow> outgoing \<Rightarrow> http_reply option"
  we_claim_fault :: "nat \<Rightarrow> bool"
  we_finish_fault :: "nat \<Rightarrow> bool"
  we_cancelled :: "nat \<Rightarrow> bool"

type_synonym 'd claim_op = "instant \<Rightarrow> 'd \<Rightarrow> (EventDelivery option \<times> 'd) result"
type_synonym 'd finish_op = "instant \<Rightarrow> EventDelivery \<Rightarrow> string \<Rightarrow> int \<Rightarrow> string \<Rightarrow> instant \<Rightarrow> 'd \<Rightarrow> 'd result"

definition attempt ::
    "'d claim_op \<Rightarrow> 'd finish_op \<Rightarrow> (string \<times> string) list \<Rightarrow> 'u url_library \<Rightarrow> worker_env \<Rightarrow> nat \<Rightarrow> 'd \<Rightarrow> bool \<times> 'd" where
  "attempt claim finish keys U W k d =
     (if we_claim_fault W k then (False, d)
      else case claim (we_claim_time W k) d of
             Inl e \<Rightarrow> (False, d)
           | Inr (None, d1) \<Rightarrow> (False, d1)
           | Inr (Some x, d1) \<Rightarrow>
               let (status, code, failure) = send keys U (we_host_time W k div second) (we_peer W k) x;
                   next_at = we_host_time W k + RetryDelay (ev_Attempts x);
                   d2 = (if we_finish_fault W k then d1
                         else case finish (we_finish_time W k) x status code failure next_at d1 of
                                Inl e \<Rightarrow> d1 | Inr d2 \<Rightarrow> d2)
               in (\<not> we_cancelled W k, d2))"

text \<open>The inner loop of a tick: at most 25 attempts, ended early by an empty queue or an error.\<close>

fun drain ::
    "'d claim_op \<Rightarrow> 'd finish_op \<Rightarrow> (string \<times> string) list \<Rightarrow> 'u url_library \<Rightarrow> worker_env \<Rightarrow> nat \<Rightarrow> nat \<Rightarrow> 'd \<Rightarrow> 'd" where
  "drain claim finish keys U W 0 k d = d"
| "drain claim finish keys U W (Suc n) k d =
     (let (again, d1) = attempt claim finish keys U W k d
      in if again then drain claim finish keys U W n (Suc k) d1 else d1)"

definition tick_attempts :: nat where "tick_attempts = 25"

definition Run_tick ::
    "'d claim_op \<Rightarrow> 'd finish_op \<Rightarrow> (string \<times> string) list \<Rightarrow> 'u url_library \<Rightarrow> worker_env \<Rightarrow> nat \<Rightarrow> 'd \<Rightarrow> 'd" where
  "Run_tick claim finish keys U W k d = drain claim finish keys U W tick_attempts k d"

section \<open>The retry schedule\<close>

lemma retry_unroll:
  "retry_loop a 1 (5 * second) =
     (if 1 < a then if 2 < a then if 3 < a then if 4 < a then if 5 < a then if 6 < a then 320 * second
        else 160 * second else 80 * second else 40 * second else 20 * second else 10 * second else 5 * second)"
  by (simp add: second_def retry_loop.simps [of a 1] retry_loop.simps [of a 2] retry_loop.simps [of a 3]
      retry_loop.simps [of a 4] retry_loop.simps [of a 5] retry_loop.simps [of a 6] retry_loop.simps [of a 7])

lemma RetryDelay_schedule:
  "RetryDelay a = (if 6 < a then 300 * second else 5 * 2 ^ nat (max 1 a - 1) * second)"
proof -
  consider "a \<le> 1" | "a = 2" | "a = 3" | "a = 4" | "a = 5" | "a = 6" | "6 < a" by linarith
  then show ?thesis unfolding RetryDelay_def retry_unroll by cases (simp_all add: second_def)
qed

section \<open>Leased queues\<close>

text \<open>
  The contract of a queue: a state per identity, its status, the number of attempts and the lease.
  A claim takes a waiting row or one whose lease has run out, and gives it the next attempt number
  and a lease of a minute; a result is taken only from the holder of the current attempt.
\<close>

locale delivery_queue =
  fixes claim :: "'d claim_op"
    and finish :: "'d finish_op"
    and state :: "'d \<Rightarrow> int \<Rightarrow> (string \<times> int \<times> instant option) option"
    and ok :: "'d \<Rightarrow> bool"
  assumes claim_None: "claim now d = Inr (None, d') \<Longrightarrow> d' = d"
    and claim_Some: "ok d \<Longrightarrow> claim now d = Inr (Some x, d') \<Longrightarrow>
      ok d' \<and> state d' = (state d)(ev_ID x := Some (''sending'', ev_Attempts x, Some (now + lease_time))) \<and>
      (\<exists>status lease. state d (ev_ID x) = Some (status, ev_Attempts x - 1, lease) \<and>
         (status = ''pending'' \<or> status = ''sending'' \<and> (\<exists>l. lease = Some l \<and> l \<le> now)))"
    and finish_Inr: "ok d \<Longrightarrow> finish now x status code failure next_at d = Inr d' \<Longrightarrow>
      ok d' \<and> state d' = (state d)(ev_ID x := Some (status, ev_Attempts x, None)) \<and>
      (\<exists>lease. state d (ev_ID x) = Some (''sending'', ev_Attempts x, lease))"
    and finish_owned: "ok d \<Longrightarrow> state d (ev_ID x) = Some (''sending'', ev_Attempts x, lease) \<Longrightarrow>
      result_ok status code failure \<Longrightarrow> \<exists>d'. finish now x status code failure next_at d = Inr d'"
begin

text \<open>While a lease runs, no claim returns the same row.\<close>

lemma claim_exclusive:
  assumes "ok d" "state d (ev_ID y) = Some (''sending'', a, Some until)" "now < until"
  shows "claim now d \<noteq> Inr (Some y, d')"
  using claim_Some [OF assms(1), of now y d'] assms(2,3) by auto

lemma claim_final:
  assumes "ok d" "state d (ev_ID y) = Some (status, a, l)" "status \<noteq> ''pending''" "status \<noteq> ''sending''"
  shows "claim now d \<noteq> Inr (Some y, d')"
  using claim_Some [OF assms(1), of now y d'] assms(2-) by auto

text \<open>The result of an attempt that is no longer the current one is refused.\<close>

lemma finish_stale:
  assumes "ok d" "state d (ev_ID x) = Some (s, a, l)" "a \<noteq> ev_Attempts x"
  shows "\<exists>e. finish now x status code failure next_at d = Inl e"
proof (cases "finish now x status code failure next_at d")
  case (Inr d')
  from finish_Inr [OF assms(1) this] assms(2,3) show ?thesis by auto
qed simp

text \<open>What one attempt does to the states.\<close>

lemma attempt_cases:
  assumes "ok d" "attempt claim finish keys U W k d = (again, d')"
  shows "ok d' \<and>
    (d' = d \<or>
     (\<exists>x status code failure.
        send keys U (we_host_time W k div second) (we_peer W k) x = (status, code, failure) \<and>
        (\<exists>s l. state d (ev_ID x) = Some (s, ev_Attempts x - 1, l) \<and> (s = ''pending'' \<or> s = ''sending'')) \<and>
        (state d' = (state d)(ev_ID x := Some (status, ev_Attempts x, None)) \<or>
         state d' = (state d)(ev_ID x := Some (''sending'', ev_Attempts x, Some (we_claim_time W k + lease_time))))))"
proof (cases "we_claim_fault W k \<or> (\<forall>x d1. claim (we_claim_time W k) d \<noteq> Inr (Some x, d1))")
  case True
  with assms(2) have "d' = d"
    by (auto simp: attempt_def claim_None split: if_splits sum.splits option.splits prod.splits)
  with assms(1) show ?thesis by simp
next
  case False
  then obtain x d1 where c: "\<not> we_claim_fault W k" "claim (we_claim_time W k) d = Inr (Some x, d1)" by blast
  obtain status code failure where r: "send keys U (we_host_time W k div second) (we_peer W k) x = (status, code, failure)"
    by (metis prod.exhaust)
  note s = claim_Some [OF assms(1) c(2)]
  from c r assms(2) consider "d' = d1" | "finish (we_finish_time W k) x status code failure (we_host_time W k + RetryDelay (ev_Attempts x)) d1 = Inr d'"
    by (auto simp: attempt_def Let_def split: if_splits sum.splits)
  then show ?thesis
  proof cases
    case 1
    with s r show ?thesis by blast
  next
    case 2
    from finish_Inr [OF _ 2] s have "ok d'" "state d' = (state d)(ev_ID x := Some (status, ev_Attempts x, None))" by auto
    with s r show ?thesis by blast
  qed
qed

lemma attempt_kept:
  assumes "ok d" "attempt claim finish keys U W k d = (again, d')" "state d i = Some (''delivered'', a, l)"
  shows "state d' i = state d i"
  using attempt_cases [OF assms(1,2)] assms(3) by auto

text \<open>What is delivered stays so along a turn of the loop.\<close>

lemma drain_kept:
  "ok d \<Longrightarrow> state d i = Some (''delivered'', a, l) \<Longrightarrow>
     ok (drain claim finish keys U W n k d) \<and> state (drain claim finish keys U W n k d) i = state d i"
proof (induction n arbitrary: k d)
  case (Suc n)
  obtain again d1 where t: "attempt claim finish keys U W k d = (again, d1)" by fastforce
  with attempt_cases [OF Suc.prems(1) t] attempt_kept [OF Suc.prems(1) t Suc.prems(2)] Suc.IH [of d1 "Suc k"] Suc.prems
  show ?case by auto
qed simp

text \<open>A claimed delivery whose result can be stored ends the attempt as the peer's answer says.\<close>

lemma attempt_result:
  assumes "ok d" "\<not> we_claim_fault W k" "\<not> we_finish_fault W k" "claim (we_claim_time W k) d = Inr (Some x, d1)"
    and "send keys U (we_host_time W k div second) (we_peer W k) x = (status, code, failure)" "result_ok status code failure"
  shows "state (snd (attempt claim finish keys U W k d)) (ev_ID x) = Some (status, ev_Attempts x, None)"
proof -
  note s = claim_Some [OF assms(1,4)]
  then have o: "ok d1" "state d1 (ev_ID x) = Some (''sending'', ev_Attempts x, Some (we_claim_time W k + lease_time))" by auto
  from finish_owned [OF o assms(6)] obtain d2 where
    f: "finish (we_finish_time W k) x status code failure (we_host_time W k + RetryDelay (ev_Attempts x)) d1 = Inr d2" by blast
  with finish_Inr [OF o(1) f] assms(2-5) show ?thesis by (simp add: attempt_def Let_def)
qed

lemma tick_result:
  assumes "ok d" "\<not> we_claim_fault W k" "\<not> we_finish_fault W k" "claim (we_claim_time W k) d = Inr (Some x, d1)"
    and "send keys U (we_host_time W k div second) (we_peer W k) x = (''delivered'', code, failure)" "result_ok ''delivered'' code failure"
  shows "ok (Run_tick claim finish keys U W k d) \<and>
    state (Run_tick claim finish keys U W k d) (ev_ID x) = Some (''delivered'', ev_Attempts x, None)"
proof -
  obtain again d2 where t: "attempt claim finish keys U W k d = (again, d2)" by fastforce
  from attempt_result [OF assms] t have s: "state d2 (ev_ID x) = Some (''delivered'', ev_Attempts x, None)" by simp
  have o: "ok d2" using attempt_cases [OF assms(1) t] by blast
  have "ok (drain claim finish keys U W (Suc m) k d) \<and> state (drain claim finish keys U W (Suc m) k d) (ev_ID x) = Some (''delivered'', ev_Attempts x, None)" for m
    using t s o drain_kept [OF o s, of keys U W m "Suc k"] by auto
  from this [of 24] show ?thesis by (simp only: Run_tick_def tick_attempts_def) simp
qed

end

section \<open>The two queues of the store\<close>

lemma first_by_Some: "first_by k p rows = Some r \<Longrightarrow> r \<in> set rows \<and> p r"
  by (auto simp: first_by_def dest!: select_row_Some)

definition delivery_state :: "db \<Rightarrow> int \<Rightarrow> (string \<times> int \<times> instant option) option" where
  "delivery_state d i = map_option (\<lambda>r. (dl_status r, dl_attempts r, dl_lease_until r)) (select_row (\<lambda>r. dl_id r = i) (db_deliveries d))"

definition attachment_state :: "db \<Rightarrow> int \<Rightarrow> (string \<times> int \<times> instant option) option" where
  "attachment_state d i = map_option (\<lambda>r. (ad_status r, ad_attempts r, ad_lease_until r)) (select_row (\<lambda>r. ad_id r = i) (db_attachments d))"

lemma select_update_row:
  assumes "unique_key k rows" "r \<in> set rows" "\<And>x. k (f x) = k x"
  shows "select_row (\<lambda>x. k x = i) (update_where (\<lambda>x. k x = k r) f rows) =
    (if i = k r then Some (f r) else select_row (\<lambda>x. k x = i) rows)"
  using select_update_key [of k f i "k r" rows] select_row_unique [OF assms(1,2)] assms(3) by auto

lemma rows_affected_one:
  assumes "unique_key k rows" "rows_affected (\<lambda>r. k r = i \<and> q r) rows = 1"
  obtains r where "r \<in> set rows" "k r = i" "q r"
    "update_where (\<lambda>r. k r = i \<and> q r) f rows = update_where (\<lambda>x. k x = k r) f rows"
proof -
  from assms(2) obtain r where r: "r \<in> set rows" "k r = i" "q r"
    by (cases "filter (\<lambda>r. k r = i \<and> q r) rows") (auto simp: rows_affected_def dest!: arg_cong [of _ _ set], blast)
  have "(k x = i \<and> q x) = (k x = k r)" if "x \<in> set rows" for x
    using that r assms(1) by (auto dest: unique_keyD)
  then have "update_where (\<lambda>r. k r = i \<and> q r) f rows = update_where (\<lambda>x. k x = k r) f rows"
    by (simp add: update_where_def)
  with r show ?thesis by (rule that)
qed

lemma rows_affected_owned:
  assumes "unique_key k rows" "r \<in> set rows" "q r"
  shows "rows_affected (\<lambda>x. k x = k r \<and> q x) rows = 1"
proof -
  have "filter (\<lambda>x. k x = k r \<and> q x) rows = filter (\<lambda>x. k x = k r) rows"
    using assms by (auto intro!: filter_cong dest: unique_keyD)
  with rows_affected_unique [OF assms(1), of "k r"] assms(2) show ?thesis by (auto simp: rows_affected_def exists_row_iff)
qed

interpretation evq: delivery_queue ClaimEventDelivery FinishEventDelivery delivery_state "\<lambda>d. unique_key dl_id (db_deliveries d)"
proof
  show "ClaimEventDelivery now d = Inr (None, d') \<Longrightarrow> d' = d" for now d d'
    by (auto simp: ClaimEventDelivery_def res_simps split: option.splits)
next
  fix now d x d' assume u: "unique_key dl_id (db_deliveries d)" and c: "ClaimEventDelivery now d = Inr (Some x, d')"
  let ?f = "\<lambda>r. r\<lparr>dl_status := ''sending'', dl_attempts := dl_attempts r + 1, dl_lease_until := Some (now + lease_time)\<rparr>"
  from c obtain r where f: "first_by dl_id (delivery_due now d) (db_deliveries d) = Some r"
    and x: "x = delivery_item r" and d': "d' = d\<lparr>db_deliveries := update_where (\<lambda>x. dl_id x = dl_id r) ?f (db_deliveries d)\<rparr>"
    by (auto simp: ClaimEventDelivery_def res_simps split: option.splits)
  from first_by_Some [OF f] have r: "r \<in> set (db_deliveries d)" "delivery_due now d r" by auto
  have "delivery_state d' = (delivery_state d)(dl_id r := Some (''sending'', dl_attempts r + 1, Some (now + lease_time)))"
    using select_update_row [OF u r(1), of ?f] by (auto simp: delivery_state_def d')
  with u r select_row_unique [OF u r(1)] show "unique_key dl_id (db_deliveries d') \<and>
      delivery_state d' = (delivery_state d)(ev_ID x := Some (''sending'', ev_Attempts x, Some (now + lease_time))) \<and>
      (\<exists>status lease. delivery_state d (ev_ID x) = Some (status, ev_Attempts x - 1, lease) \<and>
         (status = ''pending'' \<or> status = ''sending'' \<and> (\<exists>l. lease = Some l \<and> l \<le> now)))"
    by (auto simp: x d' delivery_item_def delivery_state_def delivery_due_def due_def intro: unique_key_update_where split: option.splits)
next
  fix now and x :: EventDelivery and status code failure next_at d d'
  assume u: "unique_key dl_id (db_deliveries d)" and c: "FinishEventDelivery now x status code failure next_at d = Inr d'"
  let ?q = "\<lambda>r. dl_attempts r = ev_Attempts x \<and> dl_status r = ''sending''"
  let ?f = "\<lambda>r. r\<lparr>dl_status := status, dl_last_http_status := null_if code 0, dl_last_error := null_if failure [],
      dl_next_attempt_at := pg_timestamp next_at, dl_lease_until := None,
      dl_delivered_at := if status = ''delivered'' then Some now else None\<rparr>"
  from c have one: "rows_affected (\<lambda>r. dl_id r = ev_ID x \<and> ?q r) (db_deliveries d) = 1"
    and d': "d' = d\<lparr>db_deliveries := update_where (\<lambda>r. dl_id r = ev_ID x \<and> ?q r) ?f (db_deliveries d)\<rparr>"
    by (auto simp: FinishEventDelivery_def res_simps Let_def)
  from rows_affected_one [OF u one, of ?f] obtain r where r: "r \<in> set (db_deliveries d)" "dl_id r = ev_ID x" "?q r"
    "update_where (\<lambda>r. dl_id r = ev_ID x \<and> ?q r) ?f (db_deliveries d) = update_where (\<lambda>x. dl_id x = dl_id r) ?f (db_deliveries d)" by blast
  have "delivery_state d' = (delivery_state d)(dl_id r := Some (status, ev_Attempts x, None))"
    using select_update_row [OF u r(1), of ?f] r by (auto simp: delivery_state_def d' r(4))
  with u r select_row_unique [OF u r(1)] show "unique_key dl_id (db_deliveries d') \<and>
      delivery_state d' = (delivery_state d)(ev_ID x := Some (status, ev_Attempts x, None)) \<and>
      (\<exists>lease. delivery_state d (ev_ID x) = Some (''sending'', ev_Attempts x, lease))"
    by (auto simp: d' delivery_state_def intro: unique_key_update_where)
next
  fix d and x :: EventDelivery and lease status code failure now next_at
  assume u: "unique_key dl_id (db_deliveries d)" and s: "delivery_state d (ev_ID x) = Some (''sending'', ev_Attempts x, lease)"
    and r: "result_ok status code failure"
  from s obtain r where "r \<in> set (db_deliveries d)" "dl_id r = ev_ID x" "dl_attempts r = ev_Attempts x \<and> dl_status r = ''sending''"
    by (auto simp: delivery_state_def dest!: select_row_Some)
  with rows_affected_owned [OF u, of r "\<lambda>r. dl_attempts r = ev_Attempts x \<and> dl_status r = ''sending''"] r
  show "\<exists>d'. FinishEventDelivery now x status code failure next_at d = Inr d'"
    by (simp add: FinishEventDelivery_def Let_def)
qed

lemma attachment_claim_Inr:
  assumes "AttachmentQueue_ClaimEventDelivery L U now d = Inr (Some x, d')"
  obtains a parent a1 where "a \<in> set (db_attachments d)" "attachment_due now d a" "parent_of d a = Some parent"
    "materialize L parent a d = Inr a1" "ev_ID x = ad_id a" "ev_Attempts x = ad_attempts a + 1" "ev_Attachment x"
    "ev_SigningKeyID x = dl_signing_key_id parent" "attachment_endpoint U (dl_endpoint_url parent) = Some (ev_EndpointURL x)"
    "ev_Body x = (case ad_request_body a1 of Some body \<Rightarrow> body | None \<Rightarrow> [])"
    "d' = d\<lparr>db_attachments := update_where (\<lambda>y. ad_id y = ad_id a)
       (\<lambda>y. y\<lparr>ad_request_body := ad_request_body a1, ad_availability := ad_availability a1, ad_reason := ad_reason a1,
              ad_status := ''sending'', ad_attempts := ad_attempts a + 1, ad_lease_until := Some (now + lease_time)\<rparr>)
       (db_attachments d)\<rparr>"
proof -
  from assms obtain a where f: "first_by ad_id (attachment_due now d) (db_attachments d) = Some a"
    by (auto simp: AttachmentQueue_ClaimEventDelivery_def split: option.splits)
  with assms obtain parent endpoint a1 where "parent_of d a = Some parent"
    "attachment_endpoint U (dl_endpoint_url parent) = Some endpoint" "materialize L parent a d = Inr a1"
    "x = zero_delivery\<lparr>ev_Attachment := True, ev_ID := ad_id a, ev_TerminalSerialNumber := dl_terminal_serial_number parent,
       ev_EndpointURL := endpoint, ev_SigningKeyID := dl_signing_key_id parent, ev_Attempts := ad_attempts a + 1,
       ev_Body := (case ad_request_body a1 of Some body \<Rightarrow> body | None \<Rightarrow> [])\<rparr>"
    "d' = d\<lparr>db_attachments := update_where (\<lambda>y. ad_id y = ad_id a)
       (\<lambda>y. y\<lparr>ad_request_body := ad_request_body a1, ad_availability := ad_availability a1, ad_reason := ad_reason a1,
              ad_status := ''sending'', ad_attempts := ad_attempts a + 1, ad_lease_until := Some (now + lease_time)\<rparr>)
       (db_attachments d)\<rparr>"
    by (auto simp: AttachmentQueue_ClaimEventDelivery_def bindE_eq_Inr guardE_eq_Inr someE_eq_Inr)
  with first_by_Some [OF f] show ?thesis by (intro that [of a parent a1]) simp_all
qed

interpretation atq: delivery_queue "AttachmentQueue_ClaimEventDelivery L U" AttachmentQueue_FinishEventDelivery attachment_state
  "\<lambda>d. unique_key ad_id (db_attachments d)" for L U
proof
  show "AttachmentQueue_ClaimEventDelivery L U now d = Inr (None, d') \<Longrightarrow> d' = d" for now d d'
    by (auto simp: AttachmentQueue_ClaimEventDelivery_def res_simps split: option.splits)
next
  fix now d and x :: EventDelivery and d'
  assume u: "unique_key ad_id (db_attachments d)" and c: "AttachmentQueue_ClaimEventDelivery L U now d = Inr (Some x, d')"
  from c obtain a and a1 :: attachment_row where r: "a \<in> set (db_attachments d)" "attachment_due now d a"
    and x: "ev_ID x = ad_id a" "ev_Attempts x = ad_attempts a + 1"
    and d': "d' = d\<lparr>db_attachments := update_where (\<lambda>y. ad_id y = ad_id a)
       (\<lambda>y. y\<lparr>ad_request_body := ad_request_body a1, ad_availability := ad_availability a1, ad_reason := ad_reason a1,
              ad_status := ''sending'', ad_attempts := ad_attempts a + 1, ad_lease_until := Some (now + lease_time)\<rparr>)
       (db_attachments d)\<rparr>" by (rule attachment_claim_Inr) (rule that, assumption+)
  let ?f = "\<lambda>y. y\<lparr>ad_request_body := ad_request_body a1, ad_availability := ad_availability a1, ad_reason := ad_reason a1,
      ad_status := ''sending'', ad_attempts := ad_attempts a + 1, ad_lease_until := Some (now + lease_time)\<rparr>"
  have "attachment_state d' = (attachment_state d)(ad_id a := Some (''sending'', ad_attempts a + 1, Some (now + lease_time)))"
    using select_update_row [OF u r(1), of ?f] by (auto simp: attachment_state_def d')
  moreover have "unique_key ad_id (db_attachments d')" using u by (auto simp: d' intro: unique_key_update_where)
  ultimately show "unique_key ad_id (db_attachments d') \<and>
      attachment_state d' = (attachment_state d)(ev_ID x := Some (''sending'', ev_Attempts x, Some (now + lease_time))) \<and>
      (\<exists>status lease. attachment_state d (ev_ID x) = Some (status, ev_Attempts x - 1, lease) \<and>
         (status = ''pending'' \<or> status = ''sending'' \<and> (\<exists>l. lease = Some l \<and> l \<le> now)))"
    using r select_row_unique [OF u r(1)]
    by (auto simp: x attachment_state_def attachment_due_def due_def split: option.splits)
next
  fix now and x :: EventDelivery and status code failure next_at d d'
  assume u: "unique_key ad_id (db_attachments d)" and c: "AttachmentQueue_FinishEventDelivery now x status code failure next_at d = Inr d'"
  let ?q = "\<lambda>r. ad_attempts r = ev_Attempts x \<and> ad_status r = ''sending''"
  let ?f = "\<lambda>r. r\<lparr>ad_status := status, ad_last_http_status := null_if code 0, ad_last_error := null_if failure [],
      ad_next_attempt_at := pg_timestamp next_at, ad_lease_until := None,
      ad_delivered_at := if status = ''delivered'' then Some now else None\<rparr>"
  from c have one: "rows_affected (\<lambda>r. ad_id r = ev_ID x \<and> ?q r) (db_attachments d) = 1"
    and d': "d' = d\<lparr>db_attachments := update_where (\<lambda>r. ad_id r = ev_ID x \<and> ?q r) ?f (db_attachments d)\<rparr>"
    by (auto simp: AttachmentQueue_FinishEventDelivery_def res_simps Let_def)
  from rows_affected_one [OF u one, of ?f] obtain r where r: "r \<in> set (db_attachments d)" "ad_id r = ev_ID x" "?q r"
    "update_where (\<lambda>r. ad_id r = ev_ID x \<and> ?q r) ?f (db_attachments d) = update_where (\<lambda>x. ad_id x = ad_id r) ?f (db_attachments d)" by blast
  have "attachment_state d' = (attachment_state d)(ad_id r := Some (status, ev_Attempts x, None))"
    using select_update_row [OF u r(1), of ?f] r by (auto simp: attachment_state_def d' r(4))
  with u r select_row_unique [OF u r(1)] show "unique_key ad_id (db_attachments d') \<and>
      attachment_state d' = (attachment_state d)(ev_ID x := Some (status, ev_Attempts x, None)) \<and>
      (\<exists>lease. attachment_state d (ev_ID x) = Some (''sending'', ev_Attempts x, lease))"
    by (auto simp: d' attachment_state_def intro: unique_key_update_where)
next
  fix d and x :: EventDelivery and lease status code failure now next_at
  assume u: "unique_key ad_id (db_attachments d)" and s: "attachment_state d (ev_ID x) = Some (''sending'', ev_Attempts x, lease)"
    and r: "result_ok status code failure"
  from s obtain r where "r \<in> set (db_attachments d)" "ad_id r = ev_ID x" "ad_attempts r = ev_Attempts x \<and> ad_status r = ''sending''"
    by (auto simp: attachment_state_def dest!: select_row_Some)
  with rows_affected_owned [OF u, of r "\<lambda>r. ad_attempts r = ev_Attempts x \<and> ad_status r = ''sending''"] r
  show "\<exists>d'. AttachmentQueue_FinishEventDelivery now x status code failure next_at d = Inr d'"
    by (simp add: AttachmentQueue_FinishEventDelivery_def Let_def)
qed

section \<open>Judging a reply\<close>

lemma judge_delivered:
  "judge_reply x reply = (''delivered'', code, failure) \<longleftrightarrow>
     code = 200 \<and> failure = [] \<and> hr_status reply = 200 \<and> \<not> hr_read_error reply \<and> length (hr_body reply) \<le> 4096 \<and>
     (\<exists>source. decode_event_message (ev_Body x) = Some source \<and>
        validReceipt (hr_body reply) (em_EventID source) (em_SchemaVersion source) (if ev_Attachment x then ''Picture'' else []))"
  by (auto simp: judge_reply_def Let_def split: option.splits if_splits)

lemma send_delivered:
  "send keys U unix peer x = (''delivered'', code, failure) \<longleftrightarrow>
     (\<exists>key reply. map_of keys (ev_SigningKeyID x) = Some key \<and> ul_Parse U (ev_EndpointURL x) \<noteq> None \<and>
        peer (outgoing_request key unix x) = Some reply \<and> judge_reply x reply = (''delivered'', code, failure))"
  by (auto simp: send_def split: option.splits)

text \<open>The names of a valid receipt are exactly the expected ones.\<close>

definition receipt_names :: "string \<Rightarrow> string set" where
  "receipt_names attachmentID = {''schemaVersion'', ''eventId'', ''receipt''} \<union> (if attachmentID \<noteq> [] then {''attachmentId''} else {})"

lemma validReceipt_names:
  assumes "distinct (map fst ms)" "list_all (receipt_member eventID v attachmentID) ms" "length ms = (if attachmentID \<noteq> [] then 4 else 3)"
  shows "set (map fst ms) = receipt_names attachmentID"
proof (rule card_subset_eq)
  show "finite (receipt_names attachmentID)" by (simp add: receipt_names_def)
  have "fst m \<in> receipt_names attachmentID" if "receipt_member eventID v attachmentID m" for m
    using that by (cases m) (simp add: receipt_member_def receipt_names_def split: if_splits)
  with assms(2) show "set (map fst ms) \<subseteq> receipt_names attachmentID" by (auto simp: list_all_iff)
  have "card (set (map fst ms)) = length ms" using assms(1) by (metis distinct_card length_map)
  also have "\<dots> = card (receipt_names attachmentID)" using assms(3) by (simp add: receipt_names_def)
  finally show "card (set (map fst ms)) = card (receipt_names attachmentID)" .
qed

text \<open>
  What the receiver must answer: an object with exactly the expected names, each once, that says the
  event, its schema version and, for a picture, the attachment, and that it is stored.
\<close>

definition receipt_value :: "string \<Rightarrow> int \<Rightarrow> string \<Rightarrow> string \<times> string \<times> json \<Rightarrow> bool" where
  "receipt_value eventID schemaVersion attachmentID = (\<lambda>(name, raw, v).
     (name = ''eventId'' \<longrightarrow> json_val json_string [] v = Some eventID) \<and>
     (name = ''schemaVersion'' \<longrightarrow> json_val json_int 0 v = Some schemaVersion) \<and>
     (name = ''receipt'' \<longrightarrow> json_val json_string [] v = Some ''stored'') \<and>
     (name = ''attachmentId'' \<longrightarrow> json_val json_string [] v = Some attachmentID))"

definition receipt_for :: "bytes \<Rightarrow> string \<Rightarrow> int \<Rightarrow> string \<Rightarrow> bool" where
  "receipt_for body eventID schemaVersion attachmentID \<longleftrightarrow>
     (\<exists>ms. json_document body = Some (JObj ms) \<and> distinct (map fst ms) \<and> set (map fst ms) = receipt_names attachmentID \<and>
        list_all (receipt_value eventID schemaVersion attachmentID) ms)"

lemma receipt_member_value:
  "fst m \<in> receipt_names attachmentID \<Longrightarrow>
     receipt_member eventID schemaVersion attachmentID m = receipt_value eventID schemaVersion attachmentID m"
  by (cases m) (auto simp: receipt_names_def receipt_member_def receipt_value_def split: if_splits)

lemma receipt_members:
  "distinct (map fst ms) \<and> list_all (receipt_member eventID v attachmentID) ms \<and> length ms = (if attachmentID \<noteq> [] then 4 else 3) \<longleftrightarrow>
   distinct (map fst ms) \<and> set (map fst ms) = receipt_names attachmentID \<and> list_all (receipt_value eventID v attachmentID) ms"
proof (cases "distinct (map fst ms) \<and> set (map fst ms) = receipt_names attachmentID")
  case True
  then have "length ms = card (receipt_names attachmentID)" using distinct_card [of "map fst ms"] by simp
  then have "length ms = (if attachmentID \<noteq> [] then 4 else 3)" by (simp add: receipt_names_def)
  moreover have "fst m \<in> receipt_names attachmentID" if "m \<in> set ms" for m using True that by (metis image_eqI list.set_map)
  then have "list_all (receipt_member eventID v attachmentID) ms = list_all (receipt_value eventID v attachmentID) ms"
    unfolding list_all_iff by (intro ball_cong [OF refl] receipt_member_value) blast
  ultimately show ?thesis using True by simp
next
  case False
  with validReceipt_names [of ms eventID v attachmentID] show ?thesis by blast
qed

lemma validReceipt_exact: "validReceipt body eventID schemaVersion attachmentID = receipt_for body eventID schemaVersion attachmentID"
  unfolding validReceipt_def receipt_for_def receipt_members by (auto split: option.splits json.splits)

section \<open>What is delivered\<close>

text \<open>The worker got the receipt for the message of a row.\<close>

definition receipted ::
    "('d \<Rightarrow> int \<Rightarrow> (string \<times> string \<times> bytes) option) \<Rightarrow> bool \<Rightarrow> (string \<times> string) list \<Rightarrow> 'u url_library \<Rightarrow> worker_env \<Rightarrow> 'd \<Rightarrow> int \<Rightarrow> bool" where
  "receipted content attachment keys U W d i \<longleftrightarrow>
     (\<exists>j x. ev_ID x = i \<and> ev_Attachment x = attachment \<and> content d i = Some (ev_EndpointURL x, ev_SigningKeyID x, ev_Body x) \<and>
        fst (send keys U (we_host_time W j div second) (we_peer W j) x) = ''delivered'')"

text \<open>
  A queue with its messages: destination, key and body of a row, fixed once they are known, and
  handed to the worker with the row.
\<close>

locale message_queue = delivery_queue claim finish state ok
  for claim :: "'d claim_op" and finish :: "'d finish_op" and state and ok +
  fixes content :: "'d \<Rightarrow> int \<Rightarrow> (string \<times> string \<times> bytes) option"
    and attachment :: bool
  assumes claim_content: "ok d \<Longrightarrow> claim now d = Inr (Some x, d') \<Longrightarrow>
      ev_Attachment x = attachment \<and> content d' (ev_ID x) = Some (ev_EndpointURL x, ev_SigningKeyID x, ev_Body x) \<and>
      (\<forall>i c. content d i = Some c \<longrightarrow> content d' i = Some c)"
    and finish_content: "ok d \<Longrightarrow> finish now x status code failure next_at d = Inr d' \<Longrightarrow> content d' = content d"
begin

lemma receipted_mono:
  "receipted content attachment keys U W d i \<Longrightarrow> \<forall>i c. content d i = Some c \<longrightarrow> content d' i = Some c \<Longrightarrow> receipted content attachment keys U W d' i"
  unfolding receipted_def by blast

lemma attempt_sent:
  assumes "ok d" "attempt claim finish keys U W k d = (again, d')"
  shows "(\<forall>i c. content d i = Some c \<longrightarrow> content d' i = Some c) \<and>
    (state d' i = Some (''delivered'', a, l) \<longrightarrow> state d i = Some (''delivered'', a, l) \<or> receipted content attachment keys U W d' i)"
proof (cases "we_claim_fault W k \<or> (\<forall>x d1. claim (we_claim_time W k) d \<noteq> Inr (Some x, d1))")
  case True
  with assms(2) have "d' = d"
    by (auto simp: attempt_def claim_None split: if_splits sum.splits option.splits prod.splits)
  then show ?thesis by simp
next
  case False
  then obtain x d1 where c: "\<not> we_claim_fault W k" "claim (we_claim_time W k) d = Inr (Some x, d1)" by blast
  obtain status code failure where r: "send keys U (we_host_time W k div second) (we_peer W k) x = (status, code, failure)"
    by (metis prod.exhaust)
  note s = claim_Some [OF assms(1) c(2)] and m = claim_content [OF assms(1) c(2)]
  from c r assms(2) consider "d' = d1" | "finish (we_finish_time W k) x status code failure (we_host_time W k + RetryDelay (ev_Attempts x)) d1 = Inr d'"
    by (auto simp: attempt_def Let_def split: if_splits sum.splits)
  then show ?thesis
  proof cases
    case 1
    with s m show ?thesis by (auto split: if_splits)
  next
    case 2
    from s have o: "ok d1" by simp
    from finish_Inr [OF o 2] finish_content [OF o 2] s m r show ?thesis
      by (cases "ev_ID x = i") (auto simp: receipted_def intro!: exI [of _ k] exI [of _ x])
  qed
qed

lemma drain_sent:
  "ok d \<Longrightarrow> ok (drain claim finish keys U W n k d) \<and>
     (\<forall>i c. content d i = Some c \<longrightarrow> content (drain claim finish keys U W n k d) i = Some c) \<and>
     (state (drain claim finish keys U W n k d) i = Some (''delivered'', a, l) \<longrightarrow>
        state d i = Some (''delivered'', a, l) \<or> receipted content attachment keys U W (drain claim finish keys U W n k d) i)"
proof (induction n arbitrary: k d)
  case (Suc n)
  obtain again d1 where t: "attempt claim finish keys U W k d = (again, d1)" by fastforce
  have o: "ok d1" using attempt_cases [OF Suc.prems t] by blast
  note sent = attempt_sent [OF Suc.prems t, of i a l] and IH = Suc.IH [OF o, of "Suc k"]
  show ?case
  proof (cases again)
    case True
    then have e: "drain claim finish keys U W (Suc n) k d = drain claim finish keys U W n (Suc k) d1" using t by simp
    have "receipted content attachment keys U W (drain claim finish keys U W n (Suc k) d1) i" if "receipted content attachment keys U W d1 i"
      using receipted_mono [OF that] IH by blast
    then show ?thesis unfolding e using sent IH by blast
  qed (use t sent o in simp)
qed simp

end

definition delivery_content :: "db \<Rightarrow> int \<Rightarrow> (string \<times> string \<times> bytes) option" where
  "delivery_content d i =
     map_option (\<lambda>r. (dl_endpoint_url r, dl_signing_key_id r, dl_request_body r)) (select_row (\<lambda>r. dl_id r = i) (db_deliveries d))"

definition attachment_content :: "'u url_library \<Rightarrow> db \<Rightarrow> int \<Rightarrow> (string \<times> string \<times> bytes) option" where
  "attachment_content U d i =
     obind (select_row (\<lambda>a. ad_id a = i) (db_attachments d)) (\<lambda>a.
     obind (parent_of d a) (\<lambda>parent.
     obind (attachment_endpoint U (dl_endpoint_url parent)) (\<lambda>url.
       map_option (\<lambda>body. (url, dl_signing_key_id parent, body)) (ad_request_body a))))"

lemma select_row_kept:
  assumes "\<And>x. k (f x) = k x" "\<And>x. h (f x) = h x"
  shows "map_option h (select_row (\<lambda>r. k r = i) (update_where p f rows)) = map_option h (select_row (\<lambda>r. k r = i) rows)"
  using assms by (induction rows) (auto simp: select_row_def update_where_def)

interpretation evm: message_queue ClaimEventDelivery FinishEventDelivery delivery_state "\<lambda>d. unique_key dl_id (db_deliveries d)"
  delivery_content False
proof
  fix now d x d' assume u: "unique_key dl_id (db_deliveries d)" and c: "ClaimEventDelivery now d = Inr (Some x, d')"
  let ?f = "\<lambda>r. r\<lparr>dl_status := ''sending'', dl_attempts := dl_attempts r + 1, dl_lease_until := Some (now + lease_time)\<rparr>"
  from c obtain r where f: "first_by dl_id (delivery_due now d) (db_deliveries d) = Some r"
    and x: "x = delivery_item r" and d': "d' = d\<lparr>db_deliveries := update_where (\<lambda>x. dl_id x = dl_id r) ?f (db_deliveries d)\<rparr>"
    by (auto simp: ClaimEventDelivery_def res_simps split: option.splits)
  have "delivery_content d' = delivery_content d"
    by (rule ext) (simp add: delivery_content_def d' select_row_kept)
  with select_row_unique [OF u] first_by_Some [OF f] show "ev_Attachment x = False \<and>
      delivery_content d' (ev_ID x) = Some (ev_EndpointURL x, ev_SigningKeyID x, ev_Body x) \<and>
      (\<forall>i c. delivery_content d i = Some c \<longrightarrow> delivery_content d' i = Some c)"
    by (simp add: x delivery_item_def zero_delivery_def) (simp add: delivery_content_def)
next
  fix now and x :: EventDelivery and status code failure next_at d d'
  assume "FinishEventDelivery now x status code failure next_at d = Inr d'"
  then show "delivery_content d' = delivery_content d"
    by (auto simp: FinishEventDelivery_def res_simps Let_def delivery_content_def select_row_kept intro!: ext)
qed

lemma materialize_Inr:
  assumes "materialize L parent a d = Inr a1"
  shows "ad_request_body a1 \<noteq> None" "ad_request_body a \<noteq> None \<Longrightarrow> a1 = a"
  using assms by (auto simp: materialize_def bindE_eq_Inr split: option.splits)

lemma attachment_content_update:
  assumes u: "unique_key ad_id (db_attachments d)" and a: "a \<in> set (db_attachments d)"
    and d': "d' = d\<lparr>db_attachments := update_where (\<lambda>y. ad_id y = ad_id a) f (db_attachments d)\<rparr>"
    and f: "\<And>y. ad_id (f y) = ad_id y \<and> ad_event_delivery_id (f y) = ad_event_delivery_id y"
  shows "attachment_content U d' i = (if i = ad_id a then attachment_content U (d\<lparr>db_attachments := [f a]\<rparr>) i else attachment_content U d i)"
proof -
  have p: "parent_of d' y = parent_of d y" "parent_of (d\<lparr>db_attachments := [f a]\<rparr>) y = parent_of d y" for y
    by (simp_all add: d' parent_of_def)
  have s: "select_row (\<lambda>y. ad_id y = i) (db_attachments d') = (if i = ad_id a then Some (f a) else select_row (\<lambda>y. ad_id y = i) (db_attachments d))"
    using select_update_row [OF u a, of f] f by (simp add: d')
  have one: "select_row (\<lambda>y. ad_id y = ad_id a) [f a] = Some (f a)" using f by (simp add: select_row_def)
  show ?thesis unfolding attachment_content_def s p by (simp add: one)
qed

interpretation atm: message_queue "AttachmentQueue_ClaimEventDelivery L U" AttachmentQueue_FinishEventDelivery attachment_state
  "\<lambda>d. unique_key ad_id (db_attachments d)" "attachment_content U" True for L U
proof
  fix now d and x :: EventDelivery and d'
  assume u: "unique_key ad_id (db_attachments d)" and c: "AttachmentQueue_ClaimEventDelivery L U now d = Inr (Some x, d')"
  from c obtain a parent and a1 :: attachment_row where r: "a \<in> set (db_attachments d)" "parent_of d a = Some parent"
      "materialize L parent a d = Inr a1"
    and x: "ev_ID x = ad_id a" "ev_Attachment x" "ev_SigningKeyID x = dl_signing_key_id parent"
      "attachment_endpoint U (dl_endpoint_url parent) = Some (ev_EndpointURL x)"
      "ev_Body x = (case ad_request_body a1 of Some body \<Rightarrow> body | None \<Rightarrow> [])"
    and d': "d' = d\<lparr>db_attachments := update_where (\<lambda>y. ad_id y = ad_id a)
       (\<lambda>y. y\<lparr>ad_request_body := ad_request_body a1, ad_availability := ad_availability a1, ad_reason := ad_reason a1,
              ad_status := ''sending'', ad_attempts := ad_attempts a + 1, ad_lease_until := Some (now + lease_time)\<rparr>)
       (db_attachments d)\<rparr>" by (rule attachment_claim_Inr) (rule that, assumption+)
  let ?f = "\<lambda>y. y\<lparr>ad_request_body := ad_request_body a1, ad_availability := ad_availability a1, ad_reason := ad_reason a1,
      ad_status := ''sending'', ad_attempts := ad_attempts a + 1, ad_lease_until := Some (now + lease_time)\<rparr>"
  note e = attachment_content_update [OF u r(1) d', of U]
  have par: "parent_of (d\<lparr>db_attachments := [?f a]\<rparr>) (?f a) = Some parent" using r(2) by (simp add: parent_of_def)
  obtain body where b: "ad_request_body a1 = Some body" using materialize_Inr(1) [OF r(3)] by blast
  have new: "attachment_content U d' (ad_id a) = Some (ev_EndpointURL x, ev_SigningKeyID x, ev_Body x)"
    using x b par by (simp add: e) (simp add: attachment_content_def select_row_def obind_def parent_of_def)
  have "attachment_content U d (ad_id a) = Some k \<Longrightarrow> attachment_content U d' (ad_id a) = Some k" for k
    using materialize_Inr(2) [OF r(3)] r(2) x b unfolding new
    by (auto simp: attachment_content_def select_row_unique [OF u r(1)] obind_def split: option.splits)
  with new x(1,2) show "ev_Attachment x = True \<and>
      attachment_content U d' (ev_ID x) = Some (ev_EndpointURL x, ev_SigningKeyID x, ev_Body x) \<and>
      (\<forall>i k. attachment_content U d i = Some k \<longrightarrow> attachment_content U d' i = Some k)"
    by (auto simp: e)
next
  fix now and x :: EventDelivery and status code failure next_at d d'
  assume "AttachmentQueue_FinishEventDelivery now x status code failure next_at d = Inr d'"
  then have rows: "db_deliveries d' = db_deliveries d"
      "map_option (\<lambda>a. (ad_event_delivery_id a, ad_request_body a)) (select_row (\<lambda>a. ad_id a = i) (db_attachments d')) =
       map_option (\<lambda>a. (ad_event_delivery_id a, ad_request_body a)) (select_row (\<lambda>a. ad_id a = i) (db_attachments d))" for i
    by (auto simp: AttachmentQueue_FinishEventDelivery_def res_simps Let_def select_row_kept)
  have "attachment_content U d' i = attachment_content U d i" for i
    using rows(2) [of i]
    by (cases "select_row (\<lambda>a. ad_id a = i) (db_attachments d)"; cases "select_row (\<lambda>a. ad_id a = i) (db_attachments d')")
      (simp_all add: attachment_content_def obind_def parent_of_def rows(1) cong: option.case_cong)
  then show "attachment_content U d' = attachment_content U d" by (rule ext)
qed

end
