(* ===== verification/Outbox.thy ===== *)
theory Outbox
  imports DeliveryWorker
begin

text \<open>
  The outbox under any sequence of the operations that change it: ingestion of events, both queues'
  claims and results, retries, route changes and back-fills. What an entry keeps along every
  history, and the invariant that unfinished work always has a route to go on with.
\<close>

section \<open>The invariant\<close>

definition has_route :: "db \<Rightarrow> string \<Rightarrow> bool" where
  "has_route d serial = exists_row (\<lambda>r. dr_terminal_serial_number r = serial) (db_routes d)"

definition outbox_ok :: "db \<Rightarrow> bool" where
  "outbox_ok d \<longleftrightarrow>
     unique_key dl_id (db_deliveries d) \<and> unique_key ad_id (db_attachments d) \<and>
     (\<forall>a \<in> set (db_attachments d). \<exists>r \<in> set (db_deliveries d). dl_id r = ad_event_delivery_id a) \<and>
     (\<forall>r \<in> set (db_deliveries d). delivery_unfinished d r \<longrightarrow> has_route d (dl_terminal_serial_number r))"

lemma outbox_ok_same:
  "db_deliveries d' = db_deliveries d \<Longrightarrow> db_attachments d' = db_attachments d \<Longrightarrow> db_routes d' = db_routes d \<Longrightarrow>
     outbox_ok d' = outbox_ok d"
  by (simp add: outbox_ok_def delivery_unfinished_def has_route_def)

lemma outbox_ok_routes:
  assumes "outbox_ok d" "db_deliveries d' = db_deliveries d" "db_attachments d' = db_attachments d"
    and "\<And>r. r \<in> set (db_deliveries d) \<Longrightarrow> delivery_unfinished d r \<Longrightarrow> has_route d (dl_terminal_serial_number r) \<Longrightarrow>
      has_route d' (dl_terminal_serial_number r)"
  shows "outbox_ok d'"
  using assms by (auto simp: outbox_ok_def delivery_unfinished_def)

lemma outbox_ok_update_delivery:
  assumes "outbox_ok d"
    and "\<And>r. r \<in> set (db_deliveries d) \<Longrightarrow> p r \<Longrightarrow> dl_status r \<noteq> ''delivered''"
    and "\<And>r. dl_id (f r) = dl_id r \<and> dl_terminal_serial_number (f r) = dl_terminal_serial_number r"
  shows "outbox_ok (d\<lparr>db_deliveries := update_where p f (db_deliveries d)\<rparr>)"
proof -
  let ?d = "d\<lparr>db_deliveries := update_where p f (db_deliveries d)\<rparr>"
  let ?g = "\<lambda>r. if p r then f r else r"
  have routes: "has_route ?d (dl_terminal_serial_number x)" if x: "x \<in> set (db_deliveries ?d)" "delivery_unfinished ?d x" for x
  proof -
    from x(1) obtain r where r: "r \<in> set (db_deliveries d)" "x = ?g r" by (auto simp: set_update_where)
    have "delivery_unfinished d r" using assms(2,3) x(2) r by (auto simp: delivery_unfinished_def split: if_splits)
    with assms(1,3) r show ?thesis by (auto simp: outbox_ok_def has_route_def)
  qed
  have "map dl_id (db_deliveries ?d) = map dl_id (db_deliveries d)"
    using assms(3) by (simp add: update_where_def)
  then have uniq: "unique_key dl_id (db_deliveries ?d)" and ids: "dl_id ` set (db_deliveries ?d) = dl_id ` set (db_deliveries d)"
    using assms(1) by (auto simp: outbox_ok_def unique_key_def simp flip: set_map)
  have "\<forall>a \<in> set (db_attachments d). \<exists>r \<in> set (db_deliveries ?d). dl_id r = ad_event_delivery_id a"
  proof
    fix a assume "a \<in> set (db_attachments d)"
    then have "ad_event_delivery_id a \<in> dl_id ` set (db_deliveries ?d)"
      using assms(1) unfolding ids by (force simp: outbox_ok_def)
    then show "\<exists>r \<in> set (db_deliveries ?d). dl_id r = ad_event_delivery_id a" by force
  qed
  with routes uniq assms(1) show ?thesis unfolding outbox_ok_def by simp
qed

lemma outbox_ok_update_attachment:
  assumes "outbox_ok d"
    and "\<And>a. a \<in> set (db_attachments d) \<Longrightarrow> p a \<Longrightarrow> ad_status a \<noteq> ''delivered''"
    and "\<And>a. ad_id (f a) = ad_id a \<and> ad_event_delivery_id (f a) = ad_event_delivery_id a"
  shows "outbox_ok (d\<lparr>db_attachments := update_where p f (db_attachments d)\<rparr>)"
proof -
  let ?d = "d\<lparr>db_attachments := update_where p f (db_attachments d)\<rparr>"
  have "delivery_unfinished d r" if "delivery_unfinished ?d r" for r
    using that assms(2,3) by (fastforce simp: delivery_unfinished_def row_simps split: if_splits)
  moreover have "unique_key ad_id (db_attachments ?d)"
    using assms(1,3) by (auto simp: outbox_ok_def intro: unique_key_update_where)
  moreover have "\<forall>a \<in> set (db_attachments ?d). \<exists>r \<in> set (db_deliveries d). dl_id r = ad_event_delivery_id a"
    using assms(1,3) by (auto simp: outbox_ok_def set_update_where)
  ultimately show ?thesis using assms(1) by (auto simp: outbox_ok_def has_route_def)
qed

lemma outbox_ok_new_delivery:
  assumes "outbox_ok d" "dl_id r = next_id dl_id (db_deliveries d)" "has_route d (dl_terminal_serial_number r)"
  shows "outbox_ok (d\<lparr>db_deliveries := db_deliveries d @ [r]\<rparr>)"
  using assms unique_key_next_id [of dl_id "db_deliveries d" r]
  by (auto simp: outbox_ok_def delivery_unfinished_def has_route_def)

lemma outbox_ok_new_attachment:
  assumes "outbox_ok d" "enqueueAttachment now i d = Inr d'" "\<exists>r \<in> set (db_deliveries d). dl_id r = i"
    and "\<And>r. r \<in> set (db_deliveries d) \<Longrightarrow> dl_id r = i \<Longrightarrow> has_route d (dl_terminal_serial_number r)"
  shows "outbox_ok d'"
proof -
  from assms(2) obtain a where d': "d' = d\<lparr>db_attachments := db_attachments d @ [a]\<rparr>" "ad_event_delivery_id a = i"
    "ad_id a = next_id ad_id (db_attachments d)" by (auto simp: enqueueAttachment_def res_simps)
  have "delivery_unfinished d r \<or> dl_id r = i" if "delivery_unfinished d' r" for r
    using that d'(2) by (auto simp: d'(1) delivery_unfinished_def row_simps)
  then show ?thesis
    using assms(1,3,4) unique_key_next_id [of ad_id "db_attachments d" a] d'(2,3)
    by (auto simp: d'(1) outbox_ok_def has_route_def)
qed

text \<open>A new delivery with its receipt.\<close>

lemma outbox_ok_enqueue:
  assumes "outbox_ok d" "dl_id r = next_id dl_id (db_deliveries d)" "has_route d (dl_terminal_serial_number r)"
    and "enqueueAttachment now (dl_id r) (d\<lparr>db_deliveries := db_deliveries d @ [r]\<rparr>) = Inr d'"
  shows "outbox_ok d'"
proof (rule outbox_ok_new_attachment [OF outbox_ok_new_delivery [OF assms(1-3)] assms(4)])
  fix x assume "x \<in> set (db_deliveries (d\<lparr>db_deliveries := db_deliveries d @ [r]\<rparr>))" "dl_id x = dl_id r"
  then have "x = r" using next_id_greater [of x "db_deliveries d" dl_id] assms(2) by auto
  with assms(3) show "has_route (d\<lparr>db_deliveries := db_deliveries d @ [r]\<rparr>) (dl_terminal_serial_number x)"
    by (simp add: has_route_def)
qed auto

section \<open>What an entry keeps\<close>

text \<open>Its destination, key and body for ever; everything once it is delivered.\<close>

definition delivery_follows :: "delivery_row \<Rightarrow> delivery_row \<Rightarrow> bool" where
  "delivery_follows r r' \<longleftrightarrow>
     dl_id r' = dl_id r \<and> dl_device_event_id r' = dl_device_event_id r \<and> dl_retained_event_id r' = dl_retained_event_id r \<and>
     dl_terminal_serial_number r' = dl_terminal_serial_number r \<and> dl_endpoint_url r' = dl_endpoint_url r \<and>
     dl_signing_key_id r' = dl_signing_key_id r \<and> dl_request_body r' = dl_request_body r \<and>
     dl_attempts r \<le> dl_attempts r' \<and> (dl_status r = ''delivered'' \<longrightarrow> r' = r)"

definition attachment_follows :: "attachment_row \<Rightarrow> attachment_row \<Rightarrow> bool" where
  "attachment_follows a a' \<longleftrightarrow>
     ad_id a' = ad_id a \<and> ad_event_delivery_id a' = ad_event_delivery_id a \<and> ad_attempts a \<le> ad_attempts a' \<and>
     (ad_request_body a \<noteq> None \<longrightarrow> ad_request_body a' = ad_request_body a \<and> ad_availability a' = ad_availability a \<and>
        ad_reason a' = ad_reason a) \<and>
     (ad_status a = ''delivered'' \<longrightarrow> a' = a)"

definition outbox_follows :: "db \<Rightarrow> db \<Rightarrow> bool" where
  "outbox_follows d d' \<longleftrightarrow>
     (\<forall>r \<in> set (db_deliveries d). \<exists>r' \<in> set (db_deliveries d'). delivery_follows r r') \<and>
     (\<forall>a \<in> set (db_attachments d). \<exists>a' \<in> set (db_attachments d'). attachment_follows a a')"

lemma follows_refls [simp]: "delivery_follows r r" "attachment_follows a a"
  by (simp_all add: delivery_follows_def attachment_follows_def)

lemma outbox_follows_append:
  "db_deliveries d' = db_deliveries d @ dels \<Longrightarrow> db_attachments d' = db_attachments d @ atts \<Longrightarrow> outbox_follows d d'"
  by (auto simp: outbox_follows_def intro: follows_refls)

lemma outbox_follows_update_delivery:
  assumes "\<And>r. r \<in> set (db_deliveries d) \<Longrightarrow> p r \<Longrightarrow> delivery_follows r (f r)"
    and "db_deliveries d' = update_where p f (db_deliveries d)" "db_attachments d' = db_attachments d"
  shows "outbox_follows d d'"
proof -
  have "\<exists>r' \<in> set (update_where p f (db_deliveries d)). delivery_follows r r'" if "r \<in> set (db_deliveries d)" for r
    using that assms(1) by (intro bexI [of _ "if p r then f r else r"]) (auto simp: set_update_where)
  with assms(2,3) show ?thesis by (auto simp: outbox_follows_def intro: follows_refls)
qed

lemma outbox_follows_update_attachment:
  assumes "\<And>a. a \<in> set (db_attachments d) \<Longrightarrow> p a \<Longrightarrow> attachment_follows a (f a)"
    and "db_attachments d' = update_where p f (db_attachments d)" "db_deliveries d' = db_deliveries d"
  shows "outbox_follows d d'"
proof -
  have "\<exists>a' \<in> set (update_where p f (db_attachments d)). attachment_follows a a'" if "a \<in> set (db_attachments d)" for a
    using that assms(1) by (intro bexI [of _ "if p a then f a else a"]) (auto simp: set_update_where)
  with assms(2,3) show ?thesis by (auto simp: outbox_follows_def intro: follows_refls)
qed

lemma outbox_follows_trans:
  assumes "outbox_follows d d1" "outbox_follows d1 d2"
  shows "outbox_follows d d2"
proof -
  have "delivery_follows a c" if "delivery_follows a b" "delivery_follows b c" for a b c
    using that by (auto simp: delivery_follows_def)
  moreover have "attachment_follows a c" if "attachment_follows a b" "attachment_follows b c" for a b c
    using that by (auto simp: attachment_follows_def)
  ultimately show ?thesis using assms unfolding outbox_follows_def by meson
qed

section \<open>Operations that only add\<close>

definition routed :: "db \<Rightarrow> int \<Rightarrow> bool" where
  "routed d i \<longleftrightarrow> (\<exists>r \<in> set (db_deliveries d). dl_id r = i \<and> has_route d (dl_terminal_serial_number r))"

lemma candidate_routes: "queue_candidate now batch route c d = Inr d' \<Longrightarrow> db_routes d' = db_routes d"
  by (auto simp: queue_candidate_def res_simps Let_def dest!: enqueueAttachment_Inr)

lemma preview_route: "previewEventBackfill serial from until d = Inr p \<Longrightarrow> has_route d serial"
  by (auto simp: previewEventBackfill_def res_simps has_route_def row_simps dest!: select_row_Some)

text \<open>
  The operations that add deliveries and receipts, for any relation on databases that is reflexive and
  transitive, ignores the other tables, and holds for one new delivery or one new receipt.
\<close>

locale outbox_growth =
  fixes grows :: "db \<Rightarrow> db \<Rightarrow> bool"
  assumes grows_same: "db_deliveries d' = db_deliveries d \<Longrightarrow> db_attachments d' = db_attachments d \<Longrightarrow> db_routes d' = db_routes d \<Longrightarrow> grows d d'"
    and grows_trans: "grows d d1 \<Longrightarrow> grows d1 d2 \<Longrightarrow> grows d d2"
    and grows_enqueue: "r = new_delivery now (next_id dl_id (db_deliveries d)) live retained batch route body \<Longrightarrow>
      has_route d (dr_terminal_serial_number route) \<Longrightarrow>
      enqueueAttachment now (dl_id r) (d\<lparr>db_deliveries := db_deliveries d @ [r]\<rparr>) = Inr d' \<Longrightarrow> grows d d'"
    and grows_receipt: "enqueueAttachment now i d = Inr d' \<Longrightarrow> routed d i \<Longrightarrow> grows d d'"
begin

lemma grows_refl [simp]: "grows d d"
  by (simp add: grows_same)

lemma grows_fold:
  assumes "foldE f xs s = Inr t" "\<And>x s t. x \<in> set xs \<Longrightarrow> f x s = Inr t \<Longrightarrow> grows (g s) (g t)"
  shows "grows (g s) (g t)"
proof (rule foldE_invariant [OF assms(1)])
  fix x u v assume "grows (g s) (g u)" "x \<in> set xs" "f x u = Inr v"
  then show "grows (g s) (g v)" using assms(2) grows_trans by blast
qed simp

lemma grows_activity: "insertGatewayActivity now event d = Inr (stored, d') \<Longrightarrow> grows d d'"
  by (auto intro: grows_same dest!: insertGatewayActivity_append)

lemma grows_then_activity:
  assumes "grows d d1" "insertGatewayActivity now event d1 = Inr (stored, d')"
  shows "grows d d'"
  using assms by (blast intro: grows_trans grows_activity)

lemma grows_event:
  assumes "enqueueEventDelivery now i d = Inr d'"
  shows "grows d d'"
proof (cases "delivery_source i d")
  case None
  with assms show ?thesis by (simp add: enqueueEventDelivery_def)
next
  case (Some q)
  obtain e p t r where q: "q = (e, p, t, r)" by (cases q)
  with Some have r: "r \<in> set (db_routes d)" by (auto simp: delivery_source_def res_simps dest!: select_row_Some split: if_splits)
  from assms Some q obtain body where b:
    "enqueueAttachment now (dl_id (new_delivery now (next_id dl_id (db_deliveries d)) (Some i) None None r body))
       (d\<lparr>db_deliveries := db_deliveries d @ [new_delivery now (next_id dl_id (db_deliveries d)) (Some i) None None r body]\<rparr>) = Inr d'"
    by (auto simp: enqueueEventDelivery_def res_simps Let_def)
  with r show ?thesis
    by (intro grows_enqueue [OF _ _ b]) (auto simp: new_delivery_def has_route_def row_simps)
qed

lemma grows_batch:
  assumes "InsertDeviceEventBatch L now es d = Inr (persisted, d')"
  shows "grows d d'"
proof -
  have step: "grows (snd s) (snd t)" if "insert_device_event L now e s = Inr t" for e s t
  proof -
    obtain persisted d persisted' d' where st: "s = (persisted, d)" "t = (persisted', d')" by (metis prod.exhaust)
    from that [unfolded st] have "grows d d'"
    proof (rule insert_device_event_Inr)
      fix stored d1
      assume a: "if retained_already d e then d1 = d else archive_new L now e d = Inr d1"
        and d': "d' = d1\<lparr>db_activities := db_activities d1 @ [stored]\<rparr>"
      have "grows d d1"
      proof (cases "retained_already d e")
        case False
        with a obtain d0 where "insertAccessEventProjection L (next_id de_id (db_device_events d)) (ne_DataFormat e) (ne_PayloadBase64 e)
            (d\<lparr>db_device_events := db_device_events d @ [archive_row now (next_id de_id (db_device_events d)) e]\<rparr>) = Inr d0"
          "enqueueEventDelivery now (next_id de_id (db_device_events d)) d0 = Inr d1"
          by (auto simp: archive_new_def res_simps Let_def)
        moreover from calculation(1) have "grows d d0" by (auto intro!: grows_same dest!: insertProjection_Inr)
        ultimately show ?thesis by (blast intro: grows_trans grows_event)
      qed (use a in simp)
      then show ?thesis by (rule grows_trans) (simp add: d' grows_same)
    qed
    then show ?thesis by (simp add: st)
  qed
  from grows_fold [of "insert_device_event L now" es "([], d)" "(persisted, d')" snd] assms step show ?thesis
    by (simp add: InsertDeviceEventBatch_def)
qed

text \<open>Back-fills.\<close>

lemma grows_candidate:
  assumes "queue_candidate now batch route c d = Inr d'" "has_route d (dr_terminal_serial_number route)"
  shows "grows d d'"
proof -
  from assms(1) obtain live retained where
    "enqueueAttachment now (dl_id (new_delivery now (next_id dl_id (db_deliveries d)) live retained (Some batch) route (bc_Body c)))
       (d\<lparr>db_deliveries := db_deliveries d @ [new_delivery now (next_id dl_id (db_deliveries d)) live retained (Some batch) route (bc_Body c)]\<rparr>) = Inr d'"
    by (auto simp: queue_candidate_def res_simps Let_def)
  from grows_enqueue [OF _ _ this] assms(2) show ?thesis by (simp add: new_delivery_def)
qed

lemma grows_candidates:
  "foldE (queue_candidate now batch route) cs d = Inr d' \<Longrightarrow> has_route d (dr_terminal_serial_number route) \<Longrightarrow> grows d d'"
proof (induction cs arbitrary: d)
  case (Cons c cs)
  then obtain d1 where 1: "queue_candidate now batch route c d = Inr d1" and rest: "foldE (queue_candidate now batch route) cs d1 = Inr d'"
    by (auto simp: bindE_eq_Inr)
  from candidate_routes [OF 1] Cons.prems(2) have "has_route d1 (dr_terminal_serial_number route)" by (simp add: has_route_def)
  with Cons.IH [OF rest] grows_candidate [OF 1 Cons.prems(2)] show ?case by (blast intro: grows_trans)
qed simp

lemma grows_event_backfill:
  assumes "QueueEventBackfill now serial from until token actor d = Inr (r, d')"
  shows "grows d d'"
proof -
  obtain batch n where r: "r = (batch, n)" by (cases r)
  from assms [unfolded r] obtain p d1 stored where p: "previewEventBackfill serial from until d = Inr p"
    and f: "foldE (queue_candidate now batch (backfill_route now serial actor p)) (bp_candidates p)
       (d\<lparr>db_backfills := db_backfills d @ [backfill_entry now serial from until actor p d]\<rparr>) = Inr d1"
    and d': "d' = d1\<lparr>db_activities := db_activities d1 @ [stored]\<rparr>" by (rule QueueEventBackfill_Inr)
  let ?d = "d\<lparr>db_backfills := db_backfills d @ [backfill_entry now serial from until actor p d]\<rparr>"
  have "has_route ?d (dr_terminal_serial_number (backfill_route now serial actor p))"
    using preview_route [OF p] by (simp add: has_route_def backfill_route_def)
  from grows_candidates [OF f this] have "grows ?d d1" .
  moreover have "grows d ?d" "grows d1 d'" by (simp_all add: grows_same d')
  ultimately show ?thesis by (blast intro: grows_trans)
qed

lemma grows_receipts:
  "foldE (enqueueAttachment now) is d = Inr d' \<Longrightarrow> list_all (routed d) is \<Longrightarrow> grows d d'"
proof (induction "is" arbitrary: d)
  case (Cons i "is")
  then obtain d1 where 1: "enqueueAttachment now i d = Inr d1" and rest: "foldE (enqueueAttachment now) is d1 = Inr d'"
    by (auto simp: bindE_eq_Inr)
  from enqueueAttachment_Inr [OF 1] have "routed d1 = routed d" by (auto simp: routed_def has_route_def fun_eq_iff)
  with Cons.IH [OF rest] Cons.prems(2) grows_receipt [OF 1] show ?case by (auto intro: grows_trans)
qed simp

lemma grows_attachment_backfill:
  assumes "QueueAttachmentBackfill now serial through token actor d = Inr (n, d')"
  shows "grows d d'"
proof -
  from assms obtain p d1 stored where p: "previewAttachments serial through d = Inr p"
    and f: "foldE (enqueueAttachment now) (ab_IDs p) d = Inr d1"
    and d': "d' = d1\<lparr>db_activities := db_activities d1 @ [stored]\<rparr>" by (rule QueueAttachmentBackfill_Inr)
  have a: "grows d1 d'" by (simp add: d' grows_same)
  have "routed d (dl_id x)" if "x \<in> set (missing_receipts serial bound d)" for x bound
    using that previewAttachments_Inr(1) [OF p] unfolding routed_def
    by (intro bexI [of _ x]) (auto simp: has_route_def receipt_missing_def set_missing_receipts row_simps)
  with previewAttachments_Inr(2) [OF p] have "list_all (routed d) (ab_IDs p)" by (auto simp: list_all_iff)
  with f a show ?thesis by (blast intro: grows_trans grows_receipts)
qed

end

section \<open>The operations\<close>

definition advances :: "db \<Rightarrow> db \<Rightarrow> bool" where
  "advances d d' \<longleftrightarrow> (outbox_ok d \<longrightarrow> outbox_ok d' \<and> outbox_follows d d')"

lemma advances_same:
  "db_deliveries d' = db_deliveries d \<Longrightarrow> db_attachments d' = db_attachments d \<Longrightarrow> db_routes d' = db_routes d \<Longrightarrow> advances d d'"
  using outbox_ok_same [of d' d] outbox_follows_append [of d' d "[]" "[]"] by (simp add: advances_def)

lemma advances_refl [simp]: "advances d d"
  by (simp add: advances_same)

lemma advances_trans: "advances d d1 \<Longrightarrow> advances d1 d2 \<Longrightarrow> advances d d2"
  by (auto simp: advances_def intro: outbox_follows_trans)

lemma advances_routes:
  assumes "db_deliveries d' = db_deliveries d" "db_attachments d' = db_attachments d"
    and "\<And>r. r \<in> set (db_deliveries d) \<Longrightarrow> delivery_unfinished d r \<Longrightarrow> has_route d (dl_terminal_serial_number r) \<Longrightarrow>
      has_route d' (dl_terminal_serial_number r)"
  shows "advances d d'"
  using assms outbox_ok_routes [of d d'] outbox_follows_append [of d' d "[]" "[]"] by (auto simp: advances_def)

lemma advances_enqueue:
  assumes "dl_id r = next_id dl_id (db_deliveries d)" "has_route d (dl_terminal_serial_number r)"
    and "enqueueAttachment now (dl_id r) (d\<lparr>db_deliveries := db_deliveries d @ [r]\<rparr>) = Inr d'"
  shows "advances d d'"
proof -
  from enqueueAttachment_Inr [OF assms(3)] obtain a where
    "db_deliveries d' = db_deliveries d @ [r]" "db_attachments d' = db_attachments d @ [a]" by auto
  then have "outbox_follows d d'" by (rule outbox_follows_append)
  with assms show ?thesis by (auto simp: advances_def intro: outbox_ok_enqueue)
qed

lemma advances_receipt:
  assumes "enqueueAttachment now i d = Inr d'" "routed d i"
  shows "advances d d'"
  unfolding advances_def
proof
  assume ok: "outbox_ok d"
  from assms(2) obtain r where r: "r \<in> set (db_deliveries d)" "dl_id r = i" "has_route d (dl_terminal_serial_number r)"
    by (auto simp: routed_def)
  from enqueueAttachment_Inr [OF assms(1)] obtain a where "d' = d\<lparr>db_attachments := db_attachments d @ [a]\<rparr>" by blast
  then have "outbox_follows d d'" by (intro outbox_follows_append [of d' d "[]" "[a]"]) simp_all
  moreover have "outbox_ok d'"
    using r ok by (intro outbox_ok_new_attachment [OF ok assms(1)]) (auto simp: outbox_ok_def dest: unique_keyD)
  ultimately show "outbox_ok d' \<and> outbox_follows d d'" by simp
qed

interpretation adv: outbox_growth advances
proof
  fix r now d live retained batch route body d'
  assume "r = new_delivery now (next_id dl_id (db_deliveries d)) live retained batch route body" "has_route d (dr_terminal_serial_number route)"
    "enqueueAttachment now (dl_id r) (d\<lparr>db_deliveries := db_deliveries d @ [r]\<rparr>) = Inr d'"
  from advances_enqueue [OF _ _ this(3)] this(1,2) show "advances d d'" by (simp add: new_delivery_def)
qed (auto intro: advances_same advances_receipt dest: advances_trans)

text \<open>The queues.\<close>

lemma advances_update_delivery:
  assumes "\<And>r. outbox_ok d \<Longrightarrow> r \<in> set (db_deliveries d) \<Longrightarrow> p r \<Longrightarrow> dl_status r \<noteq> ''delivered'' \<and> delivery_follows r (f r)"
    and "\<And>r. dl_id (f r) = dl_id r \<and> dl_terminal_serial_number (f r) = dl_terminal_serial_number r"
  shows "advances d (d\<lparr>db_deliveries := update_where p f (db_deliveries d)\<rparr>)"
  unfolding advances_def
proof
  assume ok: "outbox_ok d"
  show "outbox_ok (d\<lparr>db_deliveries := update_where p f (db_deliveries d)\<rparr>) \<and> outbox_follows d (d\<lparr>db_deliveries := update_where p f (db_deliveries d)\<rparr>)"
    using outbox_ok_update_delivery [OF ok, of p f] outbox_follows_update_delivery [of d p f "d\<lparr>db_deliveries := update_where p f (db_deliveries d)\<rparr>"]
      assms(1) [OF ok] assms(2) by simp
qed

lemma advances_update_attachment:
  assumes "\<And>a. outbox_ok d \<Longrightarrow> a \<in> set (db_attachments d) \<Longrightarrow> p a \<Longrightarrow> ad_status a \<noteq> ''delivered'' \<and> attachment_follows a (f a)"
    and "\<And>a. ad_id (f a) = ad_id a \<and> ad_event_delivery_id (f a) = ad_event_delivery_id a"
  shows "advances d (d\<lparr>db_attachments := update_where p f (db_attachments d)\<rparr>)"
  unfolding advances_def
proof
  assume ok: "outbox_ok d"
  show "outbox_ok (d\<lparr>db_attachments := update_where p f (db_attachments d)\<rparr>) \<and> outbox_follows d (d\<lparr>db_attachments := update_where p f (db_attachments d)\<rparr>)"
    using outbox_ok_update_attachment [OF ok, of p f] outbox_follows_update_attachment [of d p f "d\<lparr>db_attachments := update_where p f (db_attachments d)\<rparr>"]
      assms(1) [OF ok] assms(2) by simp
qed

lemma due_status: "due now status next_at lease \<Longrightarrow> status \<noteq> ''delivered''"
  by (auto simp: due_def)

lemma advances_claim:
  assumes "ClaimEventDelivery now d = Inr (x, d')"
  shows "advances d d'"
proof (cases "first_by dl_id (delivery_due now d) (db_deliveries d)")
  case None
  with assms show ?thesis by (simp add: ClaimEventDelivery_def)
next
  case (Some r)
  from first_by_Some [OF Some] have r: "r \<in> set (db_deliveries d)" "dl_status r \<noteq> ''delivered''"
    by (auto simp: delivery_due_def dest: due_status)
  have "y = r" if "outbox_ok d" "y \<in> set (db_deliveries d)" "dl_id y = dl_id r" for y
    using that r(1) by (auto simp: outbox_ok_def dest: unique_keyD)
  with r show ?thesis using assms Some
    by (auto simp: ClaimEventDelivery_def res_simps intro!: advances_update_delivery) (auto simp: delivery_follows_def)
qed

lemma advances_finish:
  assumes "FinishEventDelivery now x status code failure next_at d = Inr d'"
  shows "advances d d'"
proof -
  from assms have "d' = d\<lparr>db_deliveries := update_where (\<lambda>r. dl_id r = ev_ID x \<and> dl_attempts r = ev_Attempts x \<and> dl_status r = ''sending'')
      (\<lambda>r. r\<lparr>dl_status := status, dl_last_http_status := null_if code 0, dl_last_error := null_if failure [],
             dl_next_attempt_at := pg_timestamp next_at, dl_lease_until := None,
             dl_delivered_at := if status = ''delivered'' then Some now else None\<rparr>) (db_deliveries d)\<rparr>"
    by (auto simp: FinishEventDelivery_def res_simps Let_def)
  then show ?thesis by (auto simp: delivery_follows_def intro!: advances_update_delivery)
qed

lemma advances_retry:
  assumes "RetryEventDelivery now i actor d = Inr d'"
  shows "advances d d'"
proof -
  have "advances d (d\<lparr>db_deliveries := update_where (\<lambda>r. dl_id r = i \<and> dl_status r = ''failed'')
      (\<lambda>r. r\<lparr>dl_status := ''pending'', dl_next_attempt_at := now, dl_last_error := None\<rparr>) (db_deliveries d)\<rparr>)"
    by (rule advances_update_delivery) (auto simp: delivery_follows_def)
  then show ?thesis
    using assms by (auto simp: RetryEventDelivery_def res_simps intro: adv.grows_then_activity)
qed

lemma materialize_keeps:
  "materialize L parent a d = Inr a1 \<Longrightarrow> ad_request_body a \<noteq> None \<Longrightarrow> a1 = a"
  by (auto simp: materialize_def)

lemma advances_attachment_claim:
  assumes "AttachmentQueue_ClaimEventDelivery L U now d = Inr (x, d')"
  shows "advances d d'"
proof (cases x)
  case None
  with assms have "d' = d" using atq.claim_None by simp
  then show ?thesis by simp
next
  case (Some y)
  from assms [unfolded Some] show ?thesis
  proof (rule attachment_claim_Inr)
    fix a parent a1
    assume a: "a \<in> set (db_attachments d)" "attachment_due now d a" "materialize L parent a d = Inr a1"
      and d': "d' = d\<lparr>db_attachments := update_where (\<lambda>y. ad_id y = ad_id a)
       (\<lambda>y. y\<lparr>ad_request_body := ad_request_body a1, ad_availability := ad_availability a1, ad_reason := ad_reason a1,
              ad_status := ''sending'', ad_attempts := ad_attempts a + 1, ad_lease_until := Some (now + lease_time)\<rparr>)
       (db_attachments d)\<rparr>"
    have one: "z = a" if "outbox_ok d" "z \<in> set (db_attachments d)" "ad_id z = ad_id a" for z
      using that a(1) by (auto simp: outbox_ok_def dest: unique_keyD)
    have "ad_status a \<noteq> ''delivered''" using a(2) by (auto simp: attachment_due_def dest: due_status)
    moreover have "ad_attempts z \<le> ad_attempts a + 1" if "outbox_ok d" "z \<in> set (db_attachments d)" "ad_id z = ad_id a" for z
      using one [OF that] by simp
    ultimately show ?thesis using one materialize_keeps [OF a(3)] unfolding d'
      by (intro advances_update_attachment) (auto simp: attachment_follows_def)
  qed
qed

lemma advances_attachment_finish:
  assumes "AttachmentQueue_FinishEventDelivery now x status code failure next_at d = Inr d'"
  shows "advances d d'"
proof -
  from assms have "d' = d\<lparr>db_attachments := update_where (\<lambda>a. ad_id a = ev_ID x \<and> ad_attempts a = ev_Attempts x \<and> ad_status a = ''sending'')
      (\<lambda>a. a\<lparr>ad_status := status, ad_last_http_status := null_if code 0, ad_last_error := null_if failure [],
             ad_next_attempt_at := pg_timestamp next_at, ad_lease_until := None,
             ad_delivered_at := if status = ''delivered'' then Some now else None\<rparr>) (db_attachments d)\<rparr>"
    by (auto simp: AttachmentQueue_FinishEventDelivery_def res_simps Let_def)
  then show ?thesis by (auto simp: attachment_follows_def intro!: advances_update_attachment)
qed

lemma advances_attachment_retry:
  assumes "RetryAttachmentDelivery now i actor d = Inr d'"
  shows "advances d d'"
proof -
  have "advances d (d\<lparr>db_attachments := update_where (\<lambda>a. ad_id a = i \<and> ad_status a = ''failed'')
      (\<lambda>a. a\<lparr>ad_status := ''pending'', ad_next_attempt_at := now, ad_last_error := None\<rparr>) (db_attachments d)\<rparr>)"
    by (rule advances_update_attachment) (auto simp: attachment_follows_def)
  then show ?thesis
    using assms by (auto simp: RetryAttachmentDelivery_def res_simps intro: adv.grows_then_activity)
qed

text \<open>Routes.\<close>

lemma has_route_put: "has_route d serial \<Longrightarrow> has_route (d\<lparr>db_routes := put_route r (db_routes d)\<rparr>) serial"
proof -
  assume "has_route d serial"
  then obtain x where x: "x \<in> set (db_routes d)" "dr_terminal_serial_number x = serial" by (auto simp: has_route_def row_simps)
  then have "(if dr_terminal_serial_number x = dr_terminal_serial_number r then r else x) \<in> set (put_route r (db_routes d))"
    by (auto simp: put_route_def row_simps)
  with x(2) show ?thesis by (auto simp: has_route_def row_simps split: if_splits)
qed

lemma advances_save:
  assumes "SaveDeliveryRoute now route actor d = Inr d'"
  shows "advances d d'"
proof -
  have "advances d (d\<lparr>db_routes := put_route r (db_routes d)\<rparr>)" for r
    by (rule advances_routes) (simp_all add: has_route_put)
  then show ?thesis
    using assms by (auto simp: SaveDeliveryRoute_def res_simps intro: adv.grows_then_activity)
qed

lemma advances_delete:
  assumes "DeleteDeliveryRoute now serial actor d = Inr d'"
  shows "advances d d'"
proof -
  from assms have none: "\<not> exists_row (\<lambda>x. dl_terminal_serial_number x = serial \<and> delivery_unfinished d x) (db_deliveries d)"
    by (auto simp: DeleteDeliveryRoute_def res_simps)
  have "advances d (d\<lparr>db_routes := delete_where (\<lambda>r. dr_terminal_serial_number r = serial) (db_routes d)\<rparr>)"
  proof (rule advances_routes)
    fix r assume "r \<in> set (db_deliveries d)" "delivery_unfinished d r" and h: "has_route d (dl_terminal_serial_number r)"
    with none have "dl_terminal_serial_number r \<noteq> serial" by (auto simp: row_simps)
    with h show "has_route (d\<lparr>db_routes := delete_where (\<lambda>r. dr_terminal_serial_number r = serial) (db_routes d)\<rparr>) (dl_terminal_serial_number r)"
      by (auto simp: has_route_def row_simps)
  qed simp_all
  then show ?thesis
    using assms by (auto simp: DeleteDeliveryRoute_def res_simps intro: adv.grows_then_activity)
qed

section \<open>Histories\<close>

inductive outbox_op :: "library \<Rightarrow> 'u url_library \<Rightarrow> db \<Rightarrow> db \<Rightarrow> bool" for L U where
  ingest: "InsertDeviceEventBatch L now es d = Inr (r, d') \<Longrightarrow> outbox_op L U d d'"
| claim: "ClaimEventDelivery now d = Inr (x, d') \<Longrightarrow> outbox_op L U d d'"
| finish: "FinishEventDelivery now y status code failure next_at d = Inr d' \<Longrightarrow> outbox_op L U d d'"
| claim_attachment: "AttachmentQueue_ClaimEventDelivery L U now d = Inr (x, d') \<Longrightarrow> outbox_op L U d d'"
| finish_attachment: "AttachmentQueue_FinishEventDelivery now y status code failure next_at d = Inr d' \<Longrightarrow> outbox_op L U d d'"
| retry: "RetryEventDelivery now i actor d = Inr d' \<Longrightarrow> outbox_op L U d d'"
| retry_attachment: "RetryAttachmentDelivery now i actor d = Inr d' \<Longrightarrow> outbox_op L U d d'"
| save: "SaveDeliveryRoute now route actor d = Inr d' \<Longrightarrow> outbox_op L U d d'"
| delete: "DeleteDeliveryRoute now serial actor d = Inr d' \<Longrightarrow> outbox_op L U d d'"
| event_backfill: "QueueEventBackfill now serial from until token actor d = Inr (n, d') \<Longrightarrow> outbox_op L U d d'"
| attachment_backfill: "QueueAttachmentBackfill now serial through token actor d = Inr (m, d') \<Longrightarrow> outbox_op L U d d'"

lemmas advances_ops = adv.grows_batch advances_claim advances_finish advances_attachment_claim advances_attachment_finish
  advances_retry advances_attachment_retry advances_save advances_delete adv.grows_event_backfill adv.grows_attachment_backfill

lemma outbox_op_advances: "outbox_op L U d d' \<Longrightarrow> advances d d'"
  by (induction rule: outbox_op.induct) (auto intro: advances_ops)

lemma outbox_history: "(outbox_op L U)\<^sup>*\<^sup>* d d' \<Longrightarrow> advances d d'"
  by (induction rule: rtranclp_induct) (auto intro: advances_trans outbox_op_advances)

section \<open>Fencing\<close>

text \<open>
  A queue together with everything else that happens to the database: nothing lowers the number of
  attempts of a row, so a result that arrives after its row was handed out again is refused.
\<close>

locale fenced_queue = delivery_queue claim finish state ok
  for claim :: "'d claim_op" and finish :: "'d finish_op" and state and ok +
  fixes step :: "'d \<Rightarrow> 'd \<Rightarrow> bool"
  assumes step_ok: "ok d \<Longrightarrow> step d d' \<Longrightarrow> ok d'"
    and step_attempts: "ok d \<Longrightarrow> step d d' \<Longrightarrow> state d i = Some (s, a, l) \<Longrightarrow> \<exists>s' a' l'. state d' i = Some (s', a', l') \<and> a \<le> a'"
begin

lemma steps_attempts:
  "step\<^sup>*\<^sup>* d d' \<Longrightarrow> ok d \<Longrightarrow> state d i = Some (s, a, l) \<Longrightarrow> ok d' \<and> (\<exists>s' a' l'. state d' i = Some (s', a', l') \<and> a \<le> a')"
proof (induction rule: rtranclp_induct)
  case (step y z)
  then obtain s' a' l' where "ok y" "state y i = Some (s', a', l')" "a \<le> a'" by blast
  with step_ok [OF _ step.hyps(2)] step_attempts [OF _ step.hyps(2)] show ?case by (meson order_trans)
qed auto

lemma stale_refused:
  assumes "ok d" "claim now d = Inr (Some x, d1)" "step\<^sup>*\<^sup>* d1 d2" "claim now2 d2 = Inr (Some y, d3)" "ev_ID y = ev_ID x" "step\<^sup>*\<^sup>* d3 d4"
  shows "\<exists>e. finish now3 x status code failure next_at d4 = Inl e"
proof -
  note c = claim_Some [OF assms(1,2)]
  then obtain s2 a2 l2 where 2: "ok d2" "state d2 (ev_ID x) = Some (s2, a2, l2)" "ev_Attempts x \<le> a2"
    using steps_attempts [OF assms(3), of "ev_ID x"] by auto
  from claim_Some [OF 2(1) assms(4)] 2(2) assms(5) have "ok d3" "state d3 (ev_ID x) = Some (''sending'', a2 + 1, Some (now2 + lease_time))" by auto
  from steps_attempts [OF assms(6) this] obtain s4 a4 l4 where "ok d4" "state d4 (ev_ID x) = Some (s4, a4, l4)" "a2 + 1 \<le> a4" by blast
  with 2(3) show ?thesis by (intro finish_stale) auto
qed

lemma lease_exclusive:
  assumes "ok d" "claim now d = Inr (Some x, d1)" "now' < now + lease_time" "ev_ID y = ev_ID x"
  shows "claim now' d1 \<noteq> Inr (Some y, d2)"
  using claim_Some [OF assms(1,2)] assms(3,4) by (intro claim_exclusive) auto

end

lemma select_row_follows:
  assumes "unique_key k rows" "unique_key k rows'" "\<forall>r \<in> set rows. \<exists>r' \<in> set rows'. R r r'" "\<And>r r'. R r r' \<Longrightarrow> k r' = k r"
    and "select_row (\<lambda>r. k r = i) rows = Some r"
  shows "\<exists>r'. select_row (\<lambda>r. k r = i) rows' = Some r' \<and> R r r'"
proof -
  from select_row_Some [OF assms(5)] assms(3) obtain r' where "r' \<in> set rows'" "R r r'" "k r = i" by blast
  with assms(4) select_row_unique [OF assms(2), of r'] show ?thesis by auto
qed

lemma outbox_unique: "outbox_ok d \<Longrightarrow> unique_key dl_id (db_deliveries d)" "outbox_ok d \<Longrightarrow> unique_key ad_id (db_attachments d)"
  by (simp_all add: outbox_ok_def)

lemma outbox_ok_advances: "outbox_ok d \<Longrightarrow> advances d d' \<Longrightarrow> outbox_ok d' \<and> outbox_follows d d'"
  by (simp add: advances_def)

lemma delivery_state_follows:
  assumes "outbox_ok d" "advances d d'" "delivery_state d i = Some (s, a, l)"
  shows "\<exists>s' a' l'. delivery_state d' i = Some (s', a', l') \<and> a \<le> a'"
proof -
  from outbox_ok_advances [OF assms(1,2)] have d': "outbox_ok d'" "\<forall>r \<in> set (db_deliveries d). \<exists>r' \<in> set (db_deliveries d'). delivery_follows r r'"
    by (simp_all add: outbox_follows_def)
  from assms(3) obtain r where "select_row (\<lambda>r. dl_id r = i) (db_deliveries d) = Some r" "a = dl_attempts r"
    by (auto simp: delivery_state_def)
  with select_row_follows [OF outbox_unique(1) [OF assms(1)] outbox_unique(1) [OF d'(1)] d'(2), of i r] show ?thesis
    by (auto simp: delivery_state_def delivery_follows_def)
qed

lemma attachment_state_follows:
  assumes "outbox_ok d" "advances d d'" "attachment_state d i = Some (s, a, l)"
  shows "\<exists>s' a' l'. attachment_state d' i = Some (s', a', l') \<and> a \<le> a'"
proof -
  from outbox_ok_advances [OF assms(1,2)] have d': "outbox_ok d'" "\<forall>r \<in> set (db_attachments d). \<exists>r' \<in> set (db_attachments d'). attachment_follows r r'"
    by (simp_all add: outbox_follows_def)
  from assms(3) obtain r where "select_row (\<lambda>r. ad_id r = i) (db_attachments d) = Some r" "a = ad_attempts r"
    by (auto simp: attachment_state_def)
  with select_row_follows [OF outbox_unique(2) [OF assms(1)] outbox_unique(2) [OF d'(1)] d'(2), of i r] show ?thesis
    by (auto simp: attachment_state_def attachment_follows_def)
qed

interpretation evf: fenced_queue ClaimEventDelivery FinishEventDelivery delivery_state outbox_ok "outbox_op L U" for L U
proof
  fix now d x d' assume ok: "outbox_ok d" and c: "ClaimEventDelivery now d = Inr (Some x, d')"
  from evq.claim_Some [OF outbox_unique(1) [OF ok] c] outbox_ok_advances [OF ok advances_claim [OF c]]
  show "outbox_ok d' \<and> delivery_state d' = (delivery_state d)(ev_ID x := Some (''sending'', ev_Attempts x, Some (now + lease_time))) \<and>
      (\<exists>status lease. delivery_state d (ev_ID x) = Some (status, ev_Attempts x - 1, lease) \<and>
         (status = ''pending'' \<or> status = ''sending'' \<and> (\<exists>l. lease = Some l \<and> l \<le> now)))" by simp
next
  fix now and x :: EventDelivery and status code failure next_at d d'
  assume ok: "outbox_ok d" and c: "FinishEventDelivery now x status code failure next_at d = Inr d'"
  from evq.finish_Inr [OF outbox_unique(1) [OF ok] c] outbox_ok_advances [OF ok advances_finish [OF c]]
  show "outbox_ok d' \<and> delivery_state d' = (delivery_state d)(ev_ID x := Some (status, ev_Attempts x, None)) \<and>
      (\<exists>lease. delivery_state d (ev_ID x) = Some (''sending'', ev_Attempts x, lease))" by simp
qed (auto intro: evq.claim_None evq.finish_owned outbox_unique dest: outbox_op_advances outbox_ok_advances delivery_state_follows)

interpretation atf: fenced_queue "AttachmentQueue_ClaimEventDelivery L U" AttachmentQueue_FinishEventDelivery attachment_state outbox_ok
  "outbox_op L U" for L U
proof
  fix now d x d' assume ok: "outbox_ok d" and c: "AttachmentQueue_ClaimEventDelivery L U now d = Inr (Some x, d')"
  from atq.claim_Some [OF outbox_unique(2) [OF ok] c] outbox_ok_advances [OF ok advances_attachment_claim [OF c]]
  show "outbox_ok d' \<and> attachment_state d' = (attachment_state d)(ev_ID x := Some (''sending'', ev_Attempts x, Some (now + lease_time))) \<and>
      (\<exists>status lease. attachment_state d (ev_ID x) = Some (status, ev_Attempts x - 1, lease) \<and>
         (status = ''pending'' \<or> status = ''sending'' \<and> (\<exists>l. lease = Some l \<and> l \<le> now)))" by simp
next
  fix now and x :: EventDelivery and status code failure next_at d d'
  assume ok: "outbox_ok d" and c: "AttachmentQueue_FinishEventDelivery now x status code failure next_at d = Inr d'"
  from atq.finish_Inr [OF outbox_unique(2) [OF ok] c] outbox_ok_advances [OF ok advances_attachment_finish [OF c]]
  show "outbox_ok d' \<and> attachment_state d' = (attachment_state d)(ev_ID x := Some (status, ev_Attempts x, None)) \<and>
      (\<exists>lease. attachment_state d (ev_ID x) = Some (''sending'', ev_Attempts x, lease))" by simp
qed (auto intro: atq.claim_None atq.finish_owned outbox_unique dest: outbox_op_advances outbox_ok_advances attachment_state_follows)

end
