(* ===== verification/LeaseSpec.thy ===== *)
theory LeaseSpec
  imports Outbox
begin

text \<open>
  The contract of the two outbox queues as an abstract machine: a job waits, is held by one worker for
  one numbered attempt until its lease runs out, and ends delivered or failed. Every history of the
  store's operations is a history of this machine, for deliveries and for attachment receipts.
\<close>

section \<open>The machine\<close>

datatype job = Waiting int | Held int "instant option" | Failed int | Delivered int

type_synonym jobs = "int \<Rightarrow> job option"

fun attempts_of :: "job \<Rightarrow> int" where
  "attempts_of (Waiting a) = a"
| "attempts_of (Held a _) = a"
| "attempts_of (Failed a) = a"
| "attempts_of (Delivered a) = a"

inductive job_step :: "jobs \<Rightarrow> jobs \<Rightarrow> bool" where
  new_job: "q i = None \<Longrightarrow> job_step q (q(i \<mapsto> Waiting 0))"
| take_job: "q i = Some (Waiting a) \<Longrightarrow> job_step q (q(i \<mapsto> Held (a + 1) (Some until)))"
| take_over: "q i = Some (Held a (Some l)) \<Longrightarrow> l + lease_time \<le> until \<Longrightarrow> job_step q (q(i \<mapsto> Held (a + 1) (Some until)))"
| finish_job: "q i = Some (Held a l) \<Longrightarrow> attempts_of j = a \<Longrightarrow> job_step q (q(i \<mapsto> j))"
| reopen_job: "q i = Some (Failed a) \<Longrightarrow> job_step q (q(i \<mapsto> Waiting a))"

text \<open>A delivered job is final, and attempts are only counted up.\<close>

lemma job_step_kept:
  assumes "job_step q q'" "q i = Some j"
  shows "\<exists>j'. q' i = Some j' \<and> attempts_of j \<le> attempts_of j' \<and> (\<forall>a. j = Delivered a \<longrightarrow> j' = j)"
  using assms by (cases rule: job_step.cases) auto

lemma job_steps_kept:
  "job_step\<^sup>*\<^sup>* q q' \<Longrightarrow> q i = Some j \<Longrightarrow> \<exists>j'. q' i = Some j' \<and> attempts_of j \<le> attempts_of j' \<and> (\<forall>a. j = Delivered a \<longrightarrow> j' = j)"
proof (induction rule: rtranclp_induct)
  case (step q1 q2)
  then obtain j1 where "q1 i = Some j1" "attempts_of j \<le> attempts_of j1" "\<forall>a. j = Delivered a \<longrightarrow> j1 = j" by blast
  with job_step_kept [OF step.hyps(2), of i j1] show ?case by fastforce
qed simp

section \<open>The abstraction\<close>

fun job_of :: "string \<times> int \<times> instant option \<Rightarrow> job" where
  "job_of (status, attempts, lease) =
     (if status = ''pending'' then Waiting attempts
      else if status = ''sending'' then Held attempts lease
      else if status = ''failed'' then Failed attempts
      else Delivered attempts)"

definition delivery_jobs :: "db \<Rightarrow> jobs" where
  "delivery_jobs d = (\<lambda>i. map_option job_of (delivery_state d i))"

definition attachment_jobs :: "db \<Rightarrow> jobs" where
  "attachment_jobs d = (\<lambda>i. map_option job_of (attachment_state d i))"

definition simulates :: "db \<Rightarrow> db \<Rightarrow> bool" where
  "simulates d d' \<longleftrightarrow> job_step\<^sup>*\<^sup>* (delivery_jobs d) (delivery_jobs d') \<and> job_step\<^sup>*\<^sup>* (attachment_jobs d) (attachment_jobs d')"

lemma jobs_same:
  "db_deliveries d' = db_deliveries d \<Longrightarrow> delivery_jobs d' = delivery_jobs d"
  "db_attachments d' = db_attachments d \<Longrightarrow> attachment_jobs d' = attachment_jobs d"
  by (simp_all add: delivery_jobs_def delivery_state_def attachment_jobs_def attachment_state_def)

lemma simulates_same: "db_deliveries d' = db_deliveries d \<Longrightarrow> db_attachments d' = db_attachments d \<Longrightarrow> simulates d d'"
  using jobs_same [of d' d] by (simp add: simulates_def)

lemma simulates_deliveries:
  "job_step\<^sup>*\<^sup>* (delivery_jobs d) (delivery_jobs d') \<Longrightarrow> db_attachments d' = db_attachments d \<Longrightarrow> simulates d d'"
  using jobs_same(2) [of d' d] by (simp add: simulates_def)

lemma simulates_attachments:
  "job_step\<^sup>*\<^sup>* (attachment_jobs d) (attachment_jobs d') \<Longrightarrow> db_deliveries d' = db_deliveries d \<Longrightarrow> simulates d d'"
  using jobs_same(1) [of d' d] by (simp add: simulates_def)

lemma simulates_trans: "simulates d d1 \<Longrightarrow> simulates d1 d2 \<Longrightarrow> simulates d d2"
  by (auto simp: simulates_def intro: rtranclp_trans)

lemma next_id_free: "select_row (\<lambda>r. k r = next_id k rows) rows = None"
  unfolding select_row_None
proof
  fix r assume "r \<in> set rows"
  from next_id_greater [OF this, of k] show "k r \<noteq> next_id k rows" by simp
qed

lemma select_new_row:
  assumes "k r = next_id k rows"
  shows "select_row (\<lambda>x. k x = i) (rows @ [r]) = (if i = k r then Some r else select_row (\<lambda>x. k x = i) rows)"
proof (cases "i = k r")
  case True
  with assms show ?thesis by (simp add: select_row_append next_id_free) (simp add: select_row_def)
next
  case False
  then show ?thesis by (auto simp: select_row_append select_row_def [of _ "[r]"] split: option.splits)
qed

lemma new_attachment_job:
  assumes "ad_id a = next_id ad_id (db_attachments d)" "ad_status a = ''pending''" "ad_attempts a = 0"
  shows "job_step (attachment_jobs d) (attachment_jobs (d\<lparr>db_attachments := db_attachments d @ [a]\<rparr>))"
proof -
  have "attachment_jobs (d\<lparr>db_attachments := db_attachments d @ [a]\<rparr>) = (attachment_jobs d)(ad_id a \<mapsto> Waiting 0)"
    by (rule ext) (simp add: attachment_jobs_def attachment_state_def select_new_row [OF assms(1)] assms(2,3))
  moreover have "attachment_jobs d (ad_id a) = None" by (simp add: attachment_jobs_def attachment_state_def assms(1) next_id_free)
  ultimately show ?thesis by (simp add: job_step.new_job)
qed

lemma new_delivery_job:
  assumes "dl_id r = next_id dl_id (db_deliveries d)" "dl_status r = ''pending''" "dl_attempts r = 0"
  shows "job_step (delivery_jobs d) (delivery_jobs (d\<lparr>db_deliveries := db_deliveries d @ [r]\<rparr>))"
proof -
  have "delivery_jobs (d\<lparr>db_deliveries := db_deliveries d @ [r]\<rparr>) = (delivery_jobs d)(dl_id r \<mapsto> Waiting 0)"
    by (rule ext) (simp add: delivery_jobs_def delivery_state_def select_new_row [OF assms(1)] assms(2,3))
  moreover have "delivery_jobs d (dl_id r) = None" by (simp add: delivery_jobs_def delivery_state_def assms(1) next_id_free)
  ultimately show ?thesis by (simp add: job_step.new_job)
qed

lemma new_receipt:
  assumes "enqueueAttachment now i d = Inr d'"
  shows "job_step (attachment_jobs d) (attachment_jobs d')"
proof -
  from assms obtain a where "d' = d\<lparr>db_attachments := db_attachments d @ [a]\<rparr>"
    "ad_id a = next_id ad_id (db_attachments d)" "ad_status a = ''pending''" "ad_attempts a = 0"
    by (auto simp: enqueueAttachment_def res_simps)
  with new_attachment_job [of a d] show ?thesis by simp
qed

interpretation sim: outbox_growth simulates
proof
  fix r now d live retained batch route body d'
  assume r: "r = new_delivery now (next_id dl_id (db_deliveries d)) live retained batch route body"
    and e: "enqueueAttachment now (dl_id r) (d\<lparr>db_deliveries := db_deliveries d @ [r]\<rparr>) = Inr d'"
  let ?d = "d\<lparr>db_deliveries := db_deliveries d @ [r]\<rparr>"
  have "job_step (delivery_jobs d) (delivery_jobs ?d)" by (rule new_delivery_job) (simp_all add: r new_delivery_def)
  moreover have "delivery_jobs d' = delivery_jobs ?d" "attachment_jobs ?d = attachment_jobs d"
    using enqueueAttachment_Inr [OF e] by (auto intro: jobs_same)
  ultimately show "simulates d d'" using new_receipt [OF e] by (simp add: simulates_def r_into_rtranclp)
next
  fix now i d d' assume e: "enqueueAttachment now i d = Inr d'"
  then have "delivery_jobs d' = delivery_jobs d" by (auto intro: jobs_same dest!: enqueueAttachment_Inr)
  with new_receipt [OF e] show "simulates d d'" by (simp add: simulates_def r_into_rtranclp)
qed (auto intro: simulates_same simulates_trans)

section \<open>Claims, results and retries\<close>

text \<open>A queue that keeps the contract of the worker takes a step of the machine.\<close>

context delivery_queue
begin

lemma claim_step:
  assumes "ok d" "claim now d = Inr (x, d')"
  shows "job_step\<^sup>*\<^sup>* (\<lambda>i. map_option job_of (state d i)) (\<lambda>i. map_option job_of (state d' i))"
proof (cases x)
  case None
  with claim_None [of now d d'] assms(2) show ?thesis by simp
next
  case (Some y)
  let ?q = "\<lambda>i. map_option job_of (state d i)"
  from claim_Some [OF assms(1)] assms(2) Some obtain status lease where
    s: "state d' = (state d)(ev_ID y := Some (''sending'', ev_Attempts y, Some (now + lease_time)))"
      "state d (ev_ID y) = Some (status, ev_Attempts y - 1, lease)"
      "status = ''pending'' \<or> status = ''sending'' \<and> (\<exists>l. lease = Some l \<and> l \<le> now)" by blast
  have "(\<lambda>i. map_option job_of (state d' i)) = ?q(ev_ID y \<mapsto> Held (ev_Attempts y - 1 + 1) (Some (now + lease_time)))"
    using s(1) by (auto simp: fun_eq_iff)
  moreover have "job_step ?q (?q(ev_ID y \<mapsto> Held (ev_Attempts y - 1 + 1) (Some (now + lease_time))))"
    using s(3)
  proof
    assume "status = ''pending''"
    with s(2) show ?thesis by (intro take_job) simp
  next
    assume "status = ''sending'' \<and> (\<exists>l. lease = Some l \<and> l \<le> now)"
    with s(2) show ?thesis by (elim conjE exE) (rule take_over, simp_all)
  qed
  ultimately show ?thesis by (simp only: r_into_rtranclp)
qed

lemma finish_step:
  assumes "ok d" "finish now x status code failure next_at d = Inr d'"
  shows "job_step\<^sup>*\<^sup>* (\<lambda>i. map_option job_of (state d i)) (\<lambda>i. map_option job_of (state d' i))"
proof -
  let ?q = "\<lambda>i. map_option job_of (state d i)"
  from finish_Inr [OF assms] obtain lease where
    s: "state d' = (state d)(ev_ID x := Some (status, ev_Attempts x, None))" "state d (ev_ID x) = Some (''sending'', ev_Attempts x, lease)" by blast
  have "(\<lambda>i. map_option job_of (state d' i)) = ?q(ev_ID x \<mapsto> job_of (status, ev_Attempts x, None))"
    using s(1) by (auto simp: fun_eq_iff)
  moreover have "job_step ?q (?q(ev_ID x \<mapsto> job_of (status, ev_Attempts x, None)))"
    using s(2) by (intro finish_job) auto
  ultimately show ?thesis by (simp only: r_into_rtranclp)
qed

end

lemma claim_tables:
  "ClaimEventDelivery now d = Inr (x, d') \<Longrightarrow> db_attachments d' = db_attachments d"
  "FinishEventDelivery now y status code failure next_at d = Inr d' \<Longrightarrow> db_attachments d' = db_attachments d"
  "AttachmentQueue_FinishEventDelivery now y status code failure next_at d = Inr d' \<Longrightarrow> db_deliveries d' = db_deliveries d"
  by (auto simp: ClaimEventDelivery_def FinishEventDelivery_def AttachmentQueue_FinishEventDelivery_def res_simps Let_def split: option.splits)

lemma attachment_claim_tables: "AttachmentQueue_ClaimEventDelivery L U now d = Inr (x, d') \<Longrightarrow> db_deliveries d' = db_deliveries d"
  by (cases x) (auto dest: atq.claim_None elim!: attachment_claim_Inr)

lemma queues_simulated:
  "outbox_ok d \<Longrightarrow> ClaimEventDelivery now d = Inr (x, d') \<Longrightarrow> simulates d d'"
  "outbox_ok d \<Longrightarrow> FinishEventDelivery now y status code failure next_at d = Inr d' \<Longrightarrow> simulates d d'"
  "outbox_ok d \<Longrightarrow> AttachmentQueue_ClaimEventDelivery L U now d = Inr (x, d') \<Longrightarrow> simulates d d'"
  "outbox_ok d \<Longrightarrow> AttachmentQueue_FinishEventDelivery now y status code failure next_at d = Inr d' \<Longrightarrow> simulates d d'"
     apply (rule simulates_deliveries [OF evf.claim_step [folded delivery_jobs_def] claim_tables(1)]; assumption)
    apply (rule simulates_deliveries [OF evf.finish_step [folded delivery_jobs_def] claim_tables(2)]; assumption)
   apply (rule simulates_attachments [OF atf.claim_step [folded attachment_jobs_def] attachment_claim_tables]; assumption)
  apply (rule simulates_attachments [OF atf.finish_step [folded attachment_jobs_def] claim_tables(3)]; assumption)
  done

lemma reopen_row:
  assumes "unique_key k rows" "select_row (\<lambda>r. k r = i \<and> failed r) rows = Some row" "\<And>r. k (f r) = k r"
  shows "select_row (\<lambda>r. k r = i) rows = Some row"
    "select_row (\<lambda>r. k r = j) (update_where (\<lambda>r. k r = i \<and> failed r) f rows) = (if j = i then Some (f row) else select_row (\<lambda>r. k r = j) rows)"
proof -
  from select_row_Some [OF assms(2)] have r: "row \<in> set rows" "k row = i" "failed row" by auto
  show "select_row (\<lambda>r. k r = i) rows = Some row" using select_row_unique [OF assms(1) r(1)] r(2) by simp
  have "(k x = i \<and> failed x) = (k x = k row)" if "x \<in> set rows" for x
    using that r assms(1) by (auto dest: unique_keyD)
  then have "update_where (\<lambda>r. k r = i \<and> failed r) f rows = update_where (\<lambda>x. k x = k row) f rows" by (simp add: update_where_def)
  with select_update_row [OF assms(1) r(1), of f j] assms(3) r(2)
  show "select_row (\<lambda>r. k r = j) (update_where (\<lambda>r. k r = i \<and> failed r) f rows) = (if j = i then Some (f row) else select_row (\<lambda>r. k r = j) rows)" by simp
qed

lemma retry_simulated:
  assumes "outbox_ok d" "RetryEventDelivery now i actor d = Inr d'"
  shows "simulates d d'"
proof -
  let ?f = "\<lambda>r. r\<lparr>dl_status := ''pending'', dl_next_attempt_at := now, dl_last_error := None\<rparr>"
  let ?d = "d\<lparr>db_deliveries := update_where (\<lambda>r. dl_id r = i \<and> dl_status r = ''failed'') ?f (db_deliveries d)\<rparr>"
  from assms(2) obtain row stored where s: "select_row (\<lambda>r. dl_id r = i \<and> dl_status r = ''failed'') (db_deliveries d) = Some row"
    and a: "insertGatewayActivity now (activityForRetry (dl_terminal_serial_number row) i actor) ?d = Inr (stored, d')"
    by (auto simp: RetryEventDelivery_def res_simps)
  note r = reopen_row [OF outbox_unique(1) [OF assms(1)] s, of ?f, simplified]
  from select_row_Some [OF s] have "dl_status row = ''failed''" by simp
  with r(1) have f: "delivery_jobs d i = Some (Failed (dl_attempts row))" by (simp add: delivery_jobs_def delivery_state_def)
  have "delivery_jobs ?d = (delivery_jobs d)(i \<mapsto> Waiting (dl_attempts row))"
    by (rule ext) (simp add: delivery_jobs_def delivery_state_def r(2))
  with reopen_job [where q = "delivery_jobs d", OF f] have "simulates d ?d" by (intro simulates_deliveries) (simp_all add: r_into_rtranclp)
  then show ?thesis using a by (rule sim.grows_then_activity)
qed

lemma retry_attachment_simulated:
  assumes "outbox_ok d" "RetryAttachmentDelivery now i actor d = Inr d'"
  shows "simulates d d'"
proof -
  let ?f = "\<lambda>r. r\<lparr>ad_status := ''pending'', ad_next_attempt_at := now, ad_last_error := None\<rparr>"
  let ?d = "d\<lparr>db_attachments := update_where (\<lambda>r. ad_id r = i \<and> ad_status r = ''failed'') ?f (db_attachments d)\<rparr>"
  from assms(2) obtain event stored where e: "exists_row (\<lambda>r. ad_id r = i \<and> ad_status r = ''failed'') (db_attachments d)"
    and a: "insertGatewayActivity now event ?d = Inr (stored, d')"
    by (auto simp: RetryAttachmentDelivery_def res_simps)
  from e obtain row where s: "select_row (\<lambda>r. ad_id r = i \<and> ad_status r = ''failed'') (db_attachments d) = Some row"
    by (cases "select_row (\<lambda>r. ad_id r = i \<and> ad_status r = ''failed'') (db_attachments d)") (auto simp: select_row_None row_simps)
  note r = reopen_row [OF outbox_unique(2) [OF assms(1)] s, of ?f, simplified]
  from select_row_Some [OF s] have "ad_status row = ''failed''" by simp
  with r(1) have f: "attachment_jobs d i = Some (Failed (ad_attempts row))" by (simp add: attachment_jobs_def attachment_state_def)
  have "attachment_jobs ?d = (attachment_jobs d)(i \<mapsto> Waiting (ad_attempts row))"
    by (rule ext) (simp add: attachment_jobs_def attachment_state_def r(2))
  with reopen_job [where q = "attachment_jobs d", OF f] have "simulates d ?d" by (intro simulates_attachments) (simp_all add: r_into_rtranclp)
  then show ?thesis using a by (rule sim.grows_then_activity)
qed

lemma routes_simulated:
  "SaveDeliveryRoute now route actor d = Inr d' \<Longrightarrow> simulates d d'"
  "DeleteDeliveryRoute now serial actor d = Inr d' \<Longrightarrow> simulates d d'"
  by (auto simp: SaveDeliveryRoute_def DeleteDeliveryRoute_def res_simps intro!: simulates_same dest!: insertGatewayActivity_append)

lemma outbox_op_simulated: "outbox_op L U d d' \<Longrightarrow> outbox_ok d \<Longrightarrow> simulates d d'"
  by (induction rule: outbox_op.induct)
    (auto intro: queues_simulated retry_simulated retry_attachment_simulated routes_simulated sim.grows_batch
       sim.grows_event_backfill sim.grows_attachment_backfill)

lemma outbox_history_simulated: "(outbox_op L U)\<^sup>*\<^sup>* d d' \<Longrightarrow> outbox_ok d \<Longrightarrow> simulates d d'"
proof (induction rule: rtranclp_induct)
  case (step y z)
  from outbox_history [OF step.hyps(1)] step.prems have "outbox_ok y" by (simp add: advances_def)
  with step outbox_op_simulated show ?case by (blast intro: simulates_trans)
qed (simp add: simulates_same)

end
