(* ===== verification/StoreHistory.thy ===== *)
theory StoreHistory
  imports EventStore
begin

text \<open>
  The history of the command and sync tables under any sequence of the store's operations
  (\<open>internal/store/isapi_commands.go\<close>, \<open>access_event_sync.go\<close>, and the removal of administrators
  of \<open>store.go\<close>): a step relation over the operations that change them, what a command keeps along every history, and the invariant of the
  sync runs. At most one run of a terminal is active, and a completed run accounts for every record
  the terminal announced.
\<close>

section \<open>Sync runs\<close>

definition accounted :: "sync_run_row \<Rightarrow> bool" where
  "accounted r \<longleftrightarrow> sr_total_matches r = Some (sr_records_imported r + sr_records_duplicate r)"

definition runs_ok :: "sync_run_row list \<Rightarrow> bool" where
  "runs_ok runs \<longleftrightarrow>
     unique_key sr_uuid runs \<and>
     (\<forall>r \<in> set runs. \<forall>r' \<in> set runs. active_run r \<longrightarrow> active_run r' \<longrightarrow>
        sr_terminal_serial_number r = sr_terminal_serial_number r' \<longrightarrow> r = r') \<and>
     (\<forall>r \<in> set runs. sr_status r = ''completed'' \<longrightarrow> accounted r)"

definition run_update_ok :: "sync_run_row \<Rightarrow> sync_run_row \<Rightarrow> bool" where
  "run_update_ok r r' \<longleftrightarrow>
     sr_uuid r' = sr_uuid r \<and> sr_terminal_serial_number r' = sr_terminal_serial_number r \<and>
     (active_run r' \<longrightarrow> active_run r) \<and> (sr_status r' = ''completed'' \<longrightarrow> accounted r')"

lemma runs_ok_update:
  assumes "runs_ok runs" "\<And>r. r \<in> set runs \<Longrightarrow> p r \<Longrightarrow> run_update_ok r (f r)"
  shows "runs_ok (update_where p f runs)"
proof -
  let ?g = "\<lambda>r. if p r then f r else r"
  have ok: "run_update_ok r (?g r)" if "r \<in> set runs" for r
    using assms that by (auto simp: runs_ok_def run_update_ok_def)
  have "map sr_uuid (update_where p f runs) = map sr_uuid runs"
    using ok by (simp add: update_where_def run_update_ok_def)
  then have "unique_key sr_uuid (update_where p f runs)" using assms(1) by (simp add: runs_ok_def unique_key_def)
  moreover have "?g r = ?g r'"
    if "r \<in> set runs" "r' \<in> set runs" "active_run (?g r)" "active_run (?g r')"
      "sr_terminal_serial_number (?g r) = sr_terminal_serial_number (?g r')" for r r'
  proof -
    have "active_run r" "active_run r'" "sr_terminal_serial_number r = sr_terminal_serial_number r'"
      using that ok [OF that(1)] ok [OF that(2)] by (simp_all add: run_update_ok_def)
    with that(1,2) assms(1) have "r = r'" by (auto simp: runs_ok_def)
    then show ?thesis by simp
  qed
  moreover have "accounted (?g r)" if "r \<in> set runs" "sr_status (?g r) = ''completed''" for r
    using that ok [OF that(1)] by (simp add: run_update_ok_def)
  ultimately show ?thesis unfolding runs_ok_def set_update_where by blast
qed

lemma runs_ok_new:
  assumes "runs_ok (db_sync_runs d)" "new_run_ok d r" "sr_status r \<noteq> ''completed''"
  shows "runs_ok (db_sync_runs d @ [r])"
  using assms by (auto simp: runs_ok_def new_run_ok_def unique_key_snoc row_simps)

lemma run_update_failed: "run_update_ok r (r\<lparr>sr_status := ''failed'', sr_failure := f, sr_completed_at := t\<rparr>)"
  by (simp add: run_update_ok_def active_run_def)

lemma runs_ok_fail_run: "runs_ok runs \<Longrightarrow> runs_ok (fail_run now uuid reason runs)"
  unfolding fail_run_def by (erule runs_ok_update) (rule run_update_failed)

text \<open>Operations that keep the invariant of the runs.\<close>

definition keeps_runs :: "db \<Rightarrow> db \<Rightarrow> bool" where
  "keeps_runs d d' \<longleftrightarrow> (runs_ok (db_sync_runs d) \<longrightarrow> runs_ok (db_sync_runs d'))"

lemma keeps_runs_same: "db_sync_runs d' = db_sync_runs d \<Longrightarrow> keeps_runs d d'"
  by (simp add: keeps_runs_def)

lemma keeps_runs_refl [simp, intro!]: "keeps_runs d d"
  by (simp add: keeps_runs_def)

lemma keeps_runs_trans: "keeps_runs d d1 \<Longrightarrow> keeps_runs d1 d2 \<Longrightarrow> keeps_runs d d2"
  by (simp add: keeps_runs_def)

lemma keeps_runs_fail: "failAccessEventSync now uuid reason d = Inr (acts, d') \<Longrightarrow> keeps_runs d d'"
  by (auto simp: keeps_runs_def runs_ok_fail_run dest!: failAccessEventSync_Inr)

lemma keeps_runs_failed: "failed_sync X uuid reason rand d = Inr (s, d') \<Longrightarrow> keeps_runs d d'"
  by (auto simp: failed_sync_def res_simps dest: keeps_runs_fail)

lemma keeps_runs_record_expired:
  "record_expired now c (acts, d) = Inr (acts', d') \<Longrightarrow> keeps_runs d d'"
  by (auto simp: record_expired_def res_simps Let_def failExpiredAccessEventSyncCommand_def keeps_runs_def
      dest!: insertGatewayActivity_append keeps_runs_fail split: option.splits)

lemma keeps_runs_expire:
  assumes "expireOverdueISAPICommandsTx now terminal d = Inr (acts, d')"
  shows "keeps_runs d d'"
proof -
  let ?d = "d\<lparr>db_commands := update_where (overdue now terminal) (expire_command now) (db_commands d)\<rparr>"
  have "(\<lambda>s. keeps_runs d (snd s)) (acts, d')"
  proof (rule foldE_invariant [OF assms [unfolded expireOverdueISAPICommandsTx_def]])
    show "keeps_runs d (snd ([], ?d))" by (simp add: keeps_runs_same)
  next
    fix c s t assume "keeps_runs d (snd s)" "record_expired now c s = Inr t"
    then show "keeps_runs d (snd t)"
      by (cases s, cases t) (auto intro: keeps_runs_trans keeps_runs_record_expired)
  qed
  then show ?thesis by simp
qed

lemma runs_queue: "queueISAPICommandTx X input rand d = Inr ((c, stored, rest), d') \<Longrightarrow> db_sync_runs d' = db_sync_runs d"
  by (auto dest!: queueISAPICommandTx_Inr)

lemma runs_link: "link_command l d = Inr d' \<Longrightarrow> db_sync_runs d' = db_sync_runs d"
  by (auto simp: link_command_def res_simps)

lemma runs_retained:
  assumes "insertRetainedAccessEvents now run uuid records d = Inr (n, d')"
  shows "db_sync_runs d' = db_sync_runs d"
proof -
  from assms obtain k where "foldE (insert_retained now run uuid) records (0, d) = Inr (k, d')"
    by (auto simp: insertRetainedAccessEvents_def res_simps)
  then have "(\<lambda>s. db_sync_runs (snd s) = db_sync_runs d) (k, d')"
    by (rule foldE_invariant) (auto simp: insert_retained_def res_simps split: if_splits)
  then show ?thesis by simp
qed

lemma keeps_runs_queue_page:
  assumes "queue_page_command X run input position reason rand k d = Inr (s, d')"
    and "\<And>a r d1. k a r d1 = Inr (s, d') \<Longrightarrow> db_sync_runs d' = db_sync_runs d1"
  shows "keeps_runs d d'"
proof (cases "queueISAPICommandTx X input rand d")
  case (Inl e)
  with assms(1) show ?thesis
    by (auto simp: queue_page_command_def fail_unless_aborted_def split: if_splits dest: keeps_runs_failed)
next
  case (Inr p)
  then obtain c stored rest d1 where q: "queueISAPICommandTx X input rand d = Inr ((c, stored, rest), d1)"
    by (metis prod.exhaust)
  with assms(1) obtain d2 where "link_command \<lparr> sc_command_uuid = cmd_uuid c, sc_sync_run_uuid = sr_uuid run,
      sc_phase = ''page'', sc_search_result_position = Some position \<rparr> d1 = Inr d2" "k stored rest d2 = Inr (s, d')"
    by (auto simp: queue_page_command_def bindE_eq_Inr)
  with assms(2) runs_queue [OF q] runs_link show ?thesis by (intro keeps_runs_same) metis
qed

text \<open>The steps of a run that was read from the table and is active.\<close>

definition current_run :: "db \<Rightarrow> sync_run_row \<Rightarrow> bool" where
  "current_run d run \<longleftrightarrow> run \<in> set (db_sync_runs d) \<and> active_run run"

lemma keeps_runs_update:
  assumes "current_run d run"
    and "\<And>r. active_run r \<Longrightarrow> sr_uuid r = sr_uuid run \<Longrightarrow> run_update_ok r (f r)"
  shows "keeps_runs d (d\<lparr>db_sync_runs := update_where (\<lambda>r. sr_uuid r = sr_uuid run) f (db_sync_runs d)\<rparr>)"
proof -
  have "active_run r" if "runs_ok (db_sync_runs d)" "r \<in> set (db_sync_runs d)" "sr_uuid r = sr_uuid run" for r
    using that assms(1) by (auto simp: current_run_def runs_ok_def dest: unique_keyD)
  with assms(2) show ?thesis by (auto simp: keeps_runs_def intro!: runs_ok_update)
qed

lemma keeps_runs_time:
  assumes "completeAccessEventSyncTime L X run source rand d = Inr (s, d')" "current_run d run"
  shows "keeps_runs d d'"
proof -
  have "keeps_runs d (d\<lparr>db_sync_runs := update_where (\<lambda>r. sr_uuid r = sr_uuid run)
      (\<lambda>r. r\<lparr>sr_status := ''running'', sr_search_started_at := a, sr_search_ended_at := b\<rparr>) (db_sync_runs d)\<rparr>)" for a b
    using assms(2) by (rule keeps_runs_update) (simp add: run_update_ok_def)
  note q = keeps_runs_trans [OF this keeps_runs_queue_page]
  show ?thesis
    using assms(1) unfolding completeAccessEventSyncTime_def
    by (auto split: if_splits sum.splits option.splits dest: keeps_runs_failed)
      (erule q, auto simp: res_simps dest!: insertGatewayActivity_append)
qed

lemma keeps_runs_next_page:
  assumes "next_page X run nextPosition searchEnded page inserted duplicate pageActivity rand d = Inr (s, d')" "current_run d run"
  shows "keeps_runs d d'"
proof -
  have "keeps_runs d (d\<lparr>db_sync_runs := update_where (\<lambda>r. sr_uuid r = sr_uuid run)
      (count_page page inserted duplicate run) (db_sync_runs d)\<rparr>)"
    using assms(2) by (rule keeps_runs_update) (auto simp: run_update_ok_def count_page_def active_run_def)
  note q = keeps_runs_trans [OF this keeps_runs_queue_page]
  show ?thesis
    using assms(1) unfolding next_page_def
    by (auto simp: bindE_eq_Inr split: option.splits dest: keeps_runs_failed) (erule q, auto)
qed

lemma keeps_runs_last_page:
  assumes "last_page X run page inserted duplicate completedAt pageActivity rand d = Inr (s, d')" "current_run d run"
  shows "keeps_runs d d'"
proof (cases "sr_records_imported run + inserted + (sr_records_duplicate run + duplicate) = rp_TotalMatches page")
  case True
  have "keeps_runs d (d\<lparr>db_sync_runs := update_where (\<lambda>r. sr_uuid r = sr_uuid run)
      (\<lambda>r. (count_page page inserted duplicate run r)\<lparr>sr_status := ''completed'', sr_completed_at := Some completedAt\<rparr>)
      (db_sync_runs d)\<rparr>)"
    using assms(2)
    by (rule keeps_runs_update) (use True in \<open>simp add: run_update_ok_def count_page_def active_run_def accounted_def\<close>)
  moreover from True assms(1) have "db_sync_runs d' = update_where (\<lambda>r. sr_uuid r = sr_uuid run)
      (\<lambda>r. (count_page page inserted duplicate run r)\<lparr>sr_status := ''completed'', sr_completed_at := Some completedAt\<rparr>)
      (db_sync_runs d)"
    by (auto simp: last_page_def res_simps Let_def dest!: insertGatewayActivity_append)
  ultimately show ?thesis by (simp add: keeps_runs_def)
next
  case False
  with assms(1) show ?thesis by (auto simp: last_page_def Let_def dest: keeps_runs_failed)
qed

lemma keeps_runs_accept:
  assumes "accept_page X run position searchEnded uuid page records completedAt rand d = Inr (s, d')" "current_run d run"
  shows "keeps_runs d d'"
proof -
  from assms(1) obtain n m d1 a d2 where
    1: "insertRetainedAccessEvents (tx_now X) run uuid records d = Inr ((n, m), d1)"
    and 2: "d2 = d1\<lparr>db_activities := db_activities d1 @ [a]\<rparr>"
    and 3: "(if rp_ResponseStatus page = ''MORE''
      then next_page X run (position + rp_NumOfMatches page) searchEnded page n m a rand d2
      else last_page X run page n m completedAt a rand d2) = Inr (s, d')"
    unfolding accept_page_def by (auto simp: bindE_eq_Inr dest!: insertGatewayActivity_append)
  from 2 runs_retained [OF 1] have same: "db_sync_runs d2 = db_sync_runs d" by simp
  with assms(2) have "current_run d2 run" by (simp add: current_run_def)
  with 3 have "keeps_runs d2 d'" by (auto split: if_splits dest: keeps_runs_next_page keeps_runs_last_page)
  with same show ?thesis by (simp add: keeps_runs_def)
qed

lemma keeps_runs_complete:
  assumes "completeAccessEventSyncCommand L X terminal r completedAt rand d = Inr (s, d')"
  shows "keeps_runs d d'"
  using assms unfolding completeAccessEventSyncCommand_def
  by (auto simp: bindE_eq_Inr guardE_eq_Inr current_run_def completeAccessEventSyncPage_def
      split: option.splits if_splits sum.splits bool.splits
      dest!: select_row_Some keeps_runs_failed intro: keeps_runs_time keeps_runs_accept)

lemma keeps_runs_result:
  assumes "complete_result L X terminal r s = Inr t"
  shows "keeps_runs (snd s) (snd t)"
proof -
  obtain acts rand d acts' rand' d' where st: "s = ((acts, rand), d)" "t = ((acts', rand'), d')"
    by (metis prod.exhaust)
  have "keeps_runs d d'"
    using assms unfolding complete_result_def st
    by (auto simp: bindE_eq_Inr guardE_eq_Inr keeps_runs_def split: option.splits if_splits
        dest!: insertGatewayActivity_append keeps_runs_complete)
  then show ?thesis by (simp add: st)
qed

lemma keeps_runs_completed:
  assumes "CompleteISAPICommands L X terminal results d = Inr (out, d')"
  shows "keeps_runs d d'"
proof -
  from assms obtain acts d1 acts' rest where
    1: "expireOverdueISAPICommandsTx (tx_now X) (Some terminal) d = Inr (acts, d1)" and
    2: "foldE (complete_result L X terminal) results ((acts, tx_rand X), d1) = Inr ((acts', rest), d')"
    by (auto simp: CompleteISAPICommands_def bindE_eq_Inr)
  from 2 have "(\<lambda>s. keeps_runs d1 (snd s)) ((acts', rest), d')"
    by (rule foldE_invariant) (auto intro: keeps_runs_trans keeps_runs_result)
  with keeps_runs_expire [OF 1] show ?thesis by (auto intro: keeps_runs_trans)
qed

lemma keeps_runs_claim:
  assumes "ClaimISAPICommands now terminal limit d = Inr ((deliveries, acts), d')"
  shows "keeps_runs d d'"
proof -
  from assms obtain acts1 d1 where
    ex: "expireOverdueISAPICommandsTx now (Some terminal) d = Inr (acts1, d1)" and
    sent: "foldE (record_sent now terminal) (map delivery_of (selected_commands now terminal (nat limit) (db_commands d1)))
        (acts1, d1\<lparr>db_commands := mark_sent now (selected_commands now terminal (nat limit) (db_commands d1)) (db_commands d1)\<rparr>) = Inr (acts, d')"
    by (auto simp: ClaimISAPICommands_def res_simps Let_def)
  from record_sents_Inr [OF sent] have "db_sync_runs d' = db_sync_runs d1" by auto
  with keeps_runs_expire [OF ex] show ?thesis by (simp add: keeps_runs_def)
qed

lemma Sync_Inr:
  assumes "QueueAccessEventSync X terminal identity d = Inr ((run, acts), d')"
  obtains acts1 d1 c where "expireOverdueISAPICommandsTx (tx_now X) (Some terminal) d = Inr (acts1, d1)"
    "new_run_ok d1 run" "sr_status run = ''awaiting_time''" "db_sync_runs d' = db_sync_runs d1 @ [run]"
    "db_commands d' = db_commands d1 @ [c]" "cmd_status c = ''queued''" "new_command_ok (d1\<lparr>db_sync_runs := db_sync_runs d1 @ [run]\<rparr>) c"
  using assms unfolding QueueAccessEventSync_def
  by (auto simp: res_simps Let_def link_command_def new_run_def
      dest!: insertGatewayActivity_append queueISAPICommandTx_Inr)
    (metis (no_types, lifting) queued_command_def command_row.select_convs(9))

lemma keeps_runs_sync:
  assumes "QueueAccessEventSync X terminal identity d = Inr ((run, acts), d')"
  shows "keeps_runs d d'"
  using assms
proof (rule Sync_Inr)
  fix acts1 d1 c
  assume "expireOverdueISAPICommandsTx (tx_now X) (Some terminal) d = Inr (acts1, d1)"
    "new_run_ok d1 run" "sr_status run = ''awaiting_time''" "db_sync_runs d' = db_sync_runs d1 @ [run]"
  with runs_ok_new [of d1 run] show ?thesis by (auto simp: keeps_runs_def dest!: keeps_runs_expire)
qed

section \<open>Histories\<close>

text \<open>
  One committed transaction at any time: the operations that write the command or sync tables (the
  reconciliation of the administrator writes them through the foreign keys of the deleted
  accounts), or any other change of the database, which leaves both tables alone.
\<close>

inductive store_op :: "library \<Rightarrow> db \<Rightarrow> db \<Rightarrow> bool" for L where
  queue: "QueueISAPICommand X input d = Inr (r, d') \<Longrightarrow> store_op L d d'"
| sync: "QueueAccessEventSync X terminal identity d = Inr (r, d') \<Longrightarrow> store_op L d d'"
| claim: "ClaimISAPICommands now terminal limit d = Inr (r, d') \<Longrightarrow> store_op L d d'"
| complete: "CompleteISAPICommands L X terminal results d = Inr (r, d') \<Longrightarrow> store_op L d d'"
| expire: "ExpireOverdueISAPICommands now d = Inr (r, d') \<Longrightarrow> store_op L d d'"
| reconcile: "ReconcileConfiguredAdministrator generate matches now username password d = Inr d' \<Longrightarrow> store_op L d d'"
| other: "db_commands d' = db_commands d \<Longrightarrow> db_sync_runs d' = db_sync_runs d \<Longrightarrow> store_op L d d'"

inductive_cases store_opE: "store_op L d d'"

text \<open>
  What a command keeps: its request and the name of its creator for ever, everything but the
  reference to its creator once it is final; its status only advances, and the reference to its
  creator is only ever cleared.
\<close>

definition request_of :: "command_row \<Rightarrow> string \<times> string \<times> string \<times> string \<times> string \<times> bytes \<times> string \<times> instant \<times> instant" where
  "request_of c = (cmd_uuid c, cmd_terminal_serial_number c, cmd_method c, cmd_url c, cmd_data_format c,
     cmd_request_data c, cmd_created_by_username c, cmd_created_at c, cmd_expires_at c)"

definition status_rank :: "string \<Rightarrow> nat" where
  "status_rank s = (if s = ''queued'' then 0 else if s = ''sent'' then 1 else 2)"

definition final_status :: "string \<Rightarrow> bool" where
  "final_status s \<longleftrightarrow> s = ''completed'' \<or> s = ''expired''"

definition follows :: "command_row \<Rightarrow> command_row \<Rightarrow> bool" where
  "follows c c' \<longleftrightarrow> request_of c' = request_of c \<and> status_rank (cmd_status c) \<le> status_rank (cmd_status c') \<and>
     cmd_created_by_admin_user_id c' \<in> {cmd_created_by_admin_user_id c, None} \<and>
     (final_status (cmd_status c) \<longrightarrow> c' = c\<lparr>cmd_created_by_admin_user_id := cmd_created_by_admin_user_id c'\<rparr>)"

lemma follows_refl [simp]: "follows c c"
  by (simp add: follows_def)

lemma follows_trans:
  assumes "follows a b" "follows b c"
  shows "follows a c"
proof (cases "final_status (cmd_status a)")
  case True
  with assms(1) have b: "b = a\<lparr>cmd_created_by_admin_user_id := cmd_created_by_admin_user_id b\<rparr>" by (simp add: follows_def)
  then have "cmd_status b = cmd_status a" by (metis command_row.select_convs(9) command_row.surjective command_row.update_convs(3))
  with True assms(2) have "c = b\<lparr>cmd_created_by_admin_user_id := cmd_created_by_admin_user_id c\<rparr>" by (simp add: follows_def)
  with b have "c = a\<lparr>cmd_created_by_admin_user_id := cmd_created_by_admin_user_id c\<rparr>"
    by (metis command_row.surjective command_row.update_convs(3))
  with assms show ?thesis by (auto simp: follows_def)
next
  case False
  with assms show ?thesis by (auto simp: follows_def)
qed

lemma step_follows: "command_step now c c' \<Longrightarrow> follows c c'"
  by (erule command_step.cases) (auto simp: follows_def request_of_def status_rank_def final_status_def expire_command_def)

lemma steps_follow: "(command_step now)\<^sup>*\<^sup>* c c' \<Longrightarrow> follows c c'"
  by (induction rule: rtranclp_induct) (auto intro: follows_trans step_follows)

lemma evolve_follows:
  assumes "commands_evolve now xs ys" "c \<in> set xs"
  shows "\<exists>c' \<in> set ys. follows c c'"
proof -
  from assms(1) obtain zs where z: "set zs \<subseteq> set ys" "list_all2 (\<lambda>c c'. (command_step now)\<^sup>*\<^sup>* c c') xs zs"
    unfolding commands_evolve_def by (metis Un_upper1 set_append)
  with assms(2) obtain c' where "c' \<in> set zs" "(command_step now)\<^sup>*\<^sup>* c c'"
    by (metis in_set_conv_nth list_all2_conv_all_nth)
  with z(1) show ?thesis by (auto intro: steps_follow)
qed

definition commands_progress :: "db \<Rightarrow> db \<Rightarrow> bool" where
  "commands_progress d d' \<longleftrightarrow>
     (unique_key cmd_uuid (db_commands d) \<longrightarrow>
        unique_key cmd_uuid (db_commands d') \<and> (\<forall>c \<in> set (db_commands d). \<exists>c' \<in> set (db_commands d'). follows c c'))"

lemma progress_evolve:
  assumes "unique_key cmd_uuid (db_commands d) \<Longrightarrow> unique_key cmd_uuid (db_commands d')"
    and "unique_key cmd_uuid (db_commands d) \<Longrightarrow> commands_evolve now (db_commands d) (db_commands d')"
  shows "commands_progress d d'"
  using assms evolve_follows by (auto simp: commands_progress_def)

lemma progress_trans: "commands_progress d d1 \<Longrightarrow> commands_progress d1 d2 \<Longrightarrow> commands_progress d d2"
  unfolding commands_progress_def by (meson follows_trans)

lemma progress_same: "db_commands d' = db_commands d \<Longrightarrow> commands_progress d d'"
  by (auto simp: commands_progress_def intro: follows_refl)

lemma progress_snoc:
  assumes "db_commands d' = db_commands d @ [c]" "cmd_status c = ''queued''" "new_command_ok e c" "db_commands e = db_commands d"
  shows "commands_progress d d'"
  using assms by (intro progress_evolve) (auto simp: unique_key_snoc new_command_ok_def row_simps intro: evolve_snoc)

lemma expire_progress:
  assumes "expireOverdueISAPICommandsTx now terminal d = Inr (acts, d')"
  shows "unique_key cmd_uuid (db_commands d) \<Longrightarrow> unique_key cmd_uuid (db_commands d')"
    "commands_evolve now (db_commands d) (db_commands d')"
proof -
  from assms obtain runs where "d' = d\<lparr>db_commands := update_where (overdue now terminal) (expire_command now) (db_commands d),
      db_activities := db_activities d @ acts, db_sync_runs := runs\<rparr>" by (rule expireOverdue_Inr)
  then show "unique_key cmd_uuid (db_commands d) \<Longrightarrow> unique_key cmd_uuid (db_commands d')"
    "commands_evolve now (db_commands d) (db_commands d')" by (simp_all add: unique_uuid_expire expire_evolve)
qed

lemma claim_unique:
  assumes "ClaimISAPICommands now terminal limit d = Inr ((deliveries, acts), d')" "unique_key cmd_uuid (db_commands d)"
  shows "unique_key cmd_uuid (db_commands d')"
  using assms(1)
proof (rule Claim_Inr)
  fix chosen rows runs
  assume "rows = update_where (overdue now (Some terminal)) (expire_command now) (db_commands d)"
    "d' = d\<lparr>db_commands := mark_sent now chosen rows, db_activities := db_activities d @ acts, db_sync_runs := runs\<rparr>"
  with unique_uuid_expire [OF assms(2)] show ?thesis by (auto simp: mark_sent_def intro: unique_key_update_where)
qed

lemma sync_progress:
  assumes "QueueAccessEventSync X terminal identity d = Inr ((run, acts), d')"
  shows "commands_progress d d'"
  using assms
proof (rule Sync_Inr)
  fix acts1 d1 c
  assume e: "expireOverdueISAPICommandsTx (tx_now X) (Some terminal) d = Inr (acts1, d1)"
    and c: "db_commands d' = db_commands d1 @ [c]" "cmd_status c = ''queued''" "new_command_ok (d1\<lparr>db_sync_runs := db_sync_runs d1 @ [run]\<rparr>) c"
  from progress_snoc [OF c] have "commands_progress d1 d'" by simp
  with progress_evolve [OF expire_progress [OF e]] show ?thesis by (rule progress_trans)
qed

text \<open>Removing an administrator clears the reference of the rows it created and touches nothing else of them.\<close>

lemma reconcile_rows:
  assumes "ReconcileConfiguredAdministrator generate matches now username password d = Inr d'"
  obtains ids where
    "db_commands d' = map (\<lambda>c. c\<lparr>cmd_created_by_admin_user_id := clear_id ids (cmd_created_by_admin_user_id c)\<rparr>) (db_commands d)"
    "db_sync_runs d' = update_where (\<lambda>_. True)
       (\<lambda>r. r\<lparr>sr_created_by_admin_user_id := clear_id ids (sr_created_by_admin_user_id r)\<rparr>) (db_sync_runs d)"
  by (rule that [of "map au_id (filter (\<lambda>u. au_username u \<noteq> username) (db_admin_users d))"]; use assms in
      \<open>auto simp: ReconcileConfiguredAdministrator_def delete_admins_def bindE_eq_Inr guardE_eq_Inr Let_def update_where_def
      split: option.splits if_splits\<close>)

lemma clear_follows: "follows c (c\<lparr>cmd_created_by_admin_user_id := clear_id ids (cmd_created_by_admin_user_id c)\<rparr>)"
  by (auto simp: follows_def request_of_def clear_id_def split: option.splits)

lemma reconcile_progress:
  assumes "ReconcileConfiguredAdministrator generate matches now username password d = Inr d'"
  shows "commands_progress d d' \<and> keeps_runs d d'"
  using assms
proof (rule reconcile_rows)
  fix ids
  assume c: "db_commands d' = map (\<lambda>c. c\<lparr>cmd_created_by_admin_user_id := clear_id ids (cmd_created_by_admin_user_id c)\<rparr>) (db_commands d)"
    and r: "db_sync_runs d' = update_where (\<lambda>_. True)
       (\<lambda>r. r\<lparr>sr_created_by_admin_user_id := clear_id ids (sr_created_by_admin_user_id r)\<rparr>) (db_sync_runs d)"
  have "commands_progress d d'"
    using clear_follows by (auto simp: commands_progress_def c unique_key_def comp_def)
  moreover have "keeps_runs d d'"
    unfolding keeps_runs_def r
    by (intro impI runs_ok_update) (auto simp: run_update_ok_def runs_ok_def active_run_def accounted_def)
  ultimately show ?thesis ..
qed

lemma store_op_progress: "store_op L d d' \<Longrightarrow> commands_progress d d' \<and> keeps_runs d d'"
proof (erule store_opE)
  fix X input r assume "QueueISAPICommand X input d = Inr (r, d')"
  then obtain c stored rest where q: "queueISAPICommandTx X input (tx_rand X) d = Inr ((c, stored, rest), d')"
    by (auto simp: QueueISAPICommand_def res_simps)
  note i = queueISAPICommandTx_Inr [OF q]
  have "cmd_status c = ''queued''" using i by (metis queued_command_def command_row.select_convs(9))
  with i have "commands_progress d d'" by (intro progress_snoc [of d' d c d]) auto
  with i show ?thesis by (auto intro!: keeps_runs_same)
next
  fix X terminal identity r assume "QueueAccessEventSync X terminal identity d = Inr (r, d')"
  then show ?thesis by (cases r) (auto intro: sync_progress keeps_runs_sync)
next
  fix now terminal limit r assume "ClaimISAPICommands now terminal limit d = Inr (r, d')"
  then show ?thesis
    by (cases r) (blast intro: progress_evolve claim_unique claim_evolve keeps_runs_claim)
next
  fix X terminal results r assume "CompleteISAPICommands L X terminal results d = Inr (r, d')"
  then show ?thesis by (blast intro: progress_evolve complete_evolve keeps_runs_completed)
next
  fix now r assume "ExpireOverdueISAPICommands now d = Inr (r, d')"
  then show ?thesis
    unfolding ExpireOverdueISAPICommands_def by (blast intro: progress_evolve expire_progress keeps_runs_expire)
next
  fix generate matches now username password
  assume "ReconcileConfiguredAdministrator generate matches now username password d = Inr d'"
  then show ?thesis by (rule reconcile_progress)
next
  assume "db_commands d' = db_commands d" "db_sync_runs d' = db_sync_runs d"
  then show ?thesis by (simp add: progress_same keeps_runs_same)
qed

lemma history_progress:
  assumes "(store_op L)\<^sup>*\<^sup>* d d'" "unique_key cmd_uuid (db_commands d)"
  shows "unique_key cmd_uuid (db_commands d') \<and> (\<forall>c \<in> set (db_commands d). \<exists>c' \<in> set (db_commands d'). follows c c')"
proof -
  have "commands_progress d d'"
    using assms(1) by (induction rule: rtranclp_induct) (auto intro: progress_same progress_trans dest: store_op_progress)
  with assms(2) show ?thesis by (simp add: commands_progress_def)
qed

lemma history_runs: "(store_op L)\<^sup>*\<^sup>* d d' \<Longrightarrow> runs_ok (db_sync_runs d) \<Longrightarrow> runs_ok (db_sync_runs d')"
  by (induction rule: rtranclp_induct) (auto simp: keeps_runs_def dest: store_op_progress)

end
