(* ===== verification/CoreProperties.thy ===== *)
theory CoreProperties
  imports PushCrypto PushParse
begin

text \<open>
  The properties of the configuration, the protocol's cryptography and its envelopes, with a
  sample configuration for the witnesses.
\<close>

section \<open>A sample configuration\<close>

definition sample_terminal :: Terminal where
  "sample_terminal = \<lparr> SerialNumber = ''DS-1'', PushSDKSerial = ''P1'', Username = ''admin'',
     PasswordEnvironmentVariable = ''TERMINAL_PASSWORD'', Password = ''secret'', LoginPasswordDigest = ''sha256'',
     SecurityVersion = 4, CommandIntervalSeconds = 10, ErrorDelaySeconds = 30 \<rparr>"

definition sample_config :: Config where
  "sample_config = \<lparr> ListenAddress = '':8080'', DatabaseURL = ''postgres://db'', TerminalsFile = ''terminals.json'',
     AdminUsername = ''root'', AdminPassword = ''pw'', CookieSecure = True, SessionTTL = 3600, WebDir = ''web'',
     MigrationsDir = ''db'', MetricsCIDRs = [''10.0.0.0/8''], Terminals = [sample_terminal], DeliverySigningKeys = [] \<rparr>"

text \<open>A key-derivation function with the promised output length.\<close>

definition sample_kdf :: kdf where
  "sample_kdf h password salt iterations n = replicate n (CHR ''k'')"

lemma sample_kdf_length: "kdf_length sample_kdf"
  by (simp add: kdf_length_def sample_kdf_def)

lemma sample_config_valid: "Validate sample_config = Inr ()"
  by code_simp

section \<open>Configuration\<close>

text \<open>
  C13. Validation accepts exactly the well-formed configurations: every required setting and
  terminal text present, digests, security versions, intervals, delays, variable names and
  password lengths in their ranges, signing keys of the right format, and no serial twice.
\<close>

theorem validate_exact: "Validate c = Inr () \<longleftrightarrow> config_ok c"
  by (rule Validate_accepts)

text \<open>
  In a validated configuration each of the two lookups finds exactly the configured terminal
  of that serial.
\<close>

lemma lookup_exact:
  assumes "Validate c = Inr ()"
  shows "(TerminalByPushSDKSerial c p = Some t \<longleftrightarrow> t \<in> set (Terminals c) \<and> PushSDKSerial t = p) \<and>
    (TerminalBySerialNumber c s = Some t \<longleftrightarrow> t \<in> set (Terminals c) \<and> SerialNumber t = s)"
  using assms terminal_by_push_serial terminal_by_serial by (simp add: Validate_accepts)

lemma lookup_exact_witness:
  "TerminalByPushSDKSerial sample_config ''P1'' = Some sample_terminal \<and>
   TerminalBySerialNumber sample_config ''DS-1'' = Some sample_terminal"
  using lookup_exact [OF sample_config_valid, of "''P1''" sample_terminal "''DS-1''"]
  by (simp add: sample_config_def sample_terminal_def)

text \<open>
  C14. The text behind a session fingerprint determines every part of the terminal's protocol
  contract: two validated terminals with the same text agree on the credential fingerprint, digest,
  security version, both intervals and the PushSDK serial, so a change of any of them changes it.
\<close>

theorem fingerprint_contract:
  assumes "Validate c = Inr ()" "t \<in> set (Terminals c)" "Validate c' = Inr ()" "t' \<in> set (Terminals c')"
  shows "fingerprint_source t = fingerprint_source t' \<longleftrightarrow>
    CredentialFingerprint t = CredentialFingerprint t' \<and> LoginPasswordDigest t = LoginPasswordDigest t' \<and>
    SecurityVersion t = SecurityVersion t' \<and> CommandIntervalSeconds t = CommandIntervalSeconds t' \<and>
    ErrorDelaySeconds t = ErrorDelaySeconds t' \<and> PushSDKSerial t = PushSDKSerial t'"
proof -
  have "CHR 0x00 \<notin> set (LoginPasswordDigest x)" if "Validate y = Inr ()" "x \<in> set (Terminals y)" for x y
    using that by (auto simp: Validate_accepts config_ok_def list_all_iff terminal_ok_def)
  with assms show ?thesis by (intro fingerprint_source_eq) auto
qed

theorem fingerprint_contract_witness:
  "fingerprint_source sample_terminal \<noteq> fingerprint_source (sample_terminal\<lparr>SecurityVersion := 3\<rparr>)"
proof -
  let ?t = "sample_terminal\<lparr>SecurityVersion := 3\<rparr>"
  have "Validate (sample_config\<lparr>Terminals := [?t]\<rparr>) = Inr ()" by code_simp
  from fingerprint_contract [OF sample_config_valid _ this, of sample_terminal ?t]
  show ?thesis by (simp add: sample_config_def) (simp add: sample_terminal_def)
qed

section \<open>Cryptography\<close>

text \<open>
  C15. Payload encryption round trip: with a key-derivation function that delivers the length it
  is asked for and a 16-byte initialisation vector, encryption always succeeds and decryption
  under the same session gives the plaintext back.
\<close>

theorem payload_round_trip:
  assumes "kdf_length pbkdf2" "length (ep_IV params) = 16"
  shows "\<exists>c. encrypt pbkdf2 t salt iterations params plain = Inr c \<and>
    decrypt pbkdf2 t salt iterations params c = Inr plain"
  using encrypt_defined [OF assms(1), of t salt iterations params plain] decrypt_encrypt [OF assms] by blast

theorem payload_round_trip_witness:
  "\<exists>c. encrypt sample_kdf sample_terminal ''s'' 4096
      \<lparr> ep_SecurityVersion = 4, ep_IV = replicate 16 (CHR ''i''), ep_Random = ''0123456789abcdef'' \<rparr> ''hello'' = Inr c \<and>
    decrypt sample_kdf sample_terminal ''s'' 4096
      \<lparr> ep_SecurityVersion = 4, ep_IV = replicate 16 (CHR ''i''), ep_Random = ''0123456789abcdef'' \<rparr> c = Inr ''hello''"
  by (rule payload_round_trip) (simp_all add: sample_kdf_length)

lemma unpad_source:
  assumes "unpadPKCS7 x = Inr v"
  shows "x = padPKCS7 v 16"
proof -
  define p where "p = byte_val (last x)"
  from assms have len: "x \<noteq> []" "length x mod 16 = 0" and p: "1 \<le> p" "p \<le> 16" "p \<le> length x"
    and tl: "\<forall>c \<in> set (drop (length x - p) x). byte_val c = p" and v: "v = take (length x - p) x"
    by (auto simp: unpadPKCS7_def Let_def p_def list_all_iff split: if_splits)
  have "drop (length x - p) x = replicate p (char_of p)"
    by (rule replicate_eqI) (use tl p in \<open>auto dest: char_of_eqI [OF sym]\<close>)
  then have "x = v @ replicate p (char_of p)" using v by (metis append_take_drop_id)
  moreover have "16 - length v mod 16 = p"
  proof -
    from len(2) obtain k where "length x = 16 * k" by (auto simp: mod_eq_0_iff_dvd)
    with p v have "length v = 16 * k - p" by simp
    with p \<open>length x = 16 * k\<close> obtain j where j: "k = Suc j" by (cases k) auto
    with \<open>length v = 16 * k - p\<close> p have "length v = 16 * j + (16 - p)" by simp
    then have "length v mod 16 = (16 - p) mod 16" by simp
    with p show ?thesis by (cases "p = 16") auto
  qed
  ultimately show ?thesis by (simp add: padPKCS7_def Let_def)
qed

text \<open>
  The padding check accepts exactly the padded texts: a value is unpadded to \<open>v\<close> if and only
  if it is the PKCS#7 padding of \<open>v\<close>, so no plaintext has two ciphertext paddings.
\<close>

lemma unpad_exact: "unpadPKCS7 x = Inr v \<longleftrightarrow> x = padPKCS7 v 16"
  using unpad_source unpad_pad by blast

text \<open>
  Random strings are unbiased: over the 256 byte values in order, the sampler yields the whole
  alphabet exactly four times and rejects the last eight, so every character is equally likely.
\<close>

lemma random_unbiased:
  "map (\<lambda>n. alphabet_chars [char_of n]) [0..<256] =
     map (\<lambda>c. [c]) (concat (replicate 4 alphabet)) @ replicate 8 []"
  by code_simp

text \<open>
  A generated random string has the requested length and only characters of the alphabet; the
  challenge of a session is 64 lower-case hexadecimal characters, the encoding of 32 random bytes.
\<close>

lemma random_strings_format:
  assumes "randomAlphaNumeric n rand = Inr (s, rest)" "randomCustomChallenge rand' = Inr (c, rest')"
  shows "length s = n \<and> list_all is_alnum s \<and> lowerHex64 c \<and> hex_decode c = Some (take 32 rand')"
  using randomAlphaNumeric_alphabet [OF assms(1)] randomCustomChallenge_format [OF assms(2)] by auto

lemma sample_random: "\<exists>s rest. randomAlphaNumeric 3 (replicate 32 (CHR 0x00)) = Inr (s, rest)"
  by (simp add: randomAlphaNumeric_def random_fill.simps alphabet_chars_def random_limit_eq)

lemma random_strings_format_witness:
  "\<exists>s rest c rest'. randomAlphaNumeric 3 (replicate 32 (CHR 0x00)) = Inr (s, rest) \<and>
     randomCustomChallenge (replicate 32 (CHR ''a'')) = Inr (c, rest') \<and>
     length s = 3 \<and> hex_decode c = Some (replicate 32 (CHR ''a''))"
proof -
  obtain s rest where s: "randomAlphaNumeric 3 (replicate 32 (CHR 0x00)) = Inr (s, rest)" using sample_random by blast
  have c: "randomCustomChallenge (replicate 32 (CHR ''a'')) = Inr (hex_encode (replicate 32 (CHR ''a'')), [])"
    by (simp add: randomCustomChallenge_def read_full_def)
  from random_strings_format [OF s c] s c show ?thesis by auto
qed

text \<open>
  C16. Encryption parameters are accepted exactly when the security version is the negotiated one,
  the vector is 32 hexadecimal characters and the random text 16 bytes; then they carry 16 bytes
  each, which is what the cipher needs.
\<close>

theorem encryption_parameters_exact:
  "((\<exists>p. ParseEncryptionParameters security iv random v = Inr p) \<longleftrightarrow>
      security = itoa v \<and> hex32 iv \<and> length random = 16) \<and>
   (case ParseEncryptionParameters security iv random v of
      Inl _ \<Rightarrow> True
    | Inr p \<Rightarrow> length (ep_IV p) = 16 \<and> length (ep_Random p) = 16 \<and> ep_SecurityVersion p = v)"
  using ParseEncryptionParameters_accepts [of security iv random v] ParseEncryptionParameters_IV [of security iv random v]
  by (auto split: sum.split)

section \<open>Envelopes\<close>

text \<open>
  C17. An accepted Event batch has at most 20 events; they are the items of the envelope in order,
  each identifier, format and payload verbatim; identifiers are well formed and distinct, payloads
  are base64, and every record carries the terminal's serial.
\<close>

theorem event_batch_verbatim:
  assumes "ParseEventBatch serial body = Inr parsed"
  shows "length parsed \<le> 20 \<and> distinct (map pv_UUID parsed) \<and> list_all (parsed_event_ok serial) parsed \<and>
    (\<exists>envelope items. decode_document (json_struct eventEnvelope_field)
         \<lparr> ee_EventNum = None, ee_EventList = None \<rparr> body = Some envelope \<and>
       ee_EventNum envelope = Some (int (length parsed)) \<and> ee_EventList envelope = Some items \<and>
       map (\<lambda>p. (pv_UUID p, pv_Format p, Some (ne_PayloadBase64 (pv_Record p)))) parsed =
       map (\<lambda>i. (ei_UUID i, ei_DataFormat i, ei_Data i)) items)"
  using assms
proof (rule ParseEventBatch_Inr)
  fix v envelope items seen
  assume e: "json_document body = Some v"
    "json_struct eventEnvelope_field v \<lparr> ee_EventNum = None, ee_EventList = None \<rparr> = Some envelope"
    "ee_EventNum envelope = Some (int (length items))" "ee_EventList envelope = Some items" "length items \<le> 20"
    and f: "foldE (parse_event_item serial) items ([], []) = Inr (seen, parsed)"
  note v = parse_event_items_verbatim [OF f]
  have "length parsed = length items" using arg_cong [OF v, of length] by simp
  moreover have "events_loop_inv serial (seen, parsed)"
    by (rule foldE_invariant [OF f, of "events_loop_inv serial"])
      (simp add: events_loop_inv_def, rule parse_event_item_inv)
  ultimately show ?thesis
    using e v by (auto simp: events_loop_inv_def list_all_iff decode_document_def)
qed

definition sample_event_body :: bytes where
  "sample_event_body =
     json_object [(''eventNum'', ''1''), (''eventList'', json_array [json_object
       [(''UUID'', json_quote ''E1''), (''dataFormat'', json_quote ''jsonData''), (''data'', json_quote ''e30='')]])]"

theorem event_batch_verbatim_witness:
  "\<exists>parsed. ParseEventBatch ''DS-1'' sample_event_body = Inr parsed \<and> length parsed \<le> 20 \<and> map pv_UUID parsed = [''E1'']"
proof -
  have "case ParseEventBatch ''DS-1'' sample_event_body of Inl _ \<Rightarrow> False | Inr ps \<Rightarrow> map pv_UUID ps = [''E1'']"
    by code_simp
  then obtain parsed where p: "ParseEventBatch ''DS-1'' sample_event_body = Inr parsed" "map pv_UUID parsed = [''E1'']"
    by (auto split: sum.splits)
  from event_batch_verbatim [OF p(1)] p show ?thesis by (intro exI [of _ parsed]) simp
qed

end
