(* ===== verification/ProtocolProperties.thy ===== *)
theory ProtocolProperties
  imports Protocol CoreProperties
begin

text \<open>
  The properties of the PushSDK protocol, with a sample gateway for the witnesses: one registered
  terminal, a session of it, an environment whose database fails at chosen interactions, and the
  runs of AuthInfo, Login, CommandRequest and Logout on them.
\<close>

section \<open>A sample gateway\<close>

definition sample_row :: terminal_row where
  "sample_row = \<lparr> tr_serial_number = ''DS-1'', tr_pushsdk_serial = ''P1'', tr_username = ''admin'',
     tr_credential_fingerprint = replicate 16 (CHR ''0''), tr_security_version = 4, tr_command_interval_seconds = 10,
     tr_error_delay_seconds = 30, tr_connection_status = ''online'', tr_last_seen_at = None, tr_last_error = None,
     tr_created_at = 0, tr_updated_at = 0 \<rparr>"

definition sample_db :: db where
  "sample_db = empty_db\<lparr>db_terminals := [sample_row]\<rparr>"

definition sample_library :: library where
  "sample_library = \<lparr> lib_read_mime_header = (\<lambda>_. None), lib_multipart = (\<lambda>_ _. ([], False)),
     lib_xml_time = (\<lambda>_. None), lib_jpeg_config = (\<lambda>_. None), lib_jpeg_decode = (\<lambda>_. False) \<rparr>"

text \<open>An environment whose database fails at the given interactions.\<close>

definition env_with_faults :: "(nat \<Rightarrow> bool) \<Rightarrow> service_env" where
  "env_with_faults fault = \<lparr> se_config = sample_config, se_pbkdf2 = sample_kdf, se_library = sample_library,
     se_host_clock = (\<lambda>_. 10 ^ 18), se_db_clock = (\<lambda>_. 10 ^ 18), se_db_fault = fault,
     se_rand = (\<lambda>_. replicate 128 (CHR 0x00)) \<rparr>"

definition sample_key :: string where
  "sample_key = replicate 64 (CHR ''0'')"

definition sample_session :: "bool \<Rightarrow> Session" where
  "sample_session auth = \<lparr> ss_Terminal = sample_terminal, ss_Salt = sample_key, ss_LoginChallenge = sample_key,
     ss_NextChallenge = (if auth then sample_key else []), ss_Iterations = 4096, ss_PayloadMode = ''plaintext'',
     ss_CreatedAt = 10 ^ 18, ss_NextChallengeAt = (if auth then 10 ^ 18 else zero_time),
     ss_Authenticated = auth, ss_Online = auth \<rparr>"

definition sample_metrics :: "int \<Rightarrow> metrics" where
  "sample_metrics active = \<lparr> mt_Requests = (\<lambda>_. 0), mt_EventsReceived = (\<lambda>_. 0), mt_EventsPersisted = 0,
     mt_EventsRejected = 0, mt_SessionsActive = active \<rparr>"

definition sample_world :: "bool \<Rightarrow> world" where
  "sample_world auth = \<lparr> w_db = sample_db, w_entries = [''P1'' \<mapsto> sample_session auth], w_hub = NewHub,
     w_metrics = sample_metrics (if auth then 1 else 0), w_tick = 0 \<rparr>"

definition sample_request :: "string \<Rightarrow> bytes \<Rightarrow> http_request" where
  "sample_request custom body = \<lparr> rq_Method = ''POST'', rq_Path = [], rq_RawQuery = [], rq_ContentType = ''application/json'',
     rq_CustomAuth = custom, rq_Body = body \<rparr>"

abbreviation calm :: service_env where "calm \<equiv> env_with_faults (\<lambda>_. False)"

lemma sample_push_serial: "PushSDKSerial sample_terminal = ''P1''" "SerialNumber sample_terminal = ''DS-1''"
  by (simp_all add: sample_terminal_def)


lemma claim_nothing:
  assumes "db_commands d = []" "1 \<le> limit" "limit \<le> 20"
  shows "ClaimISAPICommands now terminal limit d = Inr (([], []), d)"
  using assms by (simp add: ClaimISAPICommands_def expireOverdueISAPICommandsTx_def update_where_def selected_commands_def mark_sent_def)


lemma calm_simps [simp]:
  "se_db_fault (env_with_faults f) n = f n" "se_config (env_with_faults f) = sample_config"
  "se_host_clock (env_with_faults f) n = 10 ^ 18" "se_rand (env_with_faults f) n = replicate 128 (CHR 0x00)"
  "se_pbkdf2 (env_with_faults f) = sample_kdf" "se_library (env_with_faults f) = sample_library"
  by (simp_all add: env_with_faults_def)

lemma sample_known: "TerminalByPushSDKSerial sample_config ''P1'' = Some sample_terminal"
  by (simp add: TerminalByPushSDKSerial_def sample_config_def sample_push_serial)

lemma sample_session_ok: "session_ok sample_config ''P1'' (sample_session auth)"
proof -
  have "alphaNumeric64 sample_key" "lowerHex64 sample_key"
    by (simp_all add: alphaNumeric64_def lowerHex64_def matches_class_def sample_key_def list_all_iff char_class_defs)
  then show ?thesis
    by (simp add: session_ok_def sample_session_def sample_known PlaintextPayload_def keyDerivationIterations_def zero_time_def second_def)
qed

lemma sample_unissued: "\<not> ss_Authenticated (sample_session auth) \<Longrightarrow> unissued (sample_session auth)"
  by (simp add: sample_session_def unissued_def)

lemma sample_inv: "service_inv calm (sample_world auth)"
proof -
  have "online_serials [''P1'' \<mapsto> sample_session auth] = (if auth then {''P1''} else {})"
    by (auto simp: online_serials_def sample_session_def)
  then show ?thesis
    using sample_session_ok by (auto simp: service_inv_def sessions_ok_def live_def sample_world_def sample_metrics_def)
qed

text \<open>The checkpoint of a well-formed session of the sample terminal is accepted.\<close>

lemma persist_sample:
  assumes "\<not> f (w_tick w)" "session_ok sample_config ''P1'' s" "\<not> ss_Authenticated s \<Longrightarrow> unissued s"
    and "registered (w_db w) ''DS-1''"
  shows "\<exists>w'. persistSession (env_with_faults f) s w = (Inr (), w')"
proof -
  have "ss_Terminal s = sample_terminal" using assms(2) by (simp add: session_ok_def sample_known)
  with assms have "session_row_ok (w_db w) (PersistentState s)"
    by (intro PersistentState_row_ok) (auto simp: sample_push_serial)
  then have "\<exists>d. UpsertPushSDKSession now (PersistentState s) (w_db w) = Inr d" for now
    by (simp add: UpsertPushSDKSession_def Let_def)
  with assms(1) show ?thesis by (auto simp: persistSession_def run_exec_Inr)
qed

definition serials_sample :: "world \<Rightarrow> bool" where
  "serials_sample w \<longleftrightarrow> map tr_serial_number (db_terminals (w_db w)) = [''DS-1'']"

lemma serials_registered: "serials_sample w \<Longrightarrow> registered (w_db w) ''DS-1''"
  by (auto simp: serials_sample_def registered_def exists_row_def map_eq_Cons_conv)

lemma transition_sample:
  assumes "\<not> f (w_tick w)" "serials_sample w" "connection_status_ok status" "act_Terminal ev = ''DS-1''" "act_Kind ev \<noteq> []"
    "act_Message ev \<noteq> []" "kind_ok (act_Kind ev)" "pg_text (act_Message ev)" "list_all field_ok (act_Fields ev)"
  shows "\<exists>stored w'. transition (env_with_faults f) ''DS-1'' status ev w = (Inr stored, w') \<and> serials_sample w'"
proof -
  let ?d = "\<lambda>now. (w_db w)\<lparr>db_terminals := set_terminal_state now ''DS-1'' status None (db_terminals (w_db w))\<rparr>"
  have ser: "map tr_serial_number (set_terminal_state now ''DS-1'' status None (db_terminals (w_db w))) = [''DS-1'']" for now
    using assms(2) by (simp add: serials_set_terminal_state serials_sample_def)
  have reg: "registered (?d now) ''DS-1''" for now
    using ser [of now] by (auto simp: registered_def exists_row_def map_eq_Cons_conv)
  have "rows_affected (\<lambda>r. tr_serial_number r = ''DS-1'') (db_terminals (w_db w)) = 1"
    using assms(2) by (auto simp: serials_sample_def rows_affected_def map_eq_Cons_conv)
  with assms reg have tr: "\<exists>stored. TransitionTerminalState now ''DS-1'' status None ev (w_db w) =
      Inr (stored, (?d now)\<lparr>db_activities := db_activities (w_db w) @ [stored]\<rparr>)" for now
    unfolding Transition_Inr insertGatewayActivity_Inr by (simp add: activity_row_ok_def pg_null_def)
  obtain stored where "TransitionTerminalState (tx_now (tx_env_at (env_with_faults f) (w_tick w))) ''DS-1'' status None ev (w_db w) =
      Inr (stored, (?d (tx_now (tx_env_at (env_with_faults f) (w_tick w))))\<lparr>db_activities := db_activities (w_db w) @ [stored]\<rparr>)"
    using tr by blast
  with assms(1) have "transition (env_with_faults f) ''DS-1'' status ev w = (Inr stored, w\<lparr>w_tick := w_tick w + 1,
      w_db := (?d (tx_now (tx_env_at (env_with_faults f) (w_tick w))))\<lparr>db_activities := db_activities (w_db w) @ [stored]\<rparr>\<rparr>)"
    by (simp add: transition_def run_tx_Inr)
  moreover have "serials_sample (w\<lparr>w_tick := w_tick w + 1,
      w_db := (?d now)\<lparr>db_activities := db_activities (w_db w) @ [stored]\<rparr>\<rparr>)" for now
    using ser by (simp add: serials_sample_def)
  ultimately show ?thesis by blast
qed

lemma persist_serials: "persistSession E s w = (Inr (), w') \<Longrightarrow> serials_sample w \<Longrightarrow> serials_sample w'"
  using Upsert_Inr(3) by (fastforce simp: persistSession_def run_exec_Inr serials_sample_def)

lemma sample_serials: "serials_sample (sample_world auth)"
  by (simp add: serials_sample_def sample_world_def sample_db_def sample_row_def)

lemma sample_activities_ok:
  "kind_ok ''pushsdk.auth_info''" "kind_ok ''pushsdk.login''" "kind_ok ''pushsdk.logout''"
  "pg_text ''terminal started authentication''" "pg_text ''terminal authenticated''" "pg_text ''terminal logged out''"
  "list_all field_ok (session_fields ''plaintext'' sample_terminal)"
  by code_simp+

lemma sample_start:
  "\<exists>started entries. Start (replicate 128 (CHR 0x00)) now t mode e = Inr (started, entries)"
  by (simp add: Start_def randomAlphaNumeric_def random_fill.simps alphabet_chars_def random_limit_eq Let_def)

lemma sample_authInfo: "\<exists>r w'. authInfo calm sample_terminal [] (sample_world True) = (Inr r, w')"
proof -
  define w where "w = sample_world True"
  obtain started entries where st: "Start (replicate 128 (CHR 0x00)) (10 ^ 18) sample_terminal PlaintextPayload (w_entries w) = Inr (started, entries)"
    using sample_start by blast
  define w1 where "w1 = w\<lparr>w_tick := w_tick w + 1, w_entries := entries\<rparr>"
  have start: "startSession calm sample_terminal PlaintextPayload w = (Inr started, w1)"
    using st by (simp add: startSession_Inr w1_def)
  have "session_ok sample_config ''P1'' (st_Session started)"
    using Start_ok [OF st, of sample_config] by (simp add: sample_push_serial sample_known)
  moreover have "serials_sample w1" using sample_serials by (simp add: w1_def w_def serials_sample_def)
  ultimately obtain w2 where p: "persistSession calm (st_Session started) w1 = (Inr (), w2)" "serials_sample w2"
    using persist_sample [of "\<lambda>_. False" w1 "st_Session started"] Start_Inr(10) [OF st] serials_registered persist_serials by blast
  obtain stored w3 where t: "transition calm ''DS-1'' ''authenticating''
      (new_activity ''pushsdk.auth_info'' ''DS-1'' ''terminal started authentication'' (session_fields PlaintextPayload sample_terminal)) w2 = (Inr stored, w3)"
    using transition_sample [of "\<lambda>_. False" w2 "''authenticating''" "new_activity ''pushsdk.auth_info'' ''DS-1''
        ''terminal started authentication'' (session_fields PlaintextPayload sample_terminal)"] p(2) sample_activities_ok
    by (auto simp: connection_status_ok_def new_activity_def PlaintextPayload_def)
  from start p(1) t show ?thesis unfolding w_def [symmetric]
    by (simp add: authInfo_def payloadModeForAuthInfo_def svc_Inr sample_push_serial Let_def)
qed

definition sample_login_body :: bytes where
  "sample_login_body = json_object [(''data'', json_object [(''username'', json_quote ''admin''),
     (''loginPassword'', json_quote (hex_encode (replicate 64 (CHR ''k''))))])]"

lemma sample_login_decode: "decode_login sample_login_body =
    Some \<lparr> lr_Username = ''admin'', lr_LoginPassword = hex_encode (replicate 64 (CHR ''k'')) \<rparr>"
  by code_simp


lemma sample_login:
  "\<exists>r params w'. login calm sample_terminal (sample_request [] sample_login_body) sample_login_body (sample_world False) = (Inr (r, params), w')"
proof -
  define w0 s where "w0 = sample_world False" and "s = sample_session False"
  define w where "w = w0\<lparr>w_tick := w_tick w0 + 1\<rparr>"
  define c where "c = hex_encode (take 32 (se_rand calm (w_tick w)))"
  define i where "i = s\<lparr>ss_NextChallenge := c, ss_NextChallengeAt := se_host_clock calm (w_tick w)\<rparr>"
  define w1 where "w1 = w\<lparr>w_tick := w_tick w + 1, w_entries := (w_entries w)(''P1'' := Some i)\<rparr>"
  define w2 where "w2 = w1\<lparr>w_entries := (w_entries w1)(''P1'' := Some (i\<lparr>ss_Authenticated := True\<rparr>))\<rparr>"
  have s: "w_entries w0 ''P1'' = Some s" "\<not> ss_Authenticated s" "\<not> LoginChallengeExpired s (10 ^ 18)"
    "\<not> IsEncrypted (ss_PayloadMode s)" "ss_PayloadMode s = PlaintextPayload"
    by (simp_all add: w0_def s_def sample_world_def sample_session_def IsEncrypted_def EncryptedPayload_def
        LoginChallengeExpired_def sample_terminal_def second_def PlaintextPayload_def)
  have iss: "issueS calm ''P1'' s w = (Inr (c, i), w1)" by (simp add: svc_Inr c_def i_def w1_def)
  have "session_ok sample_config ''P1'' (i\<lparr>ss_Authenticated := True\<rparr>)"
    using sample_session_ok [of False]
    by (simp add: session_ok_def i_def s_def c_def lowerHex64_def matches_class_def zero_time_def second_def)
  moreover have "serials_sample w2" using sample_serials [of False] by (simp add: w2_def w1_def w_def w0_def serials_sample_def)
  ultimately obtain w3 where p: "persistSession calm (i\<lparr>ss_Authenticated := True\<rparr>) w2 = (Inr (), w3)" "serials_sample w3"
    using persist_sample [of "\<lambda>_. False" w2 "i\<lparr>ss_Authenticated := True\<rparr>"] serials_registered persist_serials by auto
  obtain stored w4 where t: "transition calm ''DS-1'' ''online''
      (new_activity ''pushsdk.login'' ''DS-1'' ''terminal authenticated'' (session_fields PlaintextPayload sample_terminal)) w3 = (Inr stored, w4)"
    using transition_sample [of "\<lambda>_. False" w3 "''online''" "new_activity ''pushsdk.login'' ''DS-1''
        ''terminal authenticated'' (session_fields PlaintextPayload sample_terminal)"] p(2) sample_activities_ok
    by (auto simp: connection_status_ok_def new_activity_def PlaintextPayload_def)
  have "sample_login_body \<noteq> []" "requireContentType (sample_request [] b) ''application/json'' = Inr ()" for b
    by code_simp (simp add: requireContentType_def sample_request_def, code_simp)
  then have pay: "payloadForSession sample_kdf (sample_request [] sample_login_body) sample_terminal s ''Login'' sample_login_body True = Inr (sample_login_body, None)"
    using s(4) by (simp add: payloadForSession_def sample_request_def)
  have cred: "credentials_ok sample_kdf sample_terminal s \<lparr> lr_Username = ''admin'', lr_LoginPassword = hex_encode (replicate 64 (CHR ''k'')) \<rparr>"
    by (simp add: credentials_ok_def expectedLoginPassword_def sample_terminal_def loginPasswordHash_def sample_kdf_def constantTimeEqual_def)
  have "login_commit calm sample_terminal s None w = (Inr (\<lparr> rp_Body = login_body sample_terminal, rp_Challenge = c,
      rp_session = Some (i\<lparr>ss_Authenticated := True, ss_Online := True\<rparr>) \<rparr>, None),
      snd (login_commit calm sample_terminal s None w))"
    using iss p(1) t s(5)
    by (simp add: login_commit_def login_accept_def bindS_def [of "issueS _ _ _"] sample_push_serial Let_def)
      (simp add: bindS_def put_entry_def modifyS_def on_errorS_def sessions_active_def publishS_def returnS_def w2_def)
  then have "\<exists>r params w'. login_commit calm sample_terminal s None w = (Inr (r, params), w')" by blast
  with s pay cred show ?thesis unfolding w0_def [symmetric]
    by (simp add: login_def Get_def sample_push_serial bindS_def tickS_def liftS_def sample_login_decode w_def)
qed


lemma inv_faults: "service_inv calm w \<Longrightarrow> service_inv (env_with_faults f) w"
  by (simp add: service_inv_def)

lemma resume_sample:
  assumes "w_entries w ''P1'' = Some s" "serials_sample w" "db_commands (w_db w) = []"
  shows "\<exists>w'. resume calm sample_terminal s w = (Inr (s\<lparr>ss_Online := True\<rparr>), w') \<and> serials_sample w' \<and> db_commands (w_db w') = []"
proof (cases "ss_Online s")
  case True
  with assms show ?thesis by (simp add: resume_def returnS_def)
next
  case False
  let ?ev = "new_activity ''pushsdk.session_resumed'' ''DS-1'' ''terminal resumed its authenticated PushSDK session'' []"
  have "kind_ok ''pushsdk.session_resumed''" "pg_text ''terminal resumed its authenticated PushSDK session''" by code_simp+
  then obtain stored w' where t: "transition calm ''DS-1'' ''online'' ?ev w = (Inr stored, w')" "serials_sample w'"
    using transition_sample [of "\<lambda>_. False" w "''online''" ?ev] assms(2) by (auto simp: connection_status_ok_def new_activity_def)
  then have "db_commands (w_db w') = []"
    using assms(3) Transition_frame by (fastforce simp: transition_def run_tx_Inr)
  with t False show ?thesis
    by (simp add: resume_def bindS_def sample_push_serial Let_def put_entry_def modifyS_def sessions_active_def publishS_def
        returnS_def serials_sample_def)
qed

lemma exchange_sample:
  assumes "w_entries w ''P1'' = Some s" "session_ok sample_config ''P1'' s" "ss_Authenticated s"
    and "ss_PayloadMode s = PlaintextPayload" "serials_sample w" "db_commands (w_db w) = []"
  shows "\<exists>r params w' s'. handle calm sample_terminal ''CommandRequest''
     (sample_request (expectedCustomAuth sample_terminal (ss_Salt s) (ss_NextChallenge s)) []) w = (Inr (r, params), w') \<and>
     rp_session r = Some s' \<and> ss_Salt s' = ss_Salt s \<and> ss_PayloadMode s' = PlaintextPayload"
proof -
  obtain w0 where res: "resume calm sample_terminal s w = (Inr (s\<lparr>ss_Online := True\<rparr>), w0)" and
    w0: "serials_sample w0" "db_commands (w_db w0) = []" using resume_sample [OF assms(1,5,6)] by blast
  define w1 where "w1 = w0\<lparr>w_tick := w_tick w0 + 1\<rparr>"
  define c where "c = hex_encode (take 32 (se_rand calm (w_tick w1)))"
  define i where "i = s\<lparr>ss_Online := True, ss_NextChallenge := c, ss_NextChallengeAt := se_host_clock calm (w_tick w1)\<rparr>"
  define w2 where "w2 = w1\<lparr>w_tick := w_tick w1 + 1, w_entries := (w_entries w1)(''P1'' := Some i)\<rparr>"
  have cmd: "command_request calm sample_terminal [] w0 = (Inr (plain_response (command_request_body [])), w1)"
    by (simp add: command_request_def svc_Inr sample_push_serial claim_nothing w0 w1_def)
  have iss: "issueS calm ''P1'' (s\<lparr>ss_Online := True\<rparr>) w1 = (Inr (c, i), w2)" by (simp add: svc_Inr c_def i_def w2_def)
  have "session_ok sample_config ''P1'' i" "ss_Authenticated i"
    using assms(2,3) by (simp_all add: i_def c_def session_ok_def lowerHex64_def matches_class_def zero_time_def second_def)
  moreover have "registered (w_db w2) ''DS-1''" using serials_registered [OF w0(1)] by (simp add: w2_def w1_def)
  ultimately obtain w3 where "persistSession calm i w2 = (Inr (), w3)" using persist_sample [of "\<lambda>_. False" w2 i] by auto
  moreover have "\<not> IsEncrypted (ss_PayloadMode s)" using assms(4) by (simp add: IsEncrypted_def EncryptedPayload_def PlaintextPayload_def)
  moreover have "ss_Salt i = ss_Salt s" "ss_PayloadMode i = PlaintextPayload" using assms(4) by (simp_all add: i_def)
  ultimately show ?thesis using assms(1,3) res cmd iss
    by (simp add: handle_session action_requires_proof_def sample_request_def sample_push_serial exchange_def bindS_def liftS_def
        payloadForSession_def perform_def finish_exchange_def on_errorS_def returnS_def Let_def)
qed

lemma sample_auth: "w_entries (sample_world True) ''P1'' = Some (sample_session True)" "ss_Authenticated (sample_session True)"
  "ss_Online (sample_session True)" "ss_Salt (sample_session True) = sample_key" "ss_NextChallenge (sample_session True) = sample_key"
  "ss_PayloadMode (sample_session True) = PlaintextPayload" "db_commands (w_db (sample_world True)) = []"
  by (simp_all add: sample_world_def sample_session_def PlaintextPayload_def sample_db_def empty_db_def)

lemma sample_exchange: "\<exists>r params w' s'. handle calm sample_terminal ''CommandRequest''
     (sample_request (expectedCustomAuth sample_terminal sample_key sample_key) []) (sample_world True) = (Inr (r, params), w') \<and>
     rp_session r = Some s' \<and> ss_Salt s' = sample_key \<and> ss_PayloadMode s' = PlaintextPayload"
  using exchange_sample [OF sample_auth(1) sample_session_ok sample_auth(2,6) sample_serials sample_auth(7)] by (simp add: sample_auth)

text \<open>A gateway that restarts on a database with one checkpoint.\<close>

definition restart_world :: "PushSDKSession \<Rightarrow> world" where
  "restart_world stored = (sample_world False)\<lparr>w_db := sample_db\<lparr>db_sessions := [stored]\<rparr>, w_entries := NewSessions\<rparr>"

lemma restart_checkpoint:
  "ps_TerminalSerialNumber stored = ''DS-1'' \<Longrightarrow> checkpoint (w_db (restart_world stored)) ''DS-1'' = Some stored"
  "unique_key ps_TerminalSerialNumber (db_sessions (w_db (restart_world stored)))"
  by (simp_all add: restart_world_def checkpoint_def select_row_def unique_key_def)

lemma sample_row_decision:
  assumes "checkpoint d ''DS-1'' = Some stored"
  shows "ps_TerminalSerialNumber stored = ''DS-1''"
  using assms by (auto simp: checkpoint_def dest: select_row_Some)

lemma restart_accepts:
  assumes "RestoreSessions calm (restart_world stored) = (Inr (), w3)" "ps_NextChallengeAt stored \<noteq> Some zero_time"
    and "w_entries w3 ''P1'' = Some r" "ss_Authenticated r" "ss_PayloadMode r = PlaintextPayload"
  shows "\<exists>x params w4. handle calm sample_terminal ''CommandRequest''
    (sample_request (expectedCustomAuth sample_terminal (ss_Salt r) (ss_NextChallenge r)) []) w3 = (Inr (x, params), w4)"
proof -
  have "w_db w3 = (w_db (restart_world stored))\<lparr>db_sessions := db_sessions (w_db w3)\<rparr>"
    using assms(1)
    by (auto simp: RestoreSessions_def svc_Inr restart_world_def PushSDKSessions_def restore_one_def deleteCheckpoint_def
        run_exec_Inr DeletePushSDKSession_def split: option.splits)
  then have d: "db_terminals (w_db w3) = [sample_row]" "db_commands (w_db w3) = []"
    by (cases "w_db w3"; simp add: restart_world_def sample_db_def empty_db_def)+
  have "service_inv calm w3"
    using inv_RestoreSessions [OF _ _ _ assms(1)] assms(2) sample_config_valid
    by (simp add: Validate_accepts restart_world_def stored_times_ok_def)
  then have "session_ok sample_config ''P1'' r" using assms(3) by (simp add: service_inv_def sessions_ok_def live_def)
  then show ?thesis using exchange_sample [OF assms(3) _ assms(4,5)] d by (fastforce simp: serials_sample_def sample_row_def)
qed

lemma sample_logout:
  "\<exists>r params w'. authenticated calm sample_terminal ''Logout''
     (sample_request (expectedCustomAuth sample_terminal sample_key sample_key) []) [] (sample_world True) = (Inr (r, params), w')"
proof -
  define w s where "w = sample_world True" and "s = sample_session True"
  have s: "w_entries w ''P1'' = Some s" "ss_Authenticated s" "ss_Salt s = sample_key" "ss_NextChallenge s = sample_key" "ss_Online s"
    "\<not> IsEncrypted (ss_PayloadMode s)"
    by (simp_all add: w_def s_def sample_world_def sample_session_def IsEncrypted_def EncryptedPayload_def)
  obtain stored w1 where t: "transition calm ''DS-1'' ''offline''
      (new_activity ''pushsdk.logout'' ''DS-1'' ''terminal logged out'' []) w = (Inr stored, w1)"
    using transition_sample [of "\<lambda>_. False" w "''offline''" "new_activity ''pushsdk.logout'' ''DS-1'' ''terminal logged out'' []"]
      sample_serials [of True] sample_activities_ok
    by (auto simp: connection_status_ok_def new_activity_def w_def)
  show ?thesis unfolding w_def [symmetric]
    using s t
    by (simp add: authenticated_def Get_def sample_push_serial sample_request_def constantTimeEqual_def exchange_def
        bindS_def resume_def returnS_def liftS_def payloadForSession_def perform_def logout_def put_entry_def modifyS_def
        sessions_active_def publishS_def finish_exchange_def issueS_def tickS_def IssueNextChallenge_def
        randomCustomChallenge_def read_full_def removeSession_def deleteCheckpoint_def run_exec_def run_tx_cases Let_def)
qed

section \<open>Every reachable state\<close>

lemma calm_clock: "clock_ok (env_with_faults f)"
  by (simp add: clock_ok_def)

text \<open>
  C1. In every state a validated gateway reaches, through any requests, sweeps, database changes
  of the other components and database failures: every session in memory belongs to the configured
  terminal of its serial, has key material of the protocol's format, is online only if
  authenticated and, if authenticated, holds a challenge; and the gauge of active sessions is
  never less than the number of sessions online.
\<close>

theorem session_invariant:
  assumes "Validate (se_config E) = Inr ()" "clock_ok E" "reachable E w"
  shows "(\<forall>serial s. w_entries w serial = Some s \<longrightarrow> session_ok (se_config E) serial s) \<and>
    int (card (online_serials (w_entries w))) \<le> mt_SessionsActive (w_metrics w)"
  using reachable_inv [OF assms(3)] assms(1,2)
  by (simp add: Validate_accepts service_inv_def sessions_ok_def live_def)

theorem session_invariant_witness:
  "\<exists>w s. reachable calm w \<and> w_entries w ''P1'' = Some s \<and> ss_Authenticated s \<and> session_ok sample_config ''P1'' s \<and>
     int (card (online_serials (w_entries w))) \<le> mt_SessionsActive (w_metrics w)"
proof -
  define row where "row = stored_session (PersistentState (sample_session True))"
  have t: "sample_terminal \<in> set (Terminals (se_config calm))" "config_ok (se_config calm)"
    using sample_config_valid by (simp_all add: sample_config_def Validate_accepts)
  have row: "ps_TerminalSerialNumber row = ''DS-1''" "ps_NextChallengeAt row \<noteq> Some zero_time"
    by (simp_all add: row_def stored_session_def PersistentState_def sample_session_def sample_push_serial pg_timestamp_def
        zero_time_def second_def)
  obtain w where w: "RestoreSessions calm (restart_world row) = (Inr (), w)"
    using RestoreSessions_succeeds [of calm "restart_world row"] by auto
  have r: "reachable calm w"
    using row(2) by (intro reachable.boot [OF _ _ w]) (simp_all add: restart_world_def stored_times_ok_def)
  have "w_entries w ''P1'' = Some (offline_copy (sample_session True))"
    using RestoreSessions_session [OF t(2,1) _ sample_auth(2) _ restart_checkpoint(2) w] sample_session_ok [of True]
      restart_checkpoint(1) [OF row(1)] by (simp add: sample_push_serial row_def)
  moreover have "ss_Authenticated (offline_copy (sample_session True))" by (simp add: offline_copy_def sample_auth)
  moreover note session_invariant [of calm w] r calm_clock sample_config_valid
  ultimately show ?thesis by fastforce
qed

section \<open>Exchanges\<close>

lemma handle_authenticated:
  "action_requires_proof action \<Longrightarrow> handle E t action rq w = authenticated E t action rq (rq_Body rq) w"
  by (auto simp: handle_def action_requires_proof_def)

lemma inv_terminal:
  "service_inv E w \<Longrightarrow> known E t \<Longrightarrow> w_entries w (PushSDKSerial t) = Some s \<Longrightarrow> ss_Terminal s = t"
  using session_ok_terminal [of "se_config E" "PushSDKSerial t" s t] by (simp add: service_inv_def sessions_ok_def live_def)

text \<open>
  C2. An accepted CommandRequest, CommandResult or Event proves the password against the
  session's current challenge; it leaves the session online with a fresh challenge made of 32
  random bytes, answers with that challenge, and the database holds exactly this session; no other
  terminal's session changes.
\<close>

theorem exchange_durable:
  assumes "handle E t action rq w = (Inr (response, params), w')" "action_requires_proof action" "action \<noteq> ''Logout''"
    and "service_inv E w" "TerminalByPushSDKSerial (se_config E) (PushSDKSerial t) = Some t"
  shows "\<exists>s s'. w_entries w (PushSDKSerial t) = Some s \<and> ss_Authenticated s \<and>
     rq_CustomAuth rq = expectedCustomAuth t (ss_Salt s) (ss_NextChallenge s) \<and>
     w_entries w' (PushSDKSerial t) = Some s' \<and> ss_Authenticated s' \<and> ss_Online s' \<and>
     ss_Salt s' = ss_Salt s \<and> rp_session response = Some s' \<and> rp_Challenge response = ss_NextChallenge s' \<and>
     (\<exists>n. ss_NextChallenge s' = hex_encode (take 32 (se_rand E n)) \<and> 32 \<le> length (se_rand E n) \<and>
          ss_NextChallengeAt s' = se_host_clock E n) \<and>
     checkpoint (w_db w') (SerialNumber t) = Some (stored_session (PersistentState s')) \<and>
     (\<forall>serial. serial \<noteq> PushSDKSerial t \<longrightarrow> w_entries w' serial = w_entries w serial)"
  using assms inv_terminal [OF assms(4,5)]
  by (intro authenticated_success [of E t action rq "rq_Body rq" w response params w']) (simp_all add: handle_authenticated)

theorem exchange_durable_witness:
  "\<exists>r params w' s'. handle calm sample_terminal ''CommandRequest''
     (sample_request (expectedCustomAuth sample_terminal sample_key sample_key) []) (sample_world True) = (Inr (r, params), w') \<and>
     w_entries w' ''P1'' = Some s' \<and> rp_Challenge r = ss_NextChallenge s' \<and>
     checkpoint (w_db w') ''DS-1'' = Some (stored_session (PersistentState s'))"
proof -
  obtain r params w' where h: "handle calm sample_terminal ''CommandRequest''
     (sample_request (expectedCustomAuth sample_terminal sample_key sample_key) []) (sample_world True) = (Inr (r, params), w')"
    using sample_exchange by blast
  from exchange_durable [OF h] sample_inv h show ?thesis
    by (simp add: action_requires_proof_def sample_push_serial sample_known) blast
qed

text \<open>
  C3. Restart: after an accepted exchange, let a new process with the same configuration find the
  terminal's checkpoint as the exchange left it (other rows of the database may have changed).
  Unless the database fails its sessions are restored; then the process holds, under the terminal's
  PushSDK serial, a session of this terminal, offline and authenticated, with the salt, iterations
  and payload mode of the exchange and the challenge the terminal was answered, and it performs a
  CommandRequest, CommandResult, Event or Logout exactly when the request proves this challenge.
\<close>

theorem restart_continues:
  assumes "handle E t action rq w = (Inr (response, params), w')" "action_requires_proof action" "action \<noteq> ''Logout''"
    and "service_inv E w" "Validate (se_config E) = Inr ()" "t \<in> set (Terminals (se_config E))" "clock_ok E"
    and "se_config E2 = se_config E" "checkpoint (w_db w2) (SerialNumber t) = checkpoint (w_db w') (SerialNumber t)"
    and "unique_key ps_TerminalSerialNumber (db_sessions (w_db w2))"
  shows "((\<forall>n. \<not> se_db_fault E2 n) \<longrightarrow> (\<exists>w3. RestoreSessions E2 w2 = (Inr (), w3))) \<and>
    (\<forall>w3. RestoreSessions E2 w2 = (Inr (), w3) \<longrightarrow>
      (\<exists>r. w_entries w3 (PushSDKSerial t) = Some r \<and> ss_Terminal r = t \<and> ss_Authenticated r \<and> \<not> ss_Online r \<and>
         ss_NextChallenge r = rp_Challenge response \<and> map_option (\<lambda>s. (ss_Salt s, ss_Iterations s, ss_PayloadMode s)) (rp_session response) =
           Some (ss_Salt r, ss_Iterations r, ss_PayloadMode r) \<and>
         (\<forall>action2 rq2. action_requires_proof action2 \<longrightarrow> handle E2 t action2 rq2 w3 =
            (if rq_CustomAuth rq2 = expectedCustomAuth t (ss_Salt r) (rp_Challenge response)
             then exchange E2 t action2 rq2 (rq_Body rq2) r w3
             else (Inl (invalidSession ''custom_auth_mismatch''), w3)))))"
proof -
  have cfg: "config_ok (se_config E)" using assms(5) by (simp add: Validate_accepts)
  have t: "known E t" using terminal_by_push_serial [OF cfg] assms(6) by simp
  obtain s s' where s: "w_entries w' (PushSDKSerial t) = Some s'" "ss_Authenticated s'" "rp_session response = Some s'"
    "rp_Challenge response = ss_NextChallenge s'"
    "checkpoint (w_db w') (SerialNumber t) = Some (stored_session (PersistentState s'))"
    using authenticated_success [of E t action rq "rq_Body rq" w response params w'] assms inv_terminal [OF assms(4) t]
    by (auto simp: handle_authenticated)
  have "service_inv E w'" using inv_handle [OF assms(7) t assms(4), of action rq] assms(1) by simp
  then have ok: "session_ok (se_config E) (PushSDKSerial t) s'" using s(1) by (simp add: service_inv_def sessions_ok_def live_def)
  have r: "w_entries w3 (PushSDKSerial t) = Some (offline_copy s')" if "RestoreSessions E2 w2 = (Inr (), w3)" for w3
    using RestoreSessions_session [of E2 t s' w2 w3] cfg assms(6,8,9,10) ok s that by simp
  have "ss_Terminal s' = t" using ok t by (simp add: session_ok_def)
  then have c: "ss_Terminal (offline_copy s') = t" "ss_Authenticated (offline_copy s')" "\<not> ss_Online (offline_copy s')"
    "ss_NextChallenge (offline_copy s') = rp_Challenge response" "ss_Salt (offline_copy s') = ss_Salt s'"
    "ss_Iterations (offline_copy s') = ss_Iterations s'" "ss_PayloadMode (offline_copy s') = ss_PayloadMode s'"
    using s by (simp_all add: offline_copy_def)
  show ?thesis
    using RestoreSessions_succeeds [of E2 w2] r c s(3) handle_session [OF _ r c(2)] by auto
qed

theorem restart_continues_witness:
  "\<exists>r params w' w3 r2 params2 w4. handle calm sample_terminal ''CommandRequest''
     (sample_request (expectedCustomAuth sample_terminal sample_key sample_key) []) (sample_world True) = (Inr (r, params), w') \<and>
     RestoreSessions calm (restart_world (the (checkpoint (w_db w') ''DS-1''))) = (Inr (), w3) \<and>
     handle calm sample_terminal ''CommandRequest''
       (sample_request (expectedCustomAuth sample_terminal sample_key (rp_Challenge r)) []) w3 = (Inr (r2, params2), w4)"
proof -
  obtain r params w' where h: "handle calm sample_terminal ''CommandRequest''
     (sample_request (expectedCustomAuth sample_terminal sample_key sample_key) []) (sample_world True) = (Inr (r, params), w')" and
    plain: "\<exists>s'. rp_session r = Some s' \<and> ss_Salt s' = sample_key \<and> ss_PayloadMode s' = PlaintextPayload"
    using sample_exchange by blast
  have t: "sample_terminal \<in> set (Terminals sample_config)" by (simp add: sample_config_def)
  have known: "known calm sample_terminal" by (simp add: sample_push_serial sample_known)
  have "authenticated calm sample_terminal ''CommandRequest'' (sample_request (expectedCustomAuth sample_terminal sample_key sample_key) [])
      [] (sample_world True) = (Inr (r, params), w')"
    using h by (simp add: handle_authenticated action_requires_proof_def sample_request_def)
  from authenticated_success [OF this _ inv_terminal [OF sample_inv [of True] known]]
  obtain s' where s': "checkpoint (w_db w') ''DS-1'' = Some (stored_session (PersistentState s'))" "ss_NextChallengeAt s' = 10 ^ 18"
    by (auto simp: sample_push_serial)
  define stored where "stored = stored_session (PersistentState s')"
  have "ps_NextChallengeAt stored = Some (10 ^ 18)" using s'(2)
    by (simp add: stored_def stored_session_def PersistentState_def pg_timestamp_def zero_time_def second_def)
  then have nz: "ps_NextChallengeAt stored \<noteq> Some zero_time" by (simp add: zero_time_def second_def)
  have row: "ps_TerminalSerialNumber stored = ''DS-1''" using s'(1) by (auto simp: stored_def intro: sample_row_decision)
  have cp: "checkpoint (w_db (restart_world stored)) (SerialNumber sample_terminal) = checkpoint (w_db w') (SerialNumber sample_terminal)"
    using s'(1) restart_checkpoint(1) [OF row] by (simp add: sample_push_serial stored_def)
  obtain w3 where w3: "RestoreSessions calm (restart_world stored) = (Inr (), w3)"
    using RestoreSessions_succeeds [of calm "restart_world stored"] by auto
  have v: "Validate (se_config calm) = Inr ()" "sample_terminal \<in> set (Terminals (se_config calm))" using sample_config_valid t by simp_all
  have "action_requires_proof ''CommandRequest''" "''CommandRequest'' \<noteq> ''Logout''" by (simp_all add: action_requires_proof_def)
  from restart_continues [OF h this sample_inv v calm_clock refl cp restart_checkpoint(2)] w3 obtain x where
    x: "w_entries w3 ''P1'' = Some x" "ss_Authenticated x" "ss_NextChallenge x = rp_Challenge r"
      "ss_Salt x = sample_key" "ss_PayloadMode x = PlaintextPayload"
    using plain by (auto simp: sample_push_serial)
  from restart_accepts [OF w3 nz x(1,2,5)] x(3,4) h w3 s'(1) show ?thesis by (fastforce simp: stored_def)
qed

text \<open>
  C4. Without a proof of the current challenge (no session, a login not completed, or a wrong
  My-Custom-Auth value) an authenticated request is answered 401 with the invalid-session code, no
  session and not the gauge changes, and the database at most gains the rejection's activity.
\<close>

theorem no_proof_no_effect:
  assumes "action_requires_proof action" "\<not> proof_ok t rq w"
  shows "fst (serve_terminal E t action rq w) = respondErrorWithCode 401 invalidSessionCode invalidSessionMessage \<and>
    w_entries (snd (serve_terminal E t action rq w)) = w_entries w \<and>
    mt_SessionsActive (w_metrics (snd (serve_terminal E t action rq w))) = mt_SessionsActive (w_metrics w) \<and>
    (\<exists>acts. w_db (snd (serve_terminal E t action rq w)) = (w_db w)\<lparr>db_activities := db_activities (w_db w) @ acts\<rparr> \<and>
       length acts \<le> 1)"
  using serve_refuses [OF assms, of E] by (simp add: live_def)

theorem no_proof_no_effect_witness:
  "fst (serve_terminal calm sample_terminal ''Event'' (sample_request [] []) (sample_world False)) =
     respondErrorWithCode 401 invalidSessionCode invalidSessionMessage \<and>
   w_entries (snd (serve_terminal calm sample_terminal ''Event'' (sample_request [] []) (sample_world False))) = w_entries (sample_world False)"
  using no_proof_no_effect [of "''Event''" sample_terminal "sample_request [] []" "sample_world False" calm]
  by (simp add: action_requires_proof_def proof_ok_def sample_world_def sample_session_def sample_push_serial)

text \<open>
  C5. An exchange other than Logout that fails anywhere, in the terminal's request or in the
  database, does not cost the terminal its proof: the same My-Custom-Auth value is still accepted.
\<close>

theorem failed_exchange_retry:
  assumes "handle E t action rq w = (Inl e, w')" "action_requires_proof action" "action \<noteq> ''Logout''"
    and "service_inv E w" "clock_ok E" "proof_ok t rq w"
  shows "proof_ok t rq w'"
  using exchange_failed [of E w t action "rq" "rq_Body rq" e w'] assms by (simp add: handle_authenticated)

theorem failed_exchange_retry_witness:
  "\<exists>e w'. handle (env_with_faults (\<lambda>_. True)) sample_terminal ''CommandRequest''
     (sample_request (expectedCustomAuth sample_terminal sample_key sample_key) []) (sample_world True) = (Inl e, w') \<and>
     proof_ok sample_terminal (sample_request (expectedCustomAuth sample_terminal sample_key sample_key) []) w'"
proof -
  let ?E = "env_with_faults (\<lambda>_. True)"
  let ?rq = "sample_request (expectedCustomAuth sample_terminal sample_key sample_key) []"
  have "\<exists>w'. handle ?E sample_terminal ''CommandRequest'' ?rq (sample_world True) = (Inl ErrDatabase, w')"
    by (simp add: handle_authenticated action_requires_proof_def authenticated_def Get_def sample_world_def sample_push_serial
        sample_session_def sample_request_def constantTimeEqual_def exchange_def bindS_def resume_def returnS_def liftS_def
        payloadForSession_def IsEncrypted_def EncryptedPayload_def perform_def command_request_def run_tx_cases)
  then obtain w' where h: "handle ?E sample_terminal ''CommandRequest'' ?rq (sample_world True) = (Inl ErrDatabase, w')" by blast
  have "service_inv ?E (sample_world True)" using sample_inv [of True] by (simp add: service_inv_def)
  moreover have "proof_ok sample_terminal ?rq (sample_world True)"
    by (simp add: proof_ok_def sample_world_def sample_session_def sample_request_def sample_push_serial)
  ultimately have "proof_ok sample_terminal ?rq w'"
    using failed_exchange_retry [OF h] calm_clock by (simp add: action_requires_proof_def)
  with h show ?thesis by blast
qed


section \<open>The handshake\<close>

text \<open>
  C6. An accepted AuthInfo replaces the terminal's session by a fresh one that is not
  authenticated, with a 64-character salt and challenge and the negotiated payload mode; the
  answer carries exactly these, the database holds this session and shows the terminal as
  authenticating.
\<close>

theorem auth_info_effect:
  assumes "authInfo E t body w = (Inr response, w')"
  shows "\<exists>s mode n. payloadModeForAuthInfo t body = Inr mode \<and>
     w_entries w' = (w_entries w)(PushSDKSerial t := Some s) \<and> ss_Terminal s = t \<and> ss_PayloadMode s = mode \<and>
     \<not> ss_Authenticated s \<and> \<not> ss_Online s \<and> unissued s \<and> ss_CreatedAt s = se_host_clock E n \<and>
     alphaNumeric64 (ss_Salt s) \<and> alphaNumeric64 (ss_LoginChallenge s) \<and>
     rp_Body response = auth_info_body t s mode \<and> rp_Challenge response = [] \<and>
     checkpoint (w_db w') (SerialNumber t) = Some (stored_session (PersistentState s)) \<and>
     terminal_status (w_db w') (SerialNumber t) = Some ''authenticating''"
  by (rule authInfo_success [OF assms])

theorem auth_info_effect_witness:
  "\<exists>r w' s. authInfo calm sample_terminal [] (sample_world True) = (Inr r, w') \<and> w_entries w' ''P1'' = Some s \<and>
     \<not> ss_Authenticated s \<and> terminal_status (w_db w') ''DS-1'' = Some ''authenticating''"
proof -
  obtain r w' where h: "authInfo calm sample_terminal [] (sample_world True) = (Inr r, w')" using sample_authInfo by blast
  from auth_info_effect [OF h] h show ?thesis by (auto simp: sample_push_serial)
qed

lemma credentials_ok_iff:
  "credentials_ok pbkdf2 t s payload \<longleftrightarrow> lr_Username payload = Username t \<and>
     expectedLoginPassword pbkdf2 t (ss_Salt s) (ss_LoginChallenge s) (ss_Iterations s) = Some (lr_LoginPassword payload)"
  by (auto simp: credentials_ok_def constantTimeEqual_def split: option.splits)

text \<open>
  C7. A Login is accepted only for a session whose login is not complete and whose challenge has
  not expired, with the terminal's username and the password proof for that session's salt and
  challenge; then the session in memory is authenticated and online, the database holds it and
  shows the terminal online, and a second Login, whatever it sends, is refused and changes nothing.
\<close>

theorem login_effect:
  assumes "login E t rq b w = (Inr (response, params), w')"
    and "service_inv E w" "TerminalByPushSDKSerial (se_config E) (PushSDKSerial t) = Some t"
  shows "(\<exists>s s' body payload. w_entries w (PushSDKSerial t) = Some s \<and> \<not> ss_Authenticated s \<and>
     \<not> LoginChallengeExpired s (se_host_clock E (w_tick w)) \<and>
     payloadForSession (se_pbkdf2 E) rq t s ''Login'' b True = Inr (body, params) \<and>
     decode_login body = Some payload \<and> lr_Username payload = Username t \<and>
     expectedLoginPassword (se_pbkdf2 E) t (ss_Salt s) (ss_LoginChallenge s) (ss_Iterations s) = Some (lr_LoginPassword payload) \<and>
     w_entries w' = (w_entries w)(PushSDKSerial t := Some s') \<and>
     s' = s\<lparr>ss_NextChallenge := rp_Challenge response, ss_NextChallengeAt := ss_NextChallengeAt s',
            ss_Authenticated := True, ss_Online := True\<rparr> \<and>
     lowerHex64 (rp_Challenge response) \<and> rp_session response = Some s' \<and>
     checkpoint (w_db w') (SerialNumber t) = Some (stored_session (PersistentState s')) \<and>
     terminal_status (w_db w') (SerialNumber t) = Some ''online'') \<and>
    login E t rq' b' w' = (Inl (invalidSession ''login_already_completed''), w')"
proof -
  note l = login_success [OF assms(1) inv_terminal [OF assms(2,3)], unfolded credentials_ok_iff]
  then obtain s s' where e: "w_entries w' = (w_entries w)(PushSDKSerial t := Some s')"
    "s' = s\<lparr>ss_NextChallenge := rp_Challenge response, ss_NextChallengeAt := ss_NextChallengeAt s',
            ss_Authenticated := True, ss_Online := True\<rparr>" by blast
  have "ss_Authenticated s'" using arg_cong [OF e(2), of ss_Authenticated] by simp
  with e(1) have "login E t rq' b' w' = (Inl (invalidSession ''login_already_completed''), w')"
    by (simp add: login_def Get_def failS_def)
  with l show ?thesis by blast
qed

theorem login_effect_witness:
  "\<exists>r params w'. login calm sample_terminal (sample_request [] sample_login_body) sample_login_body (sample_world False) = (Inr (r, params), w') \<and>
     terminal_status (w_db w') ''DS-1'' = Some ''online'' \<and>
     login calm sample_terminal (sample_request [] sample_login_body) sample_login_body w' = (Inl (invalidSession ''login_already_completed''), w')"
proof -
  obtain r params w' where h: "login calm sample_terminal (sample_request [] sample_login_body) sample_login_body (sample_world False) = (Inr (r, params), w')"
    using sample_login by blast
  have "service_inv calm (sample_world False)" "known calm sample_terminal"
    using sample_inv by (simp_all add: sample_push_serial sample_known)
  from login_effect [OF h this, of "sample_request [] sample_login_body" sample_login_body] h show ?thesis
    by (auto simp: sample_push_serial)
qed

text \<open>
  C8. An accepted Logout needs the proof of the current challenge and removes the terminal's
  session from memory and from the database, where the terminal is shown offline.
\<close>

theorem logout_effect:
  assumes "handle E t ''Logout'' rq w = (Inr (response, params), w')"
  shows "\<exists>s. w_entries w (PushSDKSerial t) = Some s \<and> ss_Authenticated s \<and>
     rq_CustomAuth rq = expectedCustomAuth t (ss_Salt s) (ss_NextChallenge s) \<and>
     w_entries w' = (w_entries w)(PushSDKSerial t := None) \<and> checkpoint (w_db w') (SerialNumber t) = None \<and>
     terminal_status (w_db w') (SerialNumber t) = Some ''offline''"
  using assms by (intro logout_success) (simp add: handle_authenticated action_requires_proof_def)

theorem logout_effect_witness:
  "\<exists>r params w'. handle calm sample_terminal ''Logout''
     (sample_request (expectedCustomAuth sample_terminal sample_key sample_key) []) (sample_world True) = (Inr (r, params), w') \<and>
     w_entries w' ''P1'' = None \<and> checkpoint (w_db w') ''DS-1'' = None"
proof -
  obtain r params w' where h: "handle calm sample_terminal ''Logout''
     (sample_request (expectedCustomAuth sample_terminal sample_key sample_key) []) (sample_world True) = (Inr (r, params), w')"
    using sample_logout by (auto simp: handle_authenticated action_requires_proof_def sample_request_def)
  from logout_effect [OF h] h show ?thesis by (auto simp: sample_push_serial)
qed

section \<open>Maintenance\<close>

text \<open>
  C9. The sweep of the sessions never takes authentication away: an authenticated session is kept
  as it is or only marked offline, and its checkpoint in the database is untouched, whatever the
  time and whatever fails.
\<close>

theorem sweep_keeps_authentication:
  assumes "Validate (se_config E) = Inr ()" "service_inv E w" "w_entries w serial = Some s" "ss_Authenticated s"
  shows "(w_entries (MaintainSessions E now w) serial = Some s \<or>
      w_entries (MaintainSessions E now w) serial = Some (s\<lparr>ss_Online := False\<rparr>)) \<and>
    checkpoint (w_db (MaintainSessions E now w)) (SerialNumber (ss_Terminal s)) =
    checkpoint (w_db w) (SerialNumber (ss_Terminal s))"
  using kept_MaintainSessions [of serial w E now] sweep_checkpoint [of E w serial s now] assms
  by (auto simp: kept_def Validate_accepts)

theorem sweep_keeps_authentication_witness:
  "w_entries (MaintainSessions calm (2 * 10 ^ 18) (sample_world True)) ''P1'' \<in> {Some (sample_session True), Some ((sample_session True)\<lparr>ss_Online := False\<rparr>)}"
proof -
  have "w_entries (sample_world True) ''P1'' = Some (sample_session True)" "ss_Authenticated (sample_session True)"
    by (simp_all add: sample_world_def sample_session_def)
  from sweep_keeps_authentication [OF _ sample_inv this, of "2 * 10 ^ 18"] show ?thesis
    using sample_config_valid by auto
qed

section \<open>Routing\<close>

text \<open>
  C12. A path is routed to a terminal and an action exactly when, after its first segment, it is
  the documented PushSDK path with a non-empty serial and a non-empty action of one segment each.
\<close>

theorem route_exact:
  "parseRoute path = Some (serial, action) \<longleftrightarrow>
     serial \<noteq> [] \<and> action \<noteq> [] \<and> CHR ''/'' \<notin> set serial \<and> CHR ''/'' \<notin> set action \<and>
     (\<exists>pre. CHR ''/'' \<notin> set pre \<and> path = join_with (CHR ''/'') (route_parts pre serial action))"
  by (rule parseRoute_exact)

section \<open>Two failure paths\<close>

text \<open>
  C18. When an AuthInfo of a terminal whose session is online has started and persisted the new
  session, and the database then fails both at the state transition and at the restoration of the
  replaced session, the request is answered with an error, the terminal's online session is gone
  from memory, and the gauge of active sessions is not lowered: it stays above the number of
  sessions online.
\<close>

theorem gauge_overcounts:
  assumes "service_inv E w" "w_entries w (PushSDKSerial t) = Some s" "ss_Online s"
    and "payloadModeForAuthInfo t body = Inr mode" "startSession E t mode w = (Inr started, w1)"
    and "persistSession E (st_Session started) w1 = (Inr (), w2)"
    and "se_db_fault E (w_tick w + 2)" "se_db_fault E (w_tick w + 3)"
  shows "\<exists>w'. authInfo E t body w = (Inl ErrDatabase, w') \<and>
     online_serials (w_entries w') = online_serials (w_entries w) - {PushSDKSerial t} \<and>
     mt_SessionsActive (w_metrics w') = mt_SessionsActive (w_metrics w) \<and>
     int (card (online_serials (w_entries w'))) < mt_SessionsActive (w_metrics w')"
proof -
  from assms(5) obtain entries where
    S: "Start (se_rand E (w_tick w)) (se_host_clock E (w_tick w)) t mode (w_entries w) = Inr (started, entries)"
    and w1: "w1 = w\<lparr>w_tick := w_tick w + 1, w_entries := entries\<rparr>" by (auto simp: startSession_Inr)
  note st = Start_Inr [OF S]
  have w2: "w_tick w2 = w_tick w + 2" "w_entries w2 = entries" "w_metrics w2 = w_metrics w"
    using persistSession_Inr [OF assms(6)] by (simp_all add: w1)
  have prev: "st_Previous started = Some s" using st(2) assms(2) by simp
  have run: "authInfo E t body w = (Inl ErrDatabase, w2\<lparr>w_tick := w_tick w + 4\<rparr>)"
    using assms(4-8) w2(1) prev
    by (simp add: authInfo_def bindS_def liftS_def Let_def on_errorS_def transition_def run_tx_cases logS_def
        restoreReplacedSession_def run_exec_def numeral_eq_Suc)
  have on: "PushSDKSerial t \<in> online_serials (w_entries w)" using assms(2,3) by (auto simp: online_serials_def)
  have rem: "online_serials entries = online_serials (w_entries w) - {PushSDKSerial t}"
    using st(1,9) by (auto simp: online_serials_def split: if_splits)
  have fin: "finite (online_serials (w_entries w))"
    using assms(1) by (intro finite_online [of _ "se_config E"]) (simp add: service_inv_def sessions_ok_def live_def)
  have "card (online_serials entries) < card (online_serials (w_entries w))"
    unfolding rem by (rule card_Diff1_less [OF fin on])
  moreover have "int (card (online_serials (w_entries w))) \<le> mt_SessionsActive (w_metrics w)"
    using assms(1) by (simp add: service_inv_def sessions_ok_def live_def)
  ultimately show ?thesis using run rem w2 by simp
qed

theorem gauge_overcounts_witness:
  "\<exists>w'. authInfo (env_with_faults (\<lambda>n. n \<in> {2, 3})) sample_terminal [] (sample_world True) = (Inl ErrDatabase, w') \<and>
     online_serials (w_entries w') = {} \<and> mt_SessionsActive (w_metrics w') = 1"
proof -
  let ?E = "env_with_faults (\<lambda>n. n \<in> {2, 3})"
  define w where "w = sample_world True"
  have w: "w_tick w = 0" "mt_SessionsActive (w_metrics w) = 1" "online_serials (w_entries w) = {''P1''}"
    by (simp_all add: w_def sample_world_def sample_metrics_def online_serials_upd sample_session_def) (simp add: online_serials_def)
  obtain started entries where st: "Start (replicate 128 (CHR 0x00)) (10 ^ 18) sample_terminal PlaintextPayload (w_entries w) = Inr (started, entries)"
    using sample_start by blast
  define w1 where "w1 = w\<lparr>w_tick := w_tick w + 1, w_entries := entries\<rparr>"
  have start: "startSession ?E sample_terminal PlaintextPayload w = (Inr started, w1)" using st by (simp add: startSession_Inr w1_def)
  have ok: "session_ok sample_config ''P1'' (st_Session started)"
    using Start_ok [OF st, of sample_config] by (simp add: sample_push_serial sample_known)
  have serials: "serials_sample w1" using sample_serials by (simp add: w1_def w_def serials_sample_def)
  have "\<not> w_tick w1 \<in> {2, 3}" using w(1) by (simp add: w1_def)
  from persist_sample [of "\<lambda>n. n \<in> {2, 3}", OF this ok Start_Inr(10) [OF st] serials_registered [OF serials]]
  obtain w2 where p: "persistSession ?E (st_Session started) w1 = (Inr (), w2)" by blast
  have "service_inv ?E w" unfolding w_def by (rule inv_faults [OF sample_inv])
  moreover have "w_entries w (PushSDKSerial sample_terminal) = Some (sample_session True)"
    using sample_auth(1) by (simp add: w_def sample_push_serial)
  moreover have "payloadModeForAuthInfo sample_terminal [] = Inr PlaintextPayload" by (simp add: payloadModeForAuthInfo_def)
  moreover have "se_db_fault ?E (w_tick w + 2)" "se_db_fault ?E (w_tick w + 3)" using w(1) by simp_all
  ultimately have "\<exists>w'. authInfo ?E sample_terminal [] w = (Inl ErrDatabase, w') \<and>
      online_serials (w_entries w') = online_serials (w_entries w) - {PushSDKSerial sample_terminal} \<and>
      mt_SessionsActive (w_metrics w') = mt_SessionsActive (w_metrics w) \<and>
      int (card (online_serials (w_entries w'))) < mt_SessionsActive (w_metrics w')"
    by (rule gauge_overcounts [OF _ _ sample_auth(3) _ start p])
  then show ?thesis by (simp only: w sample_push_serial w_def [symmetric]) auto
qed

definition logged_in_world :: world where
  "logged_in_world = (sample_world True)\<lparr>w_db := sample_db\<lparr>db_sessions := [stored_session (PersistentState (sample_session True))]\<rparr>\<rparr>"

text \<open>
  C19. When a Logout with a valid proof has marked the terminal offline and the database fails at
  the removal of the checkpoint, the Logout is answered with an error: the session in memory is no
  longer authenticated, but its checkpoint is still in the database, so a gateway restarted on it
  performs a request that repeats the proof the Logout was sent with.
\<close>

theorem logout_keeps_checkpoint:
  assumes "Validate (se_config E) = Inr ()" "t \<in> set (Terminals (se_config E))" "service_inv E w"
    and "w_entries w (PushSDKSerial t) = Some s" "ss_Authenticated s" "ss_Online s"
    and "rq_CustomAuth rq = expectedCustomAuth t (ss_Salt s) (ss_NextChallenge s)"
    and "payloadForSession (se_pbkdf2 E) rq t s ''Logout'' (rq_Body rq) False = Inr ([], params)"
    and "checkpoint (w_db w) (SerialNumber t) = Some (stored_session (PersistentState s))"
    and "transition E (SerialNumber t) ''offline''
           (new_activity ''pushsdk.logout'' (SerialNumber t) ''terminal logged out'' []) w = (Inr stored, w1)"
    and "32 \<le> length (se_rand E (w_tick w + 1))" "se_db_fault E (w_tick w + 2)"
  shows "\<exists>w'. handle E t ''Logout'' rq w = (Inl ErrDatabase, w') \<and>
     terminal_status (w_db w') (SerialNumber t) = Some ''offline'' \<and>
     (\<exists>s'. w_entries w' (PushSDKSerial t) = Some s' \<and> \<not> ss_Authenticated s') \<and>
     checkpoint (w_db w') (SerialNumber t) = Some (stored_session (PersistentState s)) \<and>
     (\<forall>E2 w2 w3 action2 rq2.
        se_config E2 = se_config E \<and> checkpoint (w_db w2) (SerialNumber t) = checkpoint (w_db w') (SerialNumber t) \<and>
        unique_key ps_TerminalSerialNumber (db_sessions (w_db w2)) \<and> RestoreSessions E2 w2 = (Inr (), w3) \<and>
        action_requires_proof action2 \<and> rq_CustomAuth rq2 = rq_CustomAuth rq \<longrightarrow>
        handle E2 t action2 rq2 w3 = exchange E2 t action2 rq2 (rq_Body rq2) (offline_copy s) w3)"
proof -
  have cfg: "config_ok (se_config E)" using assms(1) by (simp add: Validate_accepts)
  have ok: "session_ok (se_config E) (PushSDKSerial t) s" using assms(3,4) by (simp add: service_inv_def sessions_ok_def live_def)
  note tr = transition_Inr [OF assms(10)]
  have "\<exists>w' s'. handle E t ''Logout'' rq w = (Inl ErrDatabase, w') \<and> w_db w' = w_db w1 \<and>
      w_entries w' (PushSDKSerial t) = Some s' \<and> \<not> ss_Authenticated s'"
    using assms(4-8,10-12) tr(4)
    by (simp add: handle_session action_requires_proof_def exchange_def bindS_def resume_def returnS_def liftS_def perform_def
        logout_def put_entry_def modifyS_def sessions_active_def publishS_def finish_exchange_def issueS_def tickS_def
        IssueNextChallenge_def randomCustomChallenge_def read_full_def removeSession_def deleteCheckpoint_def run_exec_def
        run_tx_cases Let_def guardE_def)
  moreover have "handle E2 t action2 rq2 w3 = exchange E2 t action2 rq2 (rq_Body rq2) (offline_copy s) w3"
    if "se_config E2 = se_config E" "checkpoint (w_db w2) (SerialNumber t) = checkpoint (w_db w1) (SerialNumber t)"
      "unique_key ps_TerminalSerialNumber (db_sessions (w_db w2))" "RestoreSessions E2 w2 = (Inr (), w3)"
      "action_requires_proof action2" "rq_CustomAuth rq2 = rq_CustomAuth rq" for E2 w2 w3 action2 rq2
  proof -
    have "w_entries w3 (PushSDKSerial t) = Some (offline_copy s)"
      using RestoreSessions_session [of E2 t s w2 w3] that cfg ok assms(2,5,9) tr(5) by simp
    moreover have "ss_Authenticated (offline_copy s)" "ss_Salt (offline_copy s) = ss_Salt s"
      "ss_NextChallenge (offline_copy s) = ss_NextChallenge s" using assms(5) by (simp_all add: offline_copy_def)
    ultimately show ?thesis using handle_session [OF that(5)] that(6) assms(7) by simp
  qed
  ultimately show ?thesis using tr(5,6) assms(9) by auto
qed

theorem logout_keeps_checkpoint_witness:
  "\<exists>w' w3. handle (env_with_faults (\<lambda>n. n = 2)) sample_terminal ''Logout''
     (sample_request (expectedCustomAuth sample_terminal sample_key sample_key) []) logged_in_world = (Inl ErrDatabase, w') \<and>
     terminal_status (w_db w') ''DS-1'' = Some ''offline'' \<and>
     RestoreSessions calm (restart_world (the (checkpoint (w_db w') ''DS-1''))) = (Inr (), w3) \<and>
     handle calm sample_terminal ''CommandRequest''
       (sample_request (expectedCustomAuth sample_terminal sample_key sample_key) []) w3 =
     exchange calm sample_terminal ''CommandRequest''
       (sample_request (expectedCustomAuth sample_terminal sample_key sample_key) []) [] (offline_copy (sample_session True)) w3"
proof -
  let ?E = "env_with_faults (\<lambda>n. n = 2)"
  let ?rq = "sample_request (expectedCustomAuth sample_terminal sample_key sample_key) []"
  define w s where "w = logged_in_world" and "s = sample_session True"
  have w: "w_entries w ''P1'' = Some s" "w_tick w = 0" "service_inv ?E w"
    using inv_faults [OF sample_inv, of "\<lambda>n. n = 2" True]
    by (simp_all add: w_def s_def logged_in_world_def sample_world_def service_inv_def live_def)
  have "serials_sample w" by (simp add: serials_sample_def w_def logged_in_world_def sample_db_def sample_row_def)
  then obtain stored w1 where t: "transition ?E ''DS-1'' ''offline''
      (new_activity ''pushsdk.logout'' ''DS-1'' ''terminal logged out'' []) w = (Inr stored, w1)"
    using transition_sample [of "\<lambda>n. n = 2" w "''offline''" "new_activity ''pushsdk.logout'' ''DS-1'' ''terminal logged out'' []"]
      sample_activities_ok w(2)
    by (auto simp: connection_status_ok_def new_activity_def)
  define row where "row = stored_session (PersistentState s)"
  have row: "ps_TerminalSerialNumber row = ''DS-1''" "ps_NextChallengeAt row = Some (10 ^ 18)"
    by (simp_all add: row_def stored_session_def PersistentState_def s_def sample_session_def sample_push_serial pg_timestamp_def
        zero_time_def second_def)
  have cp: "checkpoint (w_db w) ''DS-1'' = Some row"
    using row(1) by (simp add: checkpoint_def select_row_def w_def logged_in_world_def row_def s_def)
  have pay: "payloadForSession (se_pbkdf2 ?E) ?rq sample_terminal s ''Logout'' (rq_Body ?rq) False = Inr ([], None)"
    by (simp add: payloadForSession_def s_def sample_auth sample_request_def IsEncrypted_def EncryptedPayload_def PlaintextPayload_def)
  obtain w3 where w3: "RestoreSessions calm (restart_world row) = (Inr (), w3)"
    using RestoreSessions_succeeds [of calm "restart_world row"] by auto
  have v: "Validate (se_config ?E) = Inr ()" "sample_terminal \<in> set (Terminals (se_config ?E))"
    using sample_config_valid by (simp_all add: sample_config_def)
  have h: "w_entries w (PushSDKSerial sample_terminal) = Some s" "ss_Authenticated s" "ss_Online s"
    "rq_CustomAuth ?rq = expectedCustomAuth sample_terminal (ss_Salt s) (ss_NextChallenge s)"
    "checkpoint (w_db w) (SerialNumber sample_terminal) = Some (stored_session (PersistentState s))"
    "transition ?E (SerialNumber sample_terminal) ''offline''
      (new_activity ''pushsdk.logout'' (SerialNumber sample_terminal) ''terminal logged out'' []) w = (Inr stored, w1)"
    "32 \<le> length (se_rand ?E (w_tick w + 1))" "se_db_fault ?E (w_tick w + 2)"
    using w(1,2) cp t by (simp_all add: sample_push_serial s_def sample_auth sample_request_def row_def)
  from logout_keeps_checkpoint [OF v w(3) h(1-4) pay h(5-8)] obtain w' where
    w': "handle ?E sample_terminal ''Logout'' ?rq w = (Inl ErrDatabase, w')" "terminal_status (w_db w') ''DS-1'' = Some ''offline''"
      "checkpoint (w_db w') ''DS-1'' = Some row" and
    again: "\<forall>E2 w2 w3 action2 rq2. se_config E2 = sample_config \<and> checkpoint (w_db w2) ''DS-1'' = checkpoint (w_db w') ''DS-1'' \<and>
        unique_key ps_TerminalSerialNumber (db_sessions (w_db w2)) \<and> RestoreSessions E2 w2 = (Inr (), w3) \<and>
        action_requires_proof action2 \<and> rq_CustomAuth rq2 = rq_CustomAuth ?rq \<longrightarrow>
        handle E2 sample_terminal action2 rq2 w3 = exchange E2 sample_terminal action2 rq2 (rq_Body rq2) (offline_copy s) w3"
    unfolding sample_push_serial row_def calm_simps(2) by blast
  have "handle calm sample_terminal ''CommandRequest'' ?rq w3 = exchange calm sample_terminal ''CommandRequest'' ?rq (rq_Body ?rq) (offline_copy s) w3"
    by (rule again [rule_format, of calm "restart_world row"])
      (simp add: restart_checkpoint row(1) w'(3) w3 action_requires_proof_def)
  then have "handle calm sample_terminal ''CommandRequest'' ?rq w3 = exchange calm sample_terminal ''CommandRequest'' ?rq [] (offline_copy s) w3"
    by (simp add: sample_request_def)
  with w'(1,2,3) w3 show ?thesis by (auto simp: w_def s_def)
qed

end
