(* ===== verification/StoreProperties.thy ===== *)
theory StoreProperties
  imports StoreHistory ProtocolProperties
begin

text \<open>
  The properties of the store: the life of ISAPI commands and retained-event runs, the event
  archive with its outbox, the projections' back-fill and the administrator accounts. The sample
  database has one online terminal with one queued command.
\<close>

section \<open>Samples\<close>

definition sample_command :: command_row where
  "sample_command = \<lparr> cmd_uuid = ''00000000-0000-4000-8000-000000000000'', cmd_terminal_serial_number = ''DS-1'',
     cmd_created_by_admin_user_id = None, cmd_created_by_username = ''root'', cmd_method = ''GET'',
     cmd_url = ''/ISAPI/System/time'', cmd_data_format = ''noData'', cmd_request_data = [], cmd_status = ''queued'',
     cmd_created_at = 0, cmd_expires_at = 300, cmd_sent_at = None, cmd_completed_at = None,
     cmd_response_data_format = None, cmd_response_data_format_declared = None, cmd_response_data_base64 = None \<rparr>"

definition queued_db :: db where
  "queued_db = sample_db\<lparr>db_commands := [sample_command]\<rparr>"

definition claimed_db :: db where
  "claimed_db = snd (projr (ClaimISAPICommands 100 ''DS-1'' 20 queued_db))"

definition claimed_activities :: "activity list" where
  "claimed_activities = snd (fst (projr (ClaimISAPICommands 100 ''DS-1'' 20 queued_db)))"

lemma claim_sample:
  "ClaimISAPICommands 100 ''DS-1'' 20 queued_db = Inr (([delivery_of sample_command], claimed_activities), claimed_db)"
  unfolding claimed_db_def claimed_activities_def by code_simp

lemma claimed_commands: "db_commands claimed_db = [sample_command\<lparr>cmd_status := ''sent'', cmd_sent_at := Some 100\<rparr>]"
  unfolding claimed_db_def by code_simp

lemma queued_unique: "unique_key cmd_uuid (db_commands queued_db)"
  by (simp add: queued_db_def unique_key_def)

section \<open>Commands\<close>

text \<open>
  C20. Whatever happens to the database, at whatever times (commands queued, claimed, completed
  and expired, synchronisations started, administrators replaced, other tables written): no command
  is ever lost, its request, its creator's name and its times of creation and expiry never change,
  its status only advances from queued through sent, and the reference to its creator is kept or
  cleared. A completed or expired command keeps its whole row, with its result, but for that
  reference, which the removal of the administrator's account clears.
\<close>

theorem command_history:
  assumes "(store_op L)\<^sup>*\<^sup>* d d'" "unique_key cmd_uuid (db_commands d)" "c \<in> set (db_commands d)"
  shows "\<exists>c' \<in> set (db_commands d'). request_of c' = request_of c \<and>
     status_rank (cmd_status c) \<le> status_rank (cmd_status c') \<and>
     cmd_created_by_admin_user_id c' \<in> {cmd_created_by_admin_user_id c, None} \<and>
     (final_status (cmd_status c) \<longrightarrow> c' = c\<lparr>cmd_created_by_admin_user_id := cmd_created_by_admin_user_id c'\<rparr>)"
  using history_progress [OF assms(1,2)] assms(3) by (auto simp: follows_def)

theorem command_history_witness:
  "\<exists>c' \<in> set (db_commands claimed_db). request_of c' = request_of sample_command \<and> cmd_status c' = ''sent''"
proof -
  have "(store_op sample_library)\<^sup>*\<^sup>* queued_db claimed_db" using store_op.claim [OF claim_sample] by blast
  from command_history [OF this queued_unique, of sample_command] show ?thesis
    by (auto simp: queued_db_def claimed_commands)
qed

text \<open>
  C21. A claim hands out at most as many commands as asked for, all of them queued for this
  terminal and not past their deadline, oldest first; a live command is left behind only when the
  claim is full, and then it is not older than any that was taken; every command handed out is
  recorded as sent.
\<close>

theorem claim_order:
  assumes "ClaimISAPICommands now terminal limit d = Inr ((deliveries, acts), d')"
  shows "\<exists>chosen. deliveries = map delivery_of chosen \<and> length chosen \<le> nat limit \<and> limit \<le> 20 \<and>
     (\<forall>c \<in> set chosen. c \<in> set (db_commands d) \<and> claimable now terminal c \<and>
        c\<lparr>cmd_status := ''sent'', cmd_sent_at := Some now\<rparr> \<in> set (db_commands d')) \<and>
     sorted (map (\<lambda>c. (cmd_created_at c, cmd_uuid c)) chosen) \<and>
     (\<forall>c \<in> set (db_commands d). claimable now terminal c \<longrightarrow> c \<notin> set chosen \<longrightarrow>
        length chosen = nat limit \<and> (\<forall>x \<in> set chosen. (cmd_created_at x, cmd_uuid x) \<le> (cmd_created_at c, cmd_uuid c)))"
  using assms
proof (rule Claim_Inr)
  fix chosen rows runs
  assume lim: "limit \<le> 20"
    and rows: "rows = update_where (overdue now (Some terminal)) (expire_command now) (db_commands d)"
    and chosen: "chosen = selected_commands now terminal (nat limit) rows"
    and dl: "deliveries = map delivery_of chosen"
    and d': "d' = d\<lparr>db_commands := mark_sent now chosen rows, db_activities := db_activities d @ acts, db_sync_runs := runs\<rparr>"
  have taken: "c \<in> set (db_commands d) \<and> claimable now terminal c" if "c \<in> set chosen" for c
    using claim_chosen_original that unfolding chosen rows by blast
  have live: "c \<in> set rows" if "c \<in> set (db_commands d)" "claimable now terminal c" for c
    using that unfolding rows row_simps by (intro rev_image_eqI [of c]) (auto simp: overdue_def claimable_def)
  have sent: "c\<lparr>cmd_status := ''sent'', cmd_sent_at := Some now\<rparr> \<in> set (db_commands d')" if "c \<in> set chosen" for c
    using live taken [OF that] that by (auto simp: d' mark_sent_def row_simps intro!: rev_image_eqI [of c])
  have full: "length chosen = nat limit"
    if "c \<in> set (db_commands d)" "claimable now terminal c" "c \<notin> set chosen" for c
    using live [OF that(1,2)] that(2,3) unfolding chosen by (rule selected_full)
  have older: "(cmd_created_at x, cmd_uuid x) \<le> (cmd_created_at c, cmd_uuid c)"
    if "x \<in> set chosen" "c \<in> set (db_commands d)" "claimable now terminal c" "c \<notin> set chosen" for c x
    using that(1) live [OF that(2,3)] that(3,4) unfolding chosen by (rule selected_oldest)
  have "length chosen \<le> nat limit" "sorted (map (\<lambda>c. (cmd_created_at c, cmd_uuid c)) chosen)"
    unfolding chosen by (rule length_selected, rule selected_sorted)
  with dl lim taken sent full older show ?thesis by (intro exI [of _ chosen]) blast
qed

theorem claim_order_witness:
  "\<exists>chosen. [delivery_of sample_command] = map delivery_of chosen \<and> sorted (map (\<lambda>c. (cmd_created_at c, cmd_uuid c)) chosen)"
  by (rule exE [OF claim_order [OF claim_sample]]) (elim conjE, rule exI, rule conjI)

text \<open>
  C22. No command is handed out twice: whatever the store does between two claims, at whatever
  times, the second claim returns none of the commands of the first.
\<close>

theorem claim_once:
  assumes "ClaimISAPICommands now terminal limit d = Inr ((deliveries, acts), d1)" "(store_op L)\<^sup>*\<^sup>* d1 d2"
    and "ClaimISAPICommands now' terminal' limit' d2 = Inr ((deliveries', acts'), d3)" "unique_key cmd_uuid (db_commands d)"
  shows "cd_UUID ` set deliveries \<inter> cd_UUID ` set deliveries' = {}"
proof (rule ccontr)
  assume "\<not> ?thesis"
  then obtain u where "u \<in> cd_UUID ` set deliveries" "u \<in> cd_UUID ` set deliveries'" by blast
  then obtain c c2 where c: "c \<in> set (db_commands d1)" "cmd_status c = ''sent''" "cmd_uuid c = u"
    and c2: "c2 \<in> set (db_commands d2)" "cmd_status c2 = ''queued''" "cmd_uuid c2 = u"
    using claim_marks [OF assms(1)] claim_marks [OF assms(3)] by (force simp: claimable_def)
  from history_progress [OF assms(2) claim_unique [OF assms(1,4)]] c(1) obtain c1 where
    c1: "c1 \<in> set (db_commands d2)" "follows c c1" "unique_key cmd_uuid (db_commands d2)" by blast
  with c c2 have "c1 = c2" by (auto simp: follows_def request_of_def dest: unique_keyD)
  with c1(2) c(2) c2(2) show False by (simp add: follows_def status_rank_def)
qed

theorem claim_once_witness:
  "cd_UUID ` set [delivery_of sample_command] \<inter> cd_UUID ` set [] = {} \<and>
   ClaimISAPICommands 200 ''DS-1'' 20 claimed_db = Inr (([], []), claimed_db)"
proof -
  have again: "ClaimISAPICommands 200 ''DS-1'' 20 claimed_db = Inr (([], []), claimed_db)"
    unfolding claimed_db_def by code_simp
  from claim_once [OF claim_sample rtranclp.rtrancl_refl again queued_unique] again show ?thesis by simp
qed

text \<open>
  C23. A terminal may repeat a CommandResult that was committed: as long as none of its commands
  is overdue, the repetition is accepted, changes nothing and reports again whether commands wait.
\<close>

theorem complete_repeated:
  assumes "CompleteISAPICommands L X terminal results d = Inr (out, d')" "unique_key cmd_uuid (db_commands d)"
    and "\<forall>c \<in> set (db_commands d'). \<not> overdue (tx_now X') (Some terminal) c"
  shows "CompleteISAPICommands L X' terminal results d' =
    Inr (([], exists_row (claimable (tx_now X') terminal) (db_commands d')), d')"
  by (rule complete_again [OF assms])

definition sample_tx :: tx_env where
  "sample_tx = \<lparr> tx_now = 200, tx_host = 200, tx_rand = replicate 64 (CHR 0x00) \<rparr>"

definition sample_result :: ISAPICommandResult where
  "sample_result = \<lparr> cr_UUID = ''00000000-0000-4000-8000-000000000000'', cr_DataFormat = Some ''xmlData'', cr_DataBase64 = ''PGEvPg=='' \<rparr>"

definition completed_db :: db where
  "completed_db = snd (projr (CompleteISAPICommands sample_library sample_tx ''DS-1'' [sample_result] claimed_db))"

lemma complete_sample:
  "CompleteISAPICommands sample_library sample_tx ''DS-1'' [sample_result] claimed_db =
     Inr (fst (projr (CompleteISAPICommands sample_library sample_tx ''DS-1'' [sample_result] claimed_db)), completed_db)"
  unfolding completed_db_def claimed_db_def by code_simp

lemma completed_commands: "map cmd_status (db_commands completed_db) = [''completed'']"
  unfolding completed_db_def claimed_db_def by code_simp

theorem complete_repeated_witness:
  "CompleteISAPICommands sample_library sample_tx ''DS-1'' [sample_result] completed_db = Inr (([], False), completed_db)"
proof -
  have "unique_key cmd_uuid (db_commands claimed_db)" by (simp add: claimed_commands unique_key_def)
  moreover have "\<forall>c \<in> set (db_commands completed_db). \<not> overdue (tx_now sample_tx) (Some ''DS-1'') c"
    using completed_commands by (auto simp: overdue_def)
  moreover have "exists_row (claimable (tx_now sample_tx) ''DS-1'') (db_commands completed_db) = False"
    using completed_commands by (auto simp: exists_row_iff claimable_def)
  ultimately show ?thesis using complete_repeated [OF complete_sample, of sample_tx] by simp
qed

text \<open>
  C24. Along every history at most one retained-event run of a terminal is active, and a run is
  shown as completed only when the records imported and the duplicates add up to the total the
  terminal announced.
\<close>

theorem sync_runs_invariant:
  assumes "(store_op L)\<^sup>*\<^sup>* d d'" "runs_ok (db_sync_runs d)"
  shows "runs_ok (db_sync_runs d')"
  by (rule history_runs [OF assms])

definition sync_start_db :: db where
  "sync_start_db = sample_db\<lparr>db_admin_users := [\<lparr> au_id = 1, au_username = ''root'', au_password_hash = [], au_created_at = 0,
     au_updated_at = 0 \<rparr>]\<rparr>"

definition sync_admin :: AdminIdentity where
  "sync_admin = \<lparr> ai_ID = 1, ai_Username = ''root'' \<rparr>"

lemma sync_sample:
  "\<exists>out d'. QueueAccessEventSync sample_tx ''DS-1'' sync_admin sync_start_db = Inr (out, d') \<and>
     map sr_status (db_sync_runs d') = [''awaiting_time''] \<and> db_sync_runs sync_start_db = []"
proof -
  have "(case QueueAccessEventSync sample_tx ''DS-1'' sync_admin sync_start_db of Inl _ \<Rightarrow> False
      | Inr (_, d') \<Rightarrow> map sr_status (db_sync_runs d') = [''awaiting_time'']) \<and> db_sync_runs sync_start_db = []" by code_simp
  then show ?thesis by (auto split: sum.splits)
qed

theorem sync_runs_invariant_witness:
  "\<exists>d'. store_op sample_library sync_start_db d' \<and> map sr_status (db_sync_runs d') = [''awaiting_time''] \<and> runs_ok (db_sync_runs d')"
proof -
  obtain out d' where q: "QueueAccessEventSync sample_tx ''DS-1'' sync_admin sync_start_db = Inr (out, d')"
    "map sr_status (db_sync_runs d') = [''awaiting_time'']" "db_sync_runs sync_start_db = []" using sync_sample by (elim exE conjE) (rule that)
  have "store_op sample_library sync_start_db d'" using store_op.sync [OF q(1)] .
  moreover have "runs_ok (db_sync_runs sync_start_db)" by (simp add: q(3) runs_ok_def unique_key_def)
  ultimately show ?thesis using sync_runs_invariant [OF r_into_rtranclp, of sample_library sync_start_db d'] q(2) by (intro exI [of _ d']) simp
qed

text \<open>
  The identifier of a command or run is a version-4 UUID in lower-case hexadecimal, for any
  sixteen random bytes, which it uses up.
\<close>

lemma command_uuid_format:
  assumes "newISAPICommandUUID rand = Inr (uuid, rest)"
  shows "commandUUID uuid \<and> uuid ! 14 = CHR ''4'' \<and> uuid ! 19 \<in> set ''89ab'' \<and> rest = drop 16 rand"
  using newISAPICommandUUID_format [OF assms] newISAPICommandUUID_version [OF assms] by simp

lemma command_uuid_format_witness:
  "newISAPICommandUUID (replicate 16 (CHR 0xff)) = Inr (''ffffffff-ffff-4fff-bfff-ffffffffffff'', []) \<and>
   commandUUID ''ffffffff-ffff-4fff-bfff-ffffffffffff''"
proof -
  have "newISAPICommandUUID (replicate 16 (CHR 0xff)) = Inr (''ffffffff-ffff-4fff-bfff-ffffffffffff'', [])" by code_simp
  with command_uuid_format [OF this] show ?thesis by simp
qed

section \<open>The event archive\<close>

definition sample_route :: route_row where
  "sample_route = \<lparr> dr_terminal_serial_number = ''DS-1'', dr_endpoint_url = ''https://hr.example/events'',
     dr_signing_key_id = ''key-1'', dr_enabled = True, dr_updated_at = 0, dr_updated_by = 1 \<rparr>"

definition routed_db :: db where
  "routed_db = sample_db\<lparr>db_routes := [sample_route]\<rparr>"

text \<open>The payload is an active face authentication.\<close>

definition sample_event :: NewDeviceEvent where
  "sample_event = \<lparr> ne_TerminalSerialNumber = ''DS-1'', ne_VendorEventID = ''1'', ne_DataFormat = ''jsonData'',
     ne_PayloadBase64 = ''eyJldmVudFR5cGUiOiJBY2Nlc3NDb250cm9sbGVyRXZlbnQiLCJldmVudFN0YXRlIjoiYWN0aXZlIiwiQWNjZXNzQ29udHJvbGxlckV2ZW50Ijp7Im1ham9yRXZlbnRUeXBlIjo1LCJzdWJFdmVudFR5cGUiOjc1fX0='' \<rparr>"

definition archived_db :: db where
  "archived_db = snd (projr (InsertDeviceEventBatch sample_library 100 [sample_event] routed_db))"

definition archived_persisted :: "DeviceEventPersistence list" where
  "archived_persisted = fst (projr (InsertDeviceEventBatch sample_library 100 [sample_event] routed_db))"

lemma insert_sample: "InsertDeviceEventBatch sample_library 100 [sample_event] routed_db = Inr (archived_persisted, archived_db)"
  unfolding archived_db_def archived_persisted_def by code_simp

text \<open>
  C25. A committed Event batch adds to the archive exactly one verbatim row for every event it did
  not hold, in order, and tells the caller which ones those were; it adds to the outbox one pending
  delivery for each of those that is an active face authentication on a terminal with an enabled
  route, with the message of that event and referring to its new row, and one attachment receipt for
  each delivery.
\<close>

theorem event_batch_archived:
  assumes "InsertDeviceEventBatch L now es d = Inr (persisted, d')" "unique_key event_key es"
  shows "\<exists>rows dels atts.
     db_device_events d' = db_device_events d @ rows \<and> list_all2 row_holds rows (fresh_events d es) \<and>
     map dp_Inserted persisted = map (\<lambda>e. \<not> retained_already d e) es \<and>
     db_deliveries d' = db_deliveries d @ dels \<and>
     list_all2 (delivers L d rows) dels (filter (\<lambda>e. qualifying L e d \<noteq> None) (fresh_events d es)) \<and>
     db_attachments d' = db_attachments d @ atts \<and> map ad_event_delivery_id atts = map dl_id dels"
  using insert_batch_extends [OF assms(1) [unfolded InsertDeviceEventBatch_def] assms(2)]
  by (auto simp: extends_outbox_def)

theorem event_batch_archived_witness:
  "\<exists>r dl. db_device_events archived_db = [r] \<and> row_holds r sample_event \<and> db_deliveries archived_db = [dl] \<and>
     delivers sample_library routed_db [r] dl sample_event"
proof -
  have q: "qualifying sample_library sample_event routed_db \<noteq> None" "\<not> retained_already routed_db sample_event" by code_simp+
  have "unique_key event_key [sample_event]" by (simp add: unique_key_def)
  with event_batch_archived [OF insert_sample this] q show ?thesis
    by (auto simp: fresh_events_def list_all2_Cons2 routed_db_def sample_db_def empty_db_def)
qed

text \<open>
  C26. A terminal may repeat an Event batch that was committed: it is accepted again, at any later
  time, and nothing but one duplicate activity per event is added.
\<close>

theorem event_batch_repeated:
  assumes "InsertDeviceEventBatch L now es d = Inr (persisted, d')"
  shows "\<exists>acts. InsertDeviceEventBatch L now' es d' =
      Inr (map (\<lambda>a. \<lparr> dp_Inserted = False, dp_Activity = a \<rparr>) acts, d'\<lparr>db_activities := db_activities d' @ acts\<rparr>) \<and>
    length acts = length es"
  by (rule insert_batch_again [OF assms])

theorem event_batch_repeated_witness:
  "\<exists>a. InsertDeviceEventBatch sample_library 200 [sample_event] archived_db =
     Inr ([\<lparr> dp_Inserted = False, dp_Activity = a \<rparr>], archived_db\<lparr>db_activities := db_activities archived_db @ [a]\<rparr>)"
  using event_batch_repeated [OF insert_sample, of 200] by (auto simp: length_Suc_conv)

text \<open>
  C27. The back-fill of projections ends; when every stale event has a projection the columns
  accept, it ends without error, has projected every stale event from its own payload and leaves
  none stale, counts exactly them and keeps the archive.
\<close>

theorem projection_backfill_complete:
  assumes "unique_key de_id (db_device_events d)" "list_all (projectable L) (stale_events d)"
  shows "\<exists>d'. BackfillAccessEventProjections L 0 d = ((int (length (stale_events d)), None), d') \<and>
    stale_events d' = [] \<and> list_all (projected L d') (stale_events d) \<and> db_device_events d' = db_device_events d"
proof -
  from Backfill_succeeds [OF assms, of 0] obtain n d' where
    b: "BackfillAccessEventProjections L 0 d = ((n, None), d')"
    and p: "\<forall>e \<in> set (db_device_events d). stale_projection d e \<or> projected L d e \<longrightarrow> projected L d' e" by blast
  from p have "list_all (projected L d') (stale_events d)" by (simp add: list_all_iff stale_events_def)
  with b Backfill_complete [OF b assms(1)] show ?thesis by simp
qed

definition stale_db :: db where
  "stale_db = sample_db\<lparr>db_device_events := [archive_row 0 1 sample_event]\<rparr>"

theorem projection_backfill_complete_witness:
  "\<exists>d'. BackfillAccessEventProjections sample_library 0 stale_db = ((1, None), d') \<and> stale_events d' = []"
proof -
  have "unique_key de_id (db_device_events stale_db)" "list_all (projectable sample_library) (stale_events stale_db)"
    "length (stale_events stale_db) = 1" by code_simp+
  with projection_backfill_complete [OF this(1,2)] show ?thesis by auto
qed

section \<open>Administrators\<close>

definition admin_db :: db where
  "admin_db = sample_db\<lparr>db_admin_users := [\<lparr> au_id = 1, au_username = ''root'', au_password_hash = ''secret'',
     au_created_at = 0, au_updated_at = 0 \<rparr>], db_admin_user_seq := 2\<rparr>"

text \<open>
  A created administrator session is valid exactly until its expiry, as stored, and belongs to
  the user it was created for; no other session is affected; deleting it by its token ends it, and
  purging expired sessions changes the validity of none.
\<close>

lemma admin_session_lifetime:
  assumes "CreateSessionWithActivity now userID h expiresAt event d = Inr (stored, d')"
  shows "SessionValid t k d' = (if k = h then t < pg_timestamp expiresAt else SessionValid t k d) \<and>
    (DeleteSessionWithActivity now2 h event2 d' = Inr (stored2, d2) \<longrightarrow> \<not> SessionValid t h d2) \<and>
    (now3 \<le> t \<longrightarrow> SessionValid t k (PurgeExpiredSessions now3 d') = SessionValid t k d') \<and>
    (unique_key au_id (db_admin_users d) \<longrightarrow> t < pg_timestamp expiresAt \<longrightarrow>
       map_option ai_ID (AdminIdentityForSession t h d') = Some userID)"
  using SessionValid_Create [OF assms] SessionValid_Delete SessionValid_Purge AdminIdentity_Create [OF assms] by auto

lemma admin_session_lifetime_witness:
  "\<exists>st d'. CreateSessionWithActivity 0 1 ''h'' 5000 (new_activity ''admin.login'' [] ''administrator signed in'' []) admin_db = Inr (st, d') \<and>
     SessionValid 4999 ''h'' d' \<and> \<not> SessionValid 5000 ''h'' d'"
proof -
  have "isl (CreateSessionWithActivity 0 1 ''h'' 5000 (new_activity ''admin.login'' [] ''administrator signed in'' []) admin_db) = False"
    by code_simp
  then obtain st d' where c: "CreateSessionWithActivity 0 1 ''h'' 5000 (new_activity ''admin.login'' [] ''administrator signed in'' []) admin_db = Inr (st, d')"
    by (metis isl_def sum.exhaust surj_pair)
  from admin_session_lifetime [OF c, of 4999 "''h''"] admin_session_lifetime [OF c, of 5000 "''h''"] c show ?thesis
    by (simp add: pg_timestamp_def)
qed

text \<open>
  C28. After the configured administrator was reconciled there is exactly one account, with the
  configured name, and it is signed in to with the configured password; no session of a replaced
  account is left.
\<close>

theorem configured_administrator:
  assumes "ReconcileConfiguredAdministrator generate matches now username password d = Inr d'"
    and "bcrypt_contract generate matches" "unique_key au_username (db_admin_users d)"
  shows "map au_username (db_admin_users d') = [username] \<and> VerifyAdmin matches username password d' \<noteq> None \<and>
    (\<forall>s \<in> set (db_admin_sessions d'). s \<in> set (db_admin_sessions d) \<and>
       as_admin_user_id s \<notin> au_id ` {u \<in> set (db_admin_users d). au_username u \<noteq> username})"
  using Reconcile_Inr [OF assms] by (auto simp: VerifyAdmin_def select_row_def)

theorem configured_administrator_witness:
  "\<exists>d'. ReconcileConfiguredAdministrator Inr (=) 0 ''boss'' ''pw'' admin_db = Inr d' \<and>
     VerifyAdmin (=) ''boss'' ''pw'' d' \<noteq> None \<and> map au_username (db_admin_users d') = [''boss'']"
proof -
  have "bcrypt_contract Inr (=)" by (simp add: bcrypt_contract_def)
  moreover have "unique_key au_username (db_admin_users admin_db)" by (simp add: admin_db_def unique_key_def)
  moreover have "isl (ReconcileConfiguredAdministrator Inr (=) 0 ''boss'' ''pw'' admin_db) = False" by code_simp
  then obtain d' where r: "ReconcileConfiguredAdministrator Inr (=) 0 ''boss'' ''pw'' admin_db = Inr d'"
    by (cases "ReconcileConfiguredAdministrator Inr (=) 0 ''boss'' ''pw'' admin_db") auto
  ultimately show ?thesis using configured_administrator [OF r] by auto
qed

section \<open>The activity stream\<close>

text \<open>
  A subscriber that does not read finds the first 64 of the activities published since it
  subscribed, in order: the queue never grows beyond its capacity and never blocks the publisher.
\<close>

lemma hub_prefix:
  assumes "hub_ok h"
  shows "queue_of (fold Publish es (snd (Subscribe h))) (fst (Subscribe h)) = Some (take 64 es)"
  using Publish_all [OF Subscribe_queue [OF assms], of es] by (simp add: client_capacity_def)

lemma hub_prefix_witness:
  "queue_of (fold Publish [new_activity ''a'' [] ''b'' []] (snd (Subscribe NewHub))) (fst (Subscribe NewHub)) =
     Some [new_activity ''a'' [] ''b'' []]"
  using hub_prefix [OF hub_ok_NewHub, of "[new_activity ''a'' [] ''b'' []]"] by simp

end
