(* ===== verification/OutboxProperties.thy ===== *)
theory OutboxProperties
  imports LeaseSpec StoreProperties
begin

text \<open>
  The properties of the delivery outbox and its workers. The samples continue those of the store: a
  terminal with an enabled route and one archived face authentication, and a receiver that answers
  with its receipt.
\<close>

section \<open>Samples\<close>

definition sample_urls :: "string url_library" where
  "sample_urls = \<lparr> ul_Parse = Some, ul_Path = (\<lambda>_. []), ul_RawPath = (\<lambda>_. []), ul_with_path = (\<lambda>p _ u. u @ p), ul_String = (\<lambda>u. u) \<rparr>"

definition sample_receipt :: bytes where
  "sample_receipt = json_object [(''receipt'', json_quote ''stored''), (''eventId'', json_quote ''1''), (''schemaVersion'', itoa 2)]"

definition sample_env :: worker_env where
  "sample_env = \<lparr> we_claim_time = (\<lambda>k. 1000 + int k), we_finish_time = (\<lambda>k. 1000 + int k), we_host_time = (\<lambda>k. 1000 + int k),
     we_peer = (\<lambda>_ _. Some \<lparr> hr_status = 200, hr_body = sample_receipt, hr_read_error = False \<rparr>),
     we_claim_fault = (\<lambda>_. False), we_finish_fault = (\<lambda>_. False), we_cancelled = (\<lambda>_. False) \<rparr>"

definition sample_keys :: "(string \<times> string) list" where
  "sample_keys = [(''key-1'', ''secret'')]"

definition sample_body :: bytes where
  "sample_body = json_object [(''schemaVersion'', itoa 2), (''source'', json_quote ''pushsdk''), (''eventId'', json_quote ''1'')]"

definition sample_delivery :: delivery_row where
  "sample_delivery = new_delivery 100 1 (Some 1) None None sample_route sample_body"

definition sample_attachment :: attachment_row where
  "sample_attachment = \<lparr> ad_id = 1, ad_event_delivery_id = 1, ad_request_body = None, ad_availability = None, ad_reason = None,
     ad_status = ''pending'', ad_attempts = 0, ad_next_attempt_at = 100, ad_lease_until = None, ad_last_http_status = None,
     ad_last_error = None, ad_created_at = 100, ad_delivered_at = None \<rparr>"

definition outbox_db :: db where
  "outbox_db = routed_db\<lparr>db_device_events := [archive_row 100 1 sample_event], db_deliveries := [sample_delivery],
     db_attachments := [sample_attachment]\<rparr>"

lemma sample_outbox: "db_deliveries outbox_db = [sample_delivery]" "outbox_ok outbox_db"
proof -
  show "db_deliveries outbox_db = [sample_delivery]" by (simp add: outbox_db_def)
  show "outbox_ok outbox_db"
    by (simp add: outbox_ok_def outbox_db_def unique_key_def sample_delivery_def sample_attachment_def new_delivery_def has_route_def row_simps routed_db_def)
qed

section \<open>Histories of the outbox\<close>

text \<open>
  C30. Whatever the gateway does to the outbox, at whatever times and in whatever order: every entry
  keeps its event, destination, key and body, an attachment its body once it has one; a delivered
  entry is never touched again and attempts only grow; and every terminal with unfinished work keeps
  a route.
\<close>

theorem outbox_durable:
  assumes "(outbox_op L U)\<^sup>*\<^sup>* d d'" "outbox_ok d"
  shows "(\<forall>r \<in> set (db_deliveries d). \<exists>r' \<in> set (db_deliveries d'). delivery_follows r r') \<and>
    (\<forall>a \<in> set (db_attachments d). \<exists>a' \<in> set (db_attachments d'). attachment_follows a a') \<and>
    (\<forall>r \<in> set (db_deliveries d'). delivery_unfinished d' r \<longrightarrow> has_route d' (dl_terminal_serial_number r)) \<and> outbox_ok d'"
  using outbox_history [OF assms(1)] assms(2) by (simp add: advances_def outbox_follows_def outbox_ok_def)

theorem outbox_durable_witness:
  "outbox_ok (snd (projr (InsertDeviceEventBatch sample_library 200 [sample_event] outbox_db)))"
proof -
  have "isl (InsertDeviceEventBatch sample_library 200 [sample_event] outbox_db) = False" by code_simp
  then obtain r d' where i: "InsertDeviceEventBatch sample_library 200 [sample_event] outbox_db = Inr (r, d')"
    by (metis isl_def sum.exhaust surj_pair)
  then have "(outbox_op sample_library sample_urls)\<^sup>*\<^sup>* outbox_db d'" by (blast intro: outbox_op.ingest)
  from outbox_durable [OF this sample_outbox(2)] i show ?thesis by simp
qed

text \<open>
  C31. Both queues fence their leases: within a minute of a claim no other claim gets the same entry,
  and when it was handed out again, the result of the earlier attempt is refused, whatever happens in
  between and afterwards.
\<close>

theorem lease_fencing:
  assumes "outbox_ok d"
  shows "(ClaimEventDelivery now d = Inr (Some x, d1) \<and> ev_ID y = ev_ID x \<longrightarrow>
      (now' < now + lease_time \<longrightarrow> ClaimEventDelivery now' d1 \<noteq> Inr (Some y, d2)) \<and>
      ((outbox_op L U)\<^sup>*\<^sup>* d1 d3 \<and> ClaimEventDelivery now'' d3 = Inr (Some y, d4) \<and> (outbox_op L U)\<^sup>*\<^sup>* d4 d5 \<longrightarrow>
         (\<exists>e. FinishEventDelivery at x status code failure next_at d5 = Inl e))) \<and>
    (AttachmentQueue_ClaimEventDelivery L U now d = Inr (Some x, d1) \<and> ev_ID y = ev_ID x \<longrightarrow>
      (now' < now + lease_time \<longrightarrow> AttachmentQueue_ClaimEventDelivery L U now' d1 \<noteq> Inr (Some y, d2)) \<and>
      ((outbox_op L U)\<^sup>*\<^sup>* d1 d3 \<and> AttachmentQueue_ClaimEventDelivery L U now'' d3 = Inr (Some y, d4) \<and> (outbox_op L U)\<^sup>*\<^sup>* d4 d5 \<longrightarrow>
         (\<exists>e. AttachmentQueue_FinishEventDelivery at x status code failure next_at d5 = Inl e)))"
  by (intro conjI impI; elim conjE)
    ((rule evf.lease_exclusive [OF assms]; assumption) | (rule evf.stale_refused [OF assms]; assumption) |
     (rule atf.lease_exclusive [OF assms]; assumption) | (rule atf.stale_refused [OF assms]; assumption))+

definition leased_db :: db where
  "leased_db = snd (projr (ClaimEventDelivery 1000 outbox_db))"

definition leased :: EventDelivery where
  "leased = (delivery_item sample_delivery)\<lparr>ev_Attempts := 1\<rparr>"

lemma leased_sample: "ClaimEventDelivery 1000 outbox_db = Inr (Some leased, leased_db)"
  unfolding leased_db_def leased_def by code_simp

theorem lease_fencing_witness:
  "ClaimEventDelivery 1000 outbox_db = Inr (Some leased, leased_db) \<and>
   (\<nexists>d2. ClaimEventDelivery 59000000000 leased_db = Inr (Some leased, d2))"
  using lease_fencing [OF sample_outbox(2), where L = sample_library and U = sample_urls and now = 1000 and x = leased and ?d1.0 = leased_db and y = leased
      and now' = 59000000000] leased_sample
  by (auto simp: lease_time_def second_def)

section \<open>The workers\<close>

lemma delivery_state_row:
  assumes "unique_key dl_id (db_deliveries d)"
  shows "delivery_state d i = Some (s, a, l) \<longleftrightarrow>
    (\<exists>r \<in> set (db_deliveries d). dl_id r = i \<and> dl_status r = s \<and> dl_attempts r = a \<and> dl_lease_until r = l)"
  using select_row_unique [OF assms] by (auto simp: delivery_state_def dest!: select_row_Some)

lemma attachment_state_row:
  assumes "unique_key ad_id (db_attachments d)"
  shows "attachment_state d i = Some (s, a, l) \<longleftrightarrow>
    (\<exists>r \<in> set (db_attachments d). ad_id r = i \<and> ad_status r = s \<and> ad_attempts r = a \<and> ad_lease_until r = l)"
  using select_row_unique [OF assms] by (auto simp: attachment_state_def dest!: select_row_Some)

lemma outgoing_same:
  "ev_EndpointURL x = ev_EndpointURL y \<Longrightarrow> ev_SigningKeyID x = ev_SigningKeyID y \<Longrightarrow> ev_Body x = ev_Body y \<Longrightarrow>
     outgoing_request key unix x = outgoing_request key unix y"
  by (simp add: outgoing_request_def)

text \<open>A due delivery whose receiver answers with the receipt.\<close>

definition receiver_stores :: "(string \<times> string) list \<Rightarrow> 'u url_library \<Rightarrow> worker_env \<Rightarrow> nat \<Rightarrow> EventDelivery \<Rightarrow> bool" where
  "receiver_stores keys U W k x \<longleftrightarrow>
     (\<exists>key reply source. map_of keys (ev_SigningKeyID x) = Some key \<and> ul_Parse U (ev_EndpointURL x) \<noteq> None \<and>
        we_peer W k (outgoing_request key (we_host_time W k div second) x) = Some reply \<and>
        hr_status reply = 200 \<and> \<not> hr_read_error reply \<and> length (hr_body reply) \<le> 4096 \<and>
        decode_event_message (ev_Body x) = Some source \<and>
        validReceipt (hr_body reply) (em_EventID source) (em_SchemaVersion source) (if ev_Attachment x then ''Picture'' else []))"

lemma receiver_stores_send:
  "receiver_stores keys U W k x \<Longrightarrow> send keys U (we_host_time W k div second) (we_peer W k) x = (''delivered'', 200, [])"
  unfolding send_delivered judge_delivered receiver_stores_def by blast

lemma no_failure: "result_ok ''delivered'' 200 []"
  by code_simp

lemma tick_delivers:
  assumes "unique_key dl_id (db_deliveries d)" "\<not> we_claim_fault W k" "\<not> we_finish_fault W k"
    and "first_by dl_id (delivery_due (we_claim_time W k) d) (db_deliveries d) = Some r" "pg_integer (dl_attempts r + 1)"
    and "receiver_stores keys U W k (delivery_item r)"
  shows "\<exists>r' \<in> set (db_deliveries (Run_tick ClaimEventDelivery FinishEventDelivery keys U W k d)).
    dl_id r' = dl_id r \<and> dl_status r' = ''delivered'' \<and> dl_attempts r' = dl_attempts r + 1"
proof -
  obtain d1 where c: "ClaimEventDelivery (we_claim_time W k) d = Inr (Some (delivery_item r), d1)"
    using assms(4,5) by (simp add: ClaimEventDelivery_def)
  have i: "ev_ID (delivery_item r) = dl_id r" "ev_Attempts (delivery_item r) = dl_attempts r + 1" by (simp_all add: delivery_item_def)
  from evq.tick_result [OF assms(1-3) c receiver_stores_send [OF assms(6)] no_failure, unfolded i] show ?thesis
    by (auto simp: delivery_state_row)
qed

text \<open>
  C32. A turn of the worker marks an event delivery as delivered only when the receiver at its
  destination was sent its stored body, signed with its key, and answered 200 with the receipt of
  exactly that event.
\<close>

theorem delivered_with_receipt:
  assumes "unique_key dl_id (db_deliveries d)" "r \<in> set (db_deliveries (Run_tick ClaimEventDelivery FinishEventDelivery keys U W k d))"
    "dl_status r = ''delivered''"
  shows "(\<exists>r0 \<in> set (db_deliveries d). dl_id r0 = dl_id r \<and> dl_status r0 = ''delivered'') \<or>
    (\<exists>j key reply source.
       map_of keys (dl_signing_key_id r) = Some key \<and>
       we_peer W j (outgoing_request key (we_host_time W j div second) (delivery_item r)) = Some reply \<and> hr_status reply = 200 \<and>
       decode_event_message (dl_request_body r) = Some source \<and>
       receipt_for (hr_body reply) (em_EventID source) (em_SchemaVersion source) [])"
proof -
  let ?d = "Run_tick ClaimEventDelivery FinishEventDelivery keys U W k d"
  note sent = evm.drain_sent [OF assms(1), of keys U W tick_attempts k "dl_id r" "dl_attempts r" "dl_lease_until r", folded Run_tick_def]
  then have u: "unique_key dl_id (db_deliveries ?d)" by blast
  with assms(2,3) have "delivery_state ?d (dl_id r) = Some (''delivered'', dl_attempts r, dl_lease_until r)"
    by (auto simp: delivery_state_row)
  with sent consider "delivery_state d (dl_id r) = Some (''delivered'', dl_attempts r, dl_lease_until r)" | "receipted delivery_content False keys U W ?d (dl_id r)" by blast
  then show ?thesis
  proof cases
    case 2
    then obtain j x where x: "\<not> ev_Attachment x" "delivery_content ?d (dl_id r) = Some (ev_EndpointURL x, ev_SigningKeyID x, ev_Body x)"
      "fst (send keys U (we_host_time W j div second) (we_peer W j) x) = ''delivered''"
      unfolding receipted_def by blast
    from x(2) select_row_unique [OF u assms(2)] have c: "ev_EndpointURL x = dl_endpoint_url r" "ev_SigningKeyID x = dl_signing_key_id r" "ev_Body x = dl_request_body r"
      by (auto simp: delivery_content_def)
    have o: "outgoing_request key unix x = outgoing_request key unix (delivery_item r)" for key unix
      by (rule outgoing_same) (simp_all add: c delivery_item_def)
    obtain code failure where "send keys U (we_host_time W j div second) (we_peer W j) x = (''delivered'', code, failure)"
      using x(3) by (metis prod.collapse)
    with x(1) c show ?thesis unfolding send_delivered judge_delivered o validReceipt_exact by auto
  qed (use assms(1) in \<open>auto simp: delivery_state_row\<close>)
qed


lemma sample_first: "first_by dl_id (delivery_due 1000 outbox_db) (db_deliveries outbox_db) = Some sample_delivery"
  by code_simp

lemma sample_row:
  "dl_attempts sample_delivery = 0" "dl_signing_key_id sample_delivery = ''key-1''"
  "map_option (\<lambda>m. (em_EventID m, em_SchemaVersion m)) (decode_event_message (dl_request_body sample_delivery)) = Some (''1'', 2)"
  "validReceipt sample_receipt ''1'' 2 []" "length sample_receipt \<le> 4096"
  by code_simp+

lemma sample_stores: "receiver_stores sample_keys sample_urls sample_env 0 (delivery_item sample_delivery)"
proof -
  from sample_row(3) obtain m where "decode_event_message (dl_request_body sample_delivery) = Some m" "em_EventID m = ''1''" "em_SchemaVersion m = 2"
    by auto
  with sample_row show ?thesis
    by (auto simp: receiver_stores_def sample_keys_def sample_urls_def sample_env_def delivery_item_def zero_delivery_def)
qed

lemma sample_tick:
  "\<exists>r \<in> set (db_deliveries (Run_tick ClaimEventDelivery FinishEventDelivery sample_keys sample_urls sample_env 0 outbox_db)). dl_status r = ''delivered''"
proof -
  have e: "\<not> we_claim_fault sample_env 0" "\<not> we_finish_fault sample_env 0" "we_claim_time sample_env 0 = 1000" by (simp_all add: sample_env_def)
  from tick_delivers [OF outbox_unique(1) [OF sample_outbox(2)] e(1,2), unfolded e(3), OF sample_first _ sample_stores] show ?thesis
    by (auto simp: sample_row pg_integer_def)
qed

theorem delivered_with_receipt_witness:
  "\<exists>r \<in> set (db_deliveries (Run_tick ClaimEventDelivery FinishEventDelivery sample_keys sample_urls sample_env 0 outbox_db)).
     \<exists>source. decode_event_message (dl_request_body r) = Some source \<and>
       receipt_for sample_receipt (em_EventID source) (em_SchemaVersion source) []"
proof -
  from sample_tick obtain r where
    r: "r \<in> set (db_deliveries (Run_tick ClaimEventDelivery FinishEventDelivery sample_keys sample_urls sample_env 0 outbox_db))" "dl_status r = ''delivered''" by blast
  have "dl_status sample_delivery \<noteq> ''delivered''" using sample_first by (auto simp: delivery_due_def due_def dest!: first_by_Some)
  with delivered_with_receipt [OF outbox_unique(1) [OF sample_outbox(2)] r] r(1) sample_outbox(1) show ?thesis
    by (auto simp: sample_env_def)
qed


text \<open>
  C33. When the database works and the oldest due delivery's receiver answers with its receipt, the
  turn of the worker delivers it, with one more attempt counted.
\<close>

theorem delivery_progress:
  assumes "unique_key dl_id (db_deliveries d)" "\<not> we_claim_fault W k" "\<not> we_finish_fault W k"
    and "first_by dl_id (delivery_due (we_claim_time W k) d) (db_deliveries d) = Some r" "pg_integer (dl_attempts r + 1)"
    and "receiver_stores keys U W k (delivery_item r)"
  shows "\<exists>r' \<in> set (db_deliveries (Run_tick ClaimEventDelivery FinishEventDelivery keys U W k d)).
    dl_id r' = dl_id r \<and> dl_status r' = ''delivered'' \<and> dl_attempts r' = dl_attempts r + 1"
  by (rule tick_delivers [OF assms])

theorem delivery_progress_witness:
  "\<exists>r \<in> set (db_deliveries (Run_tick ClaimEventDelivery FinishEventDelivery sample_keys sample_urls sample_env 0 outbox_db)).
     dl_status r = ''delivered'' \<and> dl_attempts r = 1"
proof -
  have e: "\<not> we_claim_fault sample_env 0" "\<not> we_finish_fault sample_env 0" "we_claim_time sample_env 0 = 1000" by (simp_all add: sample_env_def)
  from delivery_progress [OF outbox_unique(1) [OF sample_outbox(2)] e(1,2), unfolded e(3), OF sample_first _ sample_stores] show ?thesis
    by (auto simp: sample_row pg_integer_def)
qed

text \<open>
  A turn of the attachment worker marks a receipt as delivered only when the receiver was sent
  the receipt's stored body, at the attachment address of its event's destination and signed with
  that destination's key, and answered 200 with the receipt of exactly that picture; the body, once
  stored, is not built again.
\<close>

lemma attachment_with_receipt:
  assumes "unique_key ad_id (db_attachments d)"
    "a \<in> set (db_attachments (Run_tick (AttachmentQueue_ClaimEventDelivery L U) AttachmentQueue_FinishEventDelivery keys U W k d))"
    "ad_status a = ''delivered''"
  shows "(\<exists>a0 \<in> set (db_attachments d). ad_id a0 = ad_id a \<and> ad_status a0 = ''delivered'') \<or>
    (\<exists>j key reply source url key_id body x.
       attachment_content U (Run_tick (AttachmentQueue_ClaimEventDelivery L U) AttachmentQueue_FinishEventDelivery keys U W k d) (ad_id a) =
         Some (url, key_id, body) \<and>
       ev_EndpointURL x = url \<and> ev_SigningKeyID x = key_id \<and> ev_Body x = body \<and> map_of keys key_id = Some key \<and>
       we_peer W j (outgoing_request key (we_host_time W j div second) x) = Some reply \<and> hr_status reply = 200 \<and>
       decode_event_message body = Some source \<and>
       receipt_for (hr_body reply) (em_EventID source) (em_SchemaVersion source) ''Picture'')"
proof -
  let ?d = "Run_tick (AttachmentQueue_ClaimEventDelivery L U) AttachmentQueue_FinishEventDelivery keys U W k d"
  note sent = atm.drain_sent [OF assms(1), of L U keys U W tick_attempts k "ad_id a" "ad_attempts a" "ad_lease_until a", folded Run_tick_def]
  then have u: "unique_key ad_id (db_attachments ?d)" by blast
  with assms(2,3) have "attachment_state ?d (ad_id a) = Some (''delivered'', ad_attempts a, ad_lease_until a)"
    by (auto simp: attachment_state_row)
  with sent consider "attachment_state d (ad_id a) = Some (''delivered'', ad_attempts a, ad_lease_until a)" | "receipted (attachment_content U) True keys U W ?d (ad_id a)" by blast
  then show ?thesis
  proof cases
    case 2
    then obtain j x where x: "ev_Attachment x" "attachment_content U ?d (ad_id a) = Some (ev_EndpointURL x, ev_SigningKeyID x, ev_Body x)"
      "fst (send keys U (we_host_time W j div second) (we_peer W j) x) = ''delivered''"
      unfolding receipted_def by blast
    obtain code failure where "send keys U (we_host_time W j div second) (we_peer W j) x = (''delivered'', code, failure)"
      using x(3) by (metis prod.collapse)
    with x(1,2) show ?thesis unfolding send_delivered judge_delivered validReceipt_exact by auto
  qed (use assms(1) in \<open>auto simp: attachment_state_row\<close>)
qed


definition attended_db :: db where
  "attended_db = outbox_db\<lparr>db_deliveries := [sample_delivery\<lparr>dl_status := ''delivered''\<rparr>]\<rparr>"

definition picture_receipt :: bytes where
  "picture_receipt = json_object [(''schemaVersion'', itoa 1), (''eventId'', json_quote ''1''), (''attachmentId'', json_quote ''Picture''),
     (''receipt'', json_quote ''stored'')]"

definition picture_env :: worker_env where
  "picture_env = sample_env\<lparr>we_peer := (\<lambda>_ _. Some \<lparr> hr_status = 200, hr_body = picture_receipt, hr_read_error = False \<rparr>)\<rparr>"

definition picture_body :: bytes where
  "picture_body = encode_attachment_message (attachment_base (zero_EventMessage\<lparr>em_SchemaVersion := 2, em_Source := ''pushsdk'', em_EventID := ''1''\<rparr>))"

definition picture_delivery :: EventDelivery where
  "picture_delivery = zero_delivery\<lparr>ev_Attachment := True, ev_ID := 1, ev_TerminalSerialNumber := ''DS-1'',
     ev_EndpointURL := ''https://hr.example/events/attachments'', ev_SigningKeyID := ''key-1'', ev_Attempts := 1, ev_Body := picture_body\<rparr>"

definition picture_db :: db where
  "picture_db = attended_db\<lparr>db_attachments := [sample_attachment\<lparr>ad_request_body := Some picture_body, ad_availability := Some ''not_provided'',
     ad_status := ''sending'', ad_attempts := 1, ad_lease_until := Some (1000 + lease_time)\<rparr>]\<rparr>"

lemma picture_claim: "AttachmentQueue_ClaimEventDelivery sample_library sample_urls 1000 attended_db = Inr (Some picture_delivery, picture_db)"
  by code_simp

lemma picture_row:
  "map_option (\<lambda>m. (em_EventID m, em_SchemaVersion m)) (decode_event_message picture_body) = Some (''1'', 1)"
  "validReceipt picture_receipt ''1'' 1 ''Picture''" "length picture_receipt \<le> 4096"
  by code_simp+

lemma picture_stores: "receiver_stores sample_keys sample_urls picture_env 0 picture_delivery"
proof -
  from picture_row(1) obtain m where "decode_event_message picture_body = Some m" "em_EventID m = ''1''" "em_SchemaVersion m = 1"
    by auto
  with picture_row show ?thesis
    by (auto simp: receiver_stores_def sample_keys_def sample_urls_def picture_env_def picture_delivery_def)
qed

lemma attachment_with_receipt_witness:
  "\<exists>a \<in> set (db_attachments (Run_tick (AttachmentQueue_ClaimEventDelivery sample_library sample_urls) AttachmentQueue_FinishEventDelivery
       sample_keys sample_urls picture_env 0 attended_db)).
     \<exists>source body. decode_event_message body = Some source \<and> receipt_for picture_receipt (em_EventID source) (em_SchemaVersion source) ''Picture''"
proof -
  let ?d = "Run_tick (AttachmentQueue_ClaimEventDelivery sample_library sample_urls) AttachmentQueue_FinishEventDelivery
       sample_keys sample_urls picture_env 0 attended_db"
  have p: "\<forall>a \<in> set (db_attachments attended_db). ad_status a \<noteq> ''delivered''" "unique_key ad_id (db_attachments attended_db)"
    unfolding attended_db_def unique_key_def by code_simp+
  have "attachment_state ?d (ev_ID picture_delivery) = Some (''delivered'', ev_Attempts picture_delivery, None)" "unique_key ad_id (db_attachments ?d)"
    using atq.tick_result [OF p(2) _ _ _ receiver_stores_send [OF picture_stores] no_failure, of sample_library sample_urls picture_db]
    by (simp_all add: picture_env_def sample_env_def picture_claim)
  then obtain a where a: "a \<in> set (db_attachments ?d)" "ad_status a = ''delivered''" by (auto simp: attachment_state_row)
  from attachment_with_receipt [OF p(2) a] p(1) a(1) show ?thesis by (force simp: picture_env_def)
qed

section \<open>Back-fills\<close>

text \<open>
  C34. Queuing an approved back-fill adds exactly the previewed events as pending deliveries of the
  previewed route, each with one receipt, and only under the token of the current preview; the same
  range cannot be queued a second time, whatever token is given.
\<close>

theorem backfill_once:
  assumes "QueueEventBackfill now serial from until token actor d = Inr ((batch, n), d')"
  shows "(\<exists>p new atts. previewEventBackfill serial from until d = Inr p \<and> bp_Token p = token \<and> n = int (length (bp_candidates p)) \<and>
      db_deliveries d' = db_deliveries d @ new \<and> list_all2 (queued_from batch (backfill_route now serial actor p)) new (bp_candidates p) \<and>
      db_attachments d' = db_attachments d @ atts \<and> map ad_event_delivery_id atts = map dl_id new) \<and>
    (\<forall>now' token' actor'. isl (QueueEventBackfill now' serial from until token' actor' d'))"
proof
  show "\<forall>now' token' actor'. isl (QueueEventBackfill now' serial from until token' actor' d')"
    using backfill_repeated [OF assms] by (metis isl_def sum.exhaust)
qed (use assms in \<open>rule backfill_queued, blast\<close>)

definition attendance :: Projection where
  "attendance = \<lparr> pr_MajorEventType = 5, pr_SubEventType = 75, pr_EventDescription = None, pr_EventState = None,
     pr_OccurredAt = Some \<lparr> gt_instant = 0, gt_offset = 0 \<rparr>, pr_SourceMACAddress = None, pr_ChannelID = None,
     pr_ActivePostCount = None, pr_ShortSerialNumber = None, pr_DeviceName = None, pr_EmployeeNumber = Some ''7'',
     pr_EmployeeName = Some ''Ada'', pr_CardNumber = None, pr_CardReaderNumber = None, pr_DoorNumber = None,
     pr_EventSerialNumber = None, pr_FrontSerialNumber = None, pr_UserType = None, pr_CurrentVerifyMode = None,
     pr_CurrentEvent = None, pr_Mask = None, pr_PicturesNumber = None, pr_PurePwdVerifyEnable = None, pr_FaceRect = None,
     pr_SourceIPAddress = None \<rparr>"

definition sample_retained :: retained_row where
  "sample_retained = \<lparr> ra_id = 1, ra_terminal_serial_number = ''DS-1'', ra_source_sync_run_uuid = [], ra_source_command_uuid = [],
     ra_source_record = [], ra_source_sha256 = replicate 32 (CHR 0x00), ra_imported_at = 0, ra_projection = attendance \<rparr>"

definition history_db :: "backfill_row list \<Rightarrow> db" where
  "history_db bs = admin_db\<lparr>db_routes := [sample_route], db_retained := [sample_retained], db_backfills := bs\<rparr>"

definition range_start :: go_time where "range_start = \<lparr> gt_instant = 0, gt_offset = 0 \<rparr>"
definition range_end :: go_time where "range_end = \<lparr> gt_instant = 5000, gt_offset = 0 \<rparr>"

definition retained_message :: EventMessage where
  "retained_message = source_message ''isapi'' (hex_encode (replicate 32 (CHR 0x00))) ''DS-1'' ''P1'' None (Some range_start) attendance"

definition history_preview :: "bytes \<Rightarrow> BackfillPreview" where
  "history_preview body = (empty_preview (route_of sample_route) range_start range_end)
     \<lparr>bp_candidates := [\<lparr> bc_Source = ''isapi'', bc_ID = 1, bc_Body = body \<rparr>], bp_Eligible := 1, bp_ISAPIEvents := 1,
      bp_Identities := [\<lparr> bi_EmployeeNumber = ''7'', bi_Names = [''Ada''], bi_Events = 1, bi_FirstScan = range_start, bi_LastScan = range_start \<rparr>]\<rparr>"

lemma history_source:
  "source_rows (history_db []) ''DS-1'' range_start range_end = [\<lparr> so_message = retained_message, so_id = 1, so_queued = False \<rparr>]"
  "validBackfillMessage retained_message" "encode_event_message retained_message \<noteq> None"
  "em_Source retained_message = ''isapi''" "em_EmployeeNumber retained_message = Some ''7''" "em_EmployeeName retained_message = Some ''Ada''"
  "em_OccurredAt retained_message = Some range_start" "em_EventSerialNumber retained_message = None"
  "json_time range_start \<noteq> None" "json_time range_end \<noteq> None"
  by code_simp+

lemma history_scan:
  assumes "encode_event_message retained_message = Some body"
  shows "foldE preview_row (source_rows (history_db []) ''DS-1'' range_start range_end) ([], empty_preview (route_of sample_route) range_start range_end) =
    Inr ([], history_preview body)"
  using assms
  by (simp add: history_source preview_row_def history_preview_def empty_preview_def add_scan_def someE_def shared_identity_def)

lemma history_manifest: "\<exists>m. preview_manifest (history_preview body) = Some m"
  using history_source(9,10)
  by (auto simp: preview_manifest_def encode_preview_def encode_identity_def history_preview_def empty_preview_def)

lemma history_sorted: "(history_preview body)\<lparr>bp_Identities := sort_identities (bp_Identities (history_preview body))\<rparr> = history_preview body"
  by (simp add: history_preview_def sort_identities_def)

lemma history_previewed:
  "\<exists>body token. previewEventBackfill ''DS-1'' range_start range_end (history_db []) = Inr ((history_preview body)\<lparr>bp_Token := token\<rparr>)"
proof -
  from history_source(3) obtain body where b: "encode_event_message retained_message = Some body" by blast
  from history_manifest obtain m where m: "preview_manifest (history_preview body) = Some m" by blast
  have r: "select_row (\<lambda>r. dr_terminal_serial_number r = ''DS-1'') (db_routes (history_db [])) = Some sample_route" "dr_enabled sample_route"
    by (simp_all add: history_db_def select_row_def sample_route_def)
  show ?thesis
    using history_scan [OF b] m r
    by (auto simp: previewEventBackfill_def Let_def history_sorted someE_def history_source(1))
qed

definition history_activity :: activity where
  "history_activity = new_activity ''admin.event_backfill_queued'' ''DS-1'' ''previewed historical events queued for delivery''
     [(''backfillId'', FInt 1), (''queuedCount'', FInt 1), (''startsAt'', FStr (format_rfc3339_nano range_start)),
      (''endsAt'', FStr (format_rfc3339_nano range_end)), (''adminUserId'', FInt 1)]"

lemma isl_bindE: "isl (bindE m f) = False \<Longrightarrow> \<exists>x y. m = Inr x \<and> f x = Inr y"
  by (cases m; cases "f (projr m)") (simp_all add: bindE_def)

lemma history_queues:
  "isl (bindE (foldE (queue_candidate 6000 1 (backfill_route 6000 ''DS-1'' 1 (history_preview body)))
      [\<lparr> bc_Source = ''isapi'', bc_ID = 1, bc_Body = body \<rparr>] (history_db bs)) (insertGatewayActivity 6000 history_activity)) = False"
  by code_simp

lemma history_guards:
  "registered (history_db []) ''DS-1''" "exists_row (\<lambda>u. au_id u = 1) (db_admin_users (history_db []))"
  by code_simp+

theorem backfill_once_witness:
  "\<exists>token batch n d'. QueueEventBackfill 6000 ''DS-1'' range_start range_end token 1 (history_db []) = Inr ((batch, n), d') \<and>
     isl (QueueEventBackfill 7000 ''DS-1'' range_start range_end token 1 d')"
proof -
  from history_previewed obtain body token where
    p: "previewEventBackfill ''DS-1'' range_start range_end (history_db []) = Inr ((history_preview body)\<lparr>bp_Token := token\<rparr>)" by blast
  let ?p = "(history_preview body)\<lparr>bp_Token := token\<rparr>"
  let ?entry = "backfill_entry 6000 ''DS-1'' range_start range_end 1 ?p (history_db [])"
  have e: "bf_id ?entry = 1" "bf_starts_at ?entry = 0" "bf_ends_at ?entry = 5000" "bf_queued_count ?entry = 1" "bf_created_by ?entry = 1"
    by (simp_all add: backfill_entry_def history_db_def admin_db_def sample_db_def empty_db_def next_id_def history_preview_def pg_timestamp_def
        range_start_def range_end_def)
  have c: "bp_candidates ?p = [\<lparr> bc_Source = ''isapi'', bc_ID = 1, bc_Body = body \<rparr>]" "bp_Eligible ?p = 1"
    "backfill_route 6000 ''DS-1'' 1 ?p = backfill_route 6000 ''DS-1'' 1 (history_preview body)"
    by (simp_all add: history_preview_def backfill_route_def)
  have db: "(history_db [])\<lparr>db_backfills := db_backfills (history_db []) @ [?entry]\<rparr> = history_db [?entry]"
    by (simp add: history_db_def)
  have ok: "backfill_row_ok (history_db []) ?entry" using history_guards(2) by (simp add: backfill_row_ok_def e)
  from isl_bindE [OF history_queues [of body "[?entry]"]] obtain d1 r where
    q: "foldE (queue_candidate 6000 1 (backfill_route 6000 ''DS-1'' 1 (history_preview body))) [\<lparr> bc_Source = ''isapi'', bc_ID = 1, bc_Body = body \<rparr>] (history_db [?entry]) = Inr d1"
      "insertGatewayActivity 6000 history_activity d1 = Inr r" by blast
  obtain stored d' where r: "r = (stored, d')" by (cases r)
  have "QueueEventBackfill 6000 ''DS-1'' range_start range_end token 1 (history_db []) = Inr ((1, 1), d')"
    using ok history_guards(1) q(2) [unfolded r history_activity_def] unfolding QueueEventBackfill_def p Let_def
    by (simp add: c e db q(1) del: foldE.simps)
  with backfill_once [OF this] show ?thesis by blast
qed

section \<open>The contract of the queues\<close>



end
