(* ===== verification/HttpProperties.thy ===== *)
theory HttpProperties
  imports HttpHandlers OutboxProperties
begin

text \<open>
  The properties of the administration API: who gets past its guard, what signing in and out does to
  the database, which command addresses are accepted, and what the pages of the archive show.
\<close>

section \<open>The guard\<close>

lemma readA_apply:
  "readA E f w = (if se_db_fault E (w_tick w) then Inl ErrDatabase else Inr (f (tx_now (tx_env_at E (w_tick w))) (w_db w)),
     w\<lparr>w_tick := w_tick w + 1\<rparr>)"
  by (simp add: readA_def run_tx_def bindS_def tickS_def)

lemma writeError_apply [simp]:
  "writeError status message w = (\<lparr> ap_Status = status, ap_Value = ErrorValue message, ap_Cookie = None \<rparr>, w)"
  by (simp add: writeError_def writeJSON_def)

lemma internalError_apply [simp]:
  "internalError w = (\<lparr> ap_Status = 500, ap_Value = ErrorValue ''internal server error'', ap_Cookie = None \<rparr>, w)"
  by (simp add: internalError_def)

text \<open>
  Every administration route is closed to a request that carries no cookie, or one whose session
  the database does not know or that has expired.
\<close>

lemma guarded:
  assumes "\<forall>token. sessionToken rq = Inr token \<longrightarrow>
    AdminIdentityForSession (tx_now (tx_env_at (ax_service A) (w_tick w))) (sha256 token) (w_db w) = None"
  shows "\<exists>response n. Register A (Admin r) rq w = (response, w\<lparr>w_tick := n\<rparr>) \<and> ap_Cookie response = None \<and>
    (ap_Status response = 401 \<or> ap_Status response = 500 \<and> se_db_fault (ax_service A) (w_tick w)) \<and>
    (\<exists>message. ap_Value response = ErrorValue message)"
proof (cases "sessionToken rq")
  case (Inl e)
  then show ?thesis by (simp add: Register_def withSession_def) (metis world.surjective world.update_convs(5))
next
  case (Inr token)
  with assms have "AdminIdentityForSession (tx_now (tx_env_at (ax_service A) (w_tick w))) (sha256 token) (w_db w) = None" by blast
  with Inr show ?thesis by (auto simp: Register_def withSession_def callA_def readA_apply)
qed

definition sample_endpoints :: "string endpoint_library" where
  "sample_endpoints = \<lparr> el_Parse = Some, el_Scheme = (\<lambda>u. takeWhile (\<lambda>c. c \<noteq> CHR '':'') u), el_Hostname = (\<lambda>u. drop 8 u),
     el_has_user = (\<lambda>_. False), el_Fragment = (\<lambda>_. []), el_Opaque = (\<lambda>_. []) \<rparr>"

definition sample_net :: "(string, string) net_library" where
  "sample_net = \<lparr> nl_SplitHostPort = Some, nl_ParseAddr = Some, nl_ParsePrefix = Some, nl_Contains = has_prefix \<rparr>"

definition sample_api :: "(string, string, string) api_env" where
  "sample_api = \<lparr> ax_service = calm, ax_bcrypt = (\<lambda>h p. h = p), ax_url = sample_endpoints, ax_net = sample_net, ax_metricsNets = [''10.''] \<rparr>"

definition sample_api_request :: "(string \<times> string) list \<Rightarrow> bytes \<Rightarrow> api_request" where
  "sample_api_request cookies body = \<lparr> ar_RawQuery = [], ar_ContentType = ''application/json'', ar_ContentLength = int (length body), ar_Body = body,
     ar_Cookies = cookies, ar_PathValue = (\<lambda>_. []), ar_Origin = [], ar_ForwardedProto = [], ar_TLS = True, ar_Host = [], ar_RemoteAddr = [] \<rparr>"

section \<open>Command addresses\<close>

definition isapi_segment :: "string \<Rightarrow> bool" where
  "isapi_segment s \<longleftrightarrow> s \<noteq> [] \<and> s \<noteq> ''.'' \<and> s \<noteq> ''..'' \<and> list_all (\<lambda>c. visible_ascii c \<and> c \<notin> set ''/?#'') s"

definition isapi_query :: "string \<Rightarrow> bool" where
  "isapi_query q \<longleftrightarrow> q = [] \<or> hd q = CHR ''?'' \<and> list_all (\<lambda>c. visible_ascii c \<and> c \<notin> set ''?#'') (tl q)"

text \<open>The addresses of the device interface: explicit segments below \<open>/ISAPI/\<close> and at most one query.\<close>

definition isapi_url :: "string \<Rightarrow> bool" where
  "isapi_url raw \<longleftrightarrow> length raw \<le> 4096 \<and>
     (\<exists>segments query. segments \<noteq> [] \<and> list_all isapi_segment segments \<and> isapi_query query \<and>
        raw = ''/ISAPI/'' @ join_with (CHR ''/'') segments @ query)"

lemma join_in:
  "\<forall>s \<in> set ss. list_all P s \<Longrightarrow> P c \<Longrightarrow> list_all P (join_with c ss)"
  by (induction c ss rule: join_with.induct) auto

lemma split_pieces: "list_all (\<lambda>x. x \<noteq> c) p" if "p \<in> set (split_on c s)"
  using that by (induction c s arbitrary: p rule: split_on.induct) (auto split: if_splits list.splits)

lemma split_piece_chars: "p \<in> set (split_on c s) \<Longrightarrow> x \<in> set p \<Longrightarrow> x \<in> set s"
  by (induction c s arbitrary: p rule: split_on.induct) (fastforce split: if_splits list.splits)+

lemma has_prefix_split: "has_prefix p s \<Longrightarrow> s = p @ drop (length p) s"
  unfolding has_prefix_def by (metis append_take_drop_id)

lemma ISAPI_split: "has_prefix ''/ISAPI/'' raw \<Longrightarrow> raw = ''/ISAPI/'' @ drop 7 raw"
  using has_prefix_split [of "''/ISAPI/''" raw] by (simp add: eval_nat_numeral)

lemma validateISAPIURL_Inr:
  "validateISAPIURL raw = Inr () \<longleftrightarrow>
     8 \<le> length raw \<and> length raw \<le> 4096 \<and> has_prefix ''/ISAPI/'' raw \<and> count_list raw (CHR ''?'') \<le> 1 \<and> CHR ''#'' \<notin> set raw \<and>
     list_all visible_ascii raw \<and>
     list_all (\<lambda>s. s \<noteq> [] \<and> s \<noteq> ''.'' \<and> s \<noteq> ''..'') (split_on (CHR ''/'') (takeWhile (\<lambda>c. c \<noteq> CHR ''?'') (drop 7 raw)))"
proof -
  have "has_prefix ''/ISAPI/'' (takeWhile (\<lambda>c. c \<noteq> CHR ''?'') raw) \<and> drop 7 (takeWhile (\<lambda>c. c \<noteq> CHR ''?'') raw) = takeWhile (\<lambda>c. c \<noteq> CHR ''?'') (drop 7 raw)"
    if pre: "has_prefix ''/ISAPI/'' raw"
  proof -
    obtain r where r: "raw = ''/ISAPI/'' @ r" using ISAPI_split [OF pre] by blast
    then have "takeWhile (\<lambda>c. c \<noteq> CHR ''?'') raw = ''/ISAPI/'' @ takeWhile (\<lambda>c. c \<noteq> CHR ''?'') r" by simp
    moreover have "drop 7 raw = r" by (simp add: r)
    ultimately show ?thesis by (simp add: has_prefix_def)
  qed
  then show ?thesis unfolding validateISAPIURL_def Let_def bindE_eq_Inr guardE_eq_Inr by auto
qed

lemma isapi_url_accepted:
  assumes "segments \<noteq> []" "list_all isapi_segment segments" "isapi_query query" "length raw \<le> 4096"
    "raw = ''/ISAPI/'' @ join_with (CHR ''/'') segments @ query"
  shows "validateISAPIURL raw = Inr ()"
proof -
  let ?p = "join_with (CHR ''/'') segments"
  have seg: "\<forall>s \<in> set segments. list_all (\<lambda>c. visible_ascii c \<and> c \<notin> set ''?#'') s \<and> CHR ''/'' \<notin> set s \<and> s \<noteq> [] \<and> s \<noteq> ''.'' \<and> s \<noteq> ''..''"
    using assms(2) by (auto simp: list_all_iff isapi_segment_def)
  have p: "list_all (\<lambda>c. visible_ascii c \<and> c \<notin> set ''?#'') ?p"
    using seg by (intro join_in) (auto simp: visible_ascii_def)
  have split: "split_on (CHR ''/'') ?p = segments" using seg by (intro split_join assms(1)) auto
  have "?p \<noteq> []" using seg assms(1) by (cases segments rule: list.exhaust; cases "tl segments") auto
  moreover have "takeWhile (\<lambda>c. c \<noteq> CHR ''?'') (?p @ query) = ?p"
    using p assms(3) by (cases query) (auto simp: list_all_iff isapi_query_def takeWhile_append)
  moreover have "count_list query (CHR ''?'') \<le> 1 \<and> list_all visible_ascii query \<and> CHR ''#'' \<notin> set query"
  proof (cases query)
    case (Cons c q)
    with assms(3) have q: "c = CHR ''?''" "list_all (\<lambda>c. visible_ascii c \<and> c \<notin> set ''?#'') q" by (simp_all add: isapi_query_def)
    then have "count_list q (CHR ''?'') = 0" by (auto simp: list_all_iff count_list_0_iff)
    moreover have "visible_ascii (CHR ''?'')" by (simp add: visible_ascii_def)
    ultimately show ?thesis using q Cons by (auto simp: list_all_iff)
  qed simp
  moreover have "count_list ?p (CHR ''?'') = 0" "CHR ''#'' \<notin> set ?p" "list_all visible_ascii ?p"
    using p by (auto simp: list_all_iff count_list_0_iff)
  moreover have "drop 7 raw = ?p @ query" by (simp add: assms(5))
  moreover have "1 \<le> length ?p" using calculation(1) by (cases ?p) simp_all
  moreover have "list_all visible_ascii ''/ISAPI/''" by (simp add: visible_ascii_def)
  moreover have "list_all (\<lambda>s. s \<noteq> [] \<and> s \<noteq> ''.'' \<and> s \<noteq> ''..'') segments" using seg by (simp add: list_all_iff)
  ultimately show ?thesis
    using assms(4) unfolding validateISAPIURL_Inr by (simp add: split assms(5) has_prefix_def)
qed

lemma isapi_url_required:
  assumes "validateISAPIURL raw = Inr ()"
  shows "isapi_url raw"
proof -
  note v = assms [unfolded validateISAPIURL_Inr]
  define r where "r = drop 7 raw"
  define p where "p = takeWhile (\<lambda>c. c \<noteq> CHR ''?'') r"
  define q where "q = dropWhile (\<lambda>c. c \<noteq> CHR ''?'') r"
  have raw: "raw = ''/ISAPI/'' @ r" unfolding r_def by (rule ISAPI_split) (use v in simp)
  have r: "r = p @ q" by (simp add: p_def q_def)
  have np: "CHR ''?'' \<notin> set p" unfolding p_def by (auto dest: set_takeWhileD)
  have "isapi_query q"
  proof (cases q)
    case (Cons c q')
    then have c: "c = CHR ''?''" using hd_dropWhile [of "\<lambda>c. c \<noteq> CHR ''?''" r] by (simp add: q_def)
    have "count_list raw (CHR ''?'') = 1 + count_list q' (CHR ''?'')" using np count_notin [of "CHR ''?''" p] by (simp add: raw r Cons c)
    with v have "CHR ''?'' \<notin> set q'" by (simp add: count_list_0_iff)
    with v c Cons show ?thesis by (auto simp: isapi_query_def raw r list_all_iff)
  qed (simp add: isapi_query_def)
  moreover have chars: "\<forall>x \<in> set p. visible_ascii x \<and> x \<noteq> CHR ''#'' \<and> x \<noteq> CHR ''?''"
    using v np by (auto simp: raw r list_all_iff)
  moreover have pieces: "\<forall>s \<in> set (split_on (CHR ''/'') p). s \<noteq> [] \<and> s \<noteq> ''.'' \<and> s \<noteq> ''..''"
    using v unfolding p_def r_def list_all_iff by blast
  moreover have "list_all isapi_segment (split_on (CHR ''/'') p)"
    unfolding list_all_iff
  proof
    fix s assume s: "s \<in> set (split_on (CHR ''/'') p)"
    have "x \<in> set s \<Longrightarrow> x \<in> set p \<and> x \<noteq> CHR ''/''" for x
      using split_piece_chars [OF s] split_pieces [OF s] by (auto simp: list_all_iff)
    with chars pieces s show "isapi_segment s" by (simp add: isapi_segment_def list_all_iff)
  qed
  moreover have "raw = ''/ISAPI/'' @ join_with (CHR ''/'') (split_on (CHR ''/'') p) @ q" using raw r by (simp add: join_split)
  ultimately show ?thesis
    using v unfolding isapi_url_def
    by (intro conjI exI [of _ "split_on (CHR ''/'') p"] exI [of _ q]) simp_all
qed

text \<open>
  C37. A command address is accepted exactly when it names explicit segments below \<open>/ISAPI/\<close>, followed
  by at most one query, in visible ASCII of at most 4096 bytes: no relative or empty segment, no
  fragment, nothing outside the device interface.
\<close>

theorem isapi_url_exact: "validateISAPIURL raw = Inr () \<longleftrightarrow> isapi_url raw"
  using isapi_url_required isapi_url_accepted unfolding isapi_url_def by blast

section \<open>Signing in and out\<close>

lemma AdminIdentity_invalid: "\<not> SessionValid t h d \<Longrightarrow> AdminIdentityForSession t h d = None"
  by (auto simp: AdminIdentityForSession_def SessionValid_def row_simps split: option.splits dest!: select_row_Some)

lemma randomTokenS_apply:
  "randomTokenS E w = (randomToken (se_rand E (w_tick w)), w\<lparr>w_tick := w_tick w + 1\<rparr>)"
  by (simp add: randomTokenS_def bindS_def tickS_def liftS_def)

lemma host_timeS_apply: "host_timeS E w = (Inr (se_host_clock E (w_tick w)), w\<lparr>w_tick := w_tick w + 1\<rparr>)"
  by (simp add: host_timeS_def bindS_def tickS_def returnS_def)

lemma run_tx_apply:
  "run_tx E f w =
     (if se_db_fault E (w_tick w) then (Inl ErrDatabase, w\<lparr>w_tick := w_tick w + 1\<rparr>)
      else case f (tx_env_at E (w_tick w)) (w_db w) of
             Inl e \<Rightarrow> (Inl e, w\<lparr>w_tick := w_tick w + 1\<rparr>)
           | Inr (a, d) \<Rightarrow> (Inr a, w\<lparr>w_tick := w_tick w + 1, w_db := d\<rparr>))"
  by (simp add: run_tx_def bindS_def tickS_def split: sum.splits)

lemma publishS_apply: "publishS event w = (Inr (), w\<lparr>w_hub := Publish event (w_hub w)\<rparr>)"
  by (simp add: publishS_def modifyS_def)

lemmas api_apply = readA_apply randomTokenS_apply host_timeS_apply run_tx_apply publishS_apply

lemma open_session_200:
  assumes "open_session A userID w = (response, w')" "ap_Status response = 200"
  obtains token stored where "randomToken (se_rand (ax_service A) (w_tick w)) = Inr token"
    "CreateSessionWithActivity (tx_now (tx_env_at (ax_service A) (w_tick w + 2))) userID (sha256 token)
       (se_host_clock (ax_service A) (w_tick w + 1) + SessionTTL (api_config A))
       (new_activity ''admin.login'' [] ''administrator session opened'' []) (w_db w) = Inr (stored, w_db w')"
    "ap_Cookie response = Some (session_cookie_of (api_config A) token (SessionTTL (api_config A) div second))"
  using assms
  by (auto simp: open_session_def Let_def callA_def api_apply with_cookie_def writeJSON_def split: sum.splits if_splits prod.splits)

lemma login_200:
  assumes "Register A Login rq w = (response, w')" "ap_Status response = 200"
  obtains input userID where "decodeJSON loginInput_field \<lparr> li_Username = [], li_Password = [] \<rparr> rq = Inr input"
    "VerifyAdmin (ax_bcrypt A) (li_Username input) (li_Password input) (w_db w) = Some userID"
    "open_session A userID (w\<lparr>w_tick := w_tick w + 1\<rparr>) = (response, w')"
  using assms
  by (auto simp: Register_def login_handler_def checkA_def callA_def readA_apply split: sum.splits if_splits option.splits)

lemma logout_200:
  assumes "Register A (Admin Logout) rq w = (response, w')" "ap_Status response = 200" "sessionToken rq = Inr token"
  shows "AdminIdentityForSession t (sha256 token) (w_db w') = None"
proof -
  from assms obtain now stored where
    "DeleteSessionWithActivity now (sha256 token) (new_activity ''admin.logout'' [] ''administrator session closed'' []) (w_db w) = Inr (stored, w_db w')"
    by (auto simp: Register_def withSession_def logout_handler_def callA_def api_apply with_cookie_def writeJSON_def
        split: sum.splits if_splits option.splits prod.splits)
  from SessionValid_Delete [OF this] show ?thesis by (intro AdminIdentity_invalid) simp
qed

text \<open>
  C36. Signing in succeeds only with credentials the store verifies, and then the cookie's token, of 32
  random bytes, identifies that administrator from now until exactly the configured lifetime has
  passed; once signed out with it, it identifies nobody.
\<close>

theorem admin_sign_in:
  assumes "Register A Login rq w = (response, w')" "ap_Status response = 200" "unique_key au_id (db_admin_users (w_db w))"
  shows "\<exists>input userID token.
    decodeJSON loginInput_field \<lparr> li_Username = [], li_Password = [] \<rparr> rq = Inr input \<and>
    VerifyAdmin (ax_bcrypt A) (li_Username input) (li_Password input) (w_db w) = Some userID \<and>
    token = raw_url_base64 (take 32 (se_rand (ax_service A) (w_tick w + 1))) \<and>
    ap_Cookie response = Some (session_cookie_of (api_config A) token (SessionTTL (api_config A) div second)) \<and>
    (\<forall>t. map_option ai_ID (AdminIdentityForSession t (sha256 token) (w_db w')) =
       (if t < pg_timestamp (se_host_clock (ax_service A) (w_tick w + 2) + SessionTTL (api_config A)) then Some userID else None)) \<and>
    (\<forall>rq2 w2 response2 w3 t. Register A (Admin Logout) rq2 w2 = (response2, w3) \<and> ap_Status response2 = 200 \<and>
       sessionToken rq2 = Inr token \<longrightarrow> AdminIdentityForSession t (sha256 token) (w_db w3) = None)"
proof -
  from assms(1,2) obtain input userID where i: "decodeJSON loginInput_field \<lparr> li_Username = [], li_Password = [] \<rparr> rq = Inr input"
    "VerifyAdmin (ax_bcrypt A) (li_Username input) (li_Password input) (w_db w) = Some userID"
    "open_session A userID (w\<lparr>w_tick := w_tick w + 1\<rparr>) = (response, w')" by (rule login_200)
  from i(3) assms(2) obtain token stored where s: "randomToken (se_rand (ax_service A) (w_tick w + 1)) = Inr token"
    "CreateSessionWithActivity (tx_now (tx_env_at (ax_service A) (w_tick w + 1 + 2))) userID (sha256 token)
       (se_host_clock (ax_service A) (w_tick w + 2) + SessionTTL (api_config A))
       (new_activity ''admin.login'' [] ''administrator session opened'' []) (w_db w) = Inr (stored, w_db w')"
    "ap_Cookie response = Some (session_cookie_of (api_config A) token (SessionTTL (api_config A) div second))"
    by (rule open_session_200) (simp add: numeral_2_eq_2)
  have t: "token = raw_url_base64 (take 32 (se_rand (ax_service A) (w_tick w + 1)))"
    using s(1) by (auto simp: randomToken_def read_full_def bindE_eq_Inr split: if_splits)
  have "map_option ai_ID (AdminIdentityForSession t (sha256 token) (w_db w')) =
       (if t < pg_timestamp (se_host_clock (ax_service A) (w_tick w + 2) + SessionTTL (api_config A)) then Some userID else None)" for t
    using AdminIdentity_Create [OF s(2) assms(3), of t] SessionValid_Create [OF s(2), of t "sha256 token"] AdminIdentity_invalid [of t "sha256 token" "w_db w'"]
    by auto
  with i s(3) t show ?thesis by (blast intro: logout_200)
qed

definition login_request :: api_request where
  "login_request = sample_api_request []
     (''{'' @ [CHR 0x22] @ ''username'' @ [CHR 0x22] @ '':'' @ [CHR 0x22] @ ''root'' @ [CHR 0x22] @ '','' @
      [CHR 0x22] @ ''password'' @ [CHR 0x22] @ '':'' @ [CHR 0x22] @ ''secret'' @ [CHR 0x22] @ ''}'')"

definition login_world :: world where
  "login_world = (sample_world True)\<lparr>w_db := admin_db\<rparr>"

lemma login_request_input:
  "decodeJSON loginInput_field \<lparr> li_Username = [], li_Password = [] \<rparr> login_request = Inr \<lparr> li_Username = ''root'', li_Password = ''secret'' \<rparr>"
  by code_simp

lemma sample_api_service [simp]: "ax_service sample_api = calm" "ax_bcrypt sample_api = (\<lambda>h p. h = p)"
  by (simp_all add: sample_api_def)

lemma sample_token: "\<exists>token. randomToken (replicate 128 (CHR 0x00)) = Inr token"
  by (simp add: randomToken_def read_full_def)

lemma login_world_user: "VerifyAdmin (\<lambda>h p. h = p) ''root'' ''secret'' (w_db login_world) = Some 1"
  by (simp add: VerifyAdmin_def login_world_def admin_db_def select_row_def)

lemma login_activity_parts [simp]:
  "act_Kind (new_activity k t m fs) = k" "act_Message (new_activity k t m fs) = m"
  by (simp_all add: new_activity_def)

lemma login_activity_ok: "activity_row_ok d (new_activity ''admin.login'' [] ''administrator session opened'' [])"
proof -
  have "kind_ok ''admin.login''" "pg_text ''administrator session opened''" by code_simp+
  then show ?thesis by (simp add: activity_row_ok_def new_activity_def)
qed

lemma login_world_session:
  "\<exists>st d'. CreateSessionWithActivity now 1 h t (new_activity ''admin.login'' [] ''administrator session opened'' []) (w_db login_world) = Inr (st, d')"
  by (simp add: CreateSessionWithActivity_def login_world_def admin_db_def sample_db_def empty_db_def exists_row_def insertGatewayActivity_def
      Let_def login_activity_ok)

lemma login_sample: "\<exists>response w'. Register sample_api Login login_request login_world = (response, w') \<and> ap_Status response = 200"
proof -
  obtain token where t: "randomToken (replicate 128 (CHR 0x00)) = Inr token" using sample_token by blast
  have f: "\<not> se_db_fault calm n" for n by (simp add: env_with_faults_def)
  have k: "w_tick login_world = 0" by (simp add: login_world_def sample_world_def)
  obtain st d' where "CreateSessionWithActivity (tx_now (tx_env_at calm 3)) 1 (sha256 token) (se_host_clock calm 2 + SessionTTL (api_config sample_api))
     (new_activity ''admin.login'' [] ''administrator session opened'' []) (w_db login_world) = Inr (st, d')"
    using login_world_session by blast
  then show ?thesis
    by (simp add: Register_def login_handler_def checkA_def login_request_input callA_def api_apply f k login_world_user
        open_session_def Let_def t with_cookie_def writeJSON_def numeral_2_eq_2 numeral_3_eq_3)
qed

theorem admin_sign_in_witness:
  "\<exists>response w'. Register sample_api Login login_request login_world = (response, w') \<and> ap_Status response = 200 \<and>
     map_option ai_ID (AdminIdentityForSession 0 (sha256 (raw_url_base64 (replicate 32 (CHR 0x00)))) (w_db w')) = Some 1"
proof -
  obtain response w' where l: "Register sample_api Login login_request login_world = (response, w')" "ap_Status response = 200"
    using login_sample by blast
  have u: "unique_key au_id (db_admin_users (w_db login_world))" by (simp add: login_world_def admin_db_def unique_key_def)
  have p: "0 < pg_timestamp (se_host_clock calm n + SessionTTL (api_config sample_api))" for n
    by (simp add: pg_timestamp_def env_with_faults_def sample_api_def sample_config_def)
  from admin_sign_in [OF l u] p have
    "map_option ai_ID (AdminIdentityForSession 0 (sha256 (raw_url_base64 (replicate 32 (CHR 0x00)))) (w_db w')) = Some 1"
    by (auto simp: login_request_input login_world_user simp del: map_option_eq_Some)
  with l show ?thesis by blast
qed

section \<open>Pages of the archive\<close>

definition newer :: "archive_event \<Rightarrow> archive_event \<Rightarrow> bool" where
  "newer a b \<longleftrightarrow> av_received_at b < av_received_at a \<or> av_received_at b = av_received_at a \<and> av_id b < av_id a"

definition archive_page :: "DeviceEventQuery \<Rightarrow> int \<Rightarrow> nat \<Rightarrow> db \<Rightarrow> DeviceEventPage" where
  "archive_page q limit i d = QueryDeviceEvents (q\<lparr>qy_Limit := limit, qy_Offset := int i * limit\<rparr>) d"

lemma paged_clauses: "archiveEventClauses (q\<lparr>qy_Limit := l, qy_Offset := k\<rparr>) = archiveEventClauses q"
  by (simp add: archiveEventClauses_def fun_eq_iff)

lemma sorted_wrt_strict:
  assumes "sorted_wrt P xs" "distinct (map k xs)" "\<And>a b. P a b \<Longrightarrow> k a \<noteq> k b \<Longrightarrow> Q a b"
  shows "sorted_wrt Q xs"
  using assms(1,2) by (induction xs) (auto intro!: assms(3))

text \<open>
  C38. The pages of an archive query, taken one after the other, show every matching live and retained
  event exactly once, newest first, and each reports how many there are, provided no two of them share
  both the reception time and the identity.
\<close>

theorem archive_pages:
  assumes "0 < limit" "length (filter (archiveEventClauses q) (archive_events d)) \<le> n * nat limit"
    "distinct (map (\<lambda>e. (av_received_at e, av_id e)) (filter (archiveEventClauses q) (archive_events d)))"
  shows "\<exists>rows. mset rows = mset (filter (archiveEventClauses q) (archive_events d)) \<and> sorted_wrt newer rows \<and>
    concat (map (\<lambda>i. dg_Events (archive_page q limit i d)) [0..<n]) = map device_event rows \<and>
    (\<forall>i. dg_Total (archive_page q limit i d) = int (length rows))"
proof (intro exI conjI)
  let ?found = "filter (archiveEventClauses q) (archive_events d)"
  let ?rows = "newest_first av_received_at av_id ?found"
  let ?key = "\<lambda>e. (av_received_at e, av_id e)"
  show m: "mset ?rows = mset ?found" by (simp add: mset_newest_first)
  then have "distinct (map ?key ?rows)" using assms(3) by (metis mset_eq_imp_distinct_iff mset_map)
  then show "sorted_wrt newer ?rows"
    by (rule sorted_wrt_strict [OF newest_first_order [of av_received_at av_id ?found]]) (auto simp: newer_def)
  have page: "dg_Events (archive_page q limit i d) = map device_event (page_rows limit (int i * limit) ?rows)" for i
    by (simp add: archive_page_def QueryDeviceEvents_def matching_events_def paged_clauses)
  have "concat (map (\<lambda>i. dg_Events (archive_page q limit i d)) [0..<n]) =
    map device_event (concat (map (\<lambda>i. page_rows limit (int i * limit) ?rows) [0..<n]))"
    by (simp add: page map_concat comp_def)
  also have "\<dots> = map device_event ?rows"
    using assms(2) by (simp add: pages_concat [OF assms(1)] length_newest_first)
  finally show "concat (map (\<lambda>i. dg_Events (archive_page q limit i d)) [0..<n]) = map device_event ?rows" .
  show "\<forall>i. dg_Total (archive_page q limit i d) = int (length ?rows)"
    by (simp add: archive_page_def QueryDeviceEvents_def paged_clauses length_newest_first)
qed

definition every_event :: DeviceEventQuery where
  "every_event = \<lparr> qy_Limit = 50, qy_Offset = 0, qy_MajorEventType = None, qy_SubEventType = None, qy_Terminal = [], qy_Source = [] \<rparr>"

theorem archive_pages_witness:
  "length (concat (map (\<lambda>i. dg_Events (archive_page every_event 1 i (history_db []))) [0..<2])) = 1"
proof -
  have f: "filter (archiveEventClauses every_event) (archive_events (history_db [])) = [retained_event sample_retained]"
    by (simp add: archive_events_def history_db_def admin_db_def sample_db_def empty_db_def archiveEventClauses_def every_event_def column_is_def)
  then have "\<exists>rows. mset rows = {#retained_event sample_retained#} \<and>
     concat (map (\<lambda>i. dg_Events (archive_page every_event 1 i (history_db []))) [0..<2]) = map device_event rows"
    using archive_pages [of 1 every_event "history_db []" 2] by auto
  then obtain rows where r: "mset rows = {#retained_event sample_retained#}"
    "concat (map (\<lambda>i. dg_Events (archive_page every_event 1 i (history_db []))) [0..<2]) = map device_event rows" by blast
  then have "length rows = 1" by (metis size_mset size_single)
  with r(2) show ?thesis by simp
qed

end
