(* ===== verification/GatewayProperties.thy ===== *)
theory GatewayProperties
  imports Gateway HttpProperties
begin

text \<open>
  The properties of the whole gateway: what a successful start establishes, when a start with another
  administrator fails, what a client without a session can do, and what a monitor connection is sent.
\<close>

section \<open>Starting\<close>

text \<open>
  C11. A start that succeeds has loaded a valid configuration and migrated the database, and leaves a gateway in one of its
  reachable states: no archived event waits for its projection, every configured terminal is shown
  offline until it is heard, the configured administrator is the only one and can sign in, and no
  command is past its deadline.
\<close>

theorem gateway_started:
  assumes "run H V tables generate matches N E s = Inr (E', nets, w)" "bcrypt_contract generate matches"
    and "\<forall>s1. Migrate V s = (Inr (), s1) \<longrightarrow> tables_ok (tables (mg_tables s1))"
  shows "\<exists>cfg s1. Load (ho_ParseDuration H) (ho_env H) (ho_ReadFile H) = Inr cfg \<and> Validate cfg = Inr () \<and> se_config E' = cfg \<and>
    Migrate V s = (Inr (), s1) \<and> reachable E' w \<and> stale_events (w_db w) = [] \<and>
    (\<forall>t \<in> set (Terminals cfg). terminal_status (w_db w) (SerialNumber t) = Some ''offline'') \<and>
    map au_username (db_admin_users (w_db w)) = [AdminUsername cfg] \<and>
    VerifyAdmin matches (AdminUsername cfg) (AdminPassword cfg) (w_db w) \<noteq> None \<and>
    (\<forall>c \<in> set (db_commands (w_db w)). \<not> overdue (tx_now (tx_env_at E' (w_tick w - 1))) None c)"
proof -
  obtain migrated s1 where mg: "Migrate V s = (migrated, s1)" by (cases "Migrate V s")
  from assms(1) obtain cfg where l: "Load (ho_ParseDuration H) (ho_env H) (ho_ReadFile H) = Inr cfg" by (auto simp: run_def bindE_eq_Inr)
  obtain prepared w1 where pr: "prepare generate matches (E\<lparr>se_config := cfg\<rparr>) (boot_world (tables (mg_tables s1))) = (prepared, w1)"
    by (cases "prepare generate matches (E\<lparr>se_config := cfg\<rparr>) (boot_world (tables (mg_tables s1)))")
  from assms(1) have r: "migrated = Inr ()" "prepared = Inr ()" "E' = E\<lparr>se_config := cfg\<rparr>" "w = w1"
    by (auto simp: run_def Let_def l mg pr bindE_eq_Inr)
  note m = mg [unfolded r(1)] and p = pr [unfolded r(2), folded r(3,4)] and E' = r(3)
  have v: "Validate cfg = Inr ()" using l unfolding Load_def by (auto simp: bindE_eq_Inr)
  have "tables_ok (tables (mg_tables s1))" using assms(3) m by blast
  note facts = prepare_Inr [OF p this assms(2)]
  have "se_config E' = cfg" by (simp add: E')
  with l m v facts show ?thesis by auto
qed


text \<open>A host whose environment and terminals file describe the sample configuration.\<close>

definition quoted :: "string \<Rightarrow> string" where "quoted s = [CHR 0x22] @ s @ [CHR 0x22]"

definition sample_terminals_file :: bytes where
  "sample_terminals_file = ''[{'' @ quoted ''serialNumber'' @ '':'' @ quoted ''DS-1'' @ '','' @ quoted ''pushSdkSerial'' @ '':'' @ quoted ''P1'' @ '','' @
     quoted ''username'' @ '':'' @ quoted ''admin'' @ '','' @ quoted ''passwordEnvironmentVariable'' @ '':'' @ quoted ''TERMINAL_PASSWORD'' @ '','' @
     quoted ''loginPasswordDigest'' @ '':'' @ quoted ''sha256'' @ '','' @ quoted ''securityVersion'' @ '':4,'' @
     quoted ''commandIntervalSeconds'' @ '':10,'' @ quoted ''errorDelaySeconds'' @ '':30}]''"

definition sample_host :: host where
  "sample_host = \<lparr> ho_ParseDuration = (\<lambda>_. Some 3600),
     ho_env = map_of [(''COOKIE_SECURE'', ''true''), (''SESSION_TTL'', ''1h''), (''METRICS_ALLOW_CIDRS'', ''10.0.0.0/8''),
       (''GATEWAY_LISTEN_ADDRESS'', '':8080''), (''DATABASE_URL'', ''postgres://db''), (''GATEWAY_TERMINALS_FILE'', ''terminals.json''),
       (''ADMIN_USERNAME'', ''root''), (''ADMIN_PASSWORD'', ''pw''), (''WEB_DIR'', ''web''), (''MIGRATIONS_DIR'', ''db''),
       (''TERMINAL_PASSWORD'', ''secret'')],
     ho_ReadFile = map_of [(''terminals.json'', sample_terminals_file)] \<rparr>"

lemma sample_load: "Load (ho_ParseDuration sample_host) (ho_env sample_host) (ho_ReadFile sample_host) = Inr sample_config"
  by code_simp

definition seeded_db :: "instant \<Rightarrow> db" where
  "seeded_db now = projr (SeedConfiguredTerminals now [sample_terminal] empty_db)"

lemma sample_seed: "SeedConfiguredTerminals now [sample_terminal] empty_db = Inr (seeded_db now) \<and> (\<exists>rows. seeded_db now = empty_db\<lparr>db_terminals := rows\<rparr>)"
proof -
  have "terminal_row_ok empty_db sample_terminal" "\<not> registered empty_db (SerialNumber sample_terminal)" by code_simp+
  then have "\<exists>rows. SeedConfiguredTerminals now [sample_terminal] empty_db = Inr (empty_db\<lparr>db_terminals := rows\<rparr>)"
    by (auto simp: SeedConfiguredTerminals_def seed_terminal_def)
  then show ?thesis by (auto simp: seeded_db_def)
qed

definition first_admin :: "instant \<Rightarrow> admin_user_row" where
  "first_admin now = \<lparr> au_id = 1, au_username = ''root'', au_password_hash = ''pw'', au_created_at = now, au_updated_at = now \<rparr>"

lemma sample_reconcile:
  "ReconcileConfiguredAdministrator Inr (=) now ''root'' ''pw'' (empty_db\<lparr>db_terminals := rows\<rparr>) =
     Inr (empty_db\<lparr>db_terminals := rows, db_admin_users := [first_admin now], db_admin_user_seq := 2\<rparr>)"
proof -
  have "pg_text ''root''" by code_simp
  then show ?thesis
    by (simp add: ReconcileConfiguredAdministrator_def delete_admins_def Let_def empty_db_def delete_where_def select_row_def first_admin_def)
qed

lemma sample_restore:
  "db_sessions (w_db w) = [] \<Longrightarrow>
     RestoreSessions calm w = (Inr (), w\<lparr>w_tick := Suc (Suc (w_tick w)), w_metrics := (w_metrics w)\<lparr>mt_SessionsActive := 0\<rparr>\<rparr>)"
  by (simp add: RestoreSessions_def bindS_def tickS_def run_tx_apply PushSDKSessions_def returnS_def modifyS_def)

lemma sample_deadlines:
  "db_commands (w_db w) = [] \<Longrightarrow> \<exists>w'. ExpireISAPICommandDeadlines calm w = (Inr (), w')"
  by (simp add: ExpireISAPICommandDeadlines_def bindS_def run_tx_apply ExpireOverdueISAPICommands_def expireOverdueISAPICommandsTx_def
      update_where_def publish_allS_def modifyS_def)

lemma sample_backfill: "BackfillAccessEventProjections L 0 empty_db = ((0, None), empty_db)"
  by (subst BackfillAccessEventProjections.simps) (simp add: backfill_batch_def empty_db_def)

lemma run_exec_apply:
  "run_exec E f w =
     (if se_db_fault E (w_tick w) then (Inl ErrDatabase, w\<lparr>w_tick := w_tick w + 1\<rparr>)
      else case f (tx_env_at E (w_tick w)) (w_db w) of
             Inl e \<Rightarrow> (Inl e, w\<lparr>w_tick := w_tick w + 1\<rparr>)
           | Inr d \<Rightarrow> (Inr (), w\<lparr>w_tick := w_tick w + 1, w_db := d\<rparr>))"
  by (simp add: run_exec_def run_tx_apply split: sum.splits)

lemma empty_tables [simp]: "db_sessions empty_db = []" "db_commands empty_db = []"
  by (simp_all add: empty_db_def)

lemma sample_prepare: "\<exists>w. prepare Inr (=) calm (boot_world empty_db) = (Inr (), w)"
proof -
  obtain rows where s: "SeedConfiguredTerminals (tx_now (tx_env_at calm (Suc (Suc 0)))) [sample_terminal] empty_db = Inr (empty_db\<lparr>db_terminals := rows\<rparr>)"
    using sample_seed by metis
  show ?thesis
    by (simp add: prepare_def Let_def bindS_def backfillS_def tickS_def boot_world_def sample_backfill run_exec_apply sample_config_def s
        sample_reconcile PurgeExpiredSessions_def sample_restore sample_deadlines)
qed

theorem gateway_started_witness:
  "\<exists>E' nets w. run sample_host sample_migrations (\<lambda>_. empty_db) Inr (=) sample_net calm old_state = Inr (E', nets, w) \<and>
     reachable E' w \<and> terminal_status (w_db w) ''DS-1'' = Some ''offline'' \<and> VerifyAdmin (=) ''root'' ''pw'' (w_db w) \<noteq> None"
proof -
  obtain s' where m: "Migrate sample_migrations old_state = (Inr (), s')" using sample_migrated by blast
  obtain w where p: "prepare Inr (=) calm (boot_world empty_db) = (Inr (), w)" using sample_prepare by blast
  have c: "calm\<lparr>se_config := sample_config\<rparr> = calm" by (simp add: env_with_faults_def)
  have n: "New sample_net sample_config = Some [''10.0.0.0/8'']" by code_simp
  have r: "run sample_host sample_migrations (\<lambda>_. empty_db) Inr (=) sample_net calm old_state = Inr (calm, [''10.0.0.0/8''], w)"
    by (simp add: run_def sample_load Let_def m c p n)
  have "bcrypt_contract Inr (=)" by (simp add: bcrypt_contract_def)
  moreover have "tables_ok empty_db" by (simp add: tables_ok_def empty_db_def stored_times_ok_def unique_key_def)
  ultimately show ?thesis using gateway_started [OF r] r by (auto simp: sample_load sample_config_def sample_terminal_def)
qed

section \<open>Replacing the administrator\<close>

lemma put_route_mem: "r \<in> set (put_route r rows)"
  by (auto simp: put_route_def row_simps)

lemma save_referenced:
  assumes "SaveDeliveryRoute now route actor d = Inr d'"
  shows "admin_referenced d' actor" "db_admin_users d' = db_admin_users d"
proof -
  from assms obtain r stored where d': "d' = d\<lparr>db_routes := put_route r (db_routes d), db_activities := db_activities d @ [stored]\<rparr>"
    and r: "dr_updated_by r = actor"
    by (auto simp: SaveDeliveryRoute_def res_simps dest!: insertGatewayActivity_append)
  show "admin_referenced d' actor" using put_route_mem [of r "db_routes d"] r by (auto simp: admin_referenced_def row_simps d')
  show "db_admin_users d' = db_admin_users d" by (simp add: d')
qed

lemma backfill_referenced:
  assumes "QueueEventBackfill now serial starts ends token actor d = Inr (r, d')"
  shows "admin_referenced d' actor" "db_admin_users d' = db_admin_users d"
proof -
  obtain batch n where r: "r = (batch, n)" by (cases r)
  from assms [unfolded r] obtain p d1 stored where
    f: "foldE (queue_candidate now batch (backfill_route now serial actor p)) (bp_candidates p)
       (d\<lparr>db_backfills := db_backfills d @ [backfill_entry now serial starts ends actor p d]\<rparr>) = Inr d1"
    and d': "d' = d1\<lparr>db_activities := db_activities d1 @ [stored]\<rparr>" by (rule QueueEventBackfill_Inr)
  from queue_candidates_Inr [OF f] have "db_backfills d' = db_backfills d @ [backfill_entry now serial starts ends actor p d]"
    "db_admin_users d' = db_admin_users d" by (auto simp: d')
  then show "admin_referenced d' actor" "db_admin_users d' = db_admin_users d"
    by (simp_all add: admin_referenced_def row_simps backfill_entry_def)
qed

text \<open>A start that would remove a referenced account stops there and leaves the account and what refers to it.\<close>

definition same_owners :: "db \<Rightarrow> db \<Rightarrow> bool" where
  "same_owners d d' \<longleftrightarrow> db_admin_users d' = db_admin_users d \<and> db_routes d' = db_routes d \<and> db_backfills d' = db_backfills d"

lemma referenced_same: "same_owners d d' \<Longrightarrow> admin_referenced d' i = admin_referenced d i"
  by (simp add: same_owners_def admin_referenced_def)

lemma prepare_refused:
  assumes u: "u \<in> set (db_admin_users d)" "au_username u \<noteq> AdminUsername (se_config E)" "admin_referenced d (au_id u)"
  shows "\<exists>e w. prepare generate matches E (boot_world d) = (Inl e, w) \<and> same_owners d (w_db w)"
proof -
  let ?w = "boot_world d"
  obtain n r d1 where b: "BackfillAccessEventProjections (se_library E) 0 d = ((n, r), d1)"
    by (metis prod.exhaust)
  from backfill_frame [OF b] have d1: "same_owners d d1" by (auto simp: same_owners_def)
  have refuse: "ReconcileConfiguredAdministrator generate matches now (AdminUsername (se_config E)) password d2 =
      Inl (ErrConstraint ''remove replaced administrator'')" if "same_owners d d2" for now password d2
    using that u referenced_same [OF that] by (intro Reconcile_refused [of u]) (simp_all add: same_owners_def)
  have seeds: "same_owners d1 d2" if "SeedConfiguredTerminals now ts d1 = Inr d2" for now ts d2
    using seeds_Inr [of now ts d1 d2] that by (auto simp: SeedConfiguredTerminals_def same_owners_def)
  have trans: "same_owners d d2" if "same_owners d1 d2" for d2 using d1 that by (simp add: same_owners_def)
  have start: "same_owners d d" by (simp add: same_owners_def)
  show ?thesis
  proof (cases "SeedConfiguredTerminals (tx_now (tx_env_at E (Suc (Suc 0)))) (Terminals (se_config E)) d1")
    case (Inl e)
    with d1 start show ?thesis
      by (auto simp: prepare_def Let_def bindS_def backfillS_def tickS_def boot_world_def b run_exec_apply split: option.splits)
  next
    case (Inr d2)
    note d2 = trans [OF seeds [OF Inr]]
    from Inr d1 d2 refuse [OF d2] start show ?thesis
      by (auto simp: prepare_def Let_def bindS_def backfillS_def tickS_def boot_world_def b run_exec_apply split: option.splits)
  qed
qed

text \<open>
  C29. Once an administrator has saved a delivery route or queued an event back-fill, the configured
  name cannot be changed: a start with another name that finds these rows fails, whatever else is in
  the database and whatever the database does, and it leaves the account, the routes and the
  back-fills as they are, so that the next start fails as well.
\<close>

theorem replaced_administrator_refused:
  assumes "u \<in> set (db_admin_users d0)"
    and "SaveDeliveryRoute now route (au_id u) d0 = Inr d \<or>
      (\<exists>serial starts ends token r. QueueEventBackfill now serial starts ends token (au_id u) d0 = Inr (r, d))"
    and "Migrate V s = (Inr (), s1)" "db_admin_users (tables (mg_tables s1)) = db_admin_users d"
    and "db_routes (tables (mg_tables s1)) = db_routes d" "db_backfills (tables (mg_tables s1)) = db_backfills d"
    and "Load (ho_ParseDuration H) (ho_env H) (ho_ReadFile H) = Inr cfg" "AdminUsername cfg \<noteq> au_username u"
  shows "(\<exists>e. run H V tables generate matches N E s = Inl e) \<and>
    (\<exists>e w. prepare generate matches (E\<lparr>se_config := cfg\<rparr>) (boot_world (tables (mg_tables s1))) = (Inl e, w) \<and>
       db_admin_users (w_db w) = db_admin_users d \<and> db_routes (w_db w) = db_routes d \<and> db_backfills (w_db w) = db_backfills d)"
proof -
  let ?d = "tables (mg_tables s1)"
  have ref: "admin_referenced d (au_id u)" "db_admin_users d = db_admin_users d0"
    using assms(2) save_referenced backfill_referenced by metis+
  have same: "same_owners d ?d" using assms(4-6) by (simp add: same_owners_def)
  have "u \<in> set (db_admin_users ?d)" "au_username u \<noteq> AdminUsername (se_config (E\<lparr>se_config := cfg\<rparr>))" "admin_referenced ?d (au_id u)"
    using assms(1,4,8) ref referenced_same [OF same] by simp_all
  from prepare_refused [OF this, of generate matches] obtain e w where
    p: "prepare generate matches (E\<lparr>se_config := cfg\<rparr>) (boot_world ?d) = (Inl e, w)" "same_owners ?d (w_db w)" by blast
  have "\<exists>e. run H V tables generate matches N E s = Inl e"
    using p(1) assms(3,7) by (cases "se_db_fault E 0") (simp_all add: run_def Let_def guardE_def)
  with p same show ?thesis by (auto simp: same_owners_def)
qed

definition boss_db :: db where
  "boss_db = sample_db\<lparr>db_admin_users := [\<lparr> au_id = 1, au_username = ''boss'', au_password_hash = ''pw'', au_created_at = 0,
     au_updated_at = 0 \<rparr>]\<rparr>"

definition boss_route :: DeliveryRoute where
  "boss_route = \<lparr> rt_TerminalSerialNumber = ''DS-1'', rt_EndpointURL = ''https://hr.example/events'', rt_SigningKeyID = ''key-1'',
     rt_Enabled = True \<rparr>"

theorem replaced_administrator_refused_witness:
  "\<exists>d e. SaveDeliveryRoute 5 boss_route 1 boss_db = Inr d \<and>
     run sample_host sample_migrations (\<lambda>_. d) Inr (=) sample_net calm old_state = Inl e"
proof -
  have "isl (SaveDeliveryRoute 5 boss_route 1 boss_db) = False" by code_simp
  then obtain d where d: "SaveDeliveryRoute 5 boss_route 1 boss_db = Inr d" by (cases "SaveDeliveryRoute 5 boss_route 1 boss_db") auto
  obtain s' where m: "Migrate sample_migrations old_state = (Inr (), s')" using sample_migrated by blast
  let ?u = "\<lparr> au_id = 1, au_username = ''boss'', au_password_hash = ''pw'', au_created_at = 0, au_updated_at = 0 \<rparr>"
  have "?u \<in> set (db_admin_users boss_db)" "SaveDeliveryRoute 5 boss_route (au_id ?u) boss_db = Inr d"
    "AdminUsername sample_config \<noteq> au_username ?u" using d by (simp_all add: boss_db_def sample_config_def)
  from replaced_administrator_refused [OF this(1) disjI1 [OF this(2)] m refl refl refl sample_load this(3), of Inr "(=)" sample_net calm] d
  show ?thesis by blast
qed

section \<open>Clients without a session\<close>

lemma sessionToken_path [simp]: "sessionToken (rq\<lparr>ar_PathValue := f\<rparr>) = sessionToken rq"
  by (simp add: sessionToken_def)

lemma same_tick: "\<exists>n. w = w\<lparr>w_tick := n\<rparr>"
  by (rule exI [of _ "w_tick w"]) simp

lemma public_unchanged:
  assumes "r = Health \<or> r = Ready \<or> r = Metrics"
  shows "\<exists>response n. Register A r rq w = (response, w\<lparr>w_tick := n\<rparr>)"
  using assms same_tick [of w]
  by (auto simp: Register_def health_def ready_def privateMetrics_def writeJSON_def callA_def readA_apply split: option.splits if_splits)

text \<open>
  C10. A client without a live session, whatever the method and path: unless it signs in or
  addresses the terminals' interface, its request changes nothing, not the database, the sessions, the
  monitor or the metrics; every administration route answers it with 401, or 500 when the database
  fails, and sets no cookie; and every answer carries the security headers.
\<close>

theorem public_surface:
  assumes "\<forall>token. sessionToken (gq_api rq) = Inr token \<longrightarrow>
      AdminIdentityForSession (tx_now (tx_env_at (ax_service A) (w_tick w))) (sha256 token) (w_db w) = None"
    and "\<not> (rq_Method (gq_push rq) = ''POST'' \<and> gq_Segments rq = [''api'', ''v1'', ''auth'', ''login''])"
    and "take 1 (gq_Segments rq) \<noteq> [''iot'']"
  shows "\<exists>answer n. serve A rq w = (answer, w\<lparr>w_tick := n\<rparr>) \<and>
    set (sv_headers answer) = {(''X-Content-Type-Options'', ''nosniff''), (''Referrer-Policy'', ''same-origin''), (''X-Frame-Options'', ''DENY'')} \<and>
    (\<forall>r values. dispatch (rq_Method (gq_push rq)) (gq_Segments rq) = ToAPI (Admin r) values \<longrightarrow>
       (\<exists>response. sv_answer answer = Answered response \<and> ap_Cookie response = None \<and>
          (ap_Status response = 401 \<or> ap_Status response = 500 \<and> se_db_fault (ax_service A) (w_tick w))))"
proof (cases "dispatch (rq_Method (gq_push rq)) (gq_Segments rq)")
  case (ToAPI r vs)
  let ?rq = "(gq_api rq)\<lparr>ar_PathValue := path_value vs\<rparr>"
  have "r \<noteq> Login" using dispatch_Login assms(2) ToAPI by blast
  then consider (admin) a where "r = Admin a" | (public) "r = Health \<or> r = Ready \<or> r = Metrics" by (cases r) auto
  then show ?thesis
  proof cases
    case admin
    have "\<forall>token. sessionToken ?rq = Inr token \<longrightarrow>
      AdminIdentityForSession (tx_now (tx_env_at (ax_service A) (w_tick w))) (sha256 token) (w_db w) = None" using assms(1) by simp
    from guarded [OF this, of a] ToAPI admin show ?thesis by (auto simp: serve_def securityHeaders_def)
  next
    case public
    then obtain response n where "Register A r ?rq w = (response, w\<lparr>w_tick := n\<rparr>)" using public_unchanged [of r A ?rq w] by blast
    with public ToAPI show ?thesis by (auto simp: serve_def securityHeaders_def)
  qed
next
  case ToPush
  with dispatch_Push assms(3) show ?thesis by blast
qed (use same_tick [of w] in \<open>auto simp: serve_def securityHeaders_def\<close>)

definition overview_request :: gateway_request where
  "overview_request = \<lparr> gq_Segments = [''api'', ''v1'', ''admin'', ''overview''],
     gq_push = (sample_request [] [])\<lparr>rq_Method := ''GET'', rq_Path := ''/api/v1/admin/overview''\<rparr>,
     gq_api = sample_api_request [(sessionCookie, ''t'')] [] \<rparr>"

theorem public_surface_witness:
  "\<exists>response n. serve sample_api overview_request (sample_world True) = (securityHeaders (Answered response), (sample_world True)\<lparr>w_tick := n\<rparr>) \<and>
     ap_Status response = 401"
proof -
  have "AdminIdentityForSession t h (w_db (sample_world True)) = None" for t h
    by (simp add: AdminIdentityForSession_def sample_world_def sample_db_def empty_db_def select_row_def)
  moreover have d: "dispatch (rq_Method (gq_push overview_request)) (gq_Segments overview_request) = ToAPI (Admin OverviewR) []" by code_simp
  moreover have "\<not> (rq_Method (gq_push overview_request) = ''POST'' \<and> gq_Segments overview_request = [''api'', ''v1'', ''auth'', ''login''])"
    "take 1 (gq_Segments overview_request) \<noteq> [''iot'']" by code_simp+
  moreover have "\<not> se_db_fault (ax_service sample_api) n" for n by simp
  ultimately obtain answer n where a: "serve sample_api overview_request (sample_world True) = (answer, (sample_world True)\<lparr>w_tick := n\<rparr>)"
    "\<exists>response. sv_answer answer = Answered response \<and> ap_Status response = 401"
    using public_surface [of overview_request sample_api "sample_world True"] by (metis (no_types, lifting))
  then have "answer = securityHeaders (sv_answer answer)" by (auto simp: serve_def Let_def securityHeaders_def split: prod.splits)
  with a show ?thesis by metis
qed

section \<open>The monitor\<close>

text \<open>
  C40. A monitor connection is sent the retained activities, oldest first, and then, in order, activities
  published since it subscribed, whatever is published and however slowly it reads. An activity is
  sent at most twice, and twice only if it was both stored when the retained ones were read and
  published after the subscription, which comes first. Nothing falls in between: while no write
  fails and at most 64 activities were published, what was sent, what is left of the retained ones and
  what waits in its queue are the retained activities followed by all that were published; and the
  retained ones are all that are stored, if these are no more than 100.
\<close>

theorem monitor_stream:
  assumes "hub_ok h" "distinct (db_activities d)" "distinct (early @ published inputs)"
    and "monitor_connection early (Some d) inputs h = (sent, h')"
  shows "(prefix sent (replay d) \<or> (\<exists>live. sent = replay d @ live \<and> subseq live (early @ published inputs))) \<and>
    (\<forall>a. count_list sent a \<le> of_bool (a \<in> set (replay d)) + of_bool (a \<in> set (early @ published inputs))) \<and>
    sorted_wrt (\<lambda>a b. act_At a < act_At b \<or> act_At a = act_At b \<and> act_ID a \<le> act_ID b) (replay d) \<and>
    (length (db_activities d) \<le> 100 \<longrightarrow> set (replay d) = set (db_activities d)) \<and>
    (list_all lively inputs \<and> length (early @ published inputs) \<le> 64 \<longrightarrow>
       (\<exists>waiting. queue_of h' (fst (Subscribe h)) = Some waiting \<and>
          sent @ drop (length sent) (replay d) @ waiting = replay d @ early @ published inputs))"
proof -
  obtain client h1 where sub: "Subscribe h = (client, h1)" by fastforce
  define h2 where "h2 = fold Publish early h1"
  have q: "queue_of h2 client = Some (take 64 early)"
    using Publish_all [OF Subscribe_queue [OF assms(1)], of early] sub by (simp add: h2_def client_capacity_def)
  have c: "connection client (replay d) inputs h2 = (sent, h')" using assms(4) sub by (simp add: monitor_connection_def h2_def)
  have less: "subseq (take 64 early @ published inputs) (early @ published inputs)"
    by (intro list_emb_append_mono prefix_imp_subseq take_is_prefix) simp
  have order: "prefix sent (replay d) \<or> (\<exists>live. sent = replay d @ live \<and> subseq live (early @ published inputs))"
    using connection_order [OF q, of "replay d" inputs] c by (auto intro: subseq_order.order_trans [OF _ less])
  moreover note count_order [OF order replay_distinct [OF assms(2)] assms(3)] replay_order
  moreover have "set (replay d) = set (db_activities d)" if "length (db_activities d) \<le> 100"
    using replay_all [OF that] by (metis set_mset_mset)
  moreover have "\<exists>waiting. queue_of h' client = Some waiting \<and>
          sent @ drop (length sent) (replay d) @ waiting = replay d @ early @ published inputs"
    if "list_all lively inputs" "length (early @ published inputs) \<le> 64"
    using connection_complete [OF q that(1), of "replay d"] that(2) c by (simp add: client_capacity_def)
  ultimately show ?thesis using sub by simp
qed

definition sample_stored :: activity where
  "sample_stored = (new_activity ''pushsdk.login'' ''DS-1'' ''terminal authenticated'' [])\<lparr>act_ID := 7, act_At := 100\<rparr>"

definition sample_stored_db :: db where
  "sample_stored_db = empty_db\<lparr>db_activities := [sample_stored]\<rparr>"

definition sample_stream :: "socket_input list" where
  "sample_stream = [Message True, Published (new_activity ''a'' [] ''one'' []), Message True, PingDue True, Message True]"

theorem monitor_stream_witness:
  "\<exists>sent h' waiting. monitor_connection [sample_stored] (Some sample_stored_db) sample_stream NewHub = (sent, h') \<and>
     sent = [sample_stored, sample_stored, new_activity ''a'' [] ''one'' []] \<and> count_list sent sample_stored = 2 \<and>
     queue_of h' 0 = Some waiting \<and>
     sent @ drop (length sent) (replay sample_stored_db) @ waiting = replay sample_stored_db @ [sample_stored] @ published sample_stream"
proof -
  obtain sent h' where c: "monitor_connection [sample_stored] (Some sample_stored_db) sample_stream NewHub = (sent, h')" by fastforce
  have "fst (monitor_connection [sample_stored] (Some sample_stored_db) sample_stream NewHub) =
      [sample_stored, sample_stored, new_activity ''a'' [] ''one'' []]"
    "count_list [sample_stored, sample_stored, new_activity ''a'' [] ''one'' []] sample_stored = 2"
    "distinct (db_activities sample_stored_db)" "distinct ([sample_stored] @ published sample_stream)"
    "list_all lively sample_stream" "fst (Subscribe NewHub) = 0" "length ([sample_stored] @ published sample_stream) \<le> 64" by code_simp+
  with monitor_stream [OF hub_ok_NewHub _ _ c] c show ?thesis by auto
qed

end
