(* ===== verification/Spec2Isabelle.thy ===== *)
theory Spec2Isabelle
  imports GatewayProperties StoreProperties CoreProperties
begin

text \<open>
  A verification of the PushSDK gateway: a Go service that face-recognition terminals call over HTTP,
  that archives their access events in PostgreSQL, relays device commands to them, forwards attendance
  events with their pictures to configured receivers, and shows it all to an administrator.

  \<^bold>\<open>The program.\<close> A terminal opens a session (\<open>internal/pushsdk\<close>: AuthInfo, Login), then polls with
  CommandRequest, CommandResult, Event and Logout, each proving the last challenge it was given. The
  service keeps sessions in memory, checkpoints them in the database and publishes activities on a
  hub (\<open>internal/monitor\<close>). The store (\<open>internal/store\<close>) owns the archive, the command queue, the
  retained-event synchronisation, administrator accounts and the outbox of deliveries and attachment
  receipts, which two workers (\<open>internal/delivery\<close>) empty under leases. The administration API
  (\<open>internal/httpapi\<close>) reads and changes the store behind a session cookie.

  \<^bold>\<open>Conventions.\<close> A transaction of the store is a function \<open>db \<Rightarrow> (result \<times> db) result\<close>: an error
  (\<open>Inl\<close>) leaves the database as it was, as a rollback does; every constraint of the tables that an
  operation can meet is a guard. Handlers run over the record \<open>world\<close> (database, sessions, hub, metrics, a counter of
  interactions); the environment \<open>service_env\<close> says for every interaction what the clocks and the
  random source return and whether the database fails, so a theorem over all environments covers all
  times, random values and failures. Instants are nanoseconds since 1970 and identifiers \<open>int\<close>; text and
  bytes are \<open>char list\<close>. Widths are written out where a value is stored or parsed.

  \<^bold>\<open>Theories.\<close>
  \<^item> \<open>Prelude\<close>: results, guarded folds, tables as lists of rows (\<open>row_simps\<close>, \<open>res_simps\<close>);
    \<open>GoStd\<close>, \<open>GoJson\<close>, \<open>GoTime\<close>, \<open>GoCrypto\<close>: what the program uses of Go's library (strconv, strings,
    base64, hex, URL queries, media types; the JSON decoder and encoder; RFC 3339 times; SHA-256,
    HMAC, AES-CBC), computed.
  \<^item> \<open>Config\<close> (\<open>config/config.go\<close>): loading, validation, lookups, credential fingerprints.
  \<^item> \<open>PushCrypto\<close> (\<open>pushsdk/crypto.go\<close>), \<open>PushParse\<close> (\<open>pushsdk/events.go\<close>, \<open>commands.go\<close>): random
    strings, proofs and payload encryption; the envelopes of events and command results.
  \<^item> \<open>AccessControl\<close> (\<open>accesscontrol/*.go\<close>): projections of events, pictures, retained-event search pages.
  \<^item> \<open>Database\<close>: the tables; \<open>StoreCore\<close>, \<open>CommandQueue\<close>, \<open>AccessEventSync\<close>, \<open>EventStore\<close>,
    \<open>Deliveries\<close>, \<open>Backfills\<close>, \<open>StoreReads\<close> (\<open>store/*.go\<close>): every write and read of the store;
    \<open>Migrations\<close>: \<open>Migrate\<close> and the registry of applied scripts.
  \<^item> \<open>Session\<close>, \<open>Monitor\<close>, \<open>World\<close>, \<open>Service\<close> (\<open>pushsdk/session.go\<close>, \<open>monitor/hub.go\<close>,
    \<open>pushsdk/service.go\<close>): sessions, the hub, and the request handlers with their compensations.
  \<^item> \<open>DeliveryWorker\<close> (\<open>delivery/worker.go\<close>): signature, receipt check, retry schedule, one attempt and
    one turn of the loop, over the interface \<open>delivery_queue\<close>.
  \<^item> \<open>HttpApi\<close>, \<open>HttpHandlers\<close> (\<open>httpapi/*.go\<close>): request decoding and every handler of the API.
  \<^item> \<open>Startup\<close> (\<open>cmd/gateway/main.go\<close>): \<open>run\<close> up to serving, and the maintenance loop; \<open>Gateway\<close>: the
    multiplexer's patterns, the console, the security headers and the life of a monitor connection.
  \<^item> \<open>Protocol\<close>, \<open>StoreHistory\<close>, \<open>Outbox\<close>, \<open>LeaseSpec\<close>: step relations, invariants and the abstract
    job machine; \<open>CoreProperties\<close>, \<open>ProtocolProperties\<close>, \<open>StoreProperties\<close>, \<open>OutboxProperties\<close>,
    \<open>HttpProperties\<close>, \<open>GatewayProperties\<close>: the properties with their witnesses.

  \<^bold>\<open>Interfaces.\<close> The locales \<open>delivery_queue\<close>, \<open>message_queue\<close> and \<open>fenced_queue\<close> state what the
  worker relies on; both queues of the store interpret all three (\<open>evq\<close>, \<open>evm\<close>, \<open>evf\<close>; \<open>atq\<close>, \<open>atm\<close>,
  \<open>atf\<close>). \<open>outbox_growth\<close> collects the operations that only add outbox rows and is interpreted for the
  invariant (\<open>adv\<close>) and for the refinement (\<open>sim\<close>).

  \<^bold>\<open>What is shown.\<close>
  \<^item> Protocol: a session invariant over every reachable state; an exchange is accepted only with a
    proof of the current challenge, is durable before it is answered and can be retried after a failure;
    a process that restores its sessions holds it under the terminal's serial and performs exactly the
    requests that prove the challenge it was answered with; what AuthInfo, Login, Logout and the sweep
    do, and the two failures that leave the gauge too high or the checkpoint of a Logout behind.
  \<^item> Parsers and crypto: exact acceptance of paths, configurations, encryption parameters and command
    addresses; the payload round trip; verbatim event batches.
  \<^item> Store: histories of commands (none lost, none handed out twice, a finished one changed only by the
    removal of its creator's account), synchronisation runs, archiving of new and repeated batches, the
    end of the projection back-fill, administrator accounts and sessions.
  \<^item> Outbox: entries keep their content and end once, leases fence stale results, an entry is delivered
    only against its receiver's receipt, a turn makes progress, a back-fill is queued once, and
    both queues refine the job machine.
  \<^item> API: signing in and out, and the pages of the archive.
  \<^item> Whole gateway: what a successful start establishes, that a start with another administrator fails once
    the old one owns a route or a back-fill, that migrations run each script once, that a
    client without a session changes nothing, and what a monitor connection is sent, from its
    subscription through the replay of the retained activities to its last message.

  \<^bold>\<open>Parameters.\<close> PBKDF2, bcrypt, the MIME, multipart, XML and JPEG parsers (\<open>library\<close>), \<open>net/url\<close>,
  \<open>net/netip\<close>, \<open>time.ParseDuration\<close>, the environment variables and files, the receiver's answers.
  Nothing is assumed of them but the hypotheses a theorem names.

  \<^bold>\<open>Bounds.\<close> Loops are structural recursions over their data; the worker's turn makes at most 25 attempts as the
  code does; the projection back-fill recurses on the number of stale rows.

  \<^bold>\<open>Not modelled.\<close> What the library does for the program: the connection pool, listening, time-outs and
  shutdown of the HTTP server, its redirection of unclean paths, the serving of a static file, WebSocket frames,
  the SQL inside the migration scripts; and logging. The tickers of the workers appear as any number of turns.
  Transactions are taken to be serial: each runs on the state the one before it left, as the row and
  advisory locks of the source intend, so \<open>SKIP LOCKED\<close> finds no locked row; likewise a terminal's lock
  makes its requests follow one another, and the sweep finds it free. An identity column gives the
  number after the largest in the table, where PostgreSQL may skip numbers; administrators and their
  sessions, whose rows are deleted, have a sequence of their own. The projection back-fill of a start
  meets a failing database before its first page or not at all; the pages before another error stay
  committed. The process runs in UTC. Messages that quote a library's error are cut before the
  quotation.
\<close>

end
